(* ===== verification/Prelude.thy ===== *)
theory Prelude
  imports Complex_Main
begin

text \<open>
  Shared vocabulary of the development.

  Go code that can fail and that talks to a database is modelled by a state monad with
  errors: a program takes an environment (what the outside world will answer: clock
  readings, generated identifiers, database faults) and a state, and returns either an
  error or a value, together with the new state. The error type, the environment and the
  state are type parameters; theory Store fixes them.

  The second part holds the verification conditions of such programs
  (\<open>wp m Q R E s\<close>: running \<open>m\<close> from \<open>s\<close> either returns a value that satisfies \<open>Q\<close> or
  fails with an error that satisfies \<open>R\<close>) and the named collection \<open>wp_rules\<close> that
  computes them. The third part holds generic lemmas on keyed lists of rows.
\<close>

section \<open>Programs with errors and state\<close>

type_synonym ('c, 's, 'x, 'a) prog = "'c \<Rightarrow> 's \<Rightarrow> ('x + 'a) \<times> 's"

definition returnM :: "'a \<Rightarrow> ('c, 's, 'x, 'a) prog" where
  "returnM x = (\<lambda>E s. (Inr x, s))"

definition throwM :: "'x \<Rightarrow> ('c, 's, 'x, 'a) prog" where
  "throwM e = (\<lambda>E s. (Inl e, s))"

definition bindM ::
  "('c, 's, 'x, 'a) prog \<Rightarrow> ('a \<Rightarrow> ('c, 's, 'x, 'b) prog) \<Rightarrow> ('c, 's, 'x, 'b) prog" where
  "bindM m f = (\<lambda>E s. case m E s of
      (Inl e, s') \<Rightarrow> (Inl e, s')
    | (Inr x, s') \<Rightarrow> f x E s')"

text \<open>\<open>seqM\<close> runs a call only for its effect and its error: \<open>if err := f(); err != nil { return err }\<close>.\<close>

definition seqM ::
  "('c, 's, 'x, 'a) prog \<Rightarrow> ('c, 's, 'x, 'b) prog \<Rightarrow> ('c, 's, 'x, 'b) prog" where
  "seqM m n = bindM m (\<lambda>_. n)"

text \<open>\<open>attemptM\<close> makes the error of a call a value, for code that inspects \<open>err\<close> itself.\<close>

definition attemptM :: "('c, 's, 'x, 'a) prog \<Rightarrow> ('c, 's, 'x, 'x + 'a) prog" where
  "attemptM m = (\<lambda>E s. case m E s of (r, s') \<Rightarrow> (Inr r, s'))"

text \<open>\<open>mapErrM\<close> turns the error of a call into another one: \<open>return nil, f(err)\<close>.\<close>

definition mapErrM :: "('x \<Rightarrow> 'y) \<Rightarrow> ('c, 's, 'x, 'a) prog \<Rightarrow> ('c, 's, 'y, 'a) prog" where
  "mapErrM f m = (\<lambda>E s. case m E s of (Inl e, s') \<Rightarrow> (Inl (f e), s') | (Inr x, s') \<Rightarrow> (Inr x, s'))"

text \<open>A loop over a slice that appends one result per element and stops at the first error.\<close>

fun mapM :: "('a \<Rightarrow> ('c, 's, 'x, 'b) prog) \<Rightarrow> 'a list \<Rightarrow> ('c, 's, 'x, 'b list) prog" where
  "mapM f [] = returnM []"
| "mapM f (x # xs) = bindM (f x) (\<lambda>y. bindM (mapM f xs) (\<lambda>ys. returnM (y # ys)))"

named_theorems run_rules "equations that execute a program from a concrete state"

lemma run_returnM [run_rules]: "returnM x E s = (Inr x, s)"
  by (simp add: returnM_def)

lemma run_throwM [run_rules]: "throwM e E s = (Inl e, s)"
  by (simp add: throwM_def)

lemma run_bindM [run_rules]:
  "bindM m f E s = (case m E s of (Inl e, s') \<Rightarrow> (Inl e, s') | (Inr x, s') \<Rightarrow> f x E s')"
  by (simp add: bindM_def)

lemma run_seqM [run_rules]:
  "seqM m n E s = (case m E s of (Inl e, s') \<Rightarrow> (Inl e, s') | (Inr x, s') \<Rightarrow> n E s')"
  by (simp add: seqM_def bindM_def)

lemma run_attemptM [run_rules]: "attemptM m E s = (case m E s of (r, s') \<Rightarrow> (Inr r, s'))"
  by (simp add: attemptM_def)

lemma run_mapErrM [run_rules]:
  "mapErrM f m E s = (case m E s of (Inl e, s') \<Rightarrow> (Inl (f e), s') | (Inr x, s') \<Rightarrow> (Inr x, s'))"
  by (simp add: mapErrM_def)

lemma bindM_assoc: "bindM (bindM m f) g = bindM m (\<lambda>x. bindM (f x) g)"
  by (rule ext)+ (simp add: bindM_def split: prod.splits sum.splits)

lemma bindM_returnM_left [simp]: "bindM (returnM x) f = f x"
  by (rule ext)+ (simp add: bindM_def returnM_def)

lemma bindM_throwM [simp]: "bindM (throwM e) f = throwM e"
  by (rule ext)+ (simp add: bindM_def throwM_def)

section \<open>Verification conditions\<close>

definition wp ::
  "('c, 's, 'x, 'a) prog \<Rightarrow> ('a \<Rightarrow> 's \<Rightarrow> bool) \<Rightarrow> ('x \<Rightarrow> 's \<Rightarrow> bool) \<Rightarrow> 'c \<Rightarrow> 's \<Rightarrow> bool" where
  "wp m Q R E s = (case m E s of (Inr x, s') \<Rightarrow> Q x s' | (Inl e, s') \<Rightarrow> R e s')"

named_theorems wp_rules "equations that compute the verification condition of a program"

lemma wp_returnM [wp_rules]: "wp (returnM x) Q R E s = Q x s"
  by (simp add: wp_def returnM_def)

lemma wp_throwM [wp_rules]: "wp (throwM e) Q R E s = R e s"
  by (simp add: wp_def throwM_def)

lemma wp_bindM [wp_rules]:
  "wp (bindM m f) Q R E s = wp m (\<lambda>x s'. wp (f x) Q R E s') R E s"
  by (simp add: wp_def bindM_def split: prod.splits sum.splits)

lemma wp_seqM [wp_rules]:
  "wp (seqM m n) Q R E s = wp m (\<lambda>x s'. wp n Q R E s') R E s"
  by (simp add: seqM_def wp_bindM)

lemma wp_attemptM [wp_rules]:
  "wp (attemptM m) Q R E s = wp m (\<lambda>x. Q (Inr x)) (\<lambda>e. Q (Inl e)) E s"
  by (simp add: wp_def attemptM_def split: prod.splits sum.splits)

lemma wp_if [wp_rules]:
  "wp (if b then m else n) Q R E s = ((b \<longrightarrow> wp m Q R E s) \<and> (\<not> b \<longrightarrow> wp n Q R E s))"
  by simp

lemma wp_case_option [wp_rules]:
  "wp (case v of None \<Rightarrow> m | Some x \<Rightarrow> f x) Q R E s =
     ((v = None \<longrightarrow> wp m Q R E s) \<and> (\<forall>x. v = Some x \<longrightarrow> wp (f x) Q R E s))"
  by (cases v) simp_all

lemma wp_case_sum [wp_rules]:
  "wp (case v of Inl e \<Rightarrow> g e | Inr x \<Rightarrow> f x) Q R E s =
     ((\<forall>e. v = Inl e \<longrightarrow> wp (g e) Q R E s) \<and> (\<forall>x. v = Inr x \<longrightarrow> wp (f x) Q R E s))"
  by (cases v) simp_all

lemma wp_Let [wp_rules]: "wp (Let x f) Q R E s = wp (f x) Q R E s"
  by simp

lemma wp_mono:
  assumes "wp m Q R E s"
    and "\<And>x s'. Q x s' \<Longrightarrow> Q' x s'" and "\<And>e s'. R e s' \<Longrightarrow> R' e s'"
  shows "wp m Q' R' E s"
  using assms by (auto simp: wp_def split: prod.splits sum.splits)

lemma wp_conj:
  assumes "wp m Q R E s" and "wp m Q' R' E s"
  shows "wp m (\<lambda>x s'. Q x s' \<and> Q' x s') (\<lambda>e s'. R e s' \<and> R' e s') E s"
  using assms by (auto simp: wp_def split: prod.splits sum.splits)

lemma wpI:
  assumes "\<And>x s'. m E s = (Inr x, s') \<Longrightarrow> Q x s'" and "\<And>e s'. m E s = (Inl e, s') \<Longrightarrow> R e s'"
  shows "wp m Q R E s"
  using assms by (auto simp: wp_def split: prod.splits sum.splits)

lemma wp_okD: "wp m Q R E s \<Longrightarrow> m E s = (Inr x, s') \<Longrightarrow> Q x s'"
  by (simp add: wp_def)

lemma wp_errD: "wp m Q R E s \<Longrightarrow> m E s = (Inl e, s') \<Longrightarrow> R e s'"
  by (simp add: wp_def)

lemma wp_run:
  "m E s = (Inr x, s') \<Longrightarrow> wp m Q R E s = Q x s'" "m E s = (Inl e, s') \<Longrightarrow> wp m Q R E s = R e s'"
  by (simp_all add: wp_def)

text \<open>A state predicate that every call in a loop keeps is kept by the loop.\<close>

lemma wp_mapM_inv:
  assumes "\<And>x t. I t \<Longrightarrow> wp (f x) (\<lambda>_. I) (\<lambda>_. I) E t" and "I s"
  shows "wp (mapM f xs) (\<lambda>_. I) (\<lambda>_. I) E s"
  using assms(2)
proof (induction xs arbitrary: s)
  case Nil
  then show ?case by (simp add: wp_returnM)
next
  case (Cons x xs)
  from assms(1) [OF Cons.prems] have "wp (f x) (\<lambda>_. I) (\<lambda>_. I) E s" .
  then show ?case
    by (simp add: wp_bindM wp_returnM) (erule wp_mono, simp_all add: Cons.IH)
qed

section \<open>Rows found and updated by key\<close>

definition rowFind :: "('r \<Rightarrow> 'k) \<Rightarrow> 'k \<Rightarrow> 'r list \<Rightarrow> 'r option" where
  "rowFind key k rows = List.find (\<lambda>r. key r = k) rows"

definition rowUpdate :: "('r \<Rightarrow> 'k) \<Rightarrow> 'k \<Rightarrow> ('r \<Rightarrow> 'r) \<Rightarrow> 'r list \<Rightarrow> 'r list" where
  "rowUpdate key k f rows = map (\<lambda>r. if key r = k then f r else r) rows"

lemma rowFind_simps [simp]:
  "rowFind key k [] = None"
  "rowFind key k (r # rows) = (if key r = k then Some r else rowFind key k rows)"
  by (simp_all add: rowFind_def)

lemma rowUpdate_simps [simp]:
  "rowUpdate key k f [] = []"
  "rowUpdate key k f (r # rows) = (if key r = k then f r else r) # rowUpdate key k f rows"
  by (simp_all add: rowUpdate_def)

lemma rowFind_Some: "rowFind key k rows = Some r \<Longrightarrow> r \<in> set rows \<and> key r = k"
  by (induction rows) (auto split: if_splits)

lemma rowFind_None_iff: "rowFind key k rows = None \<longleftrightarrow> k \<notin> key ` set rows"
  by (induction rows) auto

lemma rowFind_append:
  "rowFind key k (rows @ rows') =
     (case rowFind key k rows of None \<Rightarrow> rowFind key k rows' | Some r \<Rightarrow> Some r)"
  by (induction rows) auto

lemma rowFind_distinct:
  assumes "distinct (map key rows)" and "r \<in> set rows"
  shows "rowFind key (key r) rows = Some r"
  using assms by (induction rows) (auto simp: image_iff)

lemma rowFind_rowUpdate:
  assumes "\<And>r. key r = j \<Longrightarrow> key (f r) = j"
  shows "rowFind key k (rowUpdate key j f rows) =
     (if k = j then map_option f (rowFind key k rows) else rowFind key k rows)"
  using assms by (induction rows) auto

lemma map_key_rowUpdate:
  assumes "\<And>r. key r = j \<Longrightarrow> key (f r) = j"
  shows "map key (rowUpdate key j f rows) = map key rows"
  using assms by (induction rows) auto

lemma set_rowUpdate:
  "r \<in> set (rowUpdate key j f rows) \<longleftrightarrow>
     (r \<in> set rows \<and> key r \<noteq> j) \<or> (\<exists>q\<in>set rows. key q = j \<and> r = f q)"
  by (induction rows) auto

section \<open>Ordered queries\<close>

lemma sort_key_sorted_id:
  "sorted (map f xs) \<Longrightarrow> sort_key f xs = xs"
  by (induction xs) (simp_all add: insort_is_Cons)

lemma sort_key_Cons_least:
  assumes "sort_key f xs = y # ys" and "x \<in> set xs"
  shows "f y \<le> f x"
proof -
  have "sorted (map f (y # ys))" using assms(1) sorted_sort_key [of f xs] by simp
  moreover from assms have "x \<in> set (y # ys)" by (metis set_sort)
  ultimately show ?thesis by auto
qed

end
