(* ===== verification/Float64.thy ===== *)
theory Float64
  imports Prelude
begin

text \<open>
  Go's \<open>float64\<close>, seen through the values it denotes: not-a-number, the two infinities and
  finite numbers. A finite value is a real number; every double is one, so a statement
  about all finite values covers all doubles. The two zeros denote the same value; no
  operation the program performs tells them apart.

  Comparisons are exact and false on not-a-number, as in IEEE 754. Arithmetic is the exact
  operation followed by a rounding; the rounding and the transcendental functions of
  package \<open>math\<close> are the fields of the record \<open>fpu\<close>, so that a statement either holds for
  every rounding or names the one it is about.
\<close>

datatype float64 = NaN | PosInf | NegInf | Fin real

fun f64_less :: "float64 \<Rightarrow> float64 \<Rightarrow> bool" where
  "f64_less NaN _ = False"
| "f64_less _ NaN = False"
| "f64_less NegInf y = (y \<noteq> NegInf)"
| "f64_less PosInf _ = False"
| "f64_less (Fin x) PosInf = True"
| "f64_less (Fin x) NegInf = False"
| "f64_less (Fin x) (Fin y) = (x < y)"

fun f64_le :: "float64 \<Rightarrow> float64 \<Rightarrow> bool" where
  "f64_le NaN _ = False"
| "f64_le _ NaN = False"
| "f64_le NegInf _ = True"
| "f64_le PosInf y = (y = PosInf)"
| "f64_le (Fin x) PosInf = True"
| "f64_le (Fin x) NegInf = False"
| "f64_le (Fin x) (Fin y) = (x \<le> y)"

text \<open>
  \<open>rnd\<close> rounds an exact result; \<open>msin\<close>, \<open>mcos\<close>, \<open>masin\<close>, \<open>msqrt\<close> are \<open>math.Sin\<close>,
  \<open>math.Cos\<close>, \<open>math.Asin\<close> and \<open>math.Sqrt\<close>; \<open>convBad\<close> is the result of \<open>int64(x)\<close> where
  \<open>x\<close> has no 64-bit integer part, which the language leaves to the implementation.
\<close>

record fpu =
  rnd :: "real \<Rightarrow> float64"
  msin :: "float64 \<Rightarrow> float64"
  mcos :: "float64 \<Rightarrow> float64"
  masin :: "float64 \<Rightarrow> float64"
  msqrt :: "float64 \<Rightarrow> float64"
  convBad :: "float64 \<Rightarrow> int"

fun f64_neg :: "float64 \<Rightarrow> float64" where
  "f64_neg NaN = NaN"
| "f64_neg PosInf = NegInf"
| "f64_neg NegInf = PosInf"
| "f64_neg (Fin x) = Fin (- x)"

fun f64_add :: "fpu \<Rightarrow> float64 \<Rightarrow> float64 \<Rightarrow> float64" where
  "f64_add F NaN _ = NaN"
| "f64_add F _ NaN = NaN"
| "f64_add F PosInf y = (if y = NegInf then NaN else PosInf)"
| "f64_add F NegInf y = (if y = PosInf then NaN else NegInf)"
| "f64_add F (Fin x) PosInf = PosInf"
| "f64_add F (Fin x) NegInf = NegInf"
| "f64_add F (Fin x) (Fin y) = rnd F (x + y)"

definition f64_sub :: "fpu \<Rightarrow> float64 \<Rightarrow> float64 \<Rightarrow> float64" where
  "f64_sub F x y = f64_add F x (f64_neg y)"

text \<open>Product of an infinity and a value of the given sign.\<close>

definition f64_inf_times :: "real \<Rightarrow> float64" where
  "f64_inf_times s = (if s = 0 then NaN else if s > 0 then PosInf else NegInf)"

fun f64_mul :: "fpu \<Rightarrow> float64 \<Rightarrow> float64 \<Rightarrow> float64" where
  "f64_mul F NaN _ = NaN"
| "f64_mul F _ NaN = NaN"
| "f64_mul F PosInf PosInf = PosInf"
| "f64_mul F PosInf NegInf = NegInf"
| "f64_mul F NegInf PosInf = NegInf"
| "f64_mul F NegInf NegInf = PosInf"
| "f64_mul F PosInf (Fin y) = f64_inf_times y"
| "f64_mul F NegInf (Fin y) = f64_inf_times (- y)"
| "f64_mul F (Fin x) PosInf = f64_inf_times x"
| "f64_mul F (Fin x) NegInf = f64_inf_times (- x)"
| "f64_mul F (Fin x) (Fin y) = rnd F (x * y)"

text \<open>
  Division by a positive divisor, the only case the program reaches besides a divisor that
  is not a number; a zero or negative speed is refused before.
\<close>

fun f64_div_pos :: "fpu \<Rightarrow> float64 \<Rightarrow> float64 \<Rightarrow> float64" where
  "f64_div_pos F NaN _ = NaN"
| "f64_div_pos F _ NaN = NaN"
| "f64_div_pos F (Fin x) (Fin y) = rnd F (x / y)"
| "f64_div_pos F (Fin x) _ = Fin 0"
| "f64_div_pos F x (Fin y) = x"
| "f64_div_pos F _ _ = NaN"

section \<open>Conversion to int64\<close>

definition int64_min :: int where "int64_min = - (2 ^ 63)"
definition int64_max :: int where "int64_max = 2 ^ 63 - 1"

definition is_int64 :: "int \<Rightarrow> bool" where
  "is_int64 i \<longleftrightarrow> int64_min \<le> i \<and> i \<le> int64_max"

text \<open>Go truncates towards zero.\<close>

definition truncate_real :: "real \<Rightarrow> int" where
  "truncate_real x = (if x < 0 then \<lceil>x\<rceil> else \<lfloor>x\<rfloor>)"

definition clamp64 :: "int \<Rightarrow> int" where
  "clamp64 i = max int64_min (min int64_max i)"

fun int64_of :: "fpu \<Rightarrow> float64 \<Rightarrow> int" where
  "int64_of F (Fin x) =
     (if is_int64 (truncate_real x) then truncate_real x else clamp64 (convBad F (Fin x)))"
| "int64_of F y = clamp64 (convBad F y)"

lemma clamp64_int64 [simp]: "is_int64 (clamp64 i)"
  by (simp add: clamp64_def is_int64_def int64_min_def int64_max_def)

lemma int64_of_int64: "is_int64 (int64_of F x)"
  by (cases x) auto

text \<open>The arithmetic of the real numbers: no rounding, the mathematical functions.\<close>

fun lift_real :: "(real \<Rightarrow> real) \<Rightarrow> float64 \<Rightarrow> float64" where
  "lift_real f (Fin x) = Fin (f x)"
| "lift_real f _ = NaN"

definition exact_fpu :: fpu where
  "exact_fpu = \<lparr>rnd = Fin, msin = lift_real sin, mcos = lift_real cos,
     masin = lift_real arcsin, msqrt = lift_real sqrt, convBad = (\<lambda>_. int64_min)\<rparr>"

lemma exact_fpu_simps [simp]:
  "rnd exact_fpu = Fin" "msin exact_fpu = lift_real sin" "mcos exact_fpu = lift_real cos"
  "masin exact_fpu = lift_real arcsin" "msqrt exact_fpu = lift_real sqrt"
  "convBad exact_fpu = (\<lambda>_. int64_min)"
  by (simp_all add: exact_fpu_def)

end
