(* ===== verification/Domain.thy ===== *)
theory Domain
  imports Float64
begin

text \<open>
  Package \<open>internal/domain\<close>: roles, order and drone status, the order and drone structs, the
  domain errors and the validation functions.

  \<open>OrderStatus\<close> and \<open>DroneStatus\<close> are Go strings with named constants, and arbitrary strings
  reach them (a list filter, a database column), so they stay strings here. A pointer field
  is an option. An instant (\<open>time.Time\<close>) is its distance from the Unix epoch in
  nanoseconds.
\<close>

section \<open>Roles and status constants\<close>

definition RoleAdmin :: string where "RoleAdmin = ''admin''"
definition RoleEndUser :: string where "RoleEndUser = ''enduser''"
definition RoleDrone :: string where "RoleDrone = ''drone''"

type_synonym OrderStatus = string
type_synonym DroneStatus = string
type_synonym time = int

definition OrderStatusCreated :: OrderStatus where
  "OrderStatusCreated = ''CREATED''"
definition OrderStatusReserved :: OrderStatus where
  "OrderStatusReserved = ''RESERVED''"
definition OrderStatusPickedUp :: OrderStatus where
  "OrderStatusPickedUp = ''PICKED_UP''"
definition OrderStatusHandoffRequested :: OrderStatus where
  "OrderStatusHandoffRequested = ''HANDOFF_REQUESTED''"
definition OrderStatusDelivered :: OrderStatus where
  "OrderStatusDelivered = ''DELIVERED''"
definition OrderStatusFailed :: OrderStatus where
  "OrderStatusFailed = ''FAILED''"
definition OrderStatusWithdrawn :: OrderStatus where
  "OrderStatusWithdrawn = ''WITHDRAWN''"

definition DroneStatusActive :: DroneStatus where
  "DroneStatusActive = ''ACTIVE''"
definition DroneStatusBroken :: DroneStatus where
  "DroneStatusBroken = ''BROKEN''"

lemmas role_defs = RoleAdmin_def RoleEndUser_def RoleDrone_def

lemmas order_status_defs =
  OrderStatusCreated_def OrderStatusReserved_def OrderStatusPickedUp_def
  OrderStatusHandoffRequested_def OrderStatusDelivered_def OrderStatusFailed_def
  OrderStatusWithdrawn_def

lemmas drone_status_defs = DroneStatusActive_def DroneStatusBroken_def

text \<open>The constants of one group are distinct; the proofs never look at their spelling again.\<close>

lemma order_status_neq [simp]:
  "OrderStatusCreated \<noteq> OrderStatusReserved" "OrderStatusCreated \<noteq> OrderStatusPickedUp"
  "OrderStatusCreated \<noteq> OrderStatusHandoffRequested" "OrderStatusCreated \<noteq> OrderStatusDelivered"
  "OrderStatusCreated \<noteq> OrderStatusFailed" "OrderStatusCreated \<noteq> OrderStatusWithdrawn"
  "OrderStatusReserved \<noteq> OrderStatusCreated" "OrderStatusReserved \<noteq> OrderStatusPickedUp"
  "OrderStatusReserved \<noteq> OrderStatusHandoffRequested" "OrderStatusReserved \<noteq> OrderStatusDelivered"
  "OrderStatusReserved \<noteq> OrderStatusFailed" "OrderStatusReserved \<noteq> OrderStatusWithdrawn"
  "OrderStatusPickedUp \<noteq> OrderStatusCreated" "OrderStatusPickedUp \<noteq> OrderStatusReserved"
  "OrderStatusPickedUp \<noteq> OrderStatusHandoffRequested" "OrderStatusPickedUp \<noteq> OrderStatusDelivered"
  "OrderStatusPickedUp \<noteq> OrderStatusFailed" "OrderStatusPickedUp \<noteq> OrderStatusWithdrawn"
  "OrderStatusHandoffRequested \<noteq> OrderStatusCreated" "OrderStatusHandoffRequested \<noteq> OrderStatusReserved"
  "OrderStatusHandoffRequested \<noteq> OrderStatusPickedUp" "OrderStatusHandoffRequested \<noteq> OrderStatusDelivered"
  "OrderStatusHandoffRequested \<noteq> OrderStatusFailed" "OrderStatusHandoffRequested \<noteq> OrderStatusWithdrawn"
  "OrderStatusDelivered \<noteq> OrderStatusCreated" "OrderStatusDelivered \<noteq> OrderStatusReserved"
  "OrderStatusDelivered \<noteq> OrderStatusPickedUp" "OrderStatusDelivered \<noteq> OrderStatusHandoffRequested"
  "OrderStatusDelivered \<noteq> OrderStatusFailed" "OrderStatusDelivered \<noteq> OrderStatusWithdrawn"
  "OrderStatusFailed \<noteq> OrderStatusCreated" "OrderStatusFailed \<noteq> OrderStatusReserved"
  "OrderStatusFailed \<noteq> OrderStatusPickedUp" "OrderStatusFailed \<noteq> OrderStatusHandoffRequested"
  "OrderStatusFailed \<noteq> OrderStatusDelivered" "OrderStatusFailed \<noteq> OrderStatusWithdrawn"
  "OrderStatusWithdrawn \<noteq> OrderStatusCreated" "OrderStatusWithdrawn \<noteq> OrderStatusReserved"
  "OrderStatusWithdrawn \<noteq> OrderStatusPickedUp" "OrderStatusWithdrawn \<noteq> OrderStatusHandoffRequested"
  "OrderStatusWithdrawn \<noteq> OrderStatusDelivered" "OrderStatusWithdrawn \<noteq> OrderStatusFailed"
  by (simp_all add: order_status_defs)

lemma drone_status_neq [simp]:
  "DroneStatusActive \<noteq> DroneStatusBroken" "DroneStatusBroken \<noteq> DroneStatusActive"
  by (simp_all add: drone_status_defs)

lemma role_neq [simp]:
  "RoleAdmin \<noteq> RoleEndUser" "RoleEndUser \<noteq> RoleAdmin" "RoleAdmin \<noteq> RoleDrone"
  "RoleDrone \<noteq> RoleAdmin" "RoleEndUser \<noteq> RoleDrone" "RoleDrone \<noteq> RoleEndUser"
  by (simp_all add: role_defs)

section \<open>Structs\<close>

record Location =
  Lat :: float64
  Lng :: float64

record Order =
  oID :: string
  oUserID :: string
  oOrigin :: Location
  oDestination :: Location
  oStatus :: OrderStatus
  oAssignedDroneID :: "string option"
  oHandoffOrigin :: "Location option"
  oCreatedAt :: time
  oUpdatedAt :: time
  oReservedAt :: "time option"
  oPickedUpAt :: "time option"
  oDeliveredAt :: "time option"
  oFailedAt :: "time option"
  oFailureReason :: "string option"

record Drone =
  dID :: string
  dStatus :: DroneStatus
  dLastLocation :: "Location option"
  dLastHeartbeatAt :: "time option"
  dCurrentOrderID :: "string option"
  dCreatedAt :: time
  dUpdatedAt :: time

definition IsTerminal :: "OrderStatus \<Rightarrow> bool" where
  "IsTerminal status \<longleftrightarrow>
     status = OrderStatusDelivered \<or> status = OrderStatusFailed \<or> status = OrderStatusWithdrawn"

section \<open>Errors\<close>

text \<open>
  The sentinel errors, an error that wraps another one (\<open>fmt.Errorf\<close> with \<open>%w\<close>), and any
  other error by its text. \<open>errorsIs\<close> is \<open>errors.Is\<close>, which follows the wrapping.
\<close>

datatype gerror =
    ErrNotFound | ErrConflict | ErrInvalid | ErrUnauthorized | ErrForbidden
  | ErrNoJob | ErrPrecondition
  | Wrapped string gerror
  | OtherErr string

fun errorsIs :: "gerror \<Rightarrow> gerror \<Rightarrow> bool" where
  "errorsIs (Wrapped m e) t = (Wrapped m e = t \<or> errorsIs e t)"
| "errorsIs e t = (e = t)"

lemma errorsIs_refl [simp]: "errorsIs e e"
  by (cases e) simp_all

section \<open>Validation\<close>

definition ValidateLocation :: "Location \<Rightarrow> string option" where
  "ValidateLocation loc =
     (if f64_less (Lat loc) (Fin (-90)) \<or> f64_less (Fin 90) (Lat loc)
      then Some ''lat out of range''
      else if f64_less (Lng loc) (Fin (-180)) \<or> f64_less (Fin 180) (Lng loc)
      then Some ''lng out of range''
      else None)"

definition ValidateRole :: "string \<Rightarrow> bool" where
  "ValidateRole role \<longleftrightarrow> role = RoleAdmin \<or> role = RoleEndUser \<or> role = RoleDrone"

text \<open>
  What the two range checks let through: each coordinate is in range or is not a number
  (every comparison with NaN is false).
\<close>

definition coord_in :: "real \<Rightarrow> float64 \<Rightarrow> bool" where
  "coord_in b x \<longleftrightarrow> x = NaN \<or> (\<exists>r. x = Fin r \<and> \<bar>r\<bar> \<le> b)"

lemma coord_in_iff:
  "\<not> (f64_less x (Fin (- b)) \<or> f64_less (Fin b) x) \<longleftrightarrow> coord_in b x"
  by (cases x) (auto simp: coord_in_def)

lemma ValidateLocation_iff:
  "ValidateLocation loc = None \<longleftrightarrow> coord_in 90 (Lat loc) \<and> coord_in 180 (Lng loc)"
  using coord_in_iff [of "Lat loc" 90] coord_in_iff [of "Lng loc" 180]
  by (auto simp: ValidateLocation_def)

end
