(* ===== verification/Events.thy ===== *)
theory Events
  imports Domain
begin

text \<open>
  Package \<open>internal/events\<close>, file \<open>events.go\<close>: the event types, the event struct and its
  constructors.

  A payload is the JSON value that \<open>json.Marshal\<close> renders; an object lists its members in
  the order of their keys, the order in which Go renders a map. An instant inside a
  payload is rendered as an RFC 3339 string and kept here as \<open>JTime\<close>. The identifier that
  \<open>uuid.NewString\<close> generates for an event is an argument of the constructors.
\<close>

datatype json =
    JNull
  | JBool bool
  | JNumber float64
  | JString string
  | JTime time
  | JArray "json list"
  | JObject "(string \<times> json) list"

definition AggregateOrder :: string where "AggregateOrder = ''order''"
definition AggregateDrone :: string where "AggregateDrone = ''drone''"

definition EventOrderCreated :: string where "EventOrderCreated = ''order.created''"
definition EventOrderReserved :: string where "EventOrderReserved = ''order.reserved''"
definition EventOrderPickedUp :: string where "EventOrderPickedUp = ''order.picked_up''"
definition EventOrderDelivered :: string where "EventOrderDelivered = ''order.delivered''"
definition EventOrderFailed :: string where "EventOrderFailed = ''order.failed''"
definition EventOrderHandoffRequested :: string where
  "EventOrderHandoffRequested = ''order.handoff_requested''"
definition EventOrderWithdrawn :: string where "EventOrderWithdrawn = ''order.withdrawn''"
definition EventOrderUpdated :: string where "EventOrderUpdated = ''order.updated''"
definition EventDroneBroken :: string where "EventDroneBroken = ''drone.broken''"
definition EventDroneFixed :: string where "EventDroneFixed = ''drone.fixed''"

lemmas event_type_defs =
  EventOrderCreated_def EventOrderReserved_def EventOrderPickedUp_def EventOrderDelivered_def
  EventOrderFailed_def EventOrderHandoffRequested_def EventOrderWithdrawn_def
  EventOrderUpdated_def EventDroneBroken_def EventDroneFixed_def

lemmas aggregate_defs = AggregateOrder_def AggregateDrone_def

lemma aggregate_neq [simp]:
  "AggregateOrder \<noteq> AggregateDrone" "AggregateDrone \<noteq> AggregateOrder"
  by (simp_all add: aggregate_defs)

record Event =
  eID :: string
  eType :: string
  eAggregateType :: string
  eAggregateID :: string
  ePayload :: json
  eOccurredAt :: time

definition NewEvent ::
  "string \<Rightarrow> string \<Rightarrow> string \<Rightarrow> string \<Rightarrow> json \<Rightarrow> time \<Rightarrow> Event" where
  "NewEvent eid eventType aggregateType aggregateID payload occurredAt =
     \<lparr>eID = eid, eType = eventType, eAggregateType = aggregateType,
      eAggregateID = aggregateID, ePayload = payload, eOccurredAt = occurredAt\<rparr>"

definition jsonStringPtr :: "string option \<Rightarrow> json" where
  "jsonStringPtr v = (case v of None \<Rightarrow> JNull | Some x \<Rightarrow> JString x)"

definition NewOrderEvent ::
  "string \<Rightarrow> string \<Rightarrow> Order \<Rightarrow> Drone option \<Rightarrow> time \<Rightarrow> Event" where
  "NewOrderEvent eid eventType order drone occurredAt =
     NewEvent eid eventType AggregateOrder (oID order)
       (JObject
         ([(''drone_id'', jsonStringPtr (oAssignedDroneID order))]
          @ (case drone of None \<Rightarrow> [] | Some d \<Rightarrow> [(''drone_status'', JString (dStatus d))])
          @ [(''occurred_at'', JTime occurredAt),
             (''order_id'', JString (oID order)),
             (''status'', JString (oStatus order)),
             (''user_id'', JString (oUserID order))]))
       occurredAt"

definition NewDroneEvent :: "string \<Rightarrow> string \<Rightarrow> Drone \<Rightarrow> time \<Rightarrow> Event" where
  "NewDroneEvent eid eventType drone occurredAt =
     NewEvent eid eventType AggregateDrone (dID drone)
       (JObject
         [(''drone_id'', JString (dID drone)),
          (''occurred_at'', JTime occurredAt),
          (''status'', JString (dStatus drone))])
       occurredAt"

text \<open>Reading a member of a payload, for statements about what an event says.\<close>

fun jsonMember :: "json \<Rightarrow> string \<Rightarrow> json option" where
  "jsonMember (JObject ms) k = map_of ms k"
| "jsonMember _ k = None"

lemma NewOrderEvent_sel [simp]:
  "eID (NewOrderEvent i t ord d w) = i"
  "eType (NewOrderEvent i t ord d w) = t"
  "eAggregateType (NewOrderEvent i t ord d w) = AggregateOrder"
  "eAggregateID (NewOrderEvent i t ord d w) = oID ord"
  "eOccurredAt (NewOrderEvent i t ord d w) = w"
  by (simp_all add: NewOrderEvent_def NewEvent_def)

lemma NewDroneEvent_sel [simp]:
  "eID (NewDroneEvent i t d w) = i"
  "eType (NewDroneEvent i t d w) = t"
  "eAggregateType (NewDroneEvent i t d w) = AggregateDrone"
  "eAggregateID (NewDroneEvent i t d w) = dID d"
  "eOccurredAt (NewDroneEvent i t d w) = w"
  by (simp_all add: NewDroneEvent_def NewEvent_def)

lemma NewOrderEvent_payload [simp]:
  "jsonMember (ePayload (NewOrderEvent i t ord d w)) ''status'' = Some (JString (oStatus ord))"
  "jsonMember (ePayload (NewOrderEvent i t ord d w)) ''order_id'' = Some (JString (oID ord))"
  "jsonMember (ePayload (NewOrderEvent i t ord d w)) ''drone_id'' =
     Some (jsonStringPtr (oAssignedDroneID ord))"
  by (cases d; simp add: NewOrderEvent_def NewEvent_def)+

end
