(* ===== verification/Store.thy ===== *)
theory Store
  imports Events
begin

text \<open>
  Package \<open>internal/repo/postgres\<close>: the SQL statements of \<open>sql.go\<close> as functions on tables,
  the row scanners and the null helpers of \<open>store.go\<close>, the pool operations of \<open>Store\<close>, the
  transaction operations of \<open>Tx\<close> and the outbox repository of \<open>outbox.go\<close>. The tables are
  those of \<open>migrations/001_init.sql\<close> and \<open>002_outbox.sql\<close>.

  The database server and its driver are not part of the repository. What the code can
  observe of them is the environment \<open>env\<close>: whether the \<open>n\<close>-th database call fails and with
  which error, whether a failed commit took effect nevertheless, which order rows a
  concurrent transaction holds locked when a \<open>SKIP LOCKED\<close> query runs, how a string becomes
  a \<open>uuid\<close> value (\<open>None\<close>: a syntax error), how an instant is rounded to a column, and the
  collation of text columns. A transaction works on its own copy of the tables (\<open>work\<close>), which a commit installs.
\<close>

section \<open>Tables\<close>

record order_row =
  or_id :: string
  or_user_id :: string
  or_origin_lat :: float64
  or_origin_lng :: float64
  or_dest_lat :: float64
  or_dest_lng :: float64
  or_status :: string
  or_assigned_drone_id :: "string option"
  or_handoff_origin_lat :: "float64 option"
  or_handoff_origin_lng :: "float64 option"
  or_created_at :: time
  or_updated_at :: time
  or_reserved_at :: "time option"
  or_picked_up_at :: "time option"
  or_delivered_at :: "time option"
  or_failed_at :: "time option"
  or_failure_reason :: "string option"

record drone_row =
  dr_id :: string
  dr_status :: string
  dr_last_lat :: "float64 option"
  dr_last_lng :: "float64 option"
  dr_last_heartbeat_at :: "time option"
  dr_current_order_id :: "string option"
  dr_created_at :: time
  dr_updated_at :: time

record outbox_row =
  ob_id :: string
  ob_event_type :: string
  ob_aggregate_type :: string
  ob_aggregate_id :: string
  ob_payload :: json
  ob_occurred_at :: time
  ob_published_at :: "time option"

record db =
  orders :: "order_row list"
  drones :: "drone_row list"
  outbox_events :: "outbox_row list"

definition emptyDB :: db where
  "emptyDB = \<lparr>orders = [], drones = [], outbox_events = []\<rparr>"

record env =
  clock :: "nat \<Rightarrow> time"
  uuids :: "nat \<Rightarrow> string"
  faults :: "nat \<Rightarrow> string option"
  landed :: "nat \<Rightarrow> bool"
  locked :: "nat \<Rightarrow> string \<Rightarrow> bool"
  dbClock :: "nat \<Rightarrow> time"
  uuidText :: "string \<Rightarrow> string option"
  dbTime :: "time \<Rightarrow> time"
  collate :: "string \<Rightarrow> string \<Rightarrow> bool"

text \<open>
  \<open>db\<close> is the committed database, \<open>work\<close> the tables the open transaction sees. The three
  counters say how many clock readings, generated identifiers and database calls there
  have been.
\<close>

record st =
  db :: db
  work :: db
  nclock :: nat
  nuuid :: nat
  ncall :: nat

type_synonym 'a M = "(env, st, gerror, 'a) prog"

definition nowM :: "time M" where
  "nowM = (\<lambda>E s. (Inr (clock E (nclock s)), s\<lparr>nclock := Suc (nclock s)\<rparr>))"

definition newUUID :: "string M" where
  "newUUID = (\<lambda>E s. (Inr (uuids E (nuuid s)), s\<lparr>nuuid := Suc (nuuid s)\<rparr>))"

text \<open>The outcome of \<open>QueryRow\<close>: \<open>pgx.ErrNoRows\<close>, another error, or a row.\<close>

datatype 'r rowres = NoRows | RowErr gerror | Row 'r

definition errUUID :: gerror where
  "errUUID = OtherErr ''invalid input syntax for type uuid''"

definition errDuplicate :: gerror where
  "errDuplicate = OtherErr ''duplicate key value violates unique constraint''"

definition errOffset :: gerror where
  "errOffset = OtherErr ''OFFSET must not be negative''"

section \<open>Null helpers\<close>

text \<open>\<open>sql.NullString\<close>, \<open>sql.NullTime\<close> and \<open>sql.NullFloat64\<close> are options: invalid is \<open>None\<close>.\<close>

definition nullString :: "string option \<Rightarrow> string option" where
  "nullString v = (case v of None \<Rightarrow> None | Some x \<Rightarrow> Some x)"

definition nullTime :: "time option \<Rightarrow> time option" where
  "nullTime v = (case v of None \<Rightarrow> None | Some x \<Rightarrow> Some x)"

definition nullLocationLat :: "Location option \<Rightarrow> float64 option" where
  "nullLocationLat loc = (case loc of None \<Rightarrow> None | Some l \<Rightarrow> Some (Lat l))"

definition nullLocationLng :: "Location option \<Rightarrow> float64 option" where
  "nullLocationLng loc = (case loc of None \<Rightarrow> None | Some l \<Rightarrow> Some (Lng l))"

definition optionalLocationLat :: "Location option \<Rightarrow> float64 option" where
  "optionalLocationLat loc = nullLocationLat loc"

definition optionalLocationLng :: "Location option \<Rightarrow> float64 option" where
  "optionalLocationLng loc = nullLocationLng loc"

lemmas null_defs = nullString_def nullTime_def nullLocationLat_def nullLocationLng_def
  optionalLocationLat_def optionalLocationLng_def

text \<open>A nullable \<open>uuid\<close> parameter: \<open>Some\<close> of the stored column, or \<open>None\<close> on a syntax error.\<close>

definition uuidNullable :: "env \<Rightarrow> string option \<Rightarrow> string option option" where
  "uuidNullable E v =
     (case v of None \<Rightarrow> Some None
      | Some x \<Rightarrow> (case uuidText E x of None \<Rightarrow> None | Some u \<Rightarrow> Some (Some u)))"

section \<open>Row scanners\<close>

definition locationOf :: "float64 option \<Rightarrow> float64 option \<Rightarrow> Location option" where
  "locationOf lat lng =
     (case (lat, lng) of (Some a, Some b) \<Rightarrow> Some \<lparr>Lat = a, Lng = b\<rparr> | _ \<Rightarrow> None)"

definition orderOfRow :: "order_row \<Rightarrow> Order" where
  "orderOfRow r =
     \<lparr>oID = or_id r, oUserID = or_user_id r,
      oOrigin = \<lparr>Lat = or_origin_lat r, Lng = or_origin_lng r\<rparr>,
      oDestination = \<lparr>Lat = or_dest_lat r, Lng = or_dest_lng r\<rparr>,
      oStatus = or_status r,
      oAssignedDroneID = or_assigned_drone_id r,
      oHandoffOrigin = locationOf (or_handoff_origin_lat r) (or_handoff_origin_lng r),
      oCreatedAt = or_created_at r, oUpdatedAt = or_updated_at r,
      oReservedAt = or_reserved_at r, oPickedUpAt = or_picked_up_at r,
      oDeliveredAt = or_delivered_at r, oFailedAt = or_failed_at r,
      oFailureReason = or_failure_reason r\<rparr>"

fun scanOrder :: "order_row rowres \<Rightarrow> gerror + Order" where
  "scanOrder NoRows = Inl ErrNotFound"
| "scanOrder (RowErr e) = Inl e"
| "scanOrder (Row r) = Inr (orderOfRow r)"

definition droneOfRow :: "drone_row \<Rightarrow> Drone" where
  "droneOfRow r =
     \<lparr>dID = dr_id r, dStatus = dr_status r,
      dLastLocation = locationOf (dr_last_lat r) (dr_last_lng r),
      dLastHeartbeatAt = dr_last_heartbeat_at r,
      dCurrentOrderID = dr_current_order_id r,
      dCreatedAt = dr_created_at r, dUpdatedAt = dr_updated_at r\<rparr>"

fun scanDrone :: "drone_row rowres \<Rightarrow> gerror + Drone" where
  "scanDrone NoRows = Inl ErrNotFound"
| "scanDrone (RowErr e) = Inl e"
| "scanDrone (Row r) = Inr (droneOfRow r)"

definition eventOfRow :: "outbox_row \<Rightarrow> Event" where
  "eventOfRow r =
     \<lparr>eID = ob_id r, eType = ob_event_type r, eAggregateType = ob_aggregate_type r,
      eAggregateID = ob_aggregate_id r, ePayload = ob_payload r, eOccurredAt = ob_occurred_at r\<rparr>"

fun scanOutboxEvent :: "outbox_row rowres \<Rightarrow> gerror + Event" where
  "scanOutboxEvent NoRows = Inl (OtherErr ''no rows in result set'')"
| "scanOutboxEvent (RowErr e) = Inl e"
| "scanOutboxEvent (Row r) = Inr (eventOfRow r)"

section \<open>SQL statements\<close>

definition orderSelectByIDSQL :: "string \<Rightarrow> env \<Rightarrow> db \<Rightarrow> order_row rowres" where
  "orderSelectByIDSQL i E d =
     (case uuidText E i of None \<Rightarrow> RowErr errUUID
      | Some u \<Rightarrow> (case rowFind or_id u (orders d) of None \<Rightarrow> NoRows | Some r \<Rightarrow> Row r))"

text \<open>
  The rows an \<open>ORDER BY created_at\<close> query returns. SQL leaves the order of equal keys open;
  the statements below depend on the keys only.
\<close>

definition orderListSQL ::
  "string option \<Rightarrow> int \<Rightarrow> int \<Rightarrow> env \<Rightarrow> db \<Rightarrow> gerror + order_row list" where
  "orderListSQL status limit offset E d =
     (if offset < 0 then Inl errOffset
      else Inr (take (nat limit) (drop (nat offset)
        (sort_key or_created_at
          (filter (\<lambda>r. status = None \<or> Some (or_status r) = status) (orders d))))))"

definition orderInsertRow :: "env \<Rightarrow> string \<Rightarrow> Order \<Rightarrow> order_row" where
  "orderInsertRow E u order =
     \<lparr>or_id = u, or_user_id = oUserID order,
      or_origin_lat = Lat (oOrigin order), or_origin_lng = Lng (oOrigin order),
      or_dest_lat = Lat (oDestination order), or_dest_lng = Lng (oDestination order),
      or_status = oStatus order,
      or_assigned_drone_id = nullString (oAssignedDroneID order),
      or_handoff_origin_lat = optionalLocationLat (oHandoffOrigin order),
      or_handoff_origin_lng = optionalLocationLng (oHandoffOrigin order),
      or_created_at = dbTime E (oCreatedAt order),
      or_updated_at = dbTime E (oUpdatedAt order),
      or_reserved_at = map_option (dbTime E) (nullTime (oReservedAt order)),
      or_picked_up_at = map_option (dbTime E) (nullTime (oPickedUpAt order)),
      or_delivered_at = map_option (dbTime E) (nullTime (oDeliveredAt order)),
      or_failed_at = map_option (dbTime E) (nullTime (oFailedAt order)),
      or_failure_reason = nullString (oFailureReason order)\<rparr>"

definition insOrder :: "env \<Rightarrow> string \<Rightarrow> Order \<Rightarrow> db \<Rightarrow> db" where
  "insOrder E u order d = d\<lparr>orders := orders d @ [orderInsertRow E u order]\<rparr>"

definition orderInsertSQL :: "Order \<Rightarrow> env \<Rightarrow> db \<Rightarrow> gerror + db" where
  "orderInsertSQL order E d =
     (case uuidText E (oID order) of None \<Rightarrow> Inl errUUID
      | Some u \<Rightarrow>
         if u \<in> or_id ` set (orders d) then Inl errDuplicate
         else Inr (insOrder E u order d))"

text \<open>\<open>created_at\<close> and \<open>id\<close> are not among the columns an update sets.\<close>

definition orderUpdateRow :: "env \<Rightarrow> Order \<Rightarrow> order_row \<Rightarrow> order_row" where
  "orderUpdateRow E order r = r\<lparr>
      or_user_id := oUserID order,
      or_origin_lat := Lat (oOrigin order), or_origin_lng := Lng (oOrigin order),
      or_dest_lat := Lat (oDestination order), or_dest_lng := Lng (oDestination order),
      or_status := oStatus order,
      or_assigned_drone_id := nullString (oAssignedDroneID order),
      or_handoff_origin_lat := optionalLocationLat (oHandoffOrigin order),
      or_handoff_origin_lng := optionalLocationLng (oHandoffOrigin order),
      or_updated_at := dbTime E (oUpdatedAt order),
      or_reserved_at := map_option (dbTime E) (nullTime (oReservedAt order)),
      or_picked_up_at := map_option (dbTime E) (nullTime (oPickedUpAt order)),
      or_delivered_at := map_option (dbTime E) (nullTime (oDeliveredAt order)),
      or_failed_at := map_option (dbTime E) (nullTime (oFailedAt order)),
      or_failure_reason := nullString (oFailureReason order)\<rparr>"

definition updOrder :: "env \<Rightarrow> string \<Rightarrow> Order \<Rightarrow> db \<Rightarrow> db" where
  "updOrder E u order d = d\<lparr>orders := rowUpdate or_id u (orderUpdateRow E order) (orders d)\<rparr>"

definition orderUpdateSQL :: "Order \<Rightarrow> env \<Rightarrow> db \<Rightarrow> gerror + db" where
  "orderUpdateSQL order E d =
     (case uuidText E (oID order) of None \<Rightarrow> Inl errUUID
      | Some u \<Rightarrow> Inr (updOrder E u order d))"

text \<open>The rows a reservation may take, and the oldest of them that nobody holds locked.\<close>

definition reservable :: "string list \<Rightarrow> (string \<Rightarrow> bool) \<Rightarrow> order_row \<Rightarrow> bool" where
  "reservable allowed lk r \<longleftrightarrow>
     or_status r \<in> set allowed \<and> or_assigned_drone_id r = None \<and> \<not> lk (or_id r)"

definition orderReserveSQL :: "string list \<Rightarrow> (string \<Rightarrow> bool) \<Rightarrow> db \<Rightarrow> order_row list" where
  "orderReserveSQL allowed lk d =
     take 1 (sort_key or_created_at (filter (reservable allowed lk) (orders d)))"

definition droneSelectByIDSQL :: "string \<Rightarrow> env \<Rightarrow> db \<Rightarrow> drone_row rowres" where
  "droneSelectByIDSQL i E d =
     (case rowFind dr_id i (drones d) of None \<Rightarrow> NoRows | Some r \<Rightarrow> Row r)"

definition droneInsertRow :: "env \<Rightarrow> Drone \<Rightarrow> string option \<Rightarrow> drone_row" where
  "droneInsertRow E drone c =
     \<lparr>dr_id = dID drone, dr_status = dStatus drone,
      dr_last_lat = nullLocationLat (dLastLocation drone),
      dr_last_lng = nullLocationLng (dLastLocation drone),
      dr_last_heartbeat_at = map_option (dbTime E) (nullTime (dLastHeartbeatAt drone)),
      dr_current_order_id = c,
      dr_created_at = dbTime E (dCreatedAt drone),
      dr_updated_at = dbTime E (dUpdatedAt drone)\<rparr>"

definition insDrone :: "env \<Rightarrow> string option \<Rightarrow> Drone \<Rightarrow> db \<Rightarrow> db" where
  "insDrone E c drone d = d\<lparr>drones := drones d @ [droneInsertRow E drone c]\<rparr>"

definition droneInsertSQL :: "Drone \<Rightarrow> env \<Rightarrow> db \<Rightarrow> gerror + db" where
  "droneInsertSQL drone E d =
     (case uuidNullable E (nullString (dCurrentOrderID drone)) of None \<Rightarrow> Inl errUUID
      | Some c \<Rightarrow>
         if dID drone \<in> dr_id ` set (drones d) then Inl errDuplicate
         else Inr (insDrone E c drone d))"

definition droneUpdateRow :: "env \<Rightarrow> Drone \<Rightarrow> string option \<Rightarrow> drone_row \<Rightarrow> drone_row" where
  "droneUpdateRow E drone c r = r\<lparr>
      dr_status := dStatus drone,
      dr_last_lat := nullLocationLat (dLastLocation drone),
      dr_last_lng := nullLocationLng (dLastLocation drone),
      dr_last_heartbeat_at := map_option (dbTime E) (nullTime (dLastHeartbeatAt drone)),
      dr_current_order_id := c,
      dr_updated_at := dbTime E (dUpdatedAt drone)\<rparr>"

definition updDrone :: "env \<Rightarrow> string option \<Rightarrow> Drone \<Rightarrow> db \<Rightarrow> db" where
  "updDrone E c drone d =
     d\<lparr>drones := rowUpdate dr_id (dID drone) (droneUpdateRow E drone c) (drones d)\<rparr>"

definition droneUpdateSQL :: "Drone \<Rightarrow> env \<Rightarrow> db \<Rightarrow> gerror + db" where
  "droneUpdateSQL drone E d =
     (case uuidNullable E (nullString (dCurrentOrderID drone)) of None \<Rightarrow> Inl errUUID
      | Some c \<Rightarrow> Inr (updDrone E c drone d))"

text \<open>\<open>ORDER BY id\<close>: the rows in the collation order of their identifiers.\<close>

fun insertById :: "(string \<Rightarrow> string \<Rightarrow> bool) \<Rightarrow> drone_row \<Rightarrow> drone_row list \<Rightarrow> drone_row list" where
  "insertById le r [] = [r]"
| "insertById le r (q # qs) =
     (if le (dr_id r) (dr_id q) then r # q # qs else q # insertById le r qs)"

definition droneListSQL :: "env \<Rightarrow> db \<Rightarrow> drone_row list" where
  "droneListSQL E d = foldr (insertById (collate E)) (drones d) []"

definition outboxInsertRow :: "env \<Rightarrow> string \<Rightarrow> Event \<Rightarrow> outbox_row" where
  "outboxInsertRow E u event =
     \<lparr>ob_id = u, ob_event_type = eType event,
      ob_aggregate_type = eAggregateType event, ob_aggregate_id = eAggregateID event,
      ob_payload = ePayload event, ob_occurred_at = dbTime E (eOccurredAt event),
      ob_published_at = None\<rparr>"

definition insEvent :: "env \<Rightarrow> string \<Rightarrow> Event \<Rightarrow> db \<Rightarrow> db" where
  "insEvent E u event d = d\<lparr>outbox_events := outbox_events d @ [outboxInsertRow E u event]\<rparr>"

definition outboxInsertSQL :: "Event \<Rightarrow> env \<Rightarrow> db \<Rightarrow> gerror + db" where
  "outboxInsertSQL event E d =
     (case uuidText E (eID event) of None \<Rightarrow> Inl errUUID
      | Some u \<Rightarrow>
         if u \<in> ob_id ` set (outbox_events d) then Inl errDuplicate
         else Inr (insEvent E u event d))"

definition outboxFetchPendingSQL :: "int \<Rightarrow> db \<Rightarrow> outbox_row list" where
  "outboxFetchPendingSQL limit d =
     take (nat limit)
       (sort_key ob_occurred_at (filter (\<lambda>r. ob_published_at r = None) (outbox_events d)))"

text \<open>\<open>now()\<close> is the clock of the server; a bad identifier in the array fails the statement.\<close>

definition outboxMarkPublishedSQL :: "string list \<Rightarrow> time \<Rightarrow> env \<Rightarrow> db \<Rightarrow> gerror + db" where
  "outboxMarkPublishedSQL ids t E d =
     (if \<exists>i\<in>set ids. uuidText E i = None then Inl errUUID
      else Inr (d\<lparr>outbox_events :=
        map (\<lambda>r. if \<exists>i\<in>set ids. uuidText E i = Some (ob_id r)
                 then r\<lparr>ob_published_at := Some t\<rparr> else r) (outbox_events d)\<rparr>))"

section \<open>Database calls\<close>

text \<open>Every call may fail with the fault the environment has for it.\<close>

definition callM :: "(nat \<Rightarrow> 'a M) \<Rightarrow> 'a M" where
  "callM f = (\<lambda>E s.
     let n = ncall s; s' = s\<lparr>ncall := Suc n\<rparr>
     in case faults E n of Some msg \<Rightarrow> (Inl (OtherErr msg), s') | None \<Rightarrow> f n E s')"

definition queryRow :: "(st \<Rightarrow> db) \<Rightarrow> (env \<Rightarrow> db \<Rightarrow> 'r rowres) \<Rightarrow> 'r rowres M" where
  "queryRow sel q = (\<lambda>E s.
     let n = ncall s; s' = s\<lparr>ncall := Suc n\<rparr>
     in case faults E n of
          Some msg \<Rightarrow> (Inr (RowErr (OtherErr msg)), s')
        | None \<Rightarrow> (Inr (q E (sel s')), s'))"

definition liftE :: "gerror + 'a \<Rightarrow> 'a M" where
  "liftE r = (case r of Inl e \<Rightarrow> throwM e | Inr x \<Rightarrow> returnM x)"

text \<open>A statement on the tables of the open transaction, and one on the pool (its own commit).\<close>

definition execTx :: "(env \<Rightarrow> db \<Rightarrow> gerror + db) \<Rightarrow> unit M" where
  "execTx q = callM (\<lambda>n E s. case q E (work s) of
     Inl e \<Rightarrow> (Inl e, s) | Inr d \<Rightarrow> (Inr (), s\<lparr>work := d\<rparr>))"

definition execPool :: "(nat \<Rightarrow> env \<Rightarrow> db \<Rightarrow> gerror + db) \<Rightarrow> unit M" where
  "execPool q = callM (\<lambda>n E s. case q n E (db s) of
     Inl e \<Rightarrow> (Inl e, s) | Inr d \<Rightarrow> (Inr (), s\<lparr>db := d\<rparr>))"

section \<open>Store\<close>

definition BeginTx :: "unit M" where
  "BeginTx = callM (\<lambda>n E s. (Inr (), s\<lparr>work := db s\<rparr>))"

definition GetOrder :: "string \<Rightarrow> Order M" where
  "GetOrder i = bindM (queryRow db (orderSelectByIDSQL i)) (\<lambda>row. liftE (scanOrder row))"

record OrderFilter =
  fStatus :: "OrderStatus option"
  fLimit :: int
  fOffset :: int

definition ListOrders :: "OrderFilter \<Rightarrow> Order list M" where
  "ListOrders filt =
     (let status = fStatus filt;
          limit = (if fLimit filt \<le> 0 \<or> 500 < fLimit filt then 100 else fLimit filt)
      in bindM (callM (\<lambda>n E s. liftE (orderListSQL status limit (fOffset filt) E (db s)) E s))
           (\<lambda>rows. mapM (\<lambda>row. liftE (scanOrder (Row row))) rows))"

definition StoreCreateOrder :: "Order \<Rightarrow> unit M" where
  "StoreCreateOrder order = execPool (\<lambda>n. orderInsertSQL order)"

definition GetDrone :: "string \<Rightarrow> Drone M" where
  "GetDrone i = bindM (queryRow db (droneSelectByIDSQL i)) (\<lambda>row. liftE (scanDrone row))"

definition ListDrones :: "Drone list M" where
  "ListDrones =
     bindM (callM (\<lambda>n E s. (Inr (droneListSQL E (db s)), s)))
       (\<lambda>rows. mapM (\<lambda>row. liftE (scanDrone (Row row))) rows)"

section \<open>Tx\<close>

text \<open>A commit that reports an error may have taken effect or not.\<close>

definition Commit :: "unit M" where
  "Commit = (\<lambda>E s.
     let n = ncall s; s' = s\<lparr>ncall := Suc n\<rparr>
     in case faults E n of
          Some msg \<Rightarrow> (Inl (OtherErr msg), if landed E n then s'\<lparr>db := work s\<rparr> else s')
        | None \<Rightarrow> (Inr (), s'\<lparr>db := work s\<rparr>))"

text \<open>The deferred rollback drops the working copy; after a commit there is nothing to drop.\<close>

definition Rollback :: "st \<Rightarrow> st" where
  "Rollback s = s\<lparr>work := db s\<rparr>"

text \<open>\<open>tx, err := BeginTx(); if err != nil {...}; defer tx.Rollback()\<close> around a function body.\<close>

definition withTx :: "'a M \<Rightarrow> 'a M" where
  "withTx body = (\<lambda>E s. case BeginTx E s of
       (Inl e, s') \<Rightarrow> (Inl e, s')
     | (Inr _, s') \<Rightarrow> (case body E s' of (r, s'') \<Rightarrow> (r, Rollback s'')))"

definition GetOrderForUpdate :: "string \<Rightarrow> Order M" where
  "GetOrderForUpdate i =
     bindM (queryRow work (orderSelectByIDSQL i)) (\<lambda>row. liftE (scanOrder row))"

definition GetDroneForUpdate :: "string \<Rightarrow> Drone M" where
  "GetDroneForUpdate i =
     bindM (queryRow work (droneSelectByIDSQL i)) (\<lambda>row. liftE (scanDrone row))"

definition CreateDrone :: "Drone \<Rightarrow> unit M" where
  "CreateDrone drone = execTx (droneInsertSQL drone)"

definition CreateOrder :: "Order \<Rightarrow> unit M" where
  "CreateOrder order = execTx (orderInsertSQL order)"

definition UpdateOrder :: "Order \<Rightarrow> unit M" where
  "UpdateOrder order = execTx (orderUpdateSQL order)"

definition UpdateDrone :: "Drone \<Rightarrow> unit M" where
  "UpdateDrone drone = execTx (droneUpdateSQL drone)"

definition ReserveNextOrder :: "OrderStatus list \<Rightarrow> Order option M" where
  "ReserveNextOrder allowed =
     (if allowed = [] then returnM None
      else bindM (callM (\<lambda>n E s. (Inr (orderReserveSQL allowed (locked E n) (work s)), s)))
        (\<lambda>rows. case rows of
            [] \<Rightarrow> returnM None
          | row # _ \<Rightarrow> bindM (liftE (scanOrder (Row row))) (\<lambda>order. returnM (Some order))))"

definition EnqueueEvent :: "Event \<Rightarrow> unit M" where
  "EnqueueEvent event = execTx (outboxInsertSQL event)"

section \<open>Outbox repository\<close>

definition FetchPending :: "int \<Rightarrow> Event list M" where
  "FetchPending limit0 =
     (let limit = (if limit0 \<le> 0 then 50 else limit0)
      in bindM (callM (\<lambda>n E s. (Inr (outboxFetchPendingSQL limit (db s)), s)))
           (\<lambda>rows. mapM (\<lambda>row. liftE (scanOutboxEvent (Row row))) rows))"

definition MarkPublished :: "string list \<Rightarrow> unit M" where
  "MarkPublished ids =
     (if ids = [] then returnM ()
      else execPool (\<lambda>n E d. outboxMarkPublishedSQL ids (dbClock E n) E d))"

section \<open>Entities as the service sees them\<close>

text \<open>The order and the drone stored under an identifier.\<close>

definition ordersOf :: "db \<Rightarrow> string \<Rightarrow> Order option" where
  "ordersOf d u = map_option orderOfRow (rowFind or_id u (orders d))"

definition dronesOf :: "db \<Rightarrow> string \<Rightarrow> Drone option" where
  "dronesOf d i = map_option droneOfRow (rowFind dr_id i (drones d))"

text \<open>Primary keys are unique.\<close>

definition keys_ok :: "db \<Rightarrow> bool" where
  "keys_ok d \<longleftrightarrow> distinct (map or_id (orders d)) \<and> distinct (map dr_id (drones d)) \<and>
     distinct (map ob_id (outbox_events d))"

text \<open>What the columns keep of a struct: instants are rounded to the resolution of the column.\<close>

definition storedOrder :: "env \<Rightarrow> Order \<Rightarrow> Order" where
  "storedOrder E order = order\<lparr>
      oCreatedAt := dbTime E (oCreatedAt order), oUpdatedAt := dbTime E (oUpdatedAt order),
      oReservedAt := map_option (dbTime E) (oReservedAt order),
      oPickedUpAt := map_option (dbTime E) (oPickedUpAt order),
      oDeliveredAt := map_option (dbTime E) (oDeliveredAt order),
      oFailedAt := map_option (dbTime E) (oFailedAt order)\<rparr>"

definition storedDrone :: "env \<Rightarrow> Drone \<Rightarrow> Drone" where
  "storedDrone E drone = drone\<lparr>
      dLastHeartbeatAt := map_option (dbTime E) (dLastHeartbeatAt drone),
      dCreatedAt := dbTime E (dCreatedAt drone), dUpdatedAt := dbTime E (dUpdatedAt drone)\<rparr>"

text \<open>
  What the code relies on of the driver: the text of a stored \<open>uuid\<close> reads back as itself,
  and \<open>uuid.NewString\<close> generates such texts.
\<close>

definition env_ok :: "env \<Rightarrow> bool" where
  "env_ok E \<longleftrightarrow> (\<forall>x u. uuidText E x = Some u \<longrightarrow> uuidText E u = Some u) \<and>
     (\<forall>n. uuidText E (uuids E n) = Some (uuids E n))"

definition canonical :: "env \<Rightarrow> db \<Rightarrow> bool" where
  "canonical E d \<longleftrightarrow> (\<forall>u. ordersOf d u \<noteq> None \<longrightarrow> uuidText E u = Some u) \<and>
     (\<forall>r\<in>set (outbox_events d). uuidText E (ob_id r) = Some (ob_id r))"

lemma nulls [simp]:
  "nullString v = v" "nullTime w = w"
  "nullLocationLat l = map_option Lat l" "nullLocationLng l = map_option Lng l"
  "optionalLocationLat l = map_option Lat l" "optionalLocationLng l = map_option Lng l"
  by (simp_all add: null_defs split: option.splits)

lemma locationOf_inverse [simp]: "locationOf (map_option Lat l) (map_option Lng l) = l"
  by (cases l) (simp_all add: locationOf_def)

lemma orderOfRow_insert [simp]:
  "orderOfRow (orderInsertRow E u ord) = (storedOrder E ord)\<lparr>oID := u\<rparr>"
  by (simp add: orderOfRow_def orderInsertRow_def storedOrder_def)

lemma orderOfRow_update [simp]:
  "orderOfRow (orderUpdateRow E ord r) =
     (storedOrder E ord)\<lparr>oID := or_id r, oCreatedAt := or_created_at r\<rparr>"
  by (simp add: orderOfRow_def orderUpdateRow_def storedOrder_def)

lemma droneOfRow_insert [simp]:
  "droneOfRow (droneInsertRow E dr c) = (storedDrone E dr)\<lparr>dCurrentOrderID := c\<rparr>"
  by (simp add: droneOfRow_def droneInsertRow_def storedDrone_def)

lemma droneOfRow_update [simp]:
  "droneOfRow (droneUpdateRow E dr c r) =
     (storedDrone E dr)\<lparr>dID := dr_id r, dCurrentOrderID := c, dCreatedAt := dr_created_at r\<rparr>"
  by (simp add: droneOfRow_def droneUpdateRow_def storedDrone_def)

lemma row_ids [simp]:
  "or_id (orderInsertRow E u ord) = u" "or_id (orderUpdateRow E ord r) = or_id r"
  "dr_id (droneInsertRow E dr c) = dID dr" "dr_id (droneUpdateRow E dr c q) = dr_id q"
  "ob_id (outboxInsertRow E u ev) = u" "oID (orderOfRow r) = or_id r" "dID (droneOfRow q) = dr_id q"
  by (simp_all add: orderInsertRow_def orderUpdateRow_def droneInsertRow_def droneUpdateRow_def
      outboxInsertRow_def orderOfRow_def droneOfRow_def)

lemma row_created [simp]:
  "oCreatedAt (orderOfRow r) = or_created_at r" "dCreatedAt (droneOfRow q) = dr_created_at q"
  by (simp_all add: orderOfRow_def droneOfRow_def)

lemma ordersOf_id: "ordersOf d u = Some ord \<Longrightarrow> oID ord = u"
  by (auto simp: ordersOf_def dest: rowFind_Some)

lemma dronesOf_id: "dronesOf d i = Some dr \<Longrightarrow> dID dr = i"
  by (auto simp: dronesOf_def dest: rowFind_Some)

lemma ordersOf_None_iff: "ordersOf d u = None \<longleftrightarrow> u \<notin> or_id ` set (orders d)"
  by (simp add: ordersOf_def rowFind_None_iff)

lemma dronesOf_None_iff: "dronesOf d u = None \<longleftrightarrow> u \<notin> dr_id ` set (drones d)"
  by (simp add: dronesOf_def rowFind_None_iff)

lemma ordersOf_row:
  "keys_ok d \<Longrightarrow> r \<in> set (orders d) \<Longrightarrow> ordersOf d (or_id r) = Some (orderOfRow r)"
  by (simp add: keys_ok_def ordersOf_def rowFind_distinct)

section \<open>How the statements change the stored entities\<close>

text \<open>
  The contract of a table of entities, as the service relies on it: an insert under a new
  identifier and an update of an existing entity are read back, up to what the columns
  keep, and leave every other entity alone; an update of a missing entity does nothing.
\<close>

locale entity_table =
  fixes lookup :: "db \<Rightarrow> string \<Rightarrow> 'a option"
    and insert_entity :: "'a \<Rightarrow> db \<Rightarrow> db"
    and update_entity :: "'a \<Rightarrow> db \<Rightarrow> db"
    and ident :: "'a \<Rightarrow> string"
    and stored :: "'a \<Rightarrow> 'a"
    and keep :: "'a \<Rightarrow> 'a \<Rightarrow> 'a"
  assumes lookup_insert: "lookup d (ident a) = None \<Longrightarrow>
      lookup (insert_entity a d) = (lookup d)(ident a \<mapsto> stored a)"
    and lookup_update: "lookup d (ident a) = Some old \<Longrightarrow>
      lookup (update_entity a d) = (lookup d)(ident a \<mapsto> keep old (stored a))"
    and update_missing: "lookup d (ident a) = None \<Longrightarrow> lookup (update_entity a d) = lookup d"
    and keys_insert: "keys_ok d \<Longrightarrow> lookup d (ident a) = None \<Longrightarrow> keys_ok (insert_entity a d)"
    and keys_update: "keys_ok d \<Longrightarrow> keys_ok (update_entity a d)"
begin

lemma dom_update: "dom (lookup (update_entity a d)) = dom (lookup d)"
proof (cases "lookup d (ident a)")
  case None
  then show ?thesis by (simp add: update_missing)
next
  case (Some old)
  then show ?thesis by (auto simp: lookup_update)
qed

lemma update_after_insert:
  assumes "lookup d (ident a) = None" and "ident b = ident a"
  shows "lookup (update_entity b (insert_entity a d)) =
    (lookup d)(ident a \<mapsto> keep (stored a) (stored b))"
proof -
  have "lookup (insert_entity a d) (ident b) = Some (stored a)"
    using assms by (simp add: lookup_insert)
  from lookup_update [OF this] assms show ?thesis by (simp add: lookup_insert)
qed

end

lemma ordersOf_insOrder:
  "ordersOf d u = None \<Longrightarrow>
   ordersOf (insOrder E u ord d) = (ordersOf d)(u \<mapsto> (storedOrder E ord)\<lparr>oID := u\<rparr>)"
  by (rule ext) (auto simp: ordersOf_def insOrder_def rowFind_append split: option.splits)

lemma ordersOf_updOrder:
  "ordersOf (updOrder E u ord d) k =
     (if k = u
      then map_option (\<lambda>old. (storedOrder E ord)\<lparr>oID := u, oCreatedAt := oCreatedAt old\<rparr>)
             (ordersOf d u)
      else ordersOf d k)"
  by (cases "rowFind or_id u (orders d)")
    (auto simp: ordersOf_def updOrder_def rowFind_rowUpdate dest: rowFind_Some)

lemma dronesOf_insDrone:
  "dronesOf d (dID dr) = None \<Longrightarrow>
   dronesOf (insDrone E c dr d) = (dronesOf d)(dID dr \<mapsto> (storedDrone E dr)\<lparr>dCurrentOrderID := c\<rparr>)"
  by (rule ext) (auto simp: dronesOf_def insDrone_def rowFind_append split: option.splits)

lemma dronesOf_updDrone:
  "dronesOf (updDrone E c dr d) k =
     (if k = dID dr
      then map_option (\<lambda>old. (storedDrone E dr)\<lparr>dCurrentOrderID := c, dCreatedAt := dCreatedAt old\<rparr>)
             (dronesOf d (dID dr))
      else dronesOf d k)"
  by (cases "rowFind dr_id (dID dr) (drones d)")
    (auto simp: dronesOf_def updDrone_def rowFind_rowUpdate storedDrone_def dest: rowFind_Some)

lemma entity_frames [simp]:
  "dronesOf (insOrder E u ord d) = dronesOf d" "dronesOf (updOrder E u ord d) = dronesOf d"
  "dronesOf (insEvent E u ev d) = dronesOf d" "ordersOf (insDrone E c dr d) = ordersOf d"
  "ordersOf (updDrone E c dr d) = ordersOf d" "ordersOf (insEvent E u ev d) = ordersOf d"
  by (simp_all add: fun_eq_iff dronesOf_def ordersOf_def insOrder_def updOrder_def insEvent_def
      insDrone_def updDrone_def)

lemma outbox_frames [simp]:
  "outbox_events (insOrder E u ord d) = outbox_events d"
  "outbox_events (updOrder E u ord d) = outbox_events d"
  "outbox_events (insDrone E c dr d) = outbox_events d"
  "outbox_events (updDrone E c dr d) = outbox_events d"
  "outbox_events (insEvent E u ev d) = outbox_events d @ [outboxInsertRow E u ev]"
  by (simp_all add: insOrder_def updOrder_def insEvent_def insDrone_def updDrone_def)

lemma keys_ok_updates [simp]:
  "keys_ok d \<Longrightarrow> keys_ok (updOrder E u ord d)"
  "keys_ok d \<Longrightarrow> keys_ok (updDrone E c dr d)"
  by (simp_all add: keys_ok_def updOrder_def updDrone_def map_key_rowUpdate)

lemma keys_ok_inserts:
  "keys_ok d \<Longrightarrow> ordersOf d u = None \<Longrightarrow> keys_ok (insOrder E u ord d)"
  "keys_ok d \<Longrightarrow> dronesOf d (dID dr) = None \<Longrightarrow> keys_ok (insDrone E c dr d)"
  "keys_ok d \<Longrightarrow> u \<notin> ob_id ` set (outbox_events d) \<Longrightarrow> keys_ok (insEvent E u ev d)"
  by (auto simp: keys_ok_def insOrder_def insDrone_def insEvent_def ordersOf_None_iff
      dronesOf_None_iff)

lemmas entity_updates = ordersOf_insOrder ordersOf_updOrder dronesOf_insDrone dronesOf_updDrone

interpretation order_table: entity_table
  ordersOf "\<lambda>ord. insOrder E (oID ord) ord" "\<lambda>ord. updOrder E (oID ord) ord" oID "storedOrder E"
  "\<lambda>old new. new\<lparr>oCreatedAt := oCreatedAt old\<rparr>" for E
proof unfold_locales
  fix d :: db and a old :: Order
  have idem: "(storedOrder E a)\<lparr>oID := oID a\<rparr> = storedOrder E a"
    by (simp add: storedOrder_def)
  show "ordersOf d (oID a) = None \<Longrightarrow>
      ordersOf (insOrder E (oID a) a d) = (ordersOf d)(oID a \<mapsto> storedOrder E a)"
    by (simp add: ordersOf_insOrder idem)
  show "ordersOf d (oID a) = Some old \<Longrightarrow>
      ordersOf (updOrder E (oID a) a d) =
        (ordersOf d)(oID a \<mapsto> (storedOrder E a)\<lparr>oCreatedAt := oCreatedAt old\<rparr>)"
    by (rule ext) (simp add: ordersOf_updOrder idem)
  show "ordersOf d (oID a) = None \<Longrightarrow> ordersOf (updOrder E (oID a) a d) = ordersOf d"
    by (rule ext) (simp add: ordersOf_updOrder)
qed (simp_all add: keys_ok_inserts)

interpretation drone_table: entity_table
  dronesOf "\<lambda>dr. insDrone E (dCurrentOrderID dr) dr" "\<lambda>dr. updDrone E (dCurrentOrderID dr) dr" dID
  "storedDrone E" "\<lambda>old new. new\<lparr>dCreatedAt := dCreatedAt old\<rparr>" for E
proof unfold_locales
  fix d :: db and a old :: Drone
  have idem: "(storedDrone E a)\<lparr>dCurrentOrderID := dCurrentOrderID a\<rparr> = storedDrone E a"
    by (simp add: storedDrone_def)
  show "dronesOf d (dID a) = None \<Longrightarrow>
      dronesOf (insDrone E (dCurrentOrderID a) a d) = (dronesOf d)(dID a \<mapsto> storedDrone E a)"
    by (simp add: dronesOf_insDrone idem)
  show "dronesOf d (dID a) = Some old \<Longrightarrow>
      dronesOf (updDrone E (dCurrentOrderID a) a d) =
        (dronesOf d)(dID a \<mapsto> (storedDrone E a)\<lparr>dCreatedAt := dCreatedAt old\<rparr>)"
    by (rule ext) (simp add: dronesOf_updDrone idem)
  show "dronesOf d (dID a) = None \<Longrightarrow>
      dronesOf (updDrone E (dCurrentOrderID a) a d) = dronesOf d"
    by (rule ext) (simp add: dronesOf_updDrone)
qed (simp_all add: keys_ok_inserts)

section \<open>Verification conditions of the database calls\<close>

text \<open>The state after one more database call.\<close>

abbreviation called :: "st \<Rightarrow> st" where
  "called s \<equiv> s\<lparr>ncall := Suc (ncall s)\<rparr>"

lemma wp_nowM [wp_rules]:
  "wp nowM Q R E s = Q (clock E (nclock s)) (s\<lparr>nclock := Suc (nclock s)\<rparr>)"
  by (simp add: wp_def nowM_def)

lemma wp_newUUID [wp_rules]:
  "wp newUUID Q R E s = Q (uuids E (nuuid s)) (s\<lparr>nuuid := Suc (nuuid s)\<rparr>)"
  by (simp add: wp_def newUUID_def)

lemma wp_liftE [wp_rules]:
  "wp (liftE r) Q R E s = (case r of Inl e \<Rightarrow> R e s | Inr x \<Rightarrow> Q x s)"
  by (simp add: liftE_def wp_throwM wp_returnM split: sum.splits)

lemma wp_callM:
  "wp (callM f) Q R E s =
     ((\<forall>msg. faults E (ncall s) = Some msg \<longrightarrow> R (OtherErr msg) (called s)) \<and>
      (faults E (ncall s) = None \<longrightarrow> wp (f (ncall s)) Q R E (called s)))"
  by (simp add: wp_def callM_def Let_def split: option.splits)

lemma wp_queryRow:
  "wp (queryRow sel q) Q R E s =
     ((\<forall>msg. faults E (ncall s) = Some msg \<longrightarrow> Q (RowErr (OtherErr msg)) (called s)) \<and>
      (faults E (ncall s) = None \<longrightarrow> Q (q E (sel (called s))) (called s)))"
  by (simp add: wp_def queryRow_def Let_def split: option.splits)

lemma wp_execTx:
  "wp (execTx q) Q R E s =
     ((\<forall>msg. faults E (ncall s) = Some msg \<longrightarrow> R (OtherErr msg) (called s)) \<and>
      (faults E (ncall s) = None \<longrightarrow>
        (case q E (work s) of Inl e \<Rightarrow> R e (called s)
         | Inr d \<Rightarrow> Q () ((called s)\<lparr>work := d\<rparr>))))"
  by (auto simp: execTx_def wp_callM) (auto simp: wp_def split: sum.splits)

lemma wp_GetOrderForUpdate [wp_rules]:
  "wp (GetOrderForUpdate i) Q R E s =
     ((\<forall>msg. faults E (ncall s) = Some msg \<longrightarrow> R (OtherErr msg) (called s)) \<and>
      (faults E (ncall s) = None \<longrightarrow>
        (uuidText E i = None \<longrightarrow> R errUUID (called s)) \<and>
        (\<forall>u. uuidText E i = Some u \<longrightarrow>
          (ordersOf (work s) u = None \<longrightarrow> R ErrNotFound (called s)) \<and>
          (\<forall>ord. ordersOf (work s) u = Some ord \<longrightarrow> Q ord (called s)))))"
  by (simp add: GetOrderForUpdate_def wp_bindM wp_queryRow wp_liftE orderSelectByIDSQL_def
      ordersOf_def split: option.splits)

lemma wp_GetOrder [wp_rules]:
  "wp (GetOrder i) Q R E s =
     ((\<forall>msg. faults E (ncall s) = Some msg \<longrightarrow> R (OtherErr msg) (called s)) \<and>
      (faults E (ncall s) = None \<longrightarrow>
        (uuidText E i = None \<longrightarrow> R errUUID (called s)) \<and>
        (\<forall>u. uuidText E i = Some u \<longrightarrow>
          (ordersOf (db s) u = None \<longrightarrow> R ErrNotFound (called s)) \<and>
          (\<forall>ord. ordersOf (db s) u = Some ord \<longrightarrow> Q ord (called s)))))"
  by (simp add: GetOrder_def wp_bindM wp_queryRow wp_liftE orderSelectByIDSQL_def
      ordersOf_def split: option.splits)

lemma wp_GetDroneForUpdate [wp_rules]:
  "wp (GetDroneForUpdate i) Q R E s =
     ((\<forall>msg. faults E (ncall s) = Some msg \<longrightarrow> R (OtherErr msg) (called s)) \<and>
      (faults E (ncall s) = None \<longrightarrow>
        (dronesOf (work s) i = None \<longrightarrow> R ErrNotFound (called s)) \<and>
        (\<forall>dr. dronesOf (work s) i = Some dr \<longrightarrow> Q dr (called s))))"
  by (simp add: GetDroneForUpdate_def wp_bindM wp_queryRow wp_liftE droneSelectByIDSQL_def
      dronesOf_def split: option.splits)

lemma wp_GetDrone [wp_rules]:
  "wp (GetDrone i) Q R E s =
     ((\<forall>msg. faults E (ncall s) = Some msg \<longrightarrow> R (OtherErr msg) (called s)) \<and>
      (faults E (ncall s) = None \<longrightarrow>
        (dronesOf (db s) i = None \<longrightarrow> R ErrNotFound (called s)) \<and>
        (\<forall>dr. dronesOf (db s) i = Some dr \<longrightarrow> Q dr (called s))))"
  by (simp add: GetDrone_def wp_bindM wp_queryRow wp_liftE droneSelectByIDSQL_def
      dronesOf_def split: option.splits)

text \<open>The calls that write: what they do when they succeed, and that they fail otherwise.\<close>

lemma wp_CreateOrder [wp_rules]:
  "wp (CreateOrder ord) Q R E s =
     ((\<forall>msg. faults E (ncall s) = Some msg \<longrightarrow> R (OtherErr msg) (called s)) \<and>
      (faults E (ncall s) = None \<longrightarrow>
        (uuidText E (oID ord) = None \<longrightarrow> R errUUID (called s)) \<and>
        (\<forall>u. uuidText E (oID ord) = Some u \<longrightarrow>
          (ordersOf (work s) u \<noteq> None \<longrightarrow> R errDuplicate (called s)) \<and>
          (ordersOf (work s) u = None \<longrightarrow>
            Q () ((called s)\<lparr>work := insOrder E u ord (work s)\<rparr>)))))"
  by (auto simp: CreateOrder_def wp_execTx orderInsertSQL_def ordersOf_None_iff
      split: option.splits)

lemma wp_UpdateOrder [wp_rules]:
  "wp (UpdateOrder ord) Q R E s =
     ((\<forall>msg. faults E (ncall s) = Some msg \<longrightarrow> R (OtherErr msg) (called s)) \<and>
      (faults E (ncall s) = None \<longrightarrow>
        (uuidText E (oID ord) = None \<longrightarrow> R errUUID (called s)) \<and>
        (\<forall>u. uuidText E (oID ord) = Some u \<longrightarrow>
          Q () ((called s)\<lparr>work := updOrder E u ord (work s)\<rparr>))))"
  by (simp add: UpdateOrder_def wp_execTx orderUpdateSQL_def split: option.splits)

lemma wp_CreateDrone [wp_rules]:
  "wp (CreateDrone dr) Q R E s =
     ((\<forall>msg. faults E (ncall s) = Some msg \<longrightarrow> R (OtherErr msg) (called s)) \<and>
      (faults E (ncall s) = None \<longrightarrow>
        (uuidNullable E (dCurrentOrderID dr) = None \<longrightarrow> R errUUID (called s)) \<and>
        (\<forall>c. uuidNullable E (dCurrentOrderID dr) = Some c \<longrightarrow>
          (dronesOf (work s) (dID dr) \<noteq> None \<longrightarrow> R errDuplicate (called s)) \<and>
          (dronesOf (work s) (dID dr) = None \<longrightarrow>
            Q () ((called s)\<lparr>work := insDrone E c dr (work s)\<rparr>)))))"
  by (auto simp: CreateDrone_def wp_execTx droneInsertSQL_def dronesOf_None_iff
      split: option.splits)

lemma wp_UpdateDrone [wp_rules]:
  "wp (UpdateDrone dr) Q R E s =
     ((\<forall>msg. faults E (ncall s) = Some msg \<longrightarrow> R (OtherErr msg) (called s)) \<and>
      (faults E (ncall s) = None \<longrightarrow>
        (uuidNullable E (dCurrentOrderID dr) = None \<longrightarrow> R errUUID (called s)) \<and>
        (\<forall>c. uuidNullable E (dCurrentOrderID dr) = Some c \<longrightarrow>
          Q () ((called s)\<lparr>work := updDrone E c dr (work s)\<rparr>))))"
  by (simp add: UpdateDrone_def wp_execTx droneUpdateSQL_def split: option.splits)

lemma wp_EnqueueEvent [wp_rules]:
  "wp (EnqueueEvent ev) Q R E s =
     ((\<forall>msg. faults E (ncall s) = Some msg \<longrightarrow> R (OtherErr msg) (called s)) \<and>
      (faults E (ncall s) = None \<longrightarrow>
        (uuidText E (eID ev) = None \<longrightarrow> R errUUID (called s)) \<and>
        (\<forall>u. uuidText E (eID ev) = Some u \<longrightarrow>
          (u \<in> ob_id ` set (outbox_events (work s)) \<longrightarrow> R errDuplicate (called s)) \<and>
          (u \<notin> ob_id ` set (outbox_events (work s)) \<longrightarrow>
            Q () ((called s)\<lparr>work := insEvent E u ev (work s)\<rparr>)))))"
  by (auto simp: EnqueueEvent_def wp_execTx outboxInsertSQL_def split: option.splits)

lemma wp_ReserveNextOrder [wp_rules]:
  "wp (ReserveNextOrder allowed) Q R E s =
     (if allowed = [] then Q None s
      else (\<forall>msg. faults E (ncall s) = Some msg \<longrightarrow> R (OtherErr msg) (called s)) \<and>
        (faults E (ncall s) = None \<longrightarrow>
          (case orderReserveSQL allowed (locked E (ncall s)) (work s) of
             [] \<Rightarrow> Q None (called s)
           | row # _ \<Rightarrow> Q (Some (orderOfRow row)) (called s))))"
  by (auto simp: ReserveNextOrder_def wp_bindM wp_callM wp_returnM wp_liftE)
    (auto simp: wp_def run_rules liftE_def split: list.splits)

lemma wp_Commit [wp_rules]:
  "wp Commit Q R E s =
     ((\<forall>msg. faults E (ncall s) = Some msg \<longrightarrow>
        R (OtherErr msg) (if landed E (ncall s) then (called s)\<lparr>db := work s\<rparr> else called s)) \<and>
      (faults E (ncall s) = None \<longrightarrow> Q () ((called s)\<lparr>db := work s\<rparr>)))"
  by (simp add: wp_def Commit_def Let_def split: option.splits)

lemma wp_withTx [wp_rules]:
  "wp (withTx body) Q R E s =
     ((\<forall>msg. faults E (ncall s) = Some msg \<longrightarrow> R (OtherErr msg) (called s)) \<and>
      (faults E (ncall s) = None \<longrightarrow>
        wp body (\<lambda>x s'. Q x (Rollback s')) (\<lambda>e s'. R e (Rollback s')) E
          ((called s)\<lparr>work := db s\<rparr>)))"
  by (simp add: wp_def withTx_def BeginTx_def callM_def Let_def split: option.splits prod.splits
      sum.splits)

lemma Rollback_sel [simp]:
  "db (Rollback s) = db s" "work (Rollback s) = db s" "ncall (Rollback s) = ncall s"
  "nclock (Rollback s) = nclock s" "nuuid (Rollback s) = nuuid s"
  by (simp_all add: Rollback_def)


text \<open>The list queries: scanning the rows one by one never fails.\<close>

lemma mapM_scan: "mapM (\<lambda>row. liftE (Inr (f row))) rows = returnM (map f rows)"
  by (induction rows) (simp_all add: liftE_def)

definition clampLimit :: "int \<Rightarrow> int" where
  "clampLimit n = (if n \<le> 0 \<or> 500 < n then 100 else n)"

lemma wp_ListOrders [wp_rules]:
  "wp (ListOrders filt) Q R E s =
     ((\<forall>msg. faults E (ncall s) = Some msg \<longrightarrow> R (OtherErr msg) (called s)) \<and>
      (faults E (ncall s) = None \<longrightarrow>
        (case orderListSQL (fStatus filt) (clampLimit (fLimit filt)) (fOffset filt) E (db s) of
           Inl e \<Rightarrow> R e (called s)
         | Inr rows \<Rightarrow> Q (map orderOfRow rows) (called s))))"
  by (simp add: ListOrders_def clampLimit_def mapM_scan wp_bindM wp_callM wp_returnM)
    (simp add: wp_def liftE_def returnM_def throwM_def split: sum.splits)

lemma wp_ListDrones [wp_rules]:
  "wp ListDrones Q R E s =
     ((\<forall>msg. faults E (ncall s) = Some msg \<longrightarrow> R (OtherErr msg) (called s)) \<and>
      (faults E (ncall s) = None \<longrightarrow> Q (map droneOfRow (droneListSQL E (db s))) (called s)))"
  by (simp add: ListDrones_def mapM_scan wp_bindM wp_callM wp_returnM) (simp add: wp_def)

lemma wp_FetchPending [wp_rules]:
  "wp (FetchPending limit) Q R E s =
     ((\<forall>msg. faults E (ncall s) = Some msg \<longrightarrow> R (OtherErr msg) (called s)) \<and>
      (faults E (ncall s) = None \<longrightarrow>
        Q (map eventOfRow (outboxFetchPendingSQL (if limit \<le> 0 then 50 else limit) (db s)))
          (called s)))"
  by (simp add: FetchPending_def mapM_scan wp_bindM wp_callM wp_returnM) (simp add: wp_def)

lemma wp_MarkPublished [wp_rules]:
  "wp (MarkPublished ids) Q R E s =
     (if ids = [] then Q () s
      else (\<forall>msg. faults E (ncall s) = Some msg \<longrightarrow> R (OtherErr msg) (called s)) \<and>
        (faults E (ncall s) = None \<longrightarrow>
          (case outboxMarkPublishedSQL ids (dbClock E (ncall s)) E (db s) of
             Inl e \<Rightarrow> R e (called s)
           | Inr d \<Rightarrow> Q () ((called s)\<lparr>db := d\<rparr>))))"
  by (simp add: MarkPublished_def execPool_def wp_callM wp_returnM)
    (simp add: wp_def split: sum.splits)

end
