(* ===== verification/Auth.thy ===== *)
theory Auth
  imports Store
begin

text \<open>
  Package \<open>internal/auth\<close>: issuing and parsing of tokens, and the bearer token of an
  authorization header.

  The JWT package is not part of the repository; the operations the code calls are the
  fields of \<open>jwtlib\<close>, and \<open>jwt_ok\<close> states what the code relies on. Strings are byte strings, as
  Go has them. \<open>strings.SplitN\<close>, \<open>strings.EqualFold\<close> and \<open>strings.TrimSpace\<close> are modelled as
  far as the code uses them; the folding of letters other than the ASCII ones cannot matter
  for the word it is compared with.
\<close>

section \<open>Tokens\<close>

record Claims =
  Role :: string
  Subject :: string
  IssuedAt :: "time option"
  ExpiresAt :: "time option"

record Authenticator =
  secret :: string
  ttl :: int

definition SigningMethodHS256 :: string where
  "SigningMethodHS256 = ''HS256''"

text \<open>
  \<open>jwtSign m c k\<close>: the token that states \<open>c\<close>, signed with method \<open>m\<close> and key \<open>k\<close>.
  \<open>jwtParse t f now\<close>: parse \<open>t\<close>, ask \<open>f\<close> for the key of its method, verify it at time \<open>now\<close>;
  the result is the claims, if they have the expected type, and whether the token is valid.
  \<open>numericDate\<close> is the precision of dates in a token.
\<close>

record jwtlib =
  numericDate :: "time \<Rightarrow> time"
  jwtSign :: "string \<Rightarrow> Claims \<Rightarrow> string \<Rightarrow> gerror + string"
  jwtParse :: "string \<Rightarrow> (string \<Rightarrow> gerror + string) \<Rightarrow> time \<Rightarrow> gerror + (Claims option \<times> bool)"

definition IssueToken :: "jwtlib \<Rightarrow> Authenticator \<Rightarrow> string \<Rightarrow> string \<Rightarrow> (string \<times> time) M" where
  "IssueToken J a name role =
     bindM nowM (\<lambda>now.
     let exp = now + ttl a;
         claims = \<lparr>Role = role, Subject = name, IssuedAt = Some (numericDate J now),
                   ExpiresAt = Some (numericDate J exp)\<rparr>
     in case jwtSign J SigningMethodHS256 claims (secret a) of
          Inl err \<Rightarrow> throwM err
        | Inr str \<Rightarrow> returnM (str, exp))"

definition keyFunc :: "Authenticator \<Rightarrow> string \<Rightarrow> gerror + string" where
  "keyFunc a method =
     (if method \<noteq> SigningMethodHS256 then Inl (OtherErr ''unexpected signing method'')
      else Inr (secret a))"

definition ParseToken :: "jwtlib \<Rightarrow> Authenticator \<Rightarrow> string \<Rightarrow> time \<Rightarrow> gerror + Claims" where
  "ParseToken J a tokenString now =
     (case jwtParse J tokenString (keyFunc a) now of
        Inl err \<Rightarrow> Inl err
      | Inr (claims, valid) \<Rightarrow>
          (case claims of
             None \<Rightarrow> Inl (OtherErr ''invalid token'')
           | Some c \<Rightarrow> if \<not> valid then Inl (OtherErr ''invalid token'') else Inr c))"

section \<open>The authorization header\<close>

text \<open>\<open>strings.SplitN(s, " ", 2)\<close>: the parts before and after the first space.\<close>

definition SplitN2 :: "string \<Rightarrow> string list" where
  "SplitN2 s =
     (if CHR '' '' \<in> set s
      then [takeWhile (\<lambda>c. c \<noteq> CHR '' '') s, tl (dropWhile (\<lambda>c. c \<noteq> CHR '' '') s)]
      else [s])"

definition asciiLower :: "char \<Rightarrow> char" where
  "asciiLower c =
     (let n = of_char c :: nat in if 65 \<le> n \<and> n \<le> 90 then char_of (n + 32) else c)"

definition EqualFold :: "string \<Rightarrow> string \<Rightarrow> bool" where
  "EqualFold s t \<longleftrightarrow> map asciiLower s = map asciiLower t"

text \<open>The white space of \<open>unicode.IsSpace\<close>, in UTF-8.\<close>

definition spaceRunes :: "string list" where
  "spaceRunes = map (map char_of)
     ([[9], [10], [11], [12], [13], [32], [194, 133], [194, 160], [225, 154, 128],
       [226, 128, 128], [226, 128, 129], [226, 128, 130], [226, 128, 131], [226, 128, 132],
       [226, 128, 133], [226, 128, 134], [226, 128, 135], [226, 128, 136], [226, 128, 137],
       [226, 128, 138], [226, 128, 168], [226, 128, 169], [226, 128, 175], [226, 129, 159],
       [227, 128, 128]] :: nat list list)"

fun stripPrefix :: "string \<Rightarrow> string \<Rightarrow> string option" where
  "stripPrefix [] s = Some s"
| "stripPrefix (p # ps) [] = None"
| "stripPrefix (p # ps) (c # s) = (if p = c then stripPrefix ps s else None)"

fun stripAny :: "string list \<Rightarrow> string \<Rightarrow> string option" where
  "stripAny [] s = None"
| "stripAny (p # ps) s = (case stripPrefix p s of Some r \<Rightarrow> Some r | None \<Rightarrow> stripAny ps s)"

lemma stripPrefix_append: "stripPrefix p s = Some r \<Longrightarrow> s = p @ r"
  by (induction p s rule: stripPrefix.induct) (simp_all split: if_splits)

lemma stripAny_shorter:
  "stripAny ps s = Some r \<Longrightarrow> [] \<notin> set ps \<Longrightarrow> length r < length s"
proof (induction ps)
  case (Cons p ps)
  show ?case
  proof (cases "stripPrefix p s")
    case None
    with Cons show ?thesis by simp
  next
    case (Some q)
    with Cons.prems stripPrefix_append [OF Some] show ?thesis by (cases p) auto
  qed
qed simp

text \<open>Runes of a list are taken off the front until none of them is there.\<close>

function trimRunes :: "string list \<Rightarrow> string \<Rightarrow> string" where
  "trimRunes ps s =
     (if [] \<in> set ps then s
      else case stripAny ps s of None \<Rightarrow> s | Some r \<Rightarrow> trimRunes ps r)"
  by pat_completeness auto
termination
  by (relation "measure (\<lambda>(ps, s). length s)") (auto dest: stripAny_shorter)

definition TrimSpace :: "string \<Rightarrow> string" where
  "TrimSpace s = rev (trimRunes (map rev spaceRunes) (rev (trimRunes spaceRunes s)))"

definition ExtractBearerToken :: "string \<Rightarrow> string" where
  "ExtractBearerToken authHeader =
     (let parts = SplitN2 authHeader in
      if length parts \<noteq> 2 then ''''
      else if \<not> EqualFold (parts ! 0) ''Bearer'' then ''''
      else TrimSpace (parts ! 1))"

section \<open>Claims in a context\<close>

text \<open>Of a \<open>context.Context\<close>, what the code reads: the claims put there and the incoming metadata.\<close>

record goctx =
  ctxClaims :: "Claims option"
  ctxMetadata :: "string \<Rightarrow> string list"

definition ContextWithClaims :: "goctx \<Rightarrow> Claims \<Rightarrow> goctx" where
  "ContextWithClaims ctx claims = ctx\<lparr>ctxClaims := Some claims\<rparr>"

definition ClaimsFromContext :: "goctx \<Rightarrow> Claims option" where
  "ClaimsFromContext ctx = ctxClaims ctx"

section \<open>What the code relies on\<close>

text \<open>
  A parsed token is valid only if the key function accepted its method and the token is
  signed with the key it returned; a token signed with a method and key is accepted, with
  the claims it was signed for, by a key function that returns this key, until it expires.
\<close>

definition jwt_ok :: "jwtlib \<Rightarrow> (string \<Rightarrow> string \<Rightarrow> string \<Rightarrow> Claims \<Rightarrow> bool) \<Rightarrow> bool" where
  "jwt_ok J signed \<longleftrightarrow>
     (\<forall>tok f now c. jwtParse J tok f now = Inr (Some c, True) \<longrightarrow>
        (\<exists>m k. f m = Inr k \<and> signed tok m k c)) \<and>
     (\<forall>m c k tok f now. jwtSign J m c k = Inr tok \<and> f m = Inr k \<and>
        (\<forall>x. ExpiresAt c = Some x \<longrightarrow> now < x) \<and> (\<forall>x. IssuedAt c = Some x \<longrightarrow> x \<le> now) \<longrightarrow>
        jwtParse J tok f now = Inr (Some c, True))"

declare trimRunes.simps [simp del]

lemma stripAny_prefix:
  assumes "stripAny ps s = Some r"
  obtains p where "p \<in> set ps" "s = p @ r"
  using assms by (induction ps) (auto split: option.splits dest: stripPrefix_append)

lemma stripPrefix_of_append [simp]: "stripPrefix p (p @ r) = Some r"
  by (induction p) simp_all

lemma stripAny_None: "stripAny ps s = None \<longleftrightarrow> (\<forall>p\<in>set ps. \<forall>r. s \<noteq> p @ r)"
  by (induction ps) (auto split: option.splits dest: stripPrefix_append)

lemma trimRunes_done:
  assumes "[] \<notin> set ps"
  shows "stripAny ps (trimRunes ps s) = None"
  using assms
proof (induction ps s rule: trimRunes.induct)
  case (1 ps s)
  then show ?case by (cases "stripAny ps s") (simp_all add: trimRunes.simps [of ps s])
qed

lemma trimRunes_id: "stripAny ps s = None \<Longrightarrow> trimRunes ps s = s"
  by (simp add: trimRunes.simps)

section \<open>Trimming\<close>

text \<open>What a list of runes takes off the front of a string.\<close>

definition spacing :: "string list \<Rightarrow> string \<Rightarrow> bool" where
  "spacing ps s \<longleftrightarrow> (\<exists>qs. set qs \<subseteq> set ps \<and> s = concat qs)"

lemma trimRunes_split:
  "\<exists>pre. s = pre @ trimRunes ps s \<and> spacing ps pre"
proof (induction ps s rule: trimRunes.induct)
  case (1 ps s)
  show ?case
  proof (cases "[] \<in> set ps \<or> stripAny ps s = None")
    case True
    then have "trimRunes ps s = s" by (auto simp: trimRunes.simps [of ps s])
    then show ?thesis by (intro exI [of _ "[]"]) (auto simp: spacing_def intro: exI [of _ "[]"])
  next
    case False
    then obtain r where r: "stripAny ps s = Some r" by auto
    obtain p where p: "p \<in> set ps" "s = p @ r" using stripAny_prefix [OF r] .
    obtain pre where pre: "r = pre @ trimRunes ps r" "spacing ps pre"
      using "1.IH" [of r] False r by blast
    then obtain qs where "set qs \<subseteq> set ps" "pre = concat qs" by (auto simp: spacing_def)
    then have "set (p # qs) \<subseteq> set ps \<and> p @ pre = concat (p # qs)" using p by simp
    then have "spacing ps (p @ pre)" unfolding spacing_def by blast
    moreover have "trimRunes ps s = trimRunes ps r" using False r by (simp add: trimRunes.simps [of ps s])
    then have "s = (p @ pre) @ trimRunes ps s" using p(2) pre(1) by (metis append.assoc)
    ultimately show ?thesis by blast
  qed
qed

lemma spaceRunes_nonempty: "[] \<notin> set spaceRunes" "[] \<notin> set (map rev spaceRunes)"
  by (simp_all add: spaceRunes_def)

lemma stripAny_prefix_None: "stripAny ps (s @ t) = None \<Longrightarrow> stripAny ps s = None"
  unfolding stripAny_None by (metis append.assoc)

lemma spacing_rev: "spacing (map rev ps) s \<Longrightarrow> spacing ps (rev s)"
proof -
  assume "spacing (map rev ps) s"
  then obtain qs where q: "set qs \<subseteq> set (map rev ps)" "s = concat qs" by (auto simp: spacing_def)
  have "rev (concat qs) = concat (map rev (rev qs))" by (simp add: rev_concat rev_map)
  moreover have "set (map rev (rev qs)) \<subseteq> set ps" using q(1) by auto
  ultimately show ?thesis using q(2) unfolding spacing_def by metis
qed

text \<open>The trimmed string is a part of the string between white space, and has none at its ends.\<close>

lemma TrimSpace_spec:
  "\<exists>pre post. s = pre @ TrimSpace s @ post \<and> spacing spaceRunes pre \<and> spacing spaceRunes post \<and>
     stripAny spaceRunes (TrimSpace s) = None \<and> stripAny (map rev spaceRunes) (rev (TrimSpace s)) = None"
proof -
  obtain pre where pre: "s = pre @ trimRunes spaceRunes s" "spacing spaceRunes pre"
    using trimRunes_split by blast
  obtain post where post: "rev (trimRunes spaceRunes s) =
      post @ trimRunes (map rev spaceRunes) (rev (trimRunes spaceRunes s))" "spacing (map rev spaceRunes) post"
    using trimRunes_split by blast
  have mid: "trimRunes spaceRunes s = TrimSpace s @ rev post"
    unfolding TrimSpace_def using arg_cong [OF post(1), of rev] by simp
  have "stripAny spaceRunes (TrimSpace s @ rev post) = None"
    using trimRunes_done [OF spaceRunes_nonempty(1), of s] unfolding mid .
  then have "stripAny spaceRunes (TrimSpace s) = None" by (rule stripAny_prefix_None)
  moreover have "stripAny (map rev spaceRunes) (rev (TrimSpace s)) = None"
    unfolding TrimSpace_def rev_rev_ident by (rule trimRunes_done [OF spaceRunes_nonempty(2)])
  ultimately show ?thesis using pre mid spacing_rev [OF post(2)] by metis
qed

lemma TrimSpace_id:
  assumes "stripAny spaceRunes t = None" and "stripAny (map rev spaceRunes) (rev t) = None"
  shows "TrimSpace t = t"
  using assms by (simp add: TrimSpace_def trimRunes_id)

lemma SplitN2_word:
  assumes "CHR '' '' \<notin> set w"
  shows "SplitN2 (w @ CHR '' '' # rest) = [w, rest]"
proof -
  have "takeWhile (\<lambda>c. c \<noteq> CHR '' '') (w @ CHR '' '' # rest) = w"
    "dropWhile (\<lambda>c. c \<noteq> CHR '' '') (w @ CHR '' '' # rest) = CHR '' '' # rest"
    using assms by (auto simp: takeWhile_append dropWhile_append)
  then show ?thesis by (simp add: SplitN2_def)
qed

end
