(* ===== verification/Eta.thy ===== *)
theory Eta
  imports Domain
begin

text \<open>
  Package \<open>internal/service\<close>, file \<open>eta.go\<close>: where an order is, and how long its delivery
  still takes. The float arithmetic is that of theory Float64, its rounding an argument.
\<close>

record OrderView =
  vOrder :: Order
  vCurrentLocation :: "Location option"
  vETASeconds :: "int option"

record DroneStatusView =
  svDrone :: Drone
  svCurrentOrder :: "OrderView option"

definition CurrentLocation :: "Order \<Rightarrow> Drone option \<Rightarrow> Location option" where
  "CurrentLocation order drone =
     (if oStatus order = OrderStatusCreated then Some (oOrigin order)
      else if oStatus order = OrderStatusReserved then
        (case oHandoffOrigin order of Some loc \<Rightarrow> Some loc | None \<Rightarrow> Some (oOrigin order))
      else if oStatus order = OrderStatusPickedUp then
        (case drone of Some d \<Rightarrow> dLastLocation d | None \<Rightarrow> None)
      else if oStatus order = OrderStatusHandoffRequested then oHandoffOrigin order
      else None)"

definition degreesToRadians :: "fpu \<Rightarrow> float64 \<Rightarrow> float64" where
  "degreesToRadians F deg = f64_div_pos F (f64_mul F deg (rnd F pi)) (Fin 180)"

definition haversineMeters :: "fpu \<Rightarrow> Location \<Rightarrow> Location \<Rightarrow> float64" where
  "haversineMeters F a b =
     (let lat1 = degreesToRadians F (Lat a);
          lat2 = degreesToRadians F (Lat b);
          dLat = degreesToRadians F (f64_sub F (Lat b) (Lat a));
          dLng = degreesToRadians F (f64_sub F (Lng b) (Lng a));
          sinLat = msin F (f64_div_pos F dLat (Fin 2));
          sinLng = msin F (f64_div_pos F dLng (Fin 2));
          h = f64_add F (f64_mul F sinLat sinLat)
                (f64_mul F (f64_mul F (f64_mul F (mcos F lat1) (mcos F lat2)) sinLng) sinLng)
      in f64_mul F (Fin 12742000) (masin F (msqrt F h)))"

definition ComputeETA :: "fpu \<Rightarrow> Order \<Rightarrow> Drone option \<Rightarrow> float64 \<Rightarrow> int option" where
  "ComputeETA F order drone speedMPS =
     (if IsTerminal (oStatus order) then None
      else if f64_le speedMPS (Fin 0) then None
      else
        let from =
          (if oStatus order = OrderStatusCreated then Some (oOrigin order)
           else if oStatus order = OrderStatusReserved then
             (case oHandoffOrigin order of Some l \<Rightarrow> Some l | None \<Rightarrow> Some (oOrigin order))
           else if oStatus order = OrderStatusPickedUp then
             (case drone of None \<Rightarrow> None | Some d \<Rightarrow> dLastLocation d)
           else if oStatus order = OrderStatusHandoffRequested then oHandoffOrigin order
           else None)
        in case from of None \<Rightarrow> None
           | Some l \<Rightarrow>
               let dist = haversineMeters F l (oDestination order);
                   seconds = int64_of F (f64_div_pos F dist speedMPS)
               in Some (if seconds < 0 then 0 else seconds))"

section \<open>When there is an estimate, and its range\<close>

lemma ComputeETA_None:
  "ComputeETA F order drone speed = None \<longleftrightarrow> CurrentLocation order drone = None \<or> f64_le speed (Fin 0)"
  by (cases "oHandoffOrigin order")
    (auto simp: ComputeETA_def CurrentLocation_def IsTerminal_def Let_def split: option.splits)

lemma ComputeETA_range:
  assumes "ComputeETA F order drone speed = Some n"
  shows "0 \<le> n \<and> n \<le> int64_max"
proof -
  have "is_int64 (int64_of F x)" for x by (rule int64_of_int64)
  then show ?thesis using assms
    by (auto simp: ComputeETA_def Let_def is_int64_def int64_max_def split: if_splits option.splits)
qed

text \<open>The distance in exact arithmetic, from coordinates in degrees.\<close>

definition haversine :: "real \<Rightarrow> real \<Rightarrow> real \<Rightarrow> real \<Rightarrow> real" where
  "haversine lat1 lng1 lat2 lng2 =
     (sin ((lat2 - lat1) * pi / 180 / 2))\<^sup>2 +
     cos (lat1 * pi / 180) * cos (lat2 * pi / 180) * (sin ((lng2 - lng1) * pi / 180 / 2))\<^sup>2"

lemma haversineMeters_exact:
  "haversineMeters exact_fpu \<lparr>Lat = Fin lat1, Lng = Fin lng1\<rparr> \<lparr>Lat = Fin lat2, Lng = Fin lng2\<rparr> =
     Fin (12742000 * arcsin (sqrt (haversine lat1 lng1 lat2 lng2)))"
  by (simp add: haversineMeters_def degreesToRadians_def f64_sub_def haversine_def Let_def
      power2_eq_square mult.assoc)

lemma haversine_range:
  assumes "\<bar>lat1\<bar> \<le> 90" and "\<bar>lat2\<bar> \<le> 90"
  shows "0 \<le> haversine lat1 lng1 lat2 lng2" and "haversine lat1 lng1 lat2 lng2 \<le> 1"
proof -
  let ?a = "lat1 * pi / 180" and ?b = "lat2 * pi / 180" and ?s = "(sin ((lng2 - lng1) * pi / 180 / 2))\<^sup>2"
  have cos: "0 \<le> cos (lat * pi / 180)" if "\<bar>lat\<bar> \<le> 90" for lat
  proof (rule cos_ge_zero)
    show "- (pi / 2) \<le> lat * pi / 180" "lat * pi / 180 \<le> pi / 2"
      using that mult_right_mono [of "-90" lat pi] mult_right_mono [of lat 90 pi] pi_ge_zero
      by (simp_all add: field_simps abs_le_iff)
  qed
  have p: "0 \<le> cos ?a * cos ?b" using cos assms by simp
  then show "0 \<le> haversine lat1 lng1 lat2 lng2" by (simp add: haversine_def)
  have "?s \<le> 1" by (simp add: abs_square_le_1)
  then have "cos ?a * cos ?b * ?s \<le> cos ?a * cos ?b" using p by (simp add: mult_left_le)
  moreover have half: "(sin ((lat2 - lat1) * pi / 180 / 2))\<^sup>2 = (1 - cos (?b - ?a)) / 2"
  proof -
    have "cos x = 1 - 2 * (sin (x / 2))\<^sup>2" for x :: real
      using cos_double_sin [of "x / 2"] by simp
    then have "cos (?b - ?a) = 1 - 2 * (sin ((?b - ?a) / 2))\<^sup>2" .
    moreover have "(lat2 - lat1) * pi / 180 / 2 = (?b - ?a) / 2" by (simp add: field_simps)
    ultimately have "cos (?b - ?a) = 1 - 2 * (sin ((lat2 - lat1) * pi / 180 / 2))\<^sup>2" by (simp only:)
    moreover have "C = 1 - 2 * S \<Longrightarrow> S = (1 - C) / 2" for S C :: real by simp
    ultimately show ?thesis by blast
  qed
  moreover have "2 * (cos ?a * cos ?b) = cos (?b - ?a) + cos (?a + ?b)"
    by (simp add: cos_add cos_diff)
  moreover have "S + P \<le> (1 + C') / 2" if "P \<le> P0" "S = (1 - C) / 2" "2 * P0 = C + C'" for S P P0 C C' :: real
    using that by simp
  ultimately have "haversine lat1 lng1 lat2 lng2 \<le> (1 + cos (?a + ?b)) / 2"
    unfolding haversine_def by blast
  also have "\<dots> \<le> 1" using cos_le_one [of "?a + ?b"] by simp
  finally show "haversine lat1 lng1 lat2 lng2 \<le> 1" .
qed

lemma arc_range:
  assumes "0 \<le> h" and "h \<le> 1"
  shows "0 \<le> arcsin (sqrt h)" and "arcsin (sqrt h) \<le> pi / 2"
proof -
  have h: "0 \<le> sqrt h" "sqrt h \<le> 1" using assms by simp_all
  then show "0 \<le> arcsin (sqrt h)" using arcsin_le_arcsin [of 0 "sqrt h"] by simp
  have "- 1 \<le> sqrt h" using h(1) by linarith
  then show "arcsin (sqrt h) \<le> pi / 2" using h(2) by (rule arcsin_ubound)
qed

lemma haversine_sym: "haversine lat1 lng1 lat2 lng2 = haversine lat2 lng2 lat1 lng1"
proof -
  have "(sin ((b - a) * pi / 180 / 2))\<^sup>2 = (sin ((a - b) * pi / 180 / 2))\<^sup>2" for a b :: real
  proof -
    have "(b - a) * pi / 180 / 2 = - ((a - b) * pi / 180 / 2)" by (simp add: field_simps)
    then show ?thesis by (metis power2_minus sin_minus)
  qed
  then show ?thesis unfolding haversine_def by (simp add: mult.commute)
qed

end
