(* ===== verification/Service.thy ===== *)
theory Service
  imports Store Eta
begin

text \<open>
  Package \<open>internal/service\<close>, file \<open>service.go\<close>: every operation of \<open>Service\<close> and its two
  shared helpers, over the store and transaction operations of theory Store. An operation
  is a program: \<open>withTx\<close> is the opening of the transaction with its deferred rollback, a
  call whose error is returned is \<open>bindM\<close> or \<open>seqM\<close>, and \<open>return nil, err\<close> is \<open>throwM\<close>.
  A pointer to a struct read from the store is the struct; assignments to its fields are
  record updates, which nobody else sees until the update statement runs.
\<close>

record Service =
  svcSpeed :: float64
  svcFPU :: fpu

definition enqueueOrderEvent :: "string \<Rightarrow> Order \<Rightarrow> Drone option \<Rightarrow> time \<Rightarrow> unit M" where
  "enqueueOrderEvent t order drone w =
     bindM newUUID (\<lambda>i. EnqueueEvent (NewOrderEvent i t order drone w))"

definition enqueueDroneEvent :: "string \<Rightarrow> Drone \<Rightarrow> time \<Rightarrow> unit M" where
  "enqueueDroneEvent t drone w =
     bindM newUUID (\<lambda>i. EnqueueEvent (NewDroneEvent i t drone w))"

text \<open>\<open>if err := tx.Commit(ctx); err != nil { return nil, err }; return x, nil\<close>\<close>

definition commitReturn :: "'a \<Rightarrow> 'a M" where
  "commitReturn x = seqM Commit (returnM x)"

definition newOrder :: "string \<Rightarrow> string \<Rightarrow> Location \<Rightarrow> Location \<Rightarrow> time \<Rightarrow> Order" where
  "newOrder i userID origin dest now =
     \<lparr>oID = i, oUserID = userID, oOrigin = origin, oDestination = dest,
      oStatus = OrderStatusCreated, oAssignedDroneID = None, oHandoffOrigin = None,
      oCreatedAt = now, oUpdatedAt = now, oReservedAt = None, oPickedUpAt = None,
      oDeliveredAt = None, oFailedAt = None, oFailureReason = None\<rparr>"

definition newDrone :: "string \<Rightarrow> time \<Rightarrow> Drone" where
  "newDrone i now =
     \<lparr>dID = i, dStatus = DroneStatusActive, dLastLocation = None, dLastHeartbeatAt = None,
      dCurrentOrderID = None, dCreatedAt = now, dUpdatedAt = now\<rparr>"

definition getOrCreateDrone :: "string \<Rightarrow> time \<Rightarrow> Drone M" where
  "getOrCreateDrone droneID now =
     bindM (attemptM (GetDroneForUpdate droneID)) (\<lambda>r. case r of
        Inr drone \<Rightarrow> returnM drone
      | Inl err \<Rightarrow>
          if \<not> errorsIs err ErrNotFound then throwM err
          else seqM (CreateDrone (newDrone droneID now)) (returnM (newDrone droneID now)))"

definition buildOrderView :: "Service \<Rightarrow> Order \<Rightarrow> OrderView M" where
  "buildOrderView S order =
     bindM
       (case oAssignedDroneID order of
          None \<Rightarrow> returnM None
        | Some i \<Rightarrow> bindM (attemptM (GetDrone i)) (\<lambda>r. case r of
              Inr drone \<Rightarrow> returnM (Some drone)
            | Inl err \<Rightarrow> if \<not> errorsIs err ErrNotFound then throwM err else returnM None))
       (\<lambda>drone. returnM
          \<lparr>vOrder = order,
           vCurrentLocation = CurrentLocation order drone,
           vETASeconds = ComputeETA (svcFPU S) order drone (svcSpeed S)\<rparr>)"

definition SubmitOrder :: "string \<Rightarrow> Location \<Rightarrow> Location \<Rightarrow> Order M" where
  "SubmitOrder userID origin dest =
     (if ValidateLocation origin \<noteq> None then throwM (Wrapped ''origin: '' ErrInvalid)
      else if ValidateLocation dest \<noteq> None then throwM (Wrapped ''destination: '' ErrInvalid)
      else withTx
        (bindM nowM (\<lambda>now.
         bindM newUUID (\<lambda>i.
         let order = newOrder i userID origin dest now in
         seqM (CreateOrder order)
        (seqM (enqueueOrderEvent EventOrderCreated order None now)
        (commitReturn order))))))"

definition WithdrawOrder :: "string \<Rightarrow> string \<Rightarrow> Order M" where
  "WithdrawOrder userID orderID = withTx
     (bindM (GetOrderForUpdate orderID) (\<lambda>order.
      if oUserID order \<noteq> userID then throwM ErrForbidden
      else if oStatus order \<noteq> OrderStatusCreated \<and> oStatus order \<noteq> OrderStatusReserved
      then throwM ErrPrecondition
      else
       seqM
        (case oAssignedDroneID order of
           None \<Rightarrow> returnM ()
         | Some i \<Rightarrow>
             if oStatus order = OrderStatusReserved then
               bindM (GetDroneForUpdate i) (\<lambda>drone.
               bindM nowM (\<lambda>now.
               UpdateDrone (drone\<lparr>dCurrentOrderID := None, dUpdatedAt := now\<rparr>)))
             else returnM ())
       (bindM nowM (\<lambda>now.
        let order' = order\<lparr>oStatus := OrderStatusWithdrawn, oAssignedDroneID := None,
                           oUpdatedAt := now\<rparr> in
        seqM (UpdateOrder order')
       (seqM (enqueueOrderEvent EventOrderWithdrawn order' None now)
       (commitReturn order'))))))"

definition GetOrderView :: "Service \<Rightarrow> string \<Rightarrow> string \<Rightarrow> string \<Rightarrow> OrderView M" where
  "GetOrderView S requesterID role orderID =
     bindM (GetOrder orderID) (\<lambda>order.
     if role \<noteq> RoleAdmin \<and> oUserID order \<noteq> requesterID then throwM ErrForbidden
     else buildOrderView S order)"

definition AdminListOrders :: "Service \<Rightarrow> OrderFilter \<Rightarrow> OrderView list M" where
  "AdminListOrders S filt =
     bindM (ListOrders filt) (\<lambda>orders.
     bindM (mapM (buildOrderView S) orders) (\<lambda>views.
     returnM (sort_key (\<lambda>v. oCreatedAt (vOrder v)) views)))"

definition AdminUpdateOrder :: "string \<Rightarrow> Location option \<Rightarrow> Location option \<Rightarrow> Order M" where
  "AdminUpdateOrder orderID origin dest = withTx
     (bindM (GetOrderForUpdate orderID) (\<lambda>order0.
      if IsTerminal (oStatus order0) then throwM ErrPrecondition
      else
       bindM
        (case origin of None \<Rightarrow> returnM order0
         | Some l \<Rightarrow> if ValidateLocation l \<noteq> None then throwM ErrInvalid
                    else returnM (order0\<lparr>oOrigin := l\<rparr>)) (\<lambda>order1.
       bindM
        (case dest of None \<Rightarrow> returnM order1
         | Some l \<Rightarrow> if ValidateLocation l \<noteq> None then throwM ErrInvalid
                    else returnM (order1\<lparr>oDestination := l\<rparr>)) (\<lambda>order2.
       bindM nowM (\<lambda>now.
       let order = order2\<lparr>oUpdatedAt := now\<rparr> in
       seqM (UpdateOrder order)
      (bindM nowM (\<lambda>now2.
       seqM (enqueueOrderEvent EventOrderUpdated order None now2)
      (commitReturn order))))))))"

definition DroneReserveJob :: "string \<Rightarrow> Order M" where
  "DroneReserveJob droneID = withTx
     (bindM nowM (\<lambda>now0.
      bindM (getOrCreateDrone droneID now0) (\<lambda>drone.
      if dStatus drone = DroneStatusBroken then throwM ErrPrecondition
      else if dCurrentOrderID drone \<noteq> None then throwM ErrConflict
      else
       bindM (ReserveNextOrder [OrderStatusCreated, OrderStatusHandoffRequested]) (\<lambda>job.
       case job of
         None \<Rightarrow> throwM ErrNoJob
       | Some order0 \<Rightarrow>
           bindM nowM (\<lambda>now.
           let order = order0\<lparr>oStatus := OrderStatusReserved,
                              oAssignedDroneID := Some (dID drone),
                              oReservedAt := Some now, oUpdatedAt := now\<rparr>;
               drone' = drone\<lparr>dCurrentOrderID := Some (oID order), dUpdatedAt := now\<rparr> in
           seqM (UpdateOrder order)
          (seqM (UpdateDrone drone')
          (seqM (enqueueOrderEvent EventOrderReserved order (Some drone') now)
          (commitReturn order))))))))"

definition updateOrderForDrone ::
  "string \<Rightarrow> string \<Rightarrow> string \<Rightarrow> (Order \<Rightarrow> Order M) \<Rightarrow> Order M" where
  "updateOrderForDrone droneID orderID eventType fn = withTx
     (bindM (GetOrderForUpdate orderID) (\<lambda>order0.
      if oAssignedDroneID order0 \<noteq> Some droneID then throwM ErrForbidden
      else
       bindM (fn order0) (\<lambda>order.
       seqM (UpdateOrder order)
      (bindM nowM (\<lambda>now.
       seqM (enqueueOrderEvent eventType order None now)
      (commitReturn order))))))"

definition pickupFn :: "Order \<Rightarrow> Order M" where
  "pickupFn order =
     (if oStatus order \<noteq> OrderStatusReserved \<and> oStatus order \<noteq> OrderStatusHandoffRequested
      then throwM ErrPrecondition
      else bindM nowM (\<lambda>now.
        returnM (order\<lparr>oStatus := OrderStatusPickedUp, oPickedUpAt := Some now,
                       oUpdatedAt := now\<rparr>)))"

definition DronePickup :: "string \<Rightarrow> string \<Rightarrow> Order M" where
  "DronePickup droneID orderID =
     updateOrderForDrone droneID orderID EventOrderPickedUp pickupFn"

definition completed :: "OrderStatus \<Rightarrow> string \<Rightarrow> time \<Rightarrow> Order \<Rightarrow> Order" where
  "completed status reason now order0 =
     (let order = order0\<lparr>oStatus := status, oUpdatedAt := now\<rparr> in
      if status = OrderStatusDelivered then order\<lparr>oDeliveredAt := Some now\<rparr>
      else (let order' = order\<lparr>oFailedAt := Some now\<rparr> in
            if reason \<noteq> '''' then order'\<lparr>oFailureReason := Some reason\<rparr> else order'))"

definition completeOrderForDrone ::
  "string \<Rightarrow> string \<Rightarrow> OrderStatus \<Rightarrow> string \<Rightarrow> Order M" where
  "completeOrderForDrone droneID orderID status reason = withTx
     (bindM (GetOrderForUpdate orderID) (\<lambda>order0.
      if oAssignedDroneID order0 \<noteq> Some droneID then throwM ErrForbidden
      else if oStatus order0 \<noteq> OrderStatusPickedUp then throwM ErrPrecondition
      else
       bindM nowM (\<lambda>now.
       let order = completed status reason now order0 in
       seqM (UpdateOrder order)
      (bindM (GetDroneForUpdate droneID) (\<lambda>drone0.
       let drone = drone0\<lparr>dCurrentOrderID := None, dUpdatedAt := now\<rparr> in
       seqM (UpdateDrone drone)
      (seqM (enqueueOrderEvent
               (if status = OrderStatusFailed then EventOrderFailed else EventOrderDelivered)
               order (Some drone) now)
      (commitReturn order)))))))"

definition DroneDeliver :: "string \<Rightarrow> string \<Rightarrow> Order M" where
  "DroneDeliver droneID orderID =
     completeOrderForDrone droneID orderID OrderStatusDelivered ''''"

definition DroneFail :: "string \<Rightarrow> string \<Rightarrow> string \<Rightarrow> Order M" where
  "DroneFail droneID orderID reason =
     (if reason = '''' then throwM ErrInvalid
      else completeOrderForDrone droneID orderID OrderStatusFailed reason)"

text \<open>
  The part of \<open>DroneMarkBroken\<close> that deals with the order the drone holds: a picked-up order
  becomes a handoff job, a reserved one goes back to the queue, any other is left alone. It
  returns the drone with its current order cleared.
\<close>

definition releaseOrder :: "Drone \<Rightarrow> string \<Rightarrow> time \<Rightarrow> Drone M" where
  "releaseOrder drone orderID now =
     bindM (GetOrderForUpdate orderID) (\<lambda>order0.
     let drone' = drone\<lparr>dCurrentOrderID := None\<rparr> in
     if oStatus order0 = OrderStatusPickedUp then
       (let order1 = order0\<lparr>oStatus := OrderStatusHandoffRequested, oAssignedDroneID := None\<rparr>;
            order2 = (case dLastLocation drone of None \<Rightarrow> order1
                      | Some loc \<Rightarrow> order1\<lparr>oHandoffOrigin := Some loc\<rparr>);
            order = order2\<lparr>oUpdatedAt := now\<rparr> in
        seqM (UpdateOrder order)
       (seqM (enqueueOrderEvent EventOrderHandoffRequested order (Some drone') now)
        (returnM drone')))
     else if oStatus order0 = OrderStatusReserved then
       (let order = order0\<lparr>oStatus := OrderStatusCreated, oAssignedDroneID := None,
                           oReservedAt := None, oHandoffOrigin := None, oUpdatedAt := now\<rparr> in
        seqM (UpdateOrder order)
       (seqM (enqueueOrderEvent EventOrderUpdated order (Some drone') now)
        (returnM drone')))
     else returnM drone')"

definition DroneMarkBroken :: "string \<Rightarrow> Drone M" where
  "DroneMarkBroken droneID = withTx
     (bindM nowM (\<lambda>now0.
      bindM (getOrCreateDrone droneID now0) (\<lambda>drone0.
      bindM nowM (\<lambda>now.
      let drone1 = drone0\<lparr>dStatus := DroneStatusBroken\<rparr> in
      bindM
       (case dCurrentOrderID drone1 of None \<Rightarrow> returnM drone1
        | Some orderID \<Rightarrow> releaseOrder drone1 orderID now) (\<lambda>drone2.
      let drone = drone2\<lparr>dUpdatedAt := now\<rparr> in
      seqM (UpdateDrone drone)
     (seqM (enqueueDroneEvent EventDroneBroken drone now)
     (commitReturn drone)))))))"

definition DroneMarkFixed :: "string \<Rightarrow> Drone M" where
  "DroneMarkFixed droneID = withTx
     (bindM nowM (\<lambda>now0.
      bindM (getOrCreateDrone droneID now0) (\<lambda>drone0.
      bindM nowM (\<lambda>now.
      let drone = drone0\<lparr>dStatus := DroneStatusActive, dUpdatedAt := now\<rparr> in
      seqM (UpdateDrone drone)
     (seqM (enqueueDroneEvent EventDroneFixed drone now)
     (commitReturn drone))))))"

text \<open>
  After its commit the heartbeat reads the current order back from the pool; a missing order
  is not an error there. The deferred rollback runs last and finds the transaction closed.
\<close>

definition DroneHeartbeat :: "Service \<Rightarrow> string \<Rightarrow> Location \<Rightarrow> DroneStatusView M" where
  "DroneHeartbeat S droneID loc =
     (if ValidateLocation loc \<noteq> None then throwM ErrInvalid
      else withTx
       (bindM nowM (\<lambda>now0.
        bindM (getOrCreateDrone droneID now0) (\<lambda>drone0.
        bindM nowM (\<lambda>now.
        let drone = drone0\<lparr>dLastLocation := Some loc, dLastHeartbeatAt := Some now,
                           dUpdatedAt := now\<rparr> in
        seqM (UpdateDrone drone)
       (seqM Commit
       (bindM
         (case dCurrentOrderID drone of
            None \<Rightarrow> returnM None
          | Some orderID \<Rightarrow>
              bindM (attemptM (GetOrder orderID)) (\<lambda>r. case r of
                 Inr order \<Rightarrow> bindM (buildOrderView S order) (\<lambda>v. returnM (Some v))
               | Inl err \<Rightarrow> if \<not> errorsIs err ErrNotFound then throwM err else returnM None))
         (\<lambda>orderView. returnM \<lparr>svDrone = drone, svCurrentOrder = orderView\<rparr>))))))))"

definition DroneCurrentOrder :: "Service \<Rightarrow> string \<Rightarrow> OrderView M" where
  "DroneCurrentOrder S droneID =
     bindM (GetDrone droneID) (\<lambda>drone.
     case dCurrentOrderID drone of
       None \<Rightarrow> throwM ErrNotFound
     | Some orderID \<Rightarrow> bindM (GetOrder orderID) (buildOrderView S))"

definition AdminListDrones :: "Drone list M" where
  "AdminListDrones = ListDrones"

definition AdminMarkDroneBroken :: "string \<Rightarrow> Drone M" where
  "AdminMarkDroneBroken droneID = DroneMarkBroken droneID"

definition AdminMarkDroneFixed :: "string \<Rightarrow> Drone M" where
  "AdminMarkDroneFixed droneID = DroneMarkFixed droneID"

end
