(* ===== verification/Transport.thy ===== *)
theory Transport
  imports Service
begin

text \<open>
  Package \<open>internal/transport\<close>, file \<open>mapper.go\<close>: the response structs and the functions that
  fill them, and the JSON values that \<open>encoding/json\<close> renders for them (HTTP and gRPC). A
  member tagged \<open>omitempty\<close> whose pointer is nil is left out. A number that is not finite
  has no rendering, and the encoder reports an error for a value that contains one.
\<close>

section \<open>Response structs\<close>

record TLocation =
  tLat :: float64
  tLng :: float64

record OrderResponse =
  rID :: string
  rUserID :: string
  rOrigin :: TLocation
  rDestination :: TLocation
  rStatus :: string
  rAssignedDroneID :: "string option"
  rHandoffOrigin :: "TLocation option"
  rCreatedAt :: time
  rUpdatedAt :: time
  rReservedAt :: "time option"
  rPickedUpAt :: "time option"
  rDeliveredAt :: "time option"
  rFailedAt :: "time option"
  rFailureReason :: "string option"

record OrderViewResponse =
  rvOrder :: OrderResponse
  rvCurrentLocation :: "TLocation option"
  rvETASeconds :: "int option"

record DroneResponse =
  rdID :: string
  rdStatus :: string
  rdLastLocation :: "TLocation option"
  rdLastHeartbeatAt :: "time option"
  rdCurrentOrderID :: "string option"
  rdCreatedAt :: time
  rdUpdatedAt :: time

record DroneStatusResponse =
  rsDrone :: DroneResponse
  rsCurrentOrder :: "OrderViewResponse option"

definition FromOrder :: "Order \<Rightarrow> OrderResponse" where
  "FromOrder order =
     (let resp =
       \<lparr>rID = oID order, rUserID = oUserID order,
        rOrigin = \<lparr>tLat = Lat (oOrigin order), tLng = Lng (oOrigin order)\<rparr>,
        rDestination = \<lparr>tLat = Lat (oDestination order), tLng = Lng (oDestination order)\<rparr>,
        rStatus = oStatus order, rAssignedDroneID = oAssignedDroneID order,
        rHandoffOrigin = None,
        rCreatedAt = oCreatedAt order, rUpdatedAt = oUpdatedAt order,
        rReservedAt = oReservedAt order, rPickedUpAt = oPickedUpAt order,
        rDeliveredAt = oDeliveredAt order, rFailedAt = oFailedAt order,
        rFailureReason = oFailureReason order\<rparr>
      in case oHandoffOrigin order of
           None \<Rightarrow> resp
         | Some l \<Rightarrow> resp\<lparr>rHandoffOrigin := Some \<lparr>tLat = Lat l, tLng = Lng l\<rparr>\<rparr>)"

definition FromOrderView :: "OrderView \<Rightarrow> OrderViewResponse" where
  "FromOrderView view =
     (let resp = \<lparr>rvOrder = FromOrder (vOrder view), rvCurrentLocation = None,
                  rvETASeconds = vETASeconds view\<rparr>
      in case vCurrentLocation view of
           None \<Rightarrow> resp
         | Some l \<Rightarrow> resp\<lparr>rvCurrentLocation := Some \<lparr>tLat = Lat l, tLng = Lng l\<rparr>\<rparr>)"

definition FromDrone :: "Drone \<Rightarrow> DroneResponse" where
  "FromDrone drone =
     (let resp =
       \<lparr>rdID = dID drone, rdStatus = dStatus drone, rdLastLocation = None,
        rdLastHeartbeatAt = dLastHeartbeatAt drone, rdCurrentOrderID = dCurrentOrderID drone,
        rdCreatedAt = dCreatedAt drone, rdUpdatedAt = dUpdatedAt drone\<rparr>
      in case dLastLocation drone of
           None \<Rightarrow> resp
         | Some l \<Rightarrow> resp\<lparr>rdLastLocation := Some \<lparr>tLat = Lat l, tLng = Lng l\<rparr>\<rparr>)"

definition FromDroneStatus :: "DroneStatusView \<Rightarrow> DroneStatusResponse" where
  "FromDroneStatus view =
     (let resp = \<lparr>rsDrone = FromDrone (svDrone view), rsCurrentOrder = None\<rparr>
      in case svCurrentOrder view of
           None \<Rightarrow> resp
         | Some v \<Rightarrow> resp\<lparr>rsCurrentOrder := Some (FromOrderView v)\<rparr>)"

section \<open>Rendering as JSON\<close>

definition omitEmpty :: "string \<Rightarrow> ('a \<Rightarrow> json) \<Rightarrow> 'a option \<Rightarrow> (string \<times> json) list" where
  "omitEmpty k f v = (case v of None \<Rightarrow> [] | Some x \<Rightarrow> [(k, f x)])"

definition locationJSON :: "TLocation \<Rightarrow> json" where
  "locationJSON l = JObject [(''lat'', JNumber (tLat l)), (''lng'', JNumber (tLng l))]"

definition orderJSON :: "OrderResponse \<Rightarrow> json" where
  "orderJSON r = JObject
     ([(''id'', JString (rID r)), (''user_id'', JString (rUserID r)),
       (''origin'', locationJSON (rOrigin r)), (''destination'', locationJSON (rDestination r)),
       (''status'', JString (rStatus r))]
      @ omitEmpty ''assigned_drone_id'' JString (rAssignedDroneID r)
      @ omitEmpty ''handoff_origin'' locationJSON (rHandoffOrigin r)
      @ [(''created_at'', JTime (rCreatedAt r)), (''updated_at'', JTime (rUpdatedAt r))]
      @ omitEmpty ''reserved_at'' JTime (rReservedAt r)
      @ omitEmpty ''picked_up_at'' JTime (rPickedUpAt r)
      @ omitEmpty ''delivered_at'' JTime (rDeliveredAt r)
      @ omitEmpty ''failed_at'' JTime (rFailedAt r)
      @ omitEmpty ''failure_reason'' JString (rFailureReason r))"

definition orderViewJSON :: "OrderViewResponse \<Rightarrow> json" where
  "orderViewJSON r = JObject
     ([(''order'', orderJSON (rvOrder r))]
      @ omitEmpty ''current_location'' locationJSON (rvCurrentLocation r)
      @ omitEmpty ''eta_seconds'' (\<lambda>n. JNumber (Fin (of_int n))) (rvETASeconds r))"

definition droneJSON :: "DroneResponse \<Rightarrow> json" where
  "droneJSON r = JObject
     ([(''id'', JString (rdID r)), (''status'', JString (rdStatus r))]
      @ omitEmpty ''last_location'' locationJSON (rdLastLocation r)
      @ omitEmpty ''last_heartbeat_at'' JTime (rdLastHeartbeatAt r)
      @ omitEmpty ''current_order_id'' JString (rdCurrentOrderID r)
      @ [(''created_at'', JTime (rdCreatedAt r)), (''updated_at'', JTime (rdUpdatedAt r))])"

definition droneStatusJSON :: "DroneStatusResponse \<Rightarrow> json" where
  "droneStatusJSON r = JObject
     ([(''drone'', droneJSON (rsDrone r))]
      @ omitEmpty ''current_order'' orderViewJSON (rsCurrentOrder r))"

text \<open>Whether the encoder renders a value.\<close>

fun finiteNumber :: "float64 \<Rightarrow> bool" where
  "finiteNumber (Fin r) = True"
| "finiteNumber _ = False"

fun encodable :: "json \<Rightarrow> bool" where
  "encodable (JNumber x) = finiteNumber x"
| "encodable (JArray js) = (\<forall>j\<in>set js. encodable j)"
| "encodable (JObject ms) = (\<forall>m\<in>set ms. encodable (snd m))"
| "encodable _ = True"

section \<open>Reading responses back\<close>

text \<open>The entity a response came from.\<close>

definition fromT :: "TLocation \<Rightarrow> Location" where
  "fromT l = \<lparr>Lat = tLat l, Lng = tLng l\<rparr>"

definition toOrder :: "OrderResponse \<Rightarrow> Order" where
  "toOrder r =
     \<lparr>oID = rID r, oUserID = rUserID r, oOrigin = fromT (rOrigin r),
      oDestination = fromT (rDestination r), oStatus = rStatus r,
      oAssignedDroneID = rAssignedDroneID r, oHandoffOrigin = map_option fromT (rHandoffOrigin r),
      oCreatedAt = rCreatedAt r, oUpdatedAt = rUpdatedAt r, oReservedAt = rReservedAt r,
      oPickedUpAt = rPickedUpAt r, oDeliveredAt = rDeliveredAt r, oFailedAt = rFailedAt r,
      oFailureReason = rFailureReason r\<rparr>"

definition toDrone :: "DroneResponse \<Rightarrow> Drone" where
  "toDrone r =
     \<lparr>dID = rdID r, dStatus = rdStatus r, dLastLocation = map_option fromT (rdLastLocation r),
      dLastHeartbeatAt = rdLastHeartbeatAt r, dCurrentOrderID = rdCurrentOrderID r,
      dCreatedAt = rdCreatedAt r, dUpdatedAt = rdUpdatedAt r\<rparr>"

lemma FromOrder_inverse: "toOrder (FromOrder order) = order"
  by (simp add: FromOrder_def toOrder_def fromT_def Let_def split: option.splits)

lemma FromDrone_inverse: "toDrone (FromDrone drone) = drone"
  by (simp add: FromDrone_def toDrone_def fromT_def Let_def split: option.splits)

definition finiteLocation :: "Location \<Rightarrow> bool" where
  "finiteLocation l \<longleftrightarrow> finiteNumber (Lat l) \<and> finiteNumber (Lng l)"

lemma encodable_omitEmpty [simp]:
  "(\<forall>m\<in>set (omitEmpty k f v). encodable (snd m)) \<longleftrightarrow> (\<forall>x. v = Some x \<longrightarrow> encodable (f x))"
  by (cases v) (simp_all add: omitEmpty_def)

lemma encodable_order:
  "encodable (orderJSON (FromOrder order)) \<longleftrightarrow>
     finiteLocation (oOrigin order) \<and> finiteLocation (oDestination order) \<and>
     (\<forall>l. oHandoffOrigin order = Some l \<longrightarrow> finiteLocation l)"
  by (cases "oHandoffOrigin order")
    (auto simp: orderJSON_def FromOrder_def locationJSON_def finiteLocation_def Let_def
      ball_Un)

end
