(* ===== verification/Strconv.thy ===== *)
theory Strconv
  imports Prelude
begin

text \<open>
  The conversions of \<open>strconv\<close> that the code uses: \<open>Atoi\<close> on a 64-bit platform and \<open>ParseBool\<close>.
  Where Go returns a value together with an error, so do these: \<open>(v, ok)\<close>. On a syntax error
  the value is 0, on a range error it is the nearest representable integer.
\<close>

definition maxInt :: int where "maxInt = 2 ^ 63 - 1"
definition minInt :: int where "minInt = - (2 ^ 63)"

definition digitVal :: "char \<Rightarrow> nat option" where
  "digitVal c = (let n = of_char c :: nat in if 48 \<le> n \<and> n \<le> 57 then Some (n - 48) else None)"

fun decimalFrom :: "nat \<Rightarrow> string \<Rightarrow> nat option" where
  "decimalFrom acc [] = Some acc"
| "decimalFrom acc (c # cs) =
     (case digitVal c of None \<Rightarrow> None | Some v \<Rightarrow> decimalFrom (10 * acc + v) cs)"

definition decimal :: "string \<Rightarrow> nat option" where
  "decimal s = (if s = [] then None else decimalFrom 0 s)"

definition clampInt :: "int \<Rightarrow> int \<times> bool" where
  "clampInt n = (if n < minInt then (minInt, False) else if maxInt < n then (maxInt, False) else (n, True))"

definition Atoi :: "string \<Rightarrow> int \<times> bool" where
  "Atoi s =
     (case s of
        [] \<Rightarrow> (0, False)
      | c # cs \<Rightarrow>
          (case decimal (if c = CHR ''-'' \<or> c = CHR ''+'' then cs else s) of
             None \<Rightarrow> (0, False)
           | Some n \<Rightarrow> clampInt (if c = CHR ''-'' then - int n else int n)))"

definition ParseBool :: "string \<Rightarrow> bool \<times> bool" where
  "ParseBool s =
     (if s \<in> {''1'', ''t'', ''T'', ''TRUE'', ''true'', ''True''} then (True, True)
      else if s \<in> {''0'', ''f'', ''F'', ''FALSE'', ''false'', ''False''} then (False, True)
      else (False, False))"

text \<open>The decimal text of a number, as \<open>strconv.Itoa\<close> writes it.\<close>

definition digitChar :: "nat \<Rightarrow> char" where
  "digitChar d = char_of (48 + d)"

fun Utoa :: "nat \<Rightarrow> string" where
  "Utoa n = (if n < 10 then [digitChar n] else Utoa (n div 10) @ [digitChar (n mod 10)])"

definition Itoa :: "int \<Rightarrow> string" where
  "Itoa n = (if n < 0 then CHR ''-'' # Utoa (nat (- n)) else Utoa (nat n))"

text \<open>
  \<open>Format(time.RFC3339)\<close> of an instant in UTC, given in nanoseconds since the Unix epoch: the
  date in the proleptic Gregorian calendar (counted in eras of 400 years from March 1st of
  year 0) and the time of day, without the fraction of the second.
\<close>

definition civil :: "int \<Rightarrow> int \<times> int \<times> int" where
  "civil day =
     (let z = day + 719468;
          era = z div 146097;
          doe = z mod 146097;
          yoe = (doe - doe div 1460 + doe div 36524 - doe div 146096) div 365;
          doy = doe - (365 * yoe + yoe div 4 - yoe div 100);
          mp = (5 * doy + 2) div 153;
          d = doy - (153 * mp + 2) div 5 + 1;
          m = (if mp < 10 then mp + 3 else mp - 9)
      in (yoe + era * 400 + (if m \<le> 2 then 1 else 0), m, d))"

definition padded :: "nat \<Rightarrow> int \<Rightarrow> string" where
  "padded width n =
     (let ds = Utoa (nat \<bar>n\<bar>); zs = replicate (width - length ds) (CHR ''0'') @ ds
      in if n < 0 then CHR ''-'' # zs else zs)"

definition formatRFC3339 :: "int \<Rightarrow> string" where
  "formatRFC3339 t =
     (let secs = t div 1000000000; (y, m, d) = civil (secs div 86400); r = secs mod 86400
      in padded 4 y @ ''-'' @ padded 2 m @ ''-'' @ padded 2 d @ ''T'' @
         padded 2 (r div 3600) @ '':'' @ padded 2 (r div 60 mod 60) @ '':'' @
         padded 2 (r mod 60) @ ''Z'')"

declare Utoa.simps [simp del]

lemma digitVal_digitChar [simp]: "d < 10 \<Longrightarrow> digitVal (digitChar d) = Some d"
  by (simp add: digitVal_def digitChar_def Let_def)

lemma decimalFrom_append:
  "decimalFrom acc (xs @ ys) = (case decimalFrom acc xs of None \<Rightarrow> None | Some a \<Rightarrow> decimalFrom a ys)"
  by (induction xs arbitrary: acc) (simp_all split: option.splits)

lemma decimalFrom_Utoa: "decimalFrom 0 (Utoa n) = Some n"
proof (induction n rule: Utoa.induct)
  case (1 n)
  show ?case
  proof (cases "n < 10")
    case True
    then show ?thesis by (simp add: Utoa.simps [of n])
  next
    case False
    with 1 show ?thesis by (simp add: Utoa.simps [of n] decimalFrom_append)
  qed
qed

lemma Utoa_hd:
  obtains d cs where "Utoa n = digitChar d # cs" "d < 10"
proof (induction n rule: Utoa.induct)
  case (1 n)
  show ?case
  proof (cases "n < 10")
    case True
    then show ?thesis using 1(2) by (simp add: Utoa.simps [of n])
  next
    case False
    with 1 show ?thesis by (metis Utoa.simps append_Cons)
  qed
qed

lemma digitChar_not_sign:
  assumes "d < 10"
  shows "digitChar d \<noteq> CHR ''-''" and "digitChar d \<noteq> CHR ''+''"
proof -
  have v: "of_char (digitChar d) = 48 + d" using assms by (simp add: digitChar_def)
  show "digitChar d \<noteq> CHR ''-''"
  proof
    assume "digitChar d = CHR ''-''"
    then have "of_char (digitChar d) = (45 :: nat)" by simp
    with v show False by simp
  qed
  show "digitChar d \<noteq> CHR ''+''"
  proof
    assume "digitChar d = CHR ''+''"
    then have "of_char (digitChar d) = (43 :: nat)" by simp
    with v show False by simp
  qed
qed

lemma Atoi_Itoa:
  assumes "minInt \<le> n" and "n \<le> maxInt"
  shows "Atoi (Itoa n) = (n, True)"
proof (cases "n < 0")
  case True
  obtain d cs where u: "Utoa (nat (- n)) = digitChar d # cs" by (rule Utoa_hd)
  have "decimalFrom 0 (digitChar d # cs) = Some (nat (- n))"
    using decimalFrom_Utoa [of "nat (- n)"] unfolding u .
  then have "decimal (digitChar d # cs) = Some (nat (- n))" by (simp add: decimal_def)
  with True assms show ?thesis by (simp add: Atoi_def Itoa_def u clampInt_def)
next
  case False
  obtain d cs where u: "Utoa (nat n) = digitChar d # cs" and d: "d < 10" by (rule Utoa_hd)
  have "decimalFrom 0 (digitChar d # cs) = Some (nat n)"
    using decimalFrom_Utoa [of "nat n"] unfolding u .
  then have "decimal (digitChar d # cs) = Some (nat n)" by (simp add: decimal_def)
  with False assms digitChar_not_sign [OF d] show ?thesis
    by (simp add: Atoi_def Itoa_def u clampInt_def)
qed

lemma Utoa_step:
  "n < 10 \<Longrightarrow> Utoa n = [digitChar n]"
  "10 \<le> n \<Longrightarrow> Utoa n = Utoa (n div 10) @ [digitChar (n mod 10)]"
  by (simp_all add: Utoa.simps [of n])

text \<open>The calendar computation on a known date.\<close>

lemma format_example: "formatRFC3339 1700000000000000000 = ''2023-11-14T22:13:20Z''"
  by code_simp

end
