(* ===== verification/Lifecycle.thy ===== *)
theory Lifecycle
  imports Service
begin

text \<open>
  The invariant of the stored orders and drones, and that every operation of the service
  keeps it: locally, each order and each drone is well formed for its status; between the
  two tables, an order is reserved or picked up by a drone exactly when that drone has it
  as its current order.
\<close>

section \<open>The invariant\<close>

text \<open>The order is in the hands of a drone.\<close>

definition held :: "OrderStatus \<Rightarrow> bool" where
  "held status \<longleftrightarrow> status = OrderStatusReserved \<or> status = OrderStatusPickedUp"

text \<open>The order waits for a drone.\<close>

definition waiting :: "OrderStatus \<Rightarrow> bool" where
  "waiting status \<longleftrightarrow> status = OrderStatusCreated \<or> status = OrderStatusHandoffRequested"

definition order_local :: "Order \<Rightarrow> bool" where
  "order_local ord \<longleftrightarrow>
     (held (oStatus ord) \<or> waiting (oStatus ord) \<or> IsTerminal (oStatus ord)) \<and>
     ValidateLocation (oOrigin ord) = None \<and> ValidateLocation (oDestination ord) = None \<and>
     (\<forall>l. oHandoffOrigin ord = Some l \<longrightarrow> ValidateLocation l = None) \<and>
     (waiting (oStatus ord) \<or> oStatus ord = OrderStatusWithdrawn \<longrightarrow> oAssignedDroneID ord = None) \<and>
     (oStatus ord = OrderStatusCreated \<longrightarrow> oReservedAt ord = None \<and> oHandoffOrigin ord = None) \<and>
     (held (oStatus ord) \<longrightarrow> oReservedAt ord \<noteq> None) \<and>
     (oStatus ord \<in> {OrderStatusPickedUp, OrderStatusHandoffRequested, OrderStatusDelivered,
        OrderStatusFailed} \<longrightarrow> oPickedUpAt ord \<noteq> None) \<and>
     (oDeliveredAt ord \<noteq> None \<longleftrightarrow> oStatus ord = OrderStatusDelivered) \<and>
     (oFailedAt ord \<noteq> None \<longleftrightarrow> oStatus ord = OrderStatusFailed) \<and>
     (oFailureReason ord \<noteq> None \<longleftrightarrow> oStatus ord = OrderStatusFailed)"

definition drone_local :: "Drone \<Rightarrow> bool" where
  "drone_local dr \<longleftrightarrow>
     (dStatus dr = DroneStatusActive \<or> dStatus dr = DroneStatusBroken) \<and>
     (dStatus dr = DroneStatusBroken \<longrightarrow> dCurrentOrderID dr = None) \<and>
     (\<forall>l. dLastLocation dr = Some l \<longrightarrow> ValidateLocation l = None)"

definition linked :: "(string \<rightharpoonup> Order) \<Rightarrow> (string \<rightharpoonup> Drone) \<Rightarrow> bool" where
  "linked Os Ds \<longleftrightarrow>
     (\<forall>u ord. Os u = Some ord \<and> held (oStatus ord) \<longrightarrow>
        (\<exists>i dr. oAssignedDroneID ord = Some i \<and> Ds i = Some dr \<and> dCurrentOrderID dr = Some u)) \<and>
     (\<forall>i dr u. Ds i = Some dr \<and> dCurrentOrderID dr = Some u \<longrightarrow>
        (\<exists>ord. Os u = Some ord \<and> held (oStatus ord) \<and> oAssignedDroneID ord = Some i))"

definition consistent :: "(string \<rightharpoonup> Order) \<Rightarrow> (string \<rightharpoonup> Drone) \<Rightarrow> bool" where
  "consistent Os Ds \<longleftrightarrow>
     (\<forall>u ord. Os u = Some ord \<longrightarrow> order_local ord) \<and>
     (\<forall>i dr. Ds i = Some dr \<longrightarrow> drone_local dr) \<and> linked Os Ds"

definition db_inv :: "env \<Rightarrow> db \<Rightarrow> bool" where
  "db_inv E d \<longleftrightarrow> keys_ok d \<and> canonical E d \<and> consistent (ordersOf d) (dronesOf d)"

lemma held_simps [simp]:
  "held OrderStatusReserved" "held OrderStatusPickedUp" "\<not> held OrderStatusCreated"
  "\<not> held OrderStatusHandoffRequested" "\<not> held OrderStatusDelivered"
  "\<not> held OrderStatusFailed" "\<not> held OrderStatusWithdrawn"
  by (simp_all add: held_def)

lemma waiting_simps [simp]:
  "waiting OrderStatusCreated" "waiting OrderStatusHandoffRequested"
  "\<not> waiting OrderStatusReserved" "\<not> waiting OrderStatusPickedUp"
  "\<not> waiting OrderStatusDelivered" "\<not> waiting OrderStatusFailed"
  "\<not> waiting OrderStatusWithdrawn"
  by (simp_all add: waiting_def)

lemma IsTerminal_simps [simp]:
  "IsTerminal OrderStatusDelivered" "IsTerminal OrderStatusFailed"
  "IsTerminal OrderStatusWithdrawn" "\<not> IsTerminal OrderStatusCreated"
  "\<not> IsTerminal OrderStatusReserved" "\<not> IsTerminal OrderStatusPickedUp"
  "\<not> IsTerminal OrderStatusHandoffRequested"
  by (simp_all add: IsTerminal_def)

lemma status_cases:
  assumes "held x \<or> waiting x \<or> IsTerminal x"
  obtains "x = OrderStatusCreated" | "x = OrderStatusReserved" | "x = OrderStatusPickedUp"
    | "x = OrderStatusHandoffRequested" | "x = OrderStatusDelivered" | "x = OrderStatusFailed"
    | "x = OrderStatusWithdrawn"
  using assms by (auto simp: held_def waiting_def IsTerminal_def)

lemma storedOrder_sel [simp]:
  "oID (storedOrder E ord) = oID ord" "oUserID (storedOrder E ord) = oUserID ord"
  "oStatus (storedOrder E ord) = oStatus ord"
  "oAssignedDroneID (storedOrder E ord) = oAssignedDroneID ord"
  "oOrigin (storedOrder E ord) = oOrigin ord" "oDestination (storedOrder E ord) = oDestination ord"
  "oHandoffOrigin (storedOrder E ord) = oHandoffOrigin ord"
  "oFailureReason (storedOrder E ord) = oFailureReason ord"
  "oReservedAt (storedOrder E ord) = map_option (dbTime E) (oReservedAt ord)"
  "oPickedUpAt (storedOrder E ord) = map_option (dbTime E) (oPickedUpAt ord)"
  "oDeliveredAt (storedOrder E ord) = map_option (dbTime E) (oDeliveredAt ord)"
  "oFailedAt (storedOrder E ord) = map_option (dbTime E) (oFailedAt ord)"
  by (simp_all add: storedOrder_def)

lemma storedDrone_sel [simp]:
  "dID (storedDrone E dr) = dID dr" "dStatus (storedDrone E dr) = dStatus dr"
  "dLastLocation (storedDrone E dr) = dLastLocation dr"
  "dCurrentOrderID (storedDrone E dr) = dCurrentOrderID dr"
  by (simp_all add: storedDrone_def)

lemma order_local_stored [simp]:
  "order_local ((storedOrder E ord)\<lparr>oID := u, oCreatedAt := t\<rparr>) = order_local ord"
  "order_local ((storedOrder E ord)\<lparr>oID := u\<rparr>) = order_local ord"
  by (simp_all add: order_local_def)

lemma drone_local_stored [simp]:
  "dCurrentOrderID dr = c \<Longrightarrow>
     drone_local ((storedDrone E dr)\<lparr>dCurrentOrderID := c, dCreatedAt := t\<rparr>) = drone_local dr"
  "dCurrentOrderID dr = c \<Longrightarrow>
     drone_local ((storedDrone E dr)\<lparr>dCurrentOrderID := c\<rparr>) = drone_local dr"
  by (simp_all add: drone_local_def)

section \<open>Transitions of the two tables\<close>

lemma linkedI:
  assumes "\<And>u ord. Os u = Some ord \<Longrightarrow> held (oStatus ord) \<Longrightarrow>
      \<exists>i dr. oAssignedDroneID ord = Some i \<and> Ds i = Some dr \<and> dCurrentOrderID dr = Some u"
    and "\<And>i dr u. Ds i = Some dr \<Longrightarrow> dCurrentOrderID dr = Some u \<Longrightarrow>
      \<exists>ord. Os u = Some ord \<and> held (oStatus ord) \<and> oAssignedDroneID ord = Some i"
  shows "linked Os Ds"
  unfolding linked_def using assms by blast

lemma linked_holder:
  assumes "linked Os Ds" and "Os u = Some ord" and "held (oStatus ord)"
  obtains i dr where "oAssignedDroneID ord = Some i" "Ds i = Some dr" "dCurrentOrderID dr = Some u"
  using assms unfolding linked_def by blast

lemma linked_job:
  assumes "linked Os Ds" and "Ds i = Some dr" and "dCurrentOrderID dr = Some u"
  obtains ord where "Os u = Some ord" "held (oStatus ord)" "oAssignedDroneID ord = Some i"
  using assms unfolding linked_def by blast

lemma consistentI:
  assumes "\<And>u ord. Os u = Some ord \<Longrightarrow> order_local ord"
    and "\<And>i dr. Ds i = Some dr \<Longrightarrow> drone_local dr" and "linked Os Ds"
  shows "consistent Os Ds"
  unfolding consistent_def using assms by blast

lemma consistentD:
  assumes "consistent Os Ds"
  shows "Os u = Some ord \<Longrightarrow> order_local ord" and "Ds i = Some dr \<Longrightarrow> drone_local dr"
    and "linked Os Ds"
  using assms unfolding consistent_def by blast+

lemma drone_local_idle [simp]:
  "drone_local \<lparr>dID = i, dStatus = DroneStatusActive, dLastLocation = None,
     dLastHeartbeatAt = None, dCurrentOrderID = None, dCreatedAt = t, dUpdatedAt = t'\<rparr>"
  by (simp add: drone_local_def)

lemma consistent_empty: "consistent Map.empty Map.empty"
  by (simp add: consistent_def linked_def)

lemma consistent_new_order:
  assumes c: "consistent Os Ds" and new: "Os u = None" and loc: "order_local ord"
    and st: "oStatus ord = OrderStatusCreated"
  shows "consistent (Os(u \<mapsto> ord)) Ds"
proof (rule consistentI)
  have l: "linked Os Ds" using c by (rule consistentD)
  show "linked (Os(u \<mapsto> ord)) Ds"
  proof (rule linkedI)
    fix v ord' assume "(Os(u \<mapsto> ord)) v = Some ord'" and "held (oStatus ord')"
    with st have "Os v = Some ord'" by (auto split: if_splits)
    with l \<open>held (oStatus ord')\<close>
    show "\<exists>i dr. oAssignedDroneID ord' = Some i \<and> Ds i = Some dr \<and> dCurrentOrderID dr = Some v"
      by (meson linked_holder)
  next
    fix i dr v assume "Ds i = Some dr" "dCurrentOrderID dr = Some v"
    with l obtain ord' where "Os v = Some ord'" "held (oStatus ord')" "oAssignedDroneID ord' = Some i"
      by (rule linked_job)
    with new show "\<exists>ord'. (Os(u \<mapsto> ord)) v = Some ord' \<and> held (oStatus ord') \<and>
        oAssignedDroneID ord' = Some i"
      by auto
  qed
qed (use c loc in \<open>auto dest: consistentD split: if_splits\<close>)

lemma consistent_new_drone:
  assumes c: "consistent Os Ds" and new: "Ds i = None" and loc: "drone_local dr"
    and idle: "dCurrentOrderID dr = None"
  shows "consistent Os (Ds(i \<mapsto> dr))"
proof (rule consistentI)
  have l: "linked Os Ds" using c by (rule consistentD)
  show "linked Os (Ds(i \<mapsto> dr))"
  proof (rule linkedI)
    fix v ord assume "Os v = Some ord" and "held (oStatus ord)"
    with l obtain j dj where "oAssignedDroneID ord = Some j" "Ds j = Some dj" "dCurrentOrderID dj = Some v"
      by (rule linked_holder)
    with new show "\<exists>j dj. oAssignedDroneID ord = Some j \<and> (Ds(i \<mapsto> dr)) j = Some dj \<and>
        dCurrentOrderID dj = Some v"
      by auto
  next
    fix j dj v assume "(Ds(i \<mapsto> dr)) j = Some dj" "dCurrentOrderID dj = Some v"
    with idle have "Ds j = Some dj" by (auto split: if_splits)
    with l \<open>dCurrentOrderID dj = Some v\<close>
    show "\<exists>ord. Os v = Some ord \<and> held (oStatus ord) \<and> oAssignedDroneID ord = Some j"
      by (meson linked_job)
  qed
qed (use c loc in \<open>auto dest: consistentD split: if_splits\<close>)

text \<open>An order changes but stays with whoever has it.\<close>

lemma consistent_same_holder:
  assumes c: "consistent Os Ds" and old: "Os u = Some old" and loc: "order_local ord"
    and held: "held (oStatus ord) = held (oStatus old)"
    and asg: "oAssignedDroneID ord = oAssignedDroneID old"
  shows "consistent (Os(u \<mapsto> ord)) Ds"
proof (rule consistentI)
  have l: "linked Os Ds" using c by (rule consistentD)
  show "linked (Os(u \<mapsto> ord)) Ds"
  proof (rule linkedI)
    fix v ord' assume a: "(Os(u \<mapsto> ord)) v = Some ord'" "held (oStatus ord')"
    then obtain ord0 where "Os v = Some ord0" "held (oStatus ord0)"
        "oAssignedDroneID ord' = oAssignedDroneID ord0"
      using old held asg by (auto split: if_splits)
    with l show "\<exists>i dr. oAssignedDroneID ord' = Some i \<and> Ds i = Some dr \<and> dCurrentOrderID dr = Some v"
      by (metis linked_holder)
  next
    fix i dr v assume "Ds i = Some dr" "dCurrentOrderID dr = Some v"
    with l obtain ord' where "Os v = Some ord'" "held (oStatus ord')" "oAssignedDroneID ord' = Some i"
      by (rule linked_job)
    with old held asg show "\<exists>ord'. (Os(u \<mapsto> ord)) v = Some ord' \<and> held (oStatus ord') \<and>
        oAssignedDroneID ord' = Some i"
      by auto
  qed
qed (use c loc in \<open>auto dest: consistentD split: if_splits\<close>)

text \<open>A drone changes but keeps its current order.\<close>

lemma consistent_same_job:
  assumes c: "consistent Os Ds" and old: "Ds i = Some old" and loc: "drone_local dr"
    and job: "dCurrentOrderID dr = dCurrentOrderID old"
  shows "consistent Os (Ds(i \<mapsto> dr))"
proof (rule consistentI)
  have l: "linked Os Ds" using c by (rule consistentD)
  show "linked Os (Ds(i \<mapsto> dr))"
  proof (rule linkedI)
    fix v ord assume "Os v = Some ord" and "held (oStatus ord)"
    with l obtain j dj where "oAssignedDroneID ord = Some j" "Ds j = Some dj" "dCurrentOrderID dj = Some v"
      by (rule linked_holder)
    with old job show "\<exists>j dj. oAssignedDroneID ord = Some j \<and> (Ds(i \<mapsto> dr)) j = Some dj \<and>
        dCurrentOrderID dj = Some v"
      by auto
  next
    fix j dj v assume "(Ds(i \<mapsto> dr)) j = Some dj" "dCurrentOrderID dj = Some v"
    then obtain d0 where "Ds j = Some d0" "dCurrentOrderID d0 = Some v"
      using old job by (auto split: if_splits)
    with l show "\<exists>ord. Os v = Some ord \<and> held (oStatus ord) \<and> oAssignedDroneID ord = Some j"
      by (meson linked_job)
  qed
qed (use c loc in \<open>auto dest: consistentD split: if_splits\<close>)

text \<open>An idle drone takes an order nobody holds.\<close>

lemma consistent_assign:
  assumes c: "consistent Os Ds" and old: "Os u = Some old" "\<not> held (oStatus old)"
    and dold: "Ds i = Some dold" "dCurrentOrderID dold = None"
    and ord: "order_local ord" "held (oStatus ord)" "oAssignedDroneID ord = Some i"
    and dr: "drone_local dr" "dCurrentOrderID dr = Some u"
  shows "consistent (Os(u \<mapsto> ord)) (Ds(i \<mapsto> dr))"
proof (rule consistentI)
  have l: "linked Os Ds" using c by (rule consistentD)
  show "linked (Os(u \<mapsto> ord)) (Ds(i \<mapsto> dr))"
  proof (rule linkedI)
    fix v ord' assume a: "(Os(u \<mapsto> ord)) v = Some ord'" "held (oStatus ord')"
    show "\<exists>j dj. oAssignedDroneID ord' = Some j \<and> (Ds(i \<mapsto> dr)) j = Some dj \<and>
        dCurrentOrderID dj = Some v"
    proof (cases "v = u")
      case True
      with a ord dr show ?thesis by auto
    next
      case False
      with a have "Os v = Some ord'" by simp
      from l this a(2) obtain j dj where "oAssignedDroneID ord' = Some j" "Ds j = Some dj"
          "dCurrentOrderID dj = Some v"
        by (rule linked_holder)
      with dold show ?thesis by auto
    qed
  next
    fix j dj v assume a: "(Ds(i \<mapsto> dr)) j = Some dj" "dCurrentOrderID dj = Some v"
    show "\<exists>ord'. (Os(u \<mapsto> ord)) v = Some ord' \<and> held (oStatus ord') \<and> oAssignedDroneID ord' = Some j"
    proof (cases "j = i")
      case True
      with a ord dr show ?thesis by auto
    next
      case False
      with a have "Ds j = Some dj" by simp
      from l this a(2) obtain ord' where "Os v = Some ord'" "held (oStatus ord')"
          "oAssignedDroneID ord' = Some j"
        by (rule linked_job)
      with old show ?thesis by auto
    qed
  qed
qed (use c ord dr in \<open>auto dest: consistentD split: if_splits\<close>)

text \<open>A drone gives up the order it holds.\<close>

lemma consistent_release:
  assumes c: "consistent Os Ds" and dold: "Ds i = Some dold" "dCurrentOrderID dold = Some u"
    and ord: "order_local ord" "\<not> held (oStatus ord)"
    and dr: "drone_local dr" "dCurrentOrderID dr = None"
  shows "consistent (Os(u \<mapsto> ord)) (Ds(i \<mapsto> dr))"
proof (rule consistentI)
  have l: "linked Os Ds" using c by (rule consistentD)
  obtain old where old: "Os u = Some old" "held (oStatus old)" "oAssignedDroneID old = Some i"
    using l dold by (rule linked_job)
  show "linked (Os(u \<mapsto> ord)) (Ds(i \<mapsto> dr))"
  proof (rule linkedI)
    fix v ord' assume a: "(Os(u \<mapsto> ord)) v = Some ord'" "held (oStatus ord')"
    with ord have v: "v \<noteq> u" "Os v = Some ord'" by (auto split: if_splits)
    from l v(2) a(2) obtain j dj where "oAssignedDroneID ord' = Some j" "Ds j = Some dj"
        "dCurrentOrderID dj = Some v"
      by (rule linked_holder)
    with v(1) dold show "\<exists>j dj. oAssignedDroneID ord' = Some j \<and> (Ds(i \<mapsto> dr)) j = Some dj \<and>
        dCurrentOrderID dj = Some v"
      by auto
  next
    fix j dj v assume a: "(Ds(i \<mapsto> dr)) j = Some dj" "dCurrentOrderID dj = Some v"
    with dr have j: "j \<noteq> i" "Ds j = Some dj" by (auto split: if_splits)
    from l j(2) a(2) obtain ord' where "Os v = Some ord'" "held (oStatus ord')"
        "oAssignedDroneID ord' = Some j"
      by (rule linked_job)
    with j(1) old show "\<exists>ord'. (Os(u \<mapsto> ord)) v = Some ord' \<and> held (oStatus ord') \<and>
        oAssignedDroneID ord' = Some j"
      by auto
  qed
qed (use c ord dr in \<open>auto dest: consistentD split: if_splits\<close>)

section \<open>The statements keep the invariant of the database\<close>

lemma canonical_frames [simp]:
  "uuidText E u = Some u \<Longrightarrow> canonical E (insEvent E' u ev d) = canonical E d"
  "canonical E (updDrone E' c dr d) = canonical E d"
  "canonical E (insDrone E' c dr d) = canonical E d"
  by (simp_all add: canonical_def)

lemma canonical_updOrder [simp]: "canonical E (updOrder E' u ord d) = canonical E d"
  by (auto simp: canonical_def ordersOf_updOrder)

lemma canonical_insOrder:
  "canonical E d \<Longrightarrow> ordersOf d u = None \<Longrightarrow> uuidText E u = Some u \<Longrightarrow>
   canonical E (insOrder E' u ord d)"
  by (simp add: canonical_def ordersOf_insOrder)

text \<open>Statements on different tables commute; the events come last.\<close>

lemma statements_commute [simp]:
  "updOrder E u ord (updDrone E' c dr d) = updDrone E' c dr (updOrder E u ord d)"
  "updOrder E u ord (insEvent E' v ev d) = insEvent E' v ev (updOrder E u ord d)"
  "updDrone E c dr (insEvent E' v ev d) = insEvent E' v ev (updDrone E c dr d)"
  by (simp_all add: updOrder_def updDrone_def insEvent_def)

lemma db_inv_emptyDB: "db_inv E emptyDB"
  by (simp add: db_inv_def keys_ok_def canonical_def emptyDB_def ordersOf_def dronesOf_def
      consistent_def linked_def)

lemma db_inv_insEvent [simp]:
  "db_inv E d \<Longrightarrow> uuidText E v = Some v \<Longrightarrow> v \<notin> ob_id ` set (outbox_events d) \<Longrightarrow>
   db_inv E (insEvent E' v ev d)"
  by (simp add: db_inv_def keys_ok_inserts)

lemma db_inv_insOrder:
  assumes "db_inv E d" and "ordersOf d u = None" and "uuidText E u = Some u"
    and "order_local ord" and "oStatus ord = OrderStatusCreated"
  shows "db_inv E (insOrder E' u ord d)"
  using assms
  by (simp add: db_inv_def keys_ok_inserts canonical_insOrder ordersOf_insOrder
      consistent_new_order)

lemma db_inv_insDrone:
  assumes "db_inv E d" and "dronesOf d (dID dr) = None"
    and "drone_local dr" and "dCurrentOrderID dr = None"
  shows "db_inv E (insDrone E' None dr d)"
  using assms
  by (simp add: db_inv_def keys_ok_inserts dronesOf_insDrone consistent_new_drone)

lemma ordersOf_updOrder_Some:
  "ordersOf d u = Some old \<Longrightarrow>
   ordersOf (updOrder E u ord d) =
     (ordersOf d)(u \<mapsto> (storedOrder E ord)\<lparr>oID := u, oCreatedAt := oCreatedAt old\<rparr>)"
  by (rule ext) (simp add: ordersOf_updOrder)

lemma dronesOf_updDrone_Some:
  "dronesOf d (dID dr) = Some old \<Longrightarrow>
   dronesOf (updDrone E c dr d) =
     (dronesOf d)(dID dr \<mapsto> (storedDrone E dr)\<lparr>dCurrentOrderID := c, dCreatedAt := dCreatedAt old\<rparr>)"
  by (rule ext) (simp add: dronesOf_updDrone)

lemma db_inv_updOrder:
  assumes "db_inv E d" and "ordersOf d u = Some old" and "order_local ord"
    and "held (oStatus ord) = held (oStatus old)"
    and "oAssignedDroneID ord = oAssignedDroneID old"
  shows "db_inv E (updOrder E' u ord d)"
  using assms
  by (simp add: db_inv_def ordersOf_updOrder_Some consistent_same_holder)

lemma db_inv_updDrone:
  assumes "db_inv E d" and "dronesOf d (dID dr) = Some old" and "drone_local dr"
    and "dCurrentOrderID dr = dCurrentOrderID old" and "c = dCurrentOrderID old"
  shows "db_inv E (updDrone E' c dr d)"
  using assms
  by (simp add: db_inv_def dronesOf_updDrone_Some consistent_same_job)

lemma db_inv_assign:
  assumes "db_inv E d" and "ordersOf d u = Some old" and "\<not> held (oStatus old)"
    and "dronesOf d (dID dr) = Some dold" and "dCurrentOrderID dold = None"
    and "order_local ord" and "held (oStatus ord)" and "oAssignedDroneID ord = Some (dID dr)"
    and "drone_local dr" and "dCurrentOrderID dr = Some u"
  shows "db_inv E (updDrone E' (Some u) dr (updOrder E' u ord d))"
  using assms
  by (simp add: db_inv_def ordersOf_updOrder_Some dronesOf_updDrone_Some consistent_assign)

lemma db_inv_release:
  assumes inv: "db_inv E d"
    and dold: "dronesOf d (dID dr) = Some dold" "dCurrentOrderID dold = Some u"
    and ord: "order_local ord" "\<not> held (oStatus ord)"
    and dr: "drone_local dr" "dCurrentOrderID dr = None"
  shows "db_inv E (updDrone E' None dr (updOrder E' u ord d))"
proof -
  have c: "consistent (ordersOf d) (dronesOf d)" using inv by (simp add: db_inv_def)
  then obtain old where "ordersOf d u = Some old"
    using dold by (metis consistentD(3) linked_job)
  then show ?thesis using inv dold ord dr
    by (simp add: db_inv_def ordersOf_updOrder_Some dronesOf_updDrone_Some consistent_release)
qed

text \<open>What the invariant says of an order and of a drone that were read.\<close>

lemma db_inv_order: "db_inv E d \<Longrightarrow> ordersOf d u = Some ord \<Longrightarrow> order_local ord"
  by (auto simp: db_inv_def dest: consistentD)

lemma db_inv_drone: "db_inv E d \<Longrightarrow> dronesOf d i = Some dr \<Longrightarrow> drone_local dr"
  by (auto simp: db_inv_def dest: consistentD)

lemma db_inv_holder:
  assumes "db_inv E d" and "ordersOf d u = Some ord" and "held (oStatus ord)"
  obtains i dr where "oAssignedDroneID ord = Some i" "dronesOf d i = Some dr"
    "dCurrentOrderID dr = Some u"
  using assms by (metis db_inv_def consistentD(3) linked_holder)

lemma db_inv_job:
  assumes "db_inv E d" and "dronesOf d i = Some dr" and "dCurrentOrderID dr = Some u"
  obtains ord where "ordersOf d u = Some ord" "held (oStatus ord)" "oAssignedDroneID ord = Some i"
  using assms by (metis db_inv_def consistentD(3) linked_job)

lemma db_inv_canonical:
  "db_inv E d \<Longrightarrow> ordersOf d u = Some ord \<Longrightarrow> uuidText E u = Some u"
  by (auto simp: db_inv_def canonical_def)

end
