(* ===== verification/Steps.thy ===== *)
theory Steps
  imports Lifecycle
begin

text \<open>
  What a service operation can do to the committed database, as a labelled step relation:
  one rule per operation and branch, with the guards of the code as premises and the
  statements of the transaction as the new database. Theory Refine shows that the
  operations do nothing else.

  A label names the operation, who asked for it and the entity it returned.
\<close>

datatype action =
    ASubmit Order
  | AWithdraw string Order
  | AUpdate Order
  | AReserve string Order
  | APickup string Order
  | AComplete string Order
  | ABreak Drone
  | AFix Drone
  | ABeat Drone

text \<open>The drone \<open>getOrCreateDrone\<close> returns, and the tables after it.\<close>

definition ensured :: "db \<Rightarrow> string \<Rightarrow> time \<Rightarrow> Drone" where
  "ensured d i t = (case dronesOf d i of None \<Rightarrow> newDrone i t | Some dr \<Rightarrow> dr)"

definition ensureDrone :: "env \<Rightarrow> string \<Rightarrow> time \<Rightarrow> db \<Rightarrow> db" where
  "ensureDrone E i t d = (case dronesOf d i of None \<Rightarrow> insDrone E None (newDrone i t) d | Some _ \<Rightarrow> d)"

definition fresh_event :: "env \<Rightarrow> db \<Rightarrow> string \<Rightarrow> bool" where
  "fresh_event E d v \<longleftrightarrow> uuidText E v = Some v \<and> v \<notin> ob_id ` set (outbox_events d)"

definition handedOff :: "Drone \<Rightarrow> time \<Rightarrow> Order \<Rightarrow> Order" where
  "handedOff dr now ord0 =
     (let ord = ord0\<lparr>oStatus := OrderStatusHandoffRequested, oAssignedDroneID := None\<rparr>
      in (case dLastLocation dr of None \<Rightarrow> ord | Some l \<Rightarrow> ord\<lparr>oHandoffOrigin := Some l\<rparr>)
           \<lparr>oUpdatedAt := now\<rparr>)"

definition requeued :: "time \<Rightarrow> Order \<Rightarrow> Order" where
  "requeued now ord0 = ord0\<lparr>oStatus := OrderStatusCreated, oAssignedDroneID := None,
     oReservedAt := None, oHandoffOrigin := None, oUpdatedAt := now\<rparr>"

inductive svc_step :: "env \<Rightarrow> db \<Rightarrow> action \<Rightarrow> db \<Rightarrow> bool" for E :: env and d :: db where
  submit: "\<lbrakk>uuidText E i = Some i; ordersOf d i = None; fresh_event E d v;
      ValidateLocation origin = None; ValidateLocation dest = None;
      ord = newOrder i userID origin dest now\<rbrakk> \<Longrightarrow>
    svc_step E d (ASubmit ord)
      (insEvent E v (NewOrderEvent v EventOrderCreated ord None now) (insOrder E i ord d))"
| withdraw_created: "\<lbrakk>ordersOf d u = Some ord0; oUserID ord0 = userID; fresh_event E d v;
      oStatus ord0 = OrderStatusCreated;
      ord = ord0\<lparr>oStatus := OrderStatusWithdrawn, oAssignedDroneID := None, oUpdatedAt := now\<rparr>\<rbrakk> \<Longrightarrow>
    svc_step E d (AWithdraw userID ord)
      (insEvent E v (NewOrderEvent v EventOrderWithdrawn ord None now) (updOrder E u ord d))"
| withdraw_reserved: "\<lbrakk>ordersOf d u = Some ord0; oUserID ord0 = userID; fresh_event E d v;
      oStatus ord0 = OrderStatusReserved; oAssignedDroneID ord0 = Some i; dronesOf d i = Some dr0;
      dr = dr0\<lparr>dCurrentOrderID := None, dUpdatedAt := now0\<rparr>;
      ord = ord0\<lparr>oStatus := OrderStatusWithdrawn, oAssignedDroneID := None, oUpdatedAt := now\<rparr>\<rbrakk> \<Longrightarrow>
    svc_step E d (AWithdraw userID ord)
      (insEvent E v (NewOrderEvent v EventOrderWithdrawn ord None now)
        (updDrone E None dr (updOrder E u ord d)))"
| update: "\<lbrakk>ordersOf d u = Some ord0; \<not> IsTerminal (oStatus ord0); fresh_event E d v;
      oOrigin ord = oOrigin ord0 \<or> ValidateLocation (oOrigin ord) = None;
      oDestination ord = oDestination ord0 \<or> ValidateLocation (oDestination ord) = None;
      ord = ord0\<lparr>oOrigin := oOrigin ord, oDestination := oDestination ord, oUpdatedAt := now\<rparr>\<rbrakk> \<Longrightarrow>
    svc_step E d (AUpdate ord)
      (insEvent E v (NewOrderEvent v EventOrderUpdated ord None now2) (updOrder E u ord d))"
| reserve: "\<lbrakk>dr0 = ensured d i t; dStatus dr0 \<noteq> DroneStatusBroken; dCurrentOrderID dr0 = None;
      ordersOf d u = Some ord0; waiting (oStatus ord0); oAssignedDroneID ord0 = None;
      fresh_event E d v;
      ord = ord0\<lparr>oStatus := OrderStatusReserved, oAssignedDroneID := Some i,
                 oReservedAt := Some now, oUpdatedAt := now\<rparr>;
      dr = dr0\<lparr>dCurrentOrderID := Some u, dUpdatedAt := now\<rparr>\<rbrakk> \<Longrightarrow>
    svc_step E d (AReserve i ord)
      (insEvent E v (NewOrderEvent v EventOrderReserved ord (Some dr) now)
        (updDrone E (Some u) dr (updOrder E u ord (ensureDrone E i t d))))"
| pickup: "\<lbrakk>ordersOf d u = Some ord0; oAssignedDroneID ord0 = Some i; fresh_event E d v;
      oStatus ord0 = OrderStatusReserved;
      ord = ord0\<lparr>oStatus := OrderStatusPickedUp, oPickedUpAt := Some now, oUpdatedAt := now\<rparr>\<rbrakk> \<Longrightarrow>
    svc_step E d (APickup i ord)
      (insEvent E v (NewOrderEvent v EventOrderPickedUp ord None now2) (updOrder E u ord d))"
| complete: "\<lbrakk>ordersOf d u = Some ord0; oAssignedDroneID ord0 = Some i; fresh_event E d v;
      oStatus ord0 = OrderStatusPickedUp; dronesOf d i = Some dr0;
      status = OrderStatusDelivered \<and> etype = EventOrderDelivered \<or>
      status = OrderStatusFailed \<and> etype = EventOrderFailed \<and> reason \<noteq> '''';
      ord = completed status reason now ord0;
      dr = dr0\<lparr>dCurrentOrderID := None, dUpdatedAt := now\<rparr>\<rbrakk> \<Longrightarrow>
    svc_step E d (AComplete i ord)
      (insEvent E v (NewOrderEvent v etype ord (Some dr) now)
        (updDrone E None dr (updOrder E u ord d)))"
| break_idle: "\<lbrakk>dr0 = ensured d i t; dCurrentOrderID dr0 = None; fresh_event E d v;
      dr = dr0\<lparr>dStatus := DroneStatusBroken, dUpdatedAt := now\<rparr>\<rbrakk> \<Longrightarrow>
    svc_step E d (ABreak dr)
      (insEvent E v (NewDroneEvent v EventDroneBroken dr now)
        (updDrone E None dr (ensureDrone E i t d)))"
| break_carrying: "\<lbrakk>dronesOf d i = Some dr0; dCurrentOrderID dr0 = Some u;
      ordersOf d u = Some ord0; fresh_event E d v; fresh_event E d v'; v' \<noteq> v;
      oStatus ord0 = OrderStatusPickedUp \<and> ord = handedOff dr0 now ord0 \<and>
        etype = EventOrderHandoffRequested \<or>
      oStatus ord0 = OrderStatusReserved \<and> ord = requeued now ord0 \<and> etype = EventOrderUpdated;
      dr1 = dr0\<lparr>dStatus := DroneStatusBroken, dCurrentOrderID := None\<rparr>;
      dr = dr1\<lparr>dUpdatedAt := now\<rparr>\<rbrakk> \<Longrightarrow>
    svc_step E d (ABreak dr)
      (insEvent E v' (NewDroneEvent v' EventDroneBroken dr now)
        (insEvent E v (NewOrderEvent v etype ord (Some dr1) now)
          (updDrone E None dr (updOrder E u ord d))))"
| mark_fixed: "\<lbrakk>dr0 = ensured d i t; fresh_event E d v;
      dr = dr0\<lparr>dStatus := DroneStatusActive, dUpdatedAt := now\<rparr>\<rbrakk> \<Longrightarrow>
    svc_step E d (AFix dr)
      (insEvent E v (NewDroneEvent v EventDroneFixed dr now)
        (updDrone E (dCurrentOrderID dr) dr (ensureDrone E i t d)))"
| beat: "\<lbrakk>dr0 = ensured d i t; ValidateLocation loc = None;
      dr = dr0\<lparr>dLastLocation := Some loc, dLastHeartbeatAt := Some now, dUpdatedAt := now\<rparr>\<rbrakk> \<Longrightarrow>
    svc_step E d (ABeat dr)
      (updDrone E (dCurrentOrderID dr) dr (ensureDrone E i t d))"

section \<open>Reading or creating a drone\<close>

lemma newDrone_sel [simp]:
  "dID (newDrone i t) = i" "dStatus (newDrone i t) = DroneStatusActive"
  "dLastLocation (newDrone i t) = None" "dLastHeartbeatAt (newDrone i t) = None"
  "dCurrentOrderID (newDrone i t) = None"
  by (simp_all add: newDrone_def)

lemma drone_local_new [simp]: "drone_local (newDrone i t)"
  by (simp add: drone_local_def)

lemma ordersOf_ensureDrone [simp]: "ordersOf (ensureDrone E i t d) = ordersOf d"
  by (simp add: ensureDrone_def split: option.splits)

lemma outbox_ensureDrone [simp]: "outbox_events (ensureDrone E i t d) = outbox_events d"
  by (simp add: ensureDrone_def split: option.splits)

lemma db_inv_ensureDrone: "db_inv E d \<Longrightarrow> db_inv E (ensureDrone E' i t d)"
  by (simp add: ensureDrone_def db_inv_insDrone split: option.splits)

lemma ensured_dID: "dID (ensured d i t) = i"
  by (auto simp: ensured_def dest: dronesOf_id split: option.splits)

lemma ensured_local: "db_inv E d \<Longrightarrow> drone_local (ensured d i t)"
  by (auto simp: ensured_def dest: db_inv_drone split: option.splits)

lemma dronesOf_ensureDrone:
  obtains old where "dronesOf (ensureDrone E i t d) i = Some old"
    "dCurrentOrderID old = dCurrentOrderID (ensured d i t)"
    "dStatus old = dStatus (ensured d i t)" "dLastLocation old = dLastLocation (ensured d i t)"
  by (cases "dronesOf d i") (auto simp: ensureDrone_def ensured_def dronesOf_insDrone)

lemma dronesOf_ensureDrone_other:
  "j \<noteq> i \<Longrightarrow> dronesOf (ensureDrone E i t d) j = dronesOf d j"
  by (simp add: ensureDrone_def dronesOf_insDrone split: option.splits)

section \<open>Steps keep the invariant\<close>

lemma order_local_newOrder:
  "ValidateLocation origin = None \<Longrightarrow> ValidateLocation dest = None \<Longrightarrow>
   order_local (newOrder i userID origin dest now)"
  by (simp add: order_local_def newOrder_def)

lemma order_local_withdrawn:
  "order_local ord \<Longrightarrow> oStatus ord = OrderStatusCreated \<or> oStatus ord = OrderStatusReserved \<Longrightarrow>
   order_local (ord\<lparr>oStatus := OrderStatusWithdrawn, oAssignedDroneID := None, oUpdatedAt := t\<rparr>)"
  by (elim disjE) (simp_all add: order_local_def)

lemma order_local_reserved:
  "order_local ord \<Longrightarrow> waiting (oStatus ord) \<Longrightarrow>
   order_local (ord\<lparr>oStatus := OrderStatusReserved, oAssignedDroneID := Some i,
     oReservedAt := Some t, oUpdatedAt := t\<rparr>)"
  unfolding waiting_def by (elim disjE) (simp_all add: order_local_def)

lemma order_local_pickedUp:
  "order_local ord \<Longrightarrow> oStatus ord = OrderStatusReserved \<Longrightarrow>
   order_local (ord\<lparr>oStatus := OrderStatusPickedUp, oPickedUpAt := Some t, oUpdatedAt := t\<rparr>)"
  by (simp add: order_local_def)

lemma order_local_completed:
  "order_local ord \<Longrightarrow> oStatus ord = OrderStatusPickedUp \<Longrightarrow>
   status = OrderStatusDelivered \<or> status = OrderStatusFailed \<and> reason \<noteq> '''' \<Longrightarrow>
   order_local (completed status reason t ord)"
  by (elim disjE) (simp_all add: order_local_def completed_def)

lemma order_local_handedOff:
  "order_local ord \<Longrightarrow> oStatus ord = OrderStatusPickedUp \<Longrightarrow> drone_local dr \<Longrightarrow>
   order_local (handedOff dr t ord)"
  by (cases "dLastLocation dr") (simp_all add: order_local_def handedOff_def drone_local_def)

lemma order_local_requeued:
  "order_local ord \<Longrightarrow> oStatus ord = OrderStatusReserved \<Longrightarrow> order_local (requeued t ord)"
  by (simp add: order_local_def requeued_def)

lemma order_local_update:
  assumes "order_local ord0"
    and "oOrigin ord = oOrigin ord0 \<or> ValidateLocation (oOrigin ord) = None"
    and "oDestination ord = oDestination ord0 \<or> ValidateLocation (oDestination ord) = None"
    and "ord = ord0\<lparr>oOrigin := oOrigin ord, oDestination := oDestination ord, oUpdatedAt := t\<rparr>"
  shows "order_local ord"
proof -
  have "order_local (ord0\<lparr>oOrigin := oOrigin ord, oDestination := oDestination ord, oUpdatedAt := t\<rparr>)"
    using assms(1-3) by (elim disjE) (simp_all add: order_local_def)
  with assms(4) show ?thesis by simp
qed

lemma db_inv_withdraw_reserved:
  assumes inv: "db_inv E d" and ord0: "ordersOf d u = Some ord0" "oStatus ord0 = OrderStatusReserved"
    "oAssignedDroneID ord0 = Some i" and dr0: "dronesOf d i = Some dr0"
  shows "db_inv E (updDrone E' None (dr0\<lparr>dCurrentOrderID := None, dUpdatedAt := now0\<rparr>)
    (updOrder E' u (ord0\<lparr>oStatus := OrderStatusWithdrawn, oAssignedDroneID := None, oUpdatedAt := now\<rparr>) d))"
proof (rule db_inv_release [OF inv])
  show "dronesOf d (dID (dr0\<lparr>dCurrentOrderID := None, dUpdatedAt := now0\<rparr>)) = Some dr0"
    using dr0 by (simp add: dronesOf_id)
  show "dCurrentOrderID dr0 = Some u"
    using db_inv_holder [OF inv ord0(1)] ord0 dr0 by (metis held_simps(1) option.inject)
  show "drone_local (dr0\<lparr>dCurrentOrderID := None, dUpdatedAt := now0\<rparr>)"
    using db_inv_drone [OF inv dr0] by (simp add: drone_local_def)
qed (use db_inv_order [OF inv ord0(1)] ord0(2) in \<open>simp_all add: order_local_withdrawn\<close>)

lemma db_inv_complete:
  assumes inv: "db_inv E d" and ord0: "ordersOf d u = Some ord0" "oStatus ord0 = OrderStatusPickedUp"
    "oAssignedDroneID ord0 = Some i" and dr0: "dronesOf d i = Some dr0"
    and status: "status = OrderStatusDelivered \<or> status = OrderStatusFailed \<and> reason \<noteq> ''''"
  shows "db_inv E (updDrone E' None (dr0\<lparr>dCurrentOrderID := None, dUpdatedAt := now\<rparr>)
    (updOrder E' u (completed status reason now ord0) d))"
proof (rule db_inv_release [OF inv])
  show "dronesOf d (dID (dr0\<lparr>dCurrentOrderID := None, dUpdatedAt := now\<rparr>)) = Some dr0"
    using dr0 by (simp add: dronesOf_id)
  show "dCurrentOrderID dr0 = Some u"
    using db_inv_holder [OF inv ord0(1)] ord0 dr0 by (metis held_simps(2) option.inject)
  show "drone_local (dr0\<lparr>dCurrentOrderID := None, dUpdatedAt := now\<rparr>)"
    using db_inv_drone [OF inv dr0] by (simp add: drone_local_def)
  show "order_local (completed status reason now ord0)"
    using db_inv_order [OF inv ord0(1)] ord0(2) status by (rule order_local_completed)
  show "\<not> held (oStatus (completed status reason now ord0))"
    using status by (elim disjE) (simp_all add: completed_def Let_def)
qed simp

lemma db_inv_break_carrying:
  assumes inv: "db_inv E d" and dr0: "dronesOf d i = Some dr0" "dCurrentOrderID dr0 = Some u"
    and ord: "order_local ord" "\<not> held (oStatus ord)"
  shows "db_inv E (updDrone E' None
    (dr0\<lparr>dStatus := DroneStatusBroken, dCurrentOrderID := None, dUpdatedAt := now\<rparr>) (updOrder E' u ord d))"
proof (rule db_inv_release [OF inv _ dr0(2) ord])
  show "dronesOf d (dID (dr0\<lparr>dStatus := DroneStatusBroken, dCurrentOrderID := None,
      dUpdatedAt := now\<rparr>)) = Some dr0"
    using dr0 by (simp add: dronesOf_id)
  show "drone_local (dr0\<lparr>dStatus := DroneStatusBroken, dCurrentOrderID := None, dUpdatedAt := now\<rparr>)"
    using db_inv_drone [OF inv dr0(1)] by (simp add: drone_local_def)
qed simp

lemma db_inv_reserve:
  assumes inv: "db_inv E d" and dr0: "dStatus (ensured d i t) \<noteq> DroneStatusBroken"
    "dCurrentOrderID (ensured d i t) = None"
    and ord0: "ordersOf d u = Some ord0" "waiting (oStatus ord0)"
  shows "db_inv E (updDrone E' (Some u) ((ensured d i t)\<lparr>dCurrentOrderID := Some u, dUpdatedAt := now\<rparr>)
    (updOrder E' u (ord0\<lparr>oStatus := OrderStatusReserved, oAssignedDroneID := Some i,
        oReservedAt := Some now, oUpdatedAt := now\<rparr>) (ensureDrone E' i t d)))"
proof -
  obtain old where old: "dronesOf (ensureDrone E' i t d) i = Some old" "dCurrentOrderID old = None"
    using dronesOf_ensureDrone [of E' i t d] dr0 by metis
  show ?thesis
  proof (rule db_inv_assign)
    show "db_inv E (ensureDrone E' i t d)" using inv by (rule db_inv_ensureDrone)
    show "ordersOf (ensureDrone E' i t d) u = Some ord0" using ord0 by simp
    show "\<not> held (oStatus ord0)" using ord0 by (auto simp: waiting_def)
    show "drone_local ((ensured d i t)\<lparr>dCurrentOrderID := Some u, dUpdatedAt := now\<rparr>)"
      using ensured_local [OF inv, of i t] dr0 by (simp add: drone_local_def)
    show "order_local (ord0\<lparr>oStatus := OrderStatusReserved, oAssignedDroneID := Some i,
        oReservedAt := Some now, oUpdatedAt := now\<rparr>)"
      using db_inv_order [OF inv ord0(1)] ord0(2) by (rule order_local_reserved)
  qed (use old in \<open>simp_all add: ensured_dID\<close>)
qed

text \<open>A step that changes a drone and not its current order.\<close>

lemma db_inv_touch_drone:
  assumes inv: "db_inv E d" and dr: "dID dr = i" "drone_local dr"
    "dCurrentOrderID dr = dCurrentOrderID (ensured d i t)"
  shows "db_inv E (updDrone E' (dCurrentOrderID dr) dr (ensureDrone E' i t d))"
proof -
  obtain old where "dronesOf (ensureDrone E' i t d) i = Some old"
      "dCurrentOrderID old = dCurrentOrderID (ensured d i t)"
    using dronesOf_ensureDrone [of E' i t d] by metis
  with dr show ?thesis
    by (intro db_inv_updDrone [where old = old] db_inv_ensureDrone [OF inv]) simp_all
qed

lemma svc_step_inv:
  assumes "svc_step E d a d'" and inv: "db_inv E d"
  shows "db_inv E d'"
  using assms(1)
proof cases
  case (submit i v origin dest ord userID now)
  then have "db_inv E (insOrder E i ord d)"
    using inv by (intro db_inv_insOrder) (simp_all add: order_local_newOrder, simp add: newOrder_def)
  with submit show ?thesis by (simp add: fresh_event_def)
next
  case (withdraw_created u ord0 userID v ord now)
  then have "db_inv E (updOrder E u ord d)"
    using inv db_inv_order [OF inv withdraw_created(3)]
    by (intro db_inv_updOrder) (auto simp: order_local_withdrawn, simp add: order_local_def)
  with withdraw_created show ?thesis by (simp add: fresh_event_def)
next
  case (withdraw_reserved u ord0 userID v i dr0 dr now0 ord now)
  then show ?thesis using inv by (simp add: db_inv_withdraw_reserved fresh_event_def)
next
  case (update u ord0 v ord now now2)
  have "oStatus ord = oStatus ord0 \<and> oAssignedDroneID ord = oAssignedDroneID ord0"
    by (subst update(8), subst (2) update(8)) simp
  moreover have "order_local ord"
    using db_inv_order [OF inv update(3)] update(6-8) by (rule order_local_update)
  ultimately have "db_inv E (updOrder E u ord d)"
    using inv update(3) by (intro db_inv_updOrder) simp_all
  with update show ?thesis by (simp add: fresh_event_def)
next
  case (reserve dr0 i t u ord0 v ord now dr)
  then show ?thesis using inv by (simp add: db_inv_reserve fresh_event_def)
next
  case (pickup u ord0 i v ord now now2)
  then have "db_inv E (updOrder E u ord d)"
    using inv db_inv_order [OF inv pickup(3)]
    by (intro db_inv_updOrder) (auto simp: order_local_pickedUp)
  with pickup show ?thesis by (simp add: fresh_event_def)
next
  case (complete u ord0 i v dr0 status etype reason ord now dr)
  then have "db_inv E (updDrone E None dr (updOrder E u ord d))"
    using db_inv_complete [OF inv] by blast
  with complete show ?thesis by (simp add: fresh_event_def)
next
  case (break_idle dr0 i t v dr now)
  then have "db_inv E (updDrone E (dCurrentOrderID dr) dr (ensureDrone E i t d))"
    using ensured_local [OF inv, of i t]
    by (intro db_inv_touch_drone [OF inv]) (simp_all add: ensured_dID drone_local_def)
  with break_idle show ?thesis by (simp add: fresh_event_def)
next
  case (break_carrying i dr0 u ord0 v v' ord now etype dr1 dr)
  then have "order_local ord" "\<not> held (oStatus ord)"
    using db_inv_order [OF inv break_carrying(5)] db_inv_drone [OF inv break_carrying(3)]
    by (auto simp: order_local_handedOff order_local_requeued)
      (auto simp: handedOff_def requeued_def Let_def split: option.splits)
  with break_carrying inv show ?thesis
    by (simp add: db_inv_break_carrying fresh_event_def)
next
  case (mark_fixed dr0 i t v dr now)
  then have "db_inv E (updDrone E (dCurrentOrderID dr) dr (ensureDrone E i t d))"
    using ensured_local [OF inv, of i t]
    by (intro db_inv_touch_drone [OF inv]) (simp_all add: ensured_dID drone_local_def)
  with mark_fixed show ?thesis by (simp add: fresh_event_def)
next
  case (beat dr0 i t loc dr now)
  then have "db_inv E (updDrone E (dCurrentOrderID dr) dr (ensureDrone E i t d))"
    using ensured_local [OF inv, of i t]
    by (intro db_inv_touch_drone [OF inv]) (simp_all add: ensured_dID drone_local_def)
  with beat show ?thesis by simp
qed
end
