(* ===== verification/Refine.thy ===== *)
theory Refine
  imports Steps
begin

text \<open>
  The refinement between the operations of \<open>service.go\<close> (theory Service) and the step relation
  of theory Steps: whatever faults the database has, an operation that returns a value has
  made exactly the step its result names, and an operation that returns an error has either
  left the database alone or, when a failed commit took effect nevertheless, made one step.
  Never anything in between.

  The locale \<open>transactional\<close> is the contract the callers rely on, interpreted on every
  operation that writes. The last part serves a sequence of requests and carries the
  invariant to every state the service can reach.
\<close>

section \<open>The contract of an operation that writes\<close>

definition tx_effect :: "'a M \<Rightarrow> ('a \<Rightarrow> action) \<Rightarrow> bool" where
  "tx_effect m act \<longleftrightarrow> (\<forall>E s. env_ok E \<longrightarrow> db_inv E (db s) \<longrightarrow>
     wp m (\<lambda>x s'. svc_step E (db s) (act x) (db s'))
          (\<lambda>_ s'. db s' = db s \<or> (\<exists>a. svc_step E (db s) a (db s'))) E s)"

definition reads_only :: "'a M \<Rightarrow> bool" where
  "reads_only m \<longleftrightarrow> (\<forall>E s. db (snd (m E s)) = db s)"

text \<open>The requests the transports pass to the service, and its answers.\<close>

datatype request =
    ReqSubmit string Location Location
  | ReqWithdraw string string
  | ReqView string string string
  | ReqListOrders OrderFilter
  | ReqUpdate string "Location option" "Location option"
  | ReqListDrones
  | ReqAdminBroken string
  | ReqAdminFixed string
  | ReqReserve string
  | ReqPickup string string
  | ReqDeliver string string
  | ReqFail string string string
  | ReqBroken string
  | ReqFixed string
  | ReqHeartbeat string Location
  | ReqCurrent string

datatype answer =
    AnsOrder Order
  | AnsView OrderView
  | AnsViews "OrderView list"
  | AnsDrone Drone
  | AnsDrones "Drone list"
  | AnsStatus DroneStatusView

definition answerM :: "('a \<Rightarrow> answer) \<Rightarrow> 'a M \<Rightarrow> answer M" where
  "answerM f m = bindM m (\<lambda>x. returnM (f x))"

fun serve :: "Service \<Rightarrow> request \<Rightarrow> answer M" where
  "serve S (ReqSubmit userID origin dest) = answerM AnsOrder (SubmitOrder userID origin dest)"
| "serve S (ReqWithdraw userID orderID) = answerM AnsOrder (WithdrawOrder userID orderID)"
| "serve S (ReqView requesterID role orderID) =
     answerM AnsView (GetOrderView S requesterID role orderID)"
| "serve S (ReqListOrders filt) = answerM AnsViews (AdminListOrders S filt)"
| "serve S (ReqUpdate orderID origin dest) = answerM AnsOrder (AdminUpdateOrder orderID origin dest)"
| "serve S ReqListDrones = answerM AnsDrones AdminListDrones"
| "serve S (ReqAdminBroken droneID) = answerM AnsDrone (AdminMarkDroneBroken droneID)"
| "serve S (ReqAdminFixed droneID) = answerM AnsDrone (AdminMarkDroneFixed droneID)"
| "serve S (ReqReserve droneID) = answerM AnsOrder (DroneReserveJob droneID)"
| "serve S (ReqPickup droneID orderID) = answerM AnsOrder (DronePickup droneID orderID)"
| "serve S (ReqDeliver droneID orderID) = answerM AnsOrder (DroneDeliver droneID orderID)"
| "serve S (ReqFail droneID orderID reason) = answerM AnsOrder (DroneFail droneID orderID reason)"
| "serve S (ReqBroken droneID) = answerM AnsDrone (DroneMarkBroken droneID)"
| "serve S (ReqFixed droneID) = answerM AnsDrone (DroneMarkFixed droneID)"
| "serve S (ReqHeartbeat droneID loc) = answerM AnsStatus (DroneHeartbeat S droneID loc)"
| "serve S (ReqCurrent droneID) = answerM AnsView (DroneCurrentOrder S droneID)"

text \<open>The states the service can be in, starting from the empty tables.\<close>

inductive reachable :: "Service \<Rightarrow> env \<Rightarrow> st \<Rightarrow> bool" for S :: Service and E :: env where
  start: "db s = emptyDB \<Longrightarrow> reachable S E s"
| request: "reachable S E s \<Longrightarrow> reachable S E (snd (serve S r E s))"

text \<open>What a caller may rely on: a result names the step that was committed, an error means none or one.\<close>

locale transactional =
  fixes op :: "'a M" and act :: "'a \<Rightarrow> action"
  assumes committed: "env_ok E \<Longrightarrow> db_inv E (db s) \<Longrightarrow> op E s = (Inr x, s') \<Longrightarrow>
      svc_step E (db s) (act x) (db s')"
    and aborted: "env_ok E \<Longrightarrow> db_inv E (db s) \<Longrightarrow> op E s = (Inl e, s') \<Longrightarrow>
      db s' = db s \<or> (\<exists>a. svc_step E (db s) a (db s'))"
begin

lemma all_or_nothing:
  assumes "env_ok E" and "db_inv E (db s)"
  shows "db (snd (op E s)) = db s \<or> (\<exists>a. svc_step E (db s) a (db (snd (op E s))))"
proof (cases "op E s")
  case (Pair r s')
  then show ?thesis
    by (cases r) (use committed [OF assms] aborted [OF assms] in auto)
qed

lemma keeps_inv: "env_ok E \<Longrightarrow> db_inv E (db s) \<Longrightarrow> db_inv E (db (snd (op E s)))"
  using all_or_nothing svc_step_inv by metis

end

lemma tx_effect_transactional: "tx_effect m act \<Longrightarrow> transactional m act"
  unfolding tx_effect_def by unfold_locales (blast dest: wp_okD wp_errD)+

section \<open>Reading and committing\<close>

lemma uuid_new [simp]: "env_ok E \<Longrightarrow> uuidText E (uuids E n) = Some (uuids E n)"
  by (simp add: env_ok_def)

lemma uuidNullable_simps [simp]:
  "uuidNullable E None = Some None"
  "uuidText E u = Some w \<Longrightarrow> uuidNullable E (Some u) = Some (Some w)"
  by (simp_all add: uuidNullable_def)

lemma wp_commitReturn_step:
  assumes "svc_step E d (act x) (work s)" and "db s = d"
  shows "wp (commitReturn x) (\<lambda>x s'. svc_step E d (act x) (db s'))
    (\<lambda>_ s'. db s' = d \<or> (\<exists>a. svc_step E d a (db s'))) E s"
  using assms by (auto simp: commitReturn_def wp_rules)

lemma order_read_id:
  "db_inv E d \<Longrightarrow> ordersOf d u = Some ord \<Longrightarrow> uuidText E (oID ord) = Some u"
  using db_inv_canonical ordersOf_id by metis

lemma wp_getOrCreateDrone:
  assumes "env_ok E" and "\<And>e k d'. R e (s\<lparr>ncall := k, work := d'\<rparr>)"
    and "\<And>k. Q (ensured (work s) i t) (s\<lparr>ncall := k, work := ensureDrone E i t (work s)\<rparr>)"
  shows "wp (getOrCreateDrone i t) Q R E s"
proof -
  have R: "R e (s\<lparr>ncall := k\<rparr>)" for e k
    using assms(2) [where e = e and k = k and d' = "work s"] by simp
  show ?thesis
  proof (cases "dronesOf (work s) i")
    case None
    then show ?thesis using R assms(3) [of "Suc (Suc (ncall s))"]
      by (simp add: getOrCreateDrone_def wp_rules ensured_def ensureDrone_def)
  next
    case (Some dr)
    then show ?thesis using R assms(3) [of "Suc (ncall s)"]
      by (simp add: getOrCreateDrone_def wp_rules ensured_def ensureDrone_def)
  qed
qed

lemma newOrder_sel [simp]:
  "oID (newOrder i user origin dest t) = i" "oUserID (newOrder i user origin dest t) = user"
  "oStatus (newOrder i user origin dest t) = OrderStatusCreated"
  by (simp_all add: newOrder_def)

lemma SubmitOrder_effect: "tx_effect (SubmitOrder userID origin dest) ASubmit"
  unfolding tx_effect_def SubmitOrder_def enqueueOrderEvent_def
  apply (intro allI impI)
  apply (simp add: wp_rules)
  apply (intro allI impI conjI wp_commitReturn_step)
  apply (simp_all add: svc_step.submit fresh_event_def)
  done

lemma held_assigned:
  "db_inv E d \<Longrightarrow> ordersOf d u = Some ord \<Longrightarrow> held (oStatus ord) \<Longrightarrow> oAssignedDroneID ord \<noteq> None"
  using db_inv_holder by (metis option.distinct(1))

lemma waiting_unassigned:
  "db_inv E d \<Longrightarrow> ordersOf d u = Some ord \<Longrightarrow> waiting (oStatus ord) \<Longrightarrow> oAssignedDroneID ord = None"
  by (drule (1) db_inv_order) (simp add: order_local_def)

lemma WithdrawOrder_effect: "tx_effect (WithdrawOrder userID orderID) (AWithdraw userID)"
  unfolding tx_effect_def WithdrawOrder_def enqueueOrderEvent_def
  apply (intro allI impI)
  apply (simp add: wp_rules)
  apply (intro allI impI conjI wp_commitReturn_step)
  apply (simp_all)
  apply (auto simp: order_read_id fresh_event_def intro: svc_step.withdraw_created svc_step.withdraw_reserved
     dest: held_assigned)
  done

lemma AdminUpdateOrder_effect: "tx_effect (AdminUpdateOrder orderID origin dest) AUpdate"
  unfolding tx_effect_def AdminUpdateOrder_def enqueueOrderEvent_def
  apply (intro allI impI)
  apply (simp add: wp_rules)
  apply (intro allI impI conjI wp_commitReturn_step)
  apply (simp_all add: order_read_id)
  apply (rule svc_step.update, auto simp: fresh_event_def)+
  done

lemma DronePickup_effect: "tx_effect (DronePickup droneID orderID) (APickup droneID)"
  unfolding tx_effect_def DronePickup_def updateOrderForDrone_def pickupFn_def enqueueOrderEvent_def
  apply (intro allI impI)
  apply (simp add: wp_rules)
  apply (intro allI impI conjI wp_commitReturn_step)
  apply (simp_all add: order_read_id)
  apply (auto simp: fresh_event_def intro: svc_step.pickup dest: waiting_unassigned)
  done

lemma completed_sel [simp]:
  "oID (completed status reason now ord) = oID ord"
  "oStatus (completed status reason now ord) = status"
  "oUserID (completed status reason now ord) = oUserID ord"
  "oAssignedDroneID (completed status reason now ord) = oAssignedDroneID ord"
  by (simp_all add: completed_def Let_def)

lemma completeOrderForDrone_effect:
  assumes "status = OrderStatusDelivered \<or> status = OrderStatusFailed \<and> reason \<noteq> ''''"
  shows "tx_effect (completeOrderForDrone droneID orderID status reason) (AComplete droneID)"
  unfolding tx_effect_def completeOrderForDrone_def enqueueOrderEvent_def
  apply (intro allI impI)
  apply (simp add: wp_rules)
  apply (intro allI impI conjI wp_commitReturn_step)
  apply (simp_all add: order_read_id)
  apply (rule svc_step.complete; (use assms in \<open>auto simp: fresh_event_def\<close>)?)+
  done

lemma reserved_row:
  assumes "orderReserveSQL allowed lk d = row # rows" and "keys_ok d"
  shows "ordersOf d (or_id row) = Some (orderOfRow row)" and "or_status row \<in> set allowed"
    and "or_assigned_drone_id row = None"
proof -
  have "row \<in> set (orderReserveSQL allowed lk d)" using assms(1) by simp
  then have "row \<in> set (orders d)" "reservable allowed lk row"
    unfolding orderReserveSQL_def by (auto dest: in_set_takeD)
  with assms(2) show "ordersOf d (or_id row) = Some (orderOfRow row)"
    "or_status row \<in> set allowed" "or_assigned_drone_id row = None"
    by (simp_all add: ordersOf_row reservable_def)
qed

lemma orderOfRow_sel [simp]:
  "oStatus (orderOfRow row) = or_status row"
  "oAssignedDroneID (orderOfRow row) = or_assigned_drone_id row"
  by (simp_all add: orderOfRow_def)

lemma reserve_choice:
  assumes inv: "db_inv E d"
    and row: "orderReserveSQL [OrderStatusCreated, OrderStatusHandoffRequested] lk (ensureDrone E i t d) = row # rows"
  shows "ordersOf d (or_id row) = Some (orderOfRow row)" and "uuidText E (or_id row) = Some (or_id row)"
    and "waiting (or_status row)" and "or_assigned_drone_id row = None"
proof -
  have keys: "keys_ok (ensureDrone E i t d)" using db_inv_ensureDrone [OF inv] by (simp add: db_inv_def)
  note r = reserved_row [OF row keys]
  show found: "ordersOf d (or_id row) = Some (orderOfRow row)" using r(1) by simp
  then show "uuidText E (or_id row) = Some (or_id row)" by (rule db_inv_canonical [OF inv])
  show "waiting (or_status row)" "or_assigned_drone_id row = None" using r by (auto simp: waiting_def)
qed

lemma DroneReserveJob_effect: "tx_effect (DroneReserveJob droneID) (AReserve droneID)"
  unfolding tx_effect_def DroneReserveJob_def enqueueOrderEvent_def
  apply (intro allI impI)
  apply (simp add: wp_rules)
  apply (intro impI conjI wp_getOrCreateDrone)
  apply (simp_all add: ensured_dID split: list.splits)
  apply (intro allI impI conjI wp_commitReturn_step)
  apply (simp_all)
  apply (elim exE)
  apply (frule (1) reserve_choice)
  apply (frule (1) reserve_choice(2))
  apply (frule (1) reserve_choice(3))
  apply (frule (1) reserve_choice(4))
  apply (simp add: svc_step.reserve fresh_event_def)
  done

lemma ensured_job:
  assumes "db_inv E d" and "dCurrentOrderID (ensured d i t) = Some u"
  obtains dr ord where "dronesOf d i = Some dr" "ensured d i t = dr" "ensureDrone E i t d = d"
    "ordersOf d u = Some ord" "held (oStatus ord)" "uuidText E u = Some u"
proof (cases "dronesOf d i")
  case None
  with assms(2) show ?thesis by (simp add: ensured_def)
next
  case (Some dr)
  with assms(2) have "dCurrentOrderID dr = Some u" by (simp add: ensured_def)
  with assms(1) Some obtain ord where "ordersOf d u = Some ord" "held (oStatus ord)"
    by (meson db_inv_job)
  with Some assms(1) that show ?thesis
    by (simp add: ensured_def ensureDrone_def db_inv_canonical)
qed

lemma ensured_uuid:
  "db_inv E d \<Longrightarrow>
   uuidNullable E (dCurrentOrderID (ensured d i t)) = Some (dCurrentOrderID (ensured d i t))"
  by (cases "dCurrentOrderID (ensured d i t)") (auto elim: ensured_job)

lemma DroneMarkFixed_effect: "tx_effect (DroneMarkFixed droneID) AFix"
  unfolding tx_effect_def DroneMarkFixed_def enqueueDroneEvent_def
  apply (intro allI impI)
  apply (simp add: wp_rules)
  apply (intro impI conjI wp_getOrCreateDrone)
  apply (simp_all add: ensured_dID ensured_uuid)
  apply (intro allI impI conjI wp_commitReturn_step)
  apply (simp_all)
  using svc_step.mark_fixed apply (force simp: fresh_event_def)
  done

text \<open>What becomes of the order of a drone that breaks, and what is said about it.\<close>

lemma wp_releaseOrder:
  assumes "env_ok E" and "uuidText E u = Some u" and ord0: "ordersOf (work s) u = Some ord0"
    and "held (oStatus ord0)"
    and R: "\<And>e k n d'. R e (s\<lparr>work := d', nuuid := n, ncall := k\<rparr>)"
    and Q: "\<And>k ord etype. fresh_event E (work s) (uuids E (nuuid s)) \<Longrightarrow>
      oStatus ord0 = OrderStatusPickedUp \<and> ord = handedOff dr now ord0 \<and>
        etype = EventOrderHandoffRequested \<or>
      oStatus ord0 = OrderStatusReserved \<and> ord = requeued now ord0 \<and> etype = EventOrderUpdated \<Longrightarrow>
      Q (dr\<lparr>dCurrentOrderID := None\<rparr>) (s\<lparr>nuuid := Suc (nuuid s), ncall := k,
        work := insEvent E (uuids E (nuuid s)) (NewOrderEvent (uuids E (nuuid s)) etype ord
            (Some (dr\<lparr>dCurrentOrderID := None\<rparr>)) now)
          (updOrder E u ord (work s))\<rparr>)"
  shows "wp (releaseOrder dr u now) Q R E s"
proof -
  have R': "R e (s\<lparr>ncall := k\<rparr>)"
      "R e (s\<lparr>work := d', nuuid := n, ncall := k\<rparr>)" for e k n d'
    using R [where e = e and k = k and n = "nuuid s" and d' = "work s"]
      R [where e = e and k = k and n = n and d' = d'] by simp_all
  show ?thesis
    using assms(4) unfolding held_def
  proof
    assume st: "oStatus ord0 = OrderStatusReserved"
    show ?thesis
      using assms(1-3) st R' Q [of "requeued now ord0" EventOrderUpdated] ordersOf_id [OF ord0]
      by (simp add: releaseOrder_def enqueueOrderEvent_def wp_rules fresh_event_def requeued_def)
  next
    assume st: "oStatus ord0 = OrderStatusPickedUp"
    show ?thesis
      using assms(1-3) st R' Q [of "handedOff dr now ord0" EventOrderHandoffRequested]
        ordersOf_id [OF ord0]
      by (cases "dLastLocation dr")
        (simp_all add: releaseOrder_def enqueueOrderEvent_def wp_rules fresh_event_def handedOff_def)
  qed
qed

lemma handedOff_dStatus [simp]: "handedOff (dr\<lparr>dStatus := x\<rparr>) now ord = handedOff dr now ord"
  by (simp add: handedOff_def)

lemma DroneMarkBroken_effect: "tx_effect (DroneMarkBroken droneID) ABreak"
  unfolding tx_effect_def DroneMarkBroken_def enqueueDroneEvent_def
  apply (intro allI impI)
  apply (simp add: wp_rules)
  apply (intro impI conjI wp_getOrCreateDrone)
  apply (simp_all add: ensured_dID)
  apply (intro allI impI conjI wp_commitReturn_step)
  apply (simp_all)
  subgoal using svc_step.break_idle by (force simp: fresh_event_def)
  apply (intro allI impI)
  apply (erule ensured_job, assumption)
  apply (rule wp_releaseOrder)
  apply simp_all
  apply (intro allI impI conjI wp_commitReturn_step)
  apply (simp_all)
  apply (rule svc_step.break_carrying, simp_all add: fresh_event_def)
  done

text \<open>Building a view reads at most one drone.\<close>

lemma wp_buildOrderView:
  assumes "\<And>v k. Q v (s\<lparr>ncall := k\<rparr>)" and "\<And>e k. R e (s\<lparr>ncall := k\<rparr>)"
  shows "wp (buildOrderView S order) Q R E s"
proof -
  have "Q v s" for v using assms(1) [of v "ncall s"] by simp
  with assms show ?thesis
    by (cases "oAssignedDroneID order") (simp_all add: buildOrderView_def wp_rules)
qed

lemma beat_step:
  assumes "ValidateLocation loc = None" and "dCurrentOrderID (ensured d i t) = c"
  shows "svc_step E d (ABeat ((ensured d i t)\<lparr>dLastLocation := Some loc,
      dLastHeartbeatAt := Some now, dUpdatedAt := now\<rparr>))
    (updDrone E c ((ensured d i t)\<lparr>dLastLocation := Some loc,
      dLastHeartbeatAt := Some now, dUpdatedAt := now\<rparr>) (ensureDrone E i t d))"
  using svc_step.beat [OF refl assms(1) refl, where E = E and d = d and i = i and t = t and now = now] assms(2) by simp

lemma DroneHeartbeat_effect: "tx_effect (DroneHeartbeat S droneID loc) (\<lambda>v. ABeat (svDrone v))"
  unfolding tx_effect_def DroneHeartbeat_def
  apply (intro allI impI)
  apply (simp add: wp_rules)
  apply (intro impI conjI wp_getOrCreateDrone)
  apply (simp_all add: ensured_dID ensured_uuid)
  apply (intro allI impI conjI wp_buildOrderView)
  apply (simp_all)
  apply (blast intro: beat_step)+
  done

lemma reads_onlyI:
  assumes "\<And>E s. wp m (\<lambda>_ s'. db s' = db s) (\<lambda>_ s'. db s' = db s) E s"
  shows "reads_only m"
  unfolding reads_only_def
proof (intro allI)
  fix E s
  show "db (snd (m E s)) = db s"
    using assms [of s E] by (cases "m E s"; cases "fst (m E s)") (simp_all add: wp_def)
qed

lemma GetOrderView_reads: "reads_only (GetOrderView S requesterID role orderID)"
  by (rule reads_onlyI) (simp add: GetOrderView_def wp_rules wp_buildOrderView)

lemma DroneCurrentOrder_reads: "reads_only (DroneCurrentOrder S droneID)"
  by (rule reads_onlyI) (simp add: DroneCurrentOrder_def wp_rules wp_buildOrderView)

lemma wp_views_inv:
  "db s = d \<Longrightarrow> wp (mapM (buildOrderView S) xs) (\<lambda>_ s'. db s' = d) (\<lambda>_ s'. db s' = d) E s"
  by (rule wp_mapM_inv [where I = "\<lambda>s'. db s' = d"]) (simp_all add: wp_buildOrderView)

lemma AdminListOrders_reads: "reads_only (AdminListOrders S filt)"
  by (rule reads_onlyI) (simp add: AdminListOrders_def wp_rules wp_views_inv split: sum.splits)

lemma AdminListDrones_reads: "reads_only AdminListDrones"
  by (rule reads_onlyI) (simp add: AdminListDrones_def wp_rules)


lemma DroneDeliver_effect: "tx_effect (DroneDeliver droneID orderID) (AComplete droneID)"
  by (simp add: DroneDeliver_def completeOrderForDrone_effect)

lemma DroneFail_effect: "tx_effect (DroneFail droneID orderID reason) (AComplete droneID)"
  using completeOrderForDrone_effect [of OrderStatusFailed reason]
  by (simp add: DroneFail_def) (simp add: tx_effect_def wp_rules)

section \<open>Every operation meets the contract\<close>

interpretation submit_op: transactional "SubmitOrder userID origin dest" ASubmit for userID origin dest
  by (intro tx_effect_transactional SubmitOrder_effect)

interpretation withdraw_op: transactional "WithdrawOrder userID orderID" "AWithdraw userID"
  for userID orderID
  by (intro tx_effect_transactional WithdrawOrder_effect)

interpretation update_op: transactional "AdminUpdateOrder orderID origin dest" AUpdate
  for orderID origin dest
  by (intro tx_effect_transactional AdminUpdateOrder_effect)

interpretation reserve_op: transactional "DroneReserveJob droneID" "AReserve droneID" for droneID
  by (intro tx_effect_transactional DroneReserveJob_effect)

interpretation pickup_op: transactional "DronePickup droneID orderID" "APickup droneID"
  for droneID orderID
  by (intro tx_effect_transactional DronePickup_effect)

interpretation deliver_op: transactional "DroneDeliver droneID orderID" "AComplete droneID"
  for droneID orderID
  by (intro tx_effect_transactional DroneDeliver_effect)

interpretation fail_op: transactional "DroneFail droneID orderID reason" "AComplete droneID"
  for droneID orderID reason
  by (intro tx_effect_transactional DroneFail_effect)

interpretation broken_op: transactional "DroneMarkBroken droneID" ABreak for droneID
  by (intro tx_effect_transactional DroneMarkBroken_effect)

interpretation fixed_op: transactional "DroneMarkFixed droneID" AFix for droneID
  by (intro tx_effect_transactional DroneMarkFixed_effect)

interpretation heartbeat_op: transactional "DroneHeartbeat S droneID loc" "\<lambda>v. ABeat (svDrone v)"
  for S droneID loc
  by (intro tx_effect_transactional DroneHeartbeat_effect)

section \<open>Serving requests\<close>

lemma snd_answerM [simp]: "snd (answerM f m E s) = snd (m E s)"
  by (simp add: answerM_def bindM_def returnM_def split: prod.splits sum.splits)

lemma serve_all_or_nothing:
  assumes "env_ok E" and "db_inv E (db s)"
  shows "db (snd (serve S r E s)) = db s \<or> (\<exists>a. svc_step E (db s) a (db (snd (serve S r E s))))"
  by (cases r)
    (simp_all add: AdminMarkDroneBroken_def AdminMarkDroneFixed_def
      submit_op.all_or_nothing [OF assms] withdraw_op.all_or_nothing [OF assms]
      update_op.all_or_nothing [OF assms] reserve_op.all_or_nothing [OF assms]
      pickup_op.all_or_nothing [OF assms] deliver_op.all_or_nothing [OF assms]
      fail_op.all_or_nothing [OF assms] broken_op.all_or_nothing [OF assms]
      fixed_op.all_or_nothing [OF assms] heartbeat_op.all_or_nothing [OF assms]
      GetOrderView_reads [unfolded reads_only_def] AdminListOrders_reads [unfolded reads_only_def]
      AdminListDrones_reads [unfolded reads_only_def] DroneCurrentOrder_reads [unfolded reads_only_def])

lemma reachable_db_inv: "reachable S E s \<Longrightarrow> env_ok E \<Longrightarrow> db_inv E (db s)"
proof (induction rule: reachable.induct)
  case (start s)
  then show ?case by (simp add: db_inv_emptyDB)
next
  case (request s r)
  then show ?case using serve_all_or_nothing svc_step_inv by metis
qed

end
