(* ===== verification/Http.thy ===== *)
theory Http
  imports Auth Transport Strconv Refine
begin

text \<open>
  Package \<open>internal/transport/httpapi\<close>: decoding of request bodies, the role middleware, the
  handlers, the error responses and the table of routes.

  The router (chi) is not part of the repository: a handler gets what the router and
  \<open>net/http\<close> hand to it, as \<open>httpReq\<close>: the authorization header, the value of the \<open>{id}\<close>
  segment, the query and the first JSON value of the body (\<open>None\<close>: it does not parse).
  \<open>json.Decode\<close> into the request structs is modelled: member names match exactly or up to
  case, unknown members are skipped, \<open>null\<close> leaves a field alone, a member of the wrong type
  is an error, later members overwrite earlier ones.
\<close>

section \<open>Decoding a body\<close>

type_synonym 'r decoder = "json \<Rightarrow> 'r \<Rightarrow> 'r \<times> bool"

definition decString :: "string decoder" where
  "decString j s = (case j of JString t \<Rightarrow> (t, True) | JNull \<Rightarrow> (s, True) | _ \<Rightarrow> (s, False))"

definition decFloat :: "float64 decoder" where
  "decFloat j x = (case j of JNumber y \<Rightarrow> (y, True) | JNull \<Rightarrow> (x, True) | _ \<Rightarrow> (x, False))"

text \<open>Member names are compared after folding the case of their letters.\<close>

definition asciiUpper :: "char \<Rightarrow> char" where
  "asciiUpper c =
     (let n = of_char c :: nat in if 97 \<le> n \<and> n \<le> 122 then char_of (n - 32) else c)"

text \<open>The two letters outside ASCII that fold to an ASCII letter: long s and the Kelvin sign.\<close>

function foldName :: "string \<Rightarrow> string" where
  "foldName s =
     (case s of
        [] \<Rightarrow> []
      | c # cs \<Rightarrow>
          (case stripPrefix [char_of (197 :: nat), char_of (191 :: nat)] s of
             Some r \<Rightarrow> CHR ''S'' # foldName r
           | None \<Rightarrow>
               (case stripPrefix [char_of (226 :: nat), char_of (132 :: nat), char_of (170 :: nat)] s of
                  Some r \<Rightarrow> CHR ''K'' # foldName r
                | None \<Rightarrow> asciiUpper c # foldName cs)))"
  by pat_completeness auto
termination
  by (relation "measure length") (auto split: if_splits dest!: stripPrefix_append)

definition fieldFor :: "(string \<times> 'f) list \<Rightarrow> string \<Rightarrow> 'f option" where
  "fieldFor fs k =
     (case map_of fs k of
        Some f \<Rightarrow> Some f
      | None \<Rightarrow> map_of (map (\<lambda>(n, f). (foldName n, f)) fs) (foldName k))"

fun decMembers :: "(string \<times> 'r decoder) list \<Rightarrow> (string \<times> json) list \<Rightarrow> 'r \<Rightarrow> 'r \<times> bool" where
  "decMembers fs [] r = (r, True)"
| "decMembers fs ((k, j) # ms) r =
     (case fieldFor fs k of
        None \<Rightarrow> decMembers fs ms r
      | Some f \<Rightarrow> (case f j r of (r', ok) \<Rightarrow>
          (case decMembers fs ms r' of (r'', ok') \<Rightarrow> (r'', ok \<and> ok'))))"

definition decStruct :: "(string \<times> 'r decoder) list \<Rightarrow> 'r decoder" where
  "decStruct fs j r =
     (case j of JObject ms \<Rightarrow> decMembers fs ms r | JNull \<Rightarrow> (r, True) | _ \<Rightarrow> (r, False))"

definition onField :: "('r \<Rightarrow> 'f) \<Rightarrow> ('f \<Rightarrow> 'r \<Rightarrow> 'r) \<Rightarrow> 'f decoder \<Rightarrow> 'r decoder" where
  "onField get put dec j r = (case dec j (get r) of (v, ok) \<Rightarrow> (put v r, ok))"

text \<open>A pointer: \<open>null\<close> makes it nil, anything else is decoded into a new or the present struct.\<close>

definition decPtr :: "'r \<Rightarrow> 'r decoder \<Rightarrow> 'r option decoder" where
  "decPtr zero dec j v =
     (if j = JNull then (None, True)
      else case dec j (case v of None \<Rightarrow> zero | Some x \<Rightarrow> x) of (x, ok) \<Rightarrow> (Some x, ok))"

definition zeroLocation :: TLocation where
  "zeroLocation = \<lparr>tLat = Fin 0, tLng = Fin 0\<rparr>"

definition decLocation :: "TLocation decoder" where
  "decLocation = decStruct
     [(''lat'', onField tLat (\<lambda>v l. l\<lparr>tLat := v\<rparr>) decFloat),
      (''lng'', onField tLng (\<lambda>v l. l\<lparr>tLng := v\<rparr>) decFloat)]"

text \<open>\<open>Decode\<close> of a whole body: \<open>None\<close> when it reports an error.\<close>

definition decodeBody :: "'r decoder \<Rightarrow> 'r \<Rightarrow> json option \<Rightarrow> 'r option" where
  "decodeBody dec zero body =
     (case body of None \<Rightarrow> None
      | Some j \<Rightarrow> (case dec j zero of (r, ok) \<Rightarrow> if ok then Some r else None))"

record tokenBody =
  tbName :: string
  tbRole :: string

record submitBody =
  sbOrigin :: TLocation
  sbDestination :: TLocation

record updateBody =
  ubOrigin :: "TLocation option"
  ubDestination :: "TLocation option"

definition decToken :: "tokenBody decoder" where
  "decToken = decStruct
     [(''name'', onField tbName (\<lambda>v r. r\<lparr>tbName := v\<rparr>) decString),
      (''role'', onField tbRole (\<lambda>v r. r\<lparr>tbRole := v\<rparr>) decString)]"

definition decSubmit :: "submitBody decoder" where
  "decSubmit = decStruct
     [(''origin'', onField sbOrigin (\<lambda>v r. r\<lparr>sbOrigin := v\<rparr>) decLocation),
      (''destination'', onField sbDestination (\<lambda>v r. r\<lparr>sbDestination := v\<rparr>) decLocation)]"

definition decUpdate :: "updateBody decoder" where
  "decUpdate = decStruct
     [(''origin'', onField ubOrigin (\<lambda>v r. r\<lparr>ubOrigin := v\<rparr>) (decPtr zeroLocation decLocation)),
      (''destination'',
        onField ubDestination (\<lambda>v r. r\<lparr>ubDestination := v\<rparr>) (decPtr zeroLocation decLocation))]"

definition decReason :: "string decoder" where
  "decReason = decStruct [(''reason'', decString)]"

section \<open>Responses\<close>

record httpReq =
  hAuthorization :: string
  hParamID :: string
  hQuery :: "string \<Rightarrow> string"
  hBody :: "json option"

text \<open>\<open>respBody\<close> is \<open>None\<close> when the encoder failed: its error is dropped, the status is already sent.\<close>

record httpResp =
  respStatus :: int
  respBody :: "json option"

definition respondJSON :: "int \<Rightarrow> json \<Rightarrow> httpResp" where
  "respondJSON status body =
     \<lparr>respStatus = status, respBody = (if encodable body then Some body else None)\<rparr>"

definition errorJSON :: "string \<Rightarrow> string \<Rightarrow> json" where
  "errorJSON code message = JObject [(''code'', JString code), (''message'', JString message)]"

definition writeError :: "gerror \<Rightarrow> httpResp" where
  "writeError err =
     (let (status, code, message) =
       (if errorsIs err ErrUnauthorized then (401, ''unauthorized'', ''unauthorized'')
        else if errorsIs err ErrForbidden then (403, ''forbidden'', ''forbidden'')
        else if errorsIs err ErrNotFound then (404, ''not_found'', ''not found'')
        else if errorsIs err ErrConflict then (409, ''conflict'', ''conflict'')
        else if errorsIs err ErrInvalid then (422, ''invalid'', ''invalid request'')
        else if errorsIs err ErrPrecondition then (409, ''precondition_failed'', ''precondition failed'')
        else if errorsIs err ErrNoJob then (404, ''no_job'', ''no job available'')
        else (500, ''internal'', ''internal error''))
      in respondJSON status (errorJSON code message))"

text \<open>\<open>if err != nil { writeError(w, err); return }; respondJSON(w, status, body(x))\<close>\<close>

definition reply :: "int \<Rightarrow> ('a \<Rightarrow> json) \<Rightarrow> 'a M \<Rightarrow> httpResp M" where
  "reply status body m =
     bindM (attemptM m) (\<lambda>r. case r of
        Inl err \<Rightarrow> returnM (writeError err)
      | Inr x \<Rightarrow> returnM (respondJSON status (body x)))"

section \<open>Handlers\<close>

record Server =
  srvSvc :: Service
  srvAuth :: Authenticator
  srvJWT :: jwtlib

definition requireRole ::
  "Server \<Rightarrow> string \<Rightarrow> (Claims \<Rightarrow> httpReq \<Rightarrow> httpResp M) \<Rightarrow> httpReq \<Rightarrow> httpResp M" where
  "requireRole srv role next_handler req =
     (let token = ExtractBearerToken (hAuthorization req) in
      if token = '''' then returnM (writeError ErrUnauthorized)
      else bindM nowM (\<lambda>now.
        case ParseToken (srvJWT srv) (srvAuth srv) token now of
          Inl err \<Rightarrow> returnM (writeError ErrUnauthorized)
        | Inr claims \<Rightarrow>
            if Role claims \<noteq> role then returnM (writeError ErrForbidden)
            else next_handler claims req))"

definition toDomainLocation :: "TLocation \<Rightarrow> Location" where
  "toDomainLocation loc = \<lparr>Lat = tLat loc, Lng = tLng loc\<rparr>"

definition handleIssueToken :: "Server \<Rightarrow> httpReq \<Rightarrow> httpResp M" where
  "handleIssueToken srv req =
     (case decodeBody decToken \<lparr>tbName = '''', tbRole = ''''\<rparr> (hBody req) of
        None \<Rightarrow> returnM (writeError ErrInvalid)
      | Some b \<Rightarrow>
          if tbName b = '''' \<or> \<not> ValidateRole (tbRole b) then returnM (writeError ErrInvalid)
          else reply 200
            (\<lambda>(token, exp). JObject [(''expires_at'', JTime exp), (''token'', JString token)])
            (IssueToken (srvJWT srv) (srvAuth srv) (tbName b) (tbRole b)))"

definition handleSubmitOrder :: "Server \<Rightarrow> Claims \<Rightarrow> httpReq \<Rightarrow> httpResp M" where
  "handleSubmitOrder srv claims req =
     (case decodeBody decSubmit \<lparr>sbOrigin = zeroLocation, sbDestination = zeroLocation\<rparr> (hBody req) of
        None \<Rightarrow> returnM (writeError ErrInvalid)
      | Some b \<Rightarrow> reply 201 (\<lambda>order. orderJSON (FromOrder order))
          (SubmitOrder (Subject claims) (toDomainLocation (sbOrigin b))
            (toDomainLocation (sbDestination b))))"

definition handleWithdrawOrder :: "Server \<Rightarrow> Claims \<Rightarrow> httpReq \<Rightarrow> httpResp M" where
  "handleWithdrawOrder srv claims req =
     reply 200 (\<lambda>order. orderJSON (FromOrder order)) (WithdrawOrder (Subject claims) (hParamID req))"

definition handleGetOrder :: "Server \<Rightarrow> Claims \<Rightarrow> httpReq \<Rightarrow> httpResp M" where
  "handleGetOrder srv claims req =
     reply 200 (\<lambda>view. orderViewJSON (FromOrderView view))
       (GetOrderView (srvSvc srv) (Subject claims) (Role claims) (hParamID req))"

definition handleDroneReserve :: "Server \<Rightarrow> Claims \<Rightarrow> httpReq \<Rightarrow> httpResp M" where
  "handleDroneReserve srv claims req =
     reply 200 (\<lambda>order. orderJSON (FromOrder order)) (DroneReserveJob (Subject claims))"

definition handleDronePickup :: "Server \<Rightarrow> Claims \<Rightarrow> httpReq \<Rightarrow> httpResp M" where
  "handleDronePickup srv claims req =
     reply 200 (\<lambda>order. orderJSON (FromOrder order)) (DronePickup (Subject claims) (hParamID req))"

definition handleDroneDeliver :: "Server \<Rightarrow> Claims \<Rightarrow> httpReq \<Rightarrow> httpResp M" where
  "handleDroneDeliver srv claims req =
     reply 200 (\<lambda>order. orderJSON (FromOrder order)) (DroneDeliver (Subject claims) (hParamID req))"

definition handleDroneFail :: "Server \<Rightarrow> Claims \<Rightarrow> httpReq \<Rightarrow> httpResp M" where
  "handleDroneFail srv claims req =
     (case decodeBody decReason '''' (hBody req) of
        None \<Rightarrow> returnM (writeError ErrInvalid)
      | Some reason \<Rightarrow> reply 200 (\<lambda>order. orderJSON (FromOrder order))
          (DroneFail (Subject claims) (hParamID req) reason))"

definition handleDroneBroken :: "Server \<Rightarrow> Claims \<Rightarrow> httpReq \<Rightarrow> httpResp M" where
  "handleDroneBroken srv claims req =
     reply 200 (\<lambda>drone. droneJSON (FromDrone drone)) (DroneMarkBroken (Subject claims))"

definition handleDroneHeartbeat :: "Server \<Rightarrow> Claims \<Rightarrow> httpReq \<Rightarrow> httpResp M" where
  "handleDroneHeartbeat srv claims req =
     (case decodeBody decLocation zeroLocation (hBody req) of
        None \<Rightarrow> returnM (writeError ErrInvalid)
      | Some l \<Rightarrow> reply 200 (\<lambda>view. droneStatusJSON (FromDroneStatus view))
          (DroneHeartbeat (srvSvc srv) (Subject claims) \<lparr>Lat = tLat l, Lng = tLng l\<rparr>))"

definition handleDroneCurrentOrder :: "Server \<Rightarrow> Claims \<Rightarrow> httpReq \<Rightarrow> httpResp M" where
  "handleDroneCurrentOrder srv claims req =
     reply 200 (\<lambda>view. orderViewJSON (FromOrderView view))
       (DroneCurrentOrder (srvSvc srv) (Subject claims))"

definition handleAdminListOrders :: "Server \<Rightarrow> Claims \<Rightarrow> httpReq \<Rightarrow> httpResp M" where
  "handleAdminListOrders srv claims req =
     (let statusParam = hQuery req ''status'';
          status = (if statusParam \<noteq> '''' then Some statusParam else None);
          limit = fst (Atoi (hQuery req ''limit''));
          offset = fst (Atoi (hQuery req ''offset''))
      in reply 200 (\<lambda>views. JArray (map (\<lambda>view. orderViewJSON (FromOrderView view)) views))
           (AdminListOrders (srvSvc srv) \<lparr>fStatus = status, fLimit = limit, fOffset = offset\<rparr>))"

definition handleAdminUpdateOrder :: "Server \<Rightarrow> Claims \<Rightarrow> httpReq \<Rightarrow> httpResp M" where
  "handleAdminUpdateOrder srv claims req =
     (case decodeBody decUpdate \<lparr>ubOrigin = None, ubDestination = None\<rparr> (hBody req) of
        None \<Rightarrow> returnM (writeError ErrInvalid)
      | Some b \<Rightarrow> reply 200 (\<lambda>order. orderJSON (FromOrder order))
          (AdminUpdateOrder (hParamID req)
            (case ubOrigin b of None \<Rightarrow> None | Some l \<Rightarrow> Some \<lparr>Lat = tLat l, Lng = tLng l\<rparr>)
            (case ubDestination b of None \<Rightarrow> None | Some l \<Rightarrow> Some \<lparr>Lat = tLat l, Lng = tLng l\<rparr>)))"

definition handleAdminListDrones :: "Server \<Rightarrow> Claims \<Rightarrow> httpReq \<Rightarrow> httpResp M" where
  "handleAdminListDrones srv claims req =
     reply 200 (\<lambda>drones. JArray (map (\<lambda>drone. droneJSON (FromDrone drone)) drones)) AdminListDrones"

definition handleAdminDroneBroken :: "Server \<Rightarrow> Claims \<Rightarrow> httpReq \<Rightarrow> httpResp M" where
  "handleAdminDroneBroken srv claims req =
     reply 200 (\<lambda>drone. droneJSON (FromDrone drone)) (AdminMarkDroneBroken (hParamID req))"

definition handleAdminDroneFixed :: "Server \<Rightarrow> Claims \<Rightarrow> httpReq \<Rightarrow> httpResp M" where
  "handleAdminDroneFixed srv claims req =
     reply 200 (\<lambda>drone. droneJSON (FromDrone drone)) (AdminMarkDroneFixed (hParamID req))"

text \<open>The routes \<open>NewServer\<close> registers: method, pattern, and the handler behind its middleware.\<close>

datatype route =
    RtToken | RtReserve | RtPickup | RtDeliver | RtFail | RtBroken | RtHeartbeat | RtCurrent
  | RtSubmit | RtWithdraw | RtGetOrder
  | RtListOrders | RtUpdate | RtListDrones | RtDroneBroken | RtDroneFixed

fun routePattern :: "route \<Rightarrow> string \<times> string" where
  "routePattern RtToken = (''POST'', ''/auth/token'')"
| "routePattern RtReserve = (''POST'', ''/drone/jobs/reserve'')"
| "routePattern RtPickup = (''POST'', ''/drone/orders/{id}/pickup'')"
| "routePattern RtDeliver = (''POST'', ''/drone/orders/{id}/deliver'')"
| "routePattern RtFail = (''POST'', ''/drone/orders/{id}/fail'')"
| "routePattern RtBroken = (''POST'', ''/drone/broken'')"
| "routePattern RtHeartbeat = (''POST'', ''/drone/heartbeat'')"
| "routePattern RtCurrent = (''GET'', ''/drone/orders/current'')"
| "routePattern RtSubmit = (''POST'', ''/orders/'')"
| "routePattern RtWithdraw = (''POST'', ''/orders/{id}/withdraw'')"
| "routePattern RtGetOrder = (''GET'', ''/orders/{id}'')"
| "routePattern RtListOrders = (''GET'', ''/admin/orders'')"
| "routePattern RtUpdate = (''PATCH'', ''/admin/orders/{id}'')"
| "routePattern RtListDrones = (''GET'', ''/admin/drones'')"
| "routePattern RtDroneBroken = (''POST'', ''/admin/drones/{id}/broken'')"
| "routePattern RtDroneFixed = (''POST'', ''/admin/drones/{id}/fixed'')"

fun ServeHTTP :: "Server \<Rightarrow> route \<Rightarrow> httpReq \<Rightarrow> httpResp M" where
  "ServeHTTP srv RtToken = handleIssueToken srv"
| "ServeHTTP srv RtReserve = requireRole srv RoleDrone (handleDroneReserve srv)"
| "ServeHTTP srv RtPickup = requireRole srv RoleDrone (handleDronePickup srv)"
| "ServeHTTP srv RtDeliver = requireRole srv RoleDrone (handleDroneDeliver srv)"
| "ServeHTTP srv RtFail = requireRole srv RoleDrone (handleDroneFail srv)"
| "ServeHTTP srv RtBroken = requireRole srv RoleDrone (handleDroneBroken srv)"
| "ServeHTTP srv RtHeartbeat = requireRole srv RoleDrone (handleDroneHeartbeat srv)"
| "ServeHTTP srv RtCurrent = requireRole srv RoleDrone (handleDroneCurrentOrder srv)"
| "ServeHTTP srv RtSubmit = requireRole srv RoleEndUser (handleSubmitOrder srv)"
| "ServeHTTP srv RtWithdraw = requireRole srv RoleEndUser (handleWithdrawOrder srv)"
| "ServeHTTP srv RtGetOrder = requireRole srv RoleEndUser (handleGetOrder srv)"
| "ServeHTTP srv RtListOrders = requireRole srv RoleAdmin (handleAdminListOrders srv)"
| "ServeHTTP srv RtUpdate = requireRole srv RoleAdmin (handleAdminUpdateOrder srv)"
| "ServeHTTP srv RtListDrones = requireRole srv RoleAdmin (handleAdminListDrones srv)"
| "ServeHTTP srv RtDroneBroken = requireRole srv RoleAdmin (handleAdminDroneBroken srv)"
| "ServeHTTP srv RtDroneFixed = requireRole srv RoleAdmin (handleAdminDroneFixed srv)"

section \<open>Specification\<close>

text \<open>The service request behind a route, the role it needs and the answer's rendering.\<close>

fun routeRole :: "route \<Rightarrow> string" where
  "routeRole RtToken = ''''"
| "routeRole RtSubmit = RoleEndUser"
| "routeRole RtWithdraw = RoleEndUser"
| "routeRole RtGetOrder = RoleEndUser"
| "routeRole RtListOrders = RoleAdmin"
| "routeRole RtUpdate = RoleAdmin"
| "routeRole RtListDrones = RoleAdmin"
| "routeRole RtDroneBroken = RoleAdmin"
| "routeRole RtDroneFixed = RoleAdmin"
| "routeRole _ = RoleDrone"

definition bodyRequest :: "'r decoder \<Rightarrow> 'r \<Rightarrow> httpReq \<Rightarrow> ('r \<Rightarrow> request) \<Rightarrow> request option" where
  "bodyRequest dec zero req f = map_option f (decodeBody dec zero (hBody req))"

fun httpRequest :: "route \<Rightarrow> Claims \<Rightarrow> httpReq \<Rightarrow> request option" where
  "httpRequest RtToken claims req = None"
| "httpRequest RtReserve claims req = Some (ReqReserve (Subject claims))"
| "httpRequest RtPickup claims req = Some (ReqPickup (Subject claims) (hParamID req))"
| "httpRequest RtDeliver claims req = Some (ReqDeliver (Subject claims) (hParamID req))"
| "httpRequest RtFail claims req =
     bodyRequest decReason '''' req (\<lambda>reason. ReqFail (Subject claims) (hParamID req) reason)"
| "httpRequest RtBroken claims req = Some (ReqBroken (Subject claims))"
| "httpRequest RtHeartbeat claims req =
     bodyRequest decLocation zeroLocation req (\<lambda>l. ReqHeartbeat (Subject claims) (fromT l))"
| "httpRequest RtCurrent claims req = Some (ReqCurrent (Subject claims))"
| "httpRequest RtSubmit claims req =
     bodyRequest decSubmit \<lparr>sbOrigin = zeroLocation, sbDestination = zeroLocation\<rparr> req
       (\<lambda>b. ReqSubmit (Subject claims) (fromT (sbOrigin b)) (fromT (sbDestination b)))"
| "httpRequest RtWithdraw claims req = Some (ReqWithdraw (Subject claims) (hParamID req))"
| "httpRequest RtGetOrder claims req = Some (ReqView (Subject claims) (Role claims) (hParamID req))"
| "httpRequest RtListOrders claims req = Some (ReqListOrders
     \<lparr>fStatus = (if hQuery req ''status'' \<noteq> '''' then Some (hQuery req ''status'') else None),
      fLimit = fst (Atoi (hQuery req ''limit'')), fOffset = fst (Atoi (hQuery req ''offset''))\<rparr>)"
| "httpRequest RtUpdate claims req =
     bodyRequest decUpdate \<lparr>ubOrigin = None, ubDestination = None\<rparr> req
       (\<lambda>b. ReqUpdate (hParamID req) (map_option fromT (ubOrigin b)) (map_option fromT (ubDestination b)))"
| "httpRequest RtListDrones claims req = Some ReqListDrones"
| "httpRequest RtDroneBroken claims req = Some (ReqAdminBroken (hParamID req))"
| "httpRequest RtDroneFixed claims req = Some (ReqAdminFixed (hParamID req))"

fun answerJSON :: "answer \<Rightarrow> json" where
  "answerJSON (AnsOrder order) = orderJSON (FromOrder order)"
| "answerJSON (AnsView view) = orderViewJSON (FromOrderView view)"
| "answerJSON (AnsViews views) = JArray (map (\<lambda>view. orderViewJSON (FromOrderView view)) views)"
| "answerJSON (AnsDrone drone) = droneJSON (FromDrone drone)"
| "answerJSON (AnsDrones ds) = JArray (map (\<lambda>drone. droneJSON (FromDrone drone)) ds)"
| "answerJSON (AnsStatus view) = droneStatusJSON (FromDroneStatus view)"

definition okStatus :: "route \<Rightarrow> int" where
  "okStatus rt = (if rt = RtSubmit then 201 else 200)"

definition serveRoute :: "Server \<Rightarrow> route \<Rightarrow> Claims \<Rightarrow> httpReq \<Rightarrow> httpResp M" where
  "serveRoute srv rt claims req =
     (case httpRequest rt claims req of
        None \<Rightarrow> returnM (writeError ErrInvalid)
      | Some r \<Rightarrow> reply (okStatus rt) answerJSON (serve (srvSvc srv) r))"

declare foldName.simps [simp del]

lemma reply_answer: "reply st (\<lambda>x. answerJSON (f x)) m = reply st answerJSON (answerM f m)"
  by (rule ext)+ (simp add: reply_def answerM_def run_rules split: prod.splits sum.splits)

lemmas handler_defs = handleSubmitOrder_def handleWithdrawOrder_def handleGetOrder_def
  handleDroneReserve_def handleDronePickup_def handleDroneDeliver_def handleDroneFail_def
  handleDroneBroken_def handleDroneHeartbeat_def handleDroneCurrentOrder_def
  handleAdminListOrders_def handleAdminUpdateOrder_def handleAdminListDrones_def
  handleAdminDroneBroken_def handleAdminDroneFixed_def

lemma reply_kinds:
  "reply st (\<lambda>order. orderJSON (FromOrder order)) m = reply st answerJSON (answerM AnsOrder m)"
  "reply st (\<lambda>view. orderViewJSON (FromOrderView view)) m' = reply st answerJSON (answerM AnsView m')"
  "reply st (\<lambda>drone. droneJSON (FromDrone drone)) n = reply st answerJSON (answerM AnsDrone n)"
  "reply st (\<lambda>view. droneStatusJSON (FromDroneStatus view)) n' = reply st answerJSON (answerM AnsStatus n')"
  "reply st (\<lambda>views. JArray (map (\<lambda>view. orderViewJSON (FromOrderView view)) views)) l =
     reply st answerJSON (answerM AnsViews l)"
  "reply st (\<lambda>drones. JArray (map (\<lambda>drone. droneJSON (FromDrone drone)) drones)) l' =
     reply st answerJSON (answerM AnsDrones l')"
  by (simp_all flip: reply_answer)

lemma handlers_serve:
  "handleDroneReserve srv = serveRoute srv RtReserve"
  "handleDronePickup srv = serveRoute srv RtPickup"
  "handleDroneDeliver srv = serveRoute srv RtDeliver"
  "handleDroneFail srv = serveRoute srv RtFail"
  "handleDroneBroken srv = serveRoute srv RtBroken"
  "handleDroneHeartbeat srv = serveRoute srv RtHeartbeat"
  "handleDroneCurrentOrder srv = serveRoute srv RtCurrent"
  "handleSubmitOrder srv = serveRoute srv RtSubmit"
  "handleWithdrawOrder srv = serveRoute srv RtWithdraw"
  "handleGetOrder srv = serveRoute srv RtGetOrder"
  "handleAdminListOrders srv = serveRoute srv RtListOrders"
  "handleAdminUpdateOrder srv = serveRoute srv RtUpdate"
  "handleAdminListDrones srv = serveRoute srv RtListDrones"
  "handleAdminDroneBroken srv = serveRoute srv RtDroneBroken"
  "handleAdminDroneFixed srv = serveRoute srv RtDroneFixed"
  by (rule ext, rule ext, simp add: handler_defs serveRoute_def reply_kinds okStatus_def
      bodyRequest_def toDomainLocation_def fromT_def Let_def map_option_case split: option.splits)+

lemma ServeHTTP_serves:
  "rt \<noteq> RtToken \<Longrightarrow> ServeHTTP srv rt = requireRole srv (routeRole rt) (serveRoute srv rt)"
  by (cases rt) (simp_all add: handlers_serve)

text \<open>What happened behind a response: nothing, or one request of the service.\<close>

lemma snd_reply [simp]: "snd (reply st f m E s) = snd (m E s)"
  by (simp add: reply_def run_rules split: prod.splits sum.splits)

lemma requireRole_cases:
  obtains (rejected) "db (snd (requireRole srv role h req E s)) = db s"
  | (admitted) claims where
      "ParseToken (srvJWT srv) (srvAuth srv) (ExtractBearerToken (hAuthorization req))
         (clock E (nclock s)) = Inr claims"
      "Role claims = role"
      "requireRole srv role h req E s = h claims req E (s\<lparr>nclock := Suc (nclock s)\<rparr>)"
proof (cases "ExtractBearerToken (hAuthorization req) = ''''")
  case True
  then show ?thesis using rejected by (simp add: requireRole_def returnM_def)
next
  case False
  show ?thesis
  proof (cases "ParseToken (srvJWT srv) (srvAuth srv) (ExtractBearerToken (hAuthorization req))
      (clock E (nclock s))")
    case (Inl e)
    with False show ?thesis using rejected by (simp add: requireRole_def run_rules nowM_def)
  next
    case (Inr claims)
    with False show ?thesis using rejected admitted [OF Inr]
      by (cases "Role claims = role") (simp_all add: requireRole_def run_rules nowM_def)
  qed
qed

lemma parsed_token_signed:
  assumes "jwt_ok J signed" and "ParseToken J a tok now = Inr claims"
  shows "signed tok SigningMethodHS256 (secret a) claims"
proof -
  from assms(2) have "jwtParse J tok (keyFunc a) now = Inr (Some claims, True)"
    by (auto simp: ParseToken_def split: sum.splits option.splits if_splits)
  then obtain m k where "keyFunc a m = Inr k" "signed tok m k claims"
    using assms(1) unfolding jwt_ok_def by blast
  then show ?thesis by (auto simp: keyFunc_def split: if_splits)
qed

end
