(* ===== verification/Grpc.thy ===== *)
theory Grpc
  imports Http
begin

text \<open>
  Package \<open>internal/transport/grpcapi\<close>: the authentication interceptor, the methods of the
  server, the mapping of errors to status codes, and the unary handlers and service
  descriptors of \<open>descriptors.go\<close>.

  The gRPC package is not part of the repository. It calls a handler with a context, a
  function \<open>dec\<close> that decodes the request message (here its result) and the registered
  interceptor. The server struct has the same fields as that of the HTTP server.
\<close>

section \<open>Status errors\<close>

datatype code =
    Unauthenticated | PermissionDenied | NotFound | Aborted | InvalidArgument
  | FailedPrecondition | Internal

datatype status = Status code string

type_synonym 'a G = "(env, st, status, 'a) prog"

definition mapServiceError :: "gerror \<Rightarrow> status" where
  "mapServiceError err =
     (if errorsIs err ErrUnauthorized then Status Unauthenticated ''unauthorized''
      else if errorsIs err ErrForbidden then Status PermissionDenied ''forbidden''
      else if errorsIs err ErrNotFound then Status NotFound ''not found''
      else if errorsIs err ErrConflict then Status Aborted ''conflict''
      else if errorsIs err ErrInvalid then Status InvalidArgument ''invalid request''
      else if errorsIs err ErrPrecondition then Status FailedPrecondition ''precondition failed''
      else if errorsIs err ErrNoJob then Status NotFound ''no job available''
      else Status Internal ''internal error'')"

section \<open>Messages\<close>

record TokenRequest =
  gtName :: string
  gtRole :: string

record TokenResponse =
  gtToken :: string
  gtExpiresAt :: string

record SubmitOrderRequest =
  gsOrigin :: TLocation
  gsDestination :: TLocation

record OrderIDRequest =
  goOrderID :: string

record FailOrderRequest =
  gfOrderID :: string
  gfReason :: string

record HeartbeatRequest =
  ghLat :: float64
  ghLng :: float64

record ListOrdersRequest =
  glStatus :: string
  glLimit :: int
  glOffset :: int

record UpdateOrderRequest =
  guOrderID :: string
  guOrigin :: "TLocation option"
  guDestination :: "TLocation option"

record DroneIDRequest =
  gdDroneID :: string

type_synonym Empty = unit

record ListOrdersResponse =
  grOrders :: "OrderViewResponse list"

record ListDronesResponse =
  grDrones :: "DroneResponse list"

section \<open>Authentication\<close>

definition getClaims :: "goctx \<Rightarrow> Claims G" where
  "getClaims ctx =
     (case ClaimsFromContext ctx of
        None \<Rightarrow> throwM (Status Unauthenticated ''missing token'')
      | Some claims \<Rightarrow> returnM claims)"

definition grpcRequireRole :: "goctx \<Rightarrow> string \<Rightarrow> Claims G" where
  "grpcRequireRole ctx role =
     bindM (getClaims ctx) (\<lambda>claims.
     if Role claims \<noteq> role then throwM (Status PermissionDenied ''forbidden'')
     else returnM claims)"

definition authInterceptor ::
  "Server \<Rightarrow> goctx \<Rightarrow> 'q \<Rightarrow> string \<Rightarrow> (goctx \<Rightarrow> 'q \<Rightarrow> 'r G) \<Rightarrow> 'r G" where
  "authInterceptor srv ctx req fullMethod handler =
     (if fullMethod = ''/drone.AuthService/IssueToken'' then handler ctx req
      else
        let values = ctxMetadata ctx ''authorization'';
            authHeader = (if values \<noteq> [] then values ! 0 else '''');
            token = ExtractBearerToken authHeader
        in if token = '''' then throwM (Status Unauthenticated ''missing token'')
           else bindM (mapErrM mapServiceError nowM) (\<lambda>now.
             case ParseToken (srvJWT srv) (srvAuth srv) token now of
               Inl err \<Rightarrow> throwM (Status Unauthenticated ''invalid token'')
             | Inr claims \<Rightarrow> handler (ContextWithClaims ctx claims) req))"

section \<open>Methods\<close>

text \<open>\<open>if err != nil { return nil, mapServiceError(err) }; resp := f(x); return &resp, nil\<close>\<close>

definition respond :: "('a \<Rightarrow> 'r) \<Rightarrow> 'a M \<Rightarrow> 'r G" where
  "respond f m = bindM (mapErrM mapServiceError m) (\<lambda>x. returnM (f x))"

definition grpcIssueToken :: "Server \<Rightarrow> goctx \<Rightarrow> TokenRequest \<Rightarrow> TokenResponse G" where
  "grpcIssueToken srv ctx req =
     (if gtName req = '''' \<or> \<not> ValidateRole (gtRole req)
      then throwM (Status InvalidArgument ''invalid request'')
      else bindM (mapErrM (\<lambda>_. Status Internal ''token error'')
          (IssueToken (srvJWT srv) (srvAuth srv) (gtName req) (gtRole req)))
        (\<lambda>(token, exp). returnM \<lparr>gtToken = token, gtExpiresAt = formatRFC3339 exp\<rparr>))"

definition grpcSubmitOrder :: "Server \<Rightarrow> goctx \<Rightarrow> SubmitOrderRequest \<Rightarrow> OrderResponse G" where
  "grpcSubmitOrder srv ctx req =
     bindM (grpcRequireRole ctx RoleEndUser) (\<lambda>claims.
     respond FromOrder (SubmitOrder (Subject claims) (toDomainLocation (gsOrigin req))
       (toDomainLocation (gsDestination req))))"

definition grpcWithdrawOrder :: "Server \<Rightarrow> goctx \<Rightarrow> OrderIDRequest \<Rightarrow> OrderResponse G" where
  "grpcWithdrawOrder srv ctx req =
     bindM (grpcRequireRole ctx RoleEndUser) (\<lambda>claims.
     respond FromOrder (WithdrawOrder (Subject claims) (goOrderID req)))"

definition grpcGetOrder :: "Server \<Rightarrow> goctx \<Rightarrow> OrderIDRequest \<Rightarrow> OrderViewResponse G" where
  "grpcGetOrder srv ctx req =
     bindM (getClaims ctx) (\<lambda>claims.
     respond FromOrderView (GetOrderView (srvSvc srv) (Subject claims) (Role claims) (goOrderID req)))"

definition grpcReserveJob :: "Server \<Rightarrow> goctx \<Rightarrow> Empty \<Rightarrow> OrderResponse G" where
  "grpcReserveJob srv ctx req =
     bindM (grpcRequireRole ctx RoleDrone) (\<lambda>claims.
     respond FromOrder (DroneReserveJob (Subject claims)))"

definition grpcPickupOrder :: "Server \<Rightarrow> goctx \<Rightarrow> OrderIDRequest \<Rightarrow> OrderResponse G" where
  "grpcPickupOrder srv ctx req =
     bindM (grpcRequireRole ctx RoleDrone) (\<lambda>claims.
     respond FromOrder (DronePickup (Subject claims) (goOrderID req)))"

definition grpcDeliverOrder :: "Server \<Rightarrow> goctx \<Rightarrow> OrderIDRequest \<Rightarrow> OrderResponse G" where
  "grpcDeliverOrder srv ctx req =
     bindM (grpcRequireRole ctx RoleDrone) (\<lambda>claims.
     respond FromOrder (DroneDeliver (Subject claims) (goOrderID req)))"

definition grpcFailOrder :: "Server \<Rightarrow> goctx \<Rightarrow> FailOrderRequest \<Rightarrow> OrderResponse G" where
  "grpcFailOrder srv ctx req =
     bindM (grpcRequireRole ctx RoleDrone) (\<lambda>claims.
     respond FromOrder (DroneFail (Subject claims) (gfOrderID req) (gfReason req)))"

definition grpcMarkDroneBroken :: "Server \<Rightarrow> goctx \<Rightarrow> Empty \<Rightarrow> DroneResponse G" where
  "grpcMarkDroneBroken srv ctx req =
     bindM (grpcRequireRole ctx RoleDrone) (\<lambda>claims.
     respond FromDrone (DroneMarkBroken (Subject claims)))"

definition grpcHeartbeat :: "Server \<Rightarrow> goctx \<Rightarrow> HeartbeatRequest \<Rightarrow> DroneStatusResponse G" where
  "grpcHeartbeat srv ctx req =
     bindM (grpcRequireRole ctx RoleDrone) (\<lambda>claims.
     respond FromDroneStatus (DroneHeartbeat (srvSvc srv) (Subject claims)
       \<lparr>Lat = ghLat req, Lng = ghLng req\<rparr>))"

definition grpcCurrentOrder :: "Server \<Rightarrow> goctx \<Rightarrow> Empty \<Rightarrow> OrderViewResponse G" where
  "grpcCurrentOrder srv ctx req =
     bindM (grpcRequireRole ctx RoleDrone) (\<lambda>claims.
     respond FromOrderView (DroneCurrentOrder (srvSvc srv) (Subject claims)))"

definition grpcAdminListOrders :: "Server \<Rightarrow> goctx \<Rightarrow> ListOrdersRequest \<Rightarrow> ListOrdersResponse G" where
  "grpcAdminListOrders srv ctx req =
     bindM (grpcRequireRole ctx RoleAdmin) (\<lambda>claims.
     respond (\<lambda>views. \<lparr>grOrders = map FromOrderView views\<rparr>) (AdminListOrders (srvSvc srv)
       \<lparr>fStatus = (if glStatus req \<noteq> '''' then Some (glStatus req) else None),
        fLimit = glLimit req, fOffset = glOffset req\<rparr>))"

definition grpcAdminUpdateOrder :: "Server \<Rightarrow> goctx \<Rightarrow> UpdateOrderRequest \<Rightarrow> OrderResponse G" where
  "grpcAdminUpdateOrder srv ctx req =
     bindM (grpcRequireRole ctx RoleAdmin) (\<lambda>claims.
     respond FromOrder (AdminUpdateOrder (guOrderID req)
       (case guOrigin req of None \<Rightarrow> None | Some l \<Rightarrow> Some \<lparr>Lat = tLat l, Lng = tLng l\<rparr>)
       (case guDestination req of None \<Rightarrow> None | Some l \<Rightarrow> Some \<lparr>Lat = tLat l, Lng = tLng l\<rparr>)))"

definition grpcAdminListDrones :: "Server \<Rightarrow> goctx \<Rightarrow> Empty \<Rightarrow> ListDronesResponse G" where
  "grpcAdminListDrones srv ctx req =
     bindM (grpcRequireRole ctx RoleAdmin) (\<lambda>claims.
     respond (\<lambda>ds. \<lparr>grDrones = map FromDrone ds\<rparr>) (AdminListDrones))"

definition grpcAdminMarkDroneBroken :: "Server \<Rightarrow> goctx \<Rightarrow> DroneIDRequest \<Rightarrow> DroneResponse G" where
  "grpcAdminMarkDroneBroken srv ctx req =
     bindM (grpcRequireRole ctx RoleAdmin) (\<lambda>claims.
     respond FromDrone (AdminMarkDroneBroken (gdDroneID req)))"

definition grpcAdminMarkDroneFixed :: "Server \<Rightarrow> goctx \<Rightarrow> DroneIDRequest \<Rightarrow> DroneResponse G" where
  "grpcAdminMarkDroneFixed srv ctx req =
     bindM (grpcRequireRole ctx RoleAdmin) (\<lambda>claims.
     respond FromDrone (AdminMarkDroneFixed (gdDroneID req)))"

section \<open>Unary handlers\<close>

type_synonym ('q, 'r) interceptor =
  "goctx \<Rightarrow> 'q \<Rightarrow> string \<Rightarrow> (goctx \<Rightarrow> 'q \<Rightarrow> 'r G) \<Rightarrow> 'r G"

definition unaryHandler ::
  "(goctx \<Rightarrow> 'q \<Rightarrow> 'r G) \<Rightarrow> string \<Rightarrow> goctx \<Rightarrow> status + 'q \<Rightarrow>
     ('q, 'r) interceptor option \<Rightarrow> 'r G" where
  "unaryHandler method fullMethod ctx dec interceptor =
     (case dec of
        Inl err \<Rightarrow> throwM err
      | Inr req \<Rightarrow>
          (case interceptor of
             None \<Rightarrow> method ctx req
           | Some intercept \<Rightarrow> intercept ctx req fullMethod (\<lambda>ctx' req'. method ctx' req')))"

definition issueTokenHandler where
  "issueTokenHandler srv = unaryHandler (grpcIssueToken srv) ''/drone.AuthService/IssueToken''"

definition submitOrderHandler where
  "submitOrderHandler srv = unaryHandler (grpcSubmitOrder srv) ''/drone.OrderService/SubmitOrder''"

definition withdrawOrderHandler where
  "withdrawOrderHandler srv = unaryHandler (grpcWithdrawOrder srv) ''/drone.OrderService/WithdrawOrder''"

definition getOrderHandler where
  "getOrderHandler srv = unaryHandler (grpcGetOrder srv) ''/drone.OrderService/GetOrder''"

definition reserveJobHandler where
  "reserveJobHandler srv = unaryHandler (grpcReserveJob srv) ''/drone.DroneService/ReserveJob''"

definition pickupOrderHandler where
  "pickupOrderHandler srv = unaryHandler (grpcPickupOrder srv) ''/drone.DroneService/PickupOrder''"

definition deliverOrderHandler where
  "deliverOrderHandler srv = unaryHandler (grpcDeliverOrder srv) ''/drone.DroneService/DeliverOrder''"

definition failOrderHandler where
  "failOrderHandler srv = unaryHandler (grpcFailOrder srv) ''/drone.DroneService/FailOrder''"

definition markBrokenHandler where
  "markBrokenHandler srv = unaryHandler (grpcMarkDroneBroken srv) ''/drone.DroneService/MarkBroken''"

definition heartbeatHandler where
  "heartbeatHandler srv = unaryHandler (grpcHeartbeat srv) ''/drone.DroneService/Heartbeat''"

definition currentOrderHandler where
  "currentOrderHandler srv = unaryHandler (grpcCurrentOrder srv) ''/drone.DroneService/CurrentOrder''"

definition adminListOrdersHandler where
  "adminListOrdersHandler srv = unaryHandler (grpcAdminListOrders srv) ''/drone.AdminService/ListOrders''"

definition adminUpdateOrderHandler where
  "adminUpdateOrderHandler srv = unaryHandler (grpcAdminUpdateOrder srv) ''/drone.AdminService/UpdateOrder''"

definition adminListDronesHandler where
  "adminListDronesHandler srv = unaryHandler (grpcAdminListDrones srv) ''/drone.AdminService/ListDrones''"

definition adminMarkDroneBrokenHandler where
  "adminMarkDroneBrokenHandler srv = unaryHandler (grpcAdminMarkDroneBroken srv) ''/drone.AdminService/MarkDroneBroken''"

definition adminMarkDroneFixedHandler where
  "adminMarkDroneFixedHandler srv = unaryHandler (grpcAdminMarkDroneFixed srv) ''/drone.AdminService/MarkDroneFixed''"

text \<open>
  The service descriptors: the name of the service and the methods it offers. A method is
  identified here by the full name its handler passes to the interceptor.
\<close>

definition authServiceDesc :: "string \<times> (string \<times> string) list" where
  "authServiceDesc = (''drone.AuthService'',
     [(''IssueToken'', ''/drone.AuthService/IssueToken'')])"

definition droneServiceDesc :: "string \<times> (string \<times> string) list" where
  "droneServiceDesc = (''drone.DroneService'',
     [(''ReserveJob'', ''/drone.DroneService/ReserveJob''),
      (''PickupOrder'', ''/drone.DroneService/PickupOrder''),
      (''DeliverOrder'', ''/drone.DroneService/DeliverOrder''),
      (''FailOrder'', ''/drone.DroneService/FailOrder''),
      (''MarkBroken'', ''/drone.DroneService/MarkBroken''),
      (''Heartbeat'', ''/drone.DroneService/Heartbeat''),
      (''CurrentOrder'', ''/drone.DroneService/CurrentOrder'')])"

definition orderServiceDesc :: "string \<times> (string \<times> string) list" where
  "orderServiceDesc = (''drone.OrderService'',
     [(''SubmitOrder'', ''/drone.OrderService/SubmitOrder''),
      (''WithdrawOrder'', ''/drone.OrderService/WithdrawOrder''),
      (''GetOrder'', ''/drone.OrderService/GetOrder'')])"

definition adminServiceDesc :: "string \<times> (string \<times> string) list" where
  "adminServiceDesc = (''drone.AdminService'',
     [(''ListOrders'', ''/drone.AdminService/ListOrders''),
      (''UpdateOrder'', ''/drone.AdminService/UpdateOrder''),
      (''ListDrones'', ''/drone.AdminService/ListDrones''),
      (''MarkDroneBroken'', ''/drone.AdminService/MarkDroneBroken''),
      (''MarkDroneFixed'', ''/drone.AdminService/MarkDroneFixed'')])"

section \<open>Specification\<close>

text \<open>
  A call that is served for authenticated claims: the token of the metadata is read and
  parsed, the role is checked where one is needed, and the request of the service answers.
\<close>

definition authenticated :: "Server \<Rightarrow> goctx \<Rightarrow> (Claims \<Rightarrow> 'r G) \<Rightarrow> 'r G" where
  "authenticated srv ctx k =
     (let values = ctxMetadata ctx ''authorization'';
          token = ExtractBearerToken (if values = [] then '''' else values ! 0)
      in if token = '''' then throwM (Status Unauthenticated ''missing token'')
         else bindM (mapErrM mapServiceError nowM) (\<lambda>now.
           case ParseToken (srvJWT srv) (srvAuth srv) token now of
             Inl err \<Rightarrow> throwM (Status Unauthenticated ''invalid token'')
           | Inr claims \<Rightarrow> k claims))"

definition withRole :: "Server \<Rightarrow> goctx \<Rightarrow> string \<Rightarrow> (Claims \<Rightarrow> 'r G) \<Rightarrow> 'r G" where
  "withRole srv ctx role k =
     authenticated srv ctx (\<lambda>claims.
       if Role claims \<noteq> role then throwM (Status PermissionDenied ''forbidden'') else k claims)"

definition ansOrder :: "answer \<Rightarrow> OrderResponse" where
  "ansOrder a = (case a of AnsOrder order \<Rightarrow> FromOrder order)"
definition ansView :: "answer \<Rightarrow> OrderViewResponse" where
  "ansView a = (case a of AnsView view \<Rightarrow> FromOrderView view)"
definition ansViews :: "answer \<Rightarrow> ListOrdersResponse" where
  "ansViews a = (case a of AnsViews views \<Rightarrow> \<lparr>grOrders = map FromOrderView views\<rparr>)"
definition ansDrone :: "answer \<Rightarrow> DroneResponse" where
  "ansDrone a = (case a of AnsDrone drone \<Rightarrow> FromDrone drone)"
definition ansDrones :: "answer \<Rightarrow> ListDronesResponse" where
  "ansDrones a = (case a of AnsDrones ds \<Rightarrow> \<lparr>grDrones = map FromDrone ds\<rparr>)"
definition ansStatus :: "answer \<Rightarrow> DroneStatusResponse" where
  "ansStatus a = (case a of AnsStatus view \<Rightarrow> FromDroneStatus view)"

lemmas grpc_method_defs = grpcSubmitOrder_def grpcWithdrawOrder_def grpcGetOrder_def
  grpcReserveJob_def grpcPickupOrder_def grpcDeliverOrder_def grpcFailOrder_def
  grpcMarkDroneBroken_def grpcHeartbeat_def grpcCurrentOrder_def grpcAdminListOrders_def
  grpcAdminUpdateOrder_def grpcAdminListDrones_def grpcAdminMarkDroneBroken_def
  grpcAdminMarkDroneFixed_def

lemmas grpc_handler_defs = unaryHandler_def issueTokenHandler_def submitOrderHandler_def
  withdrawOrderHandler_def getOrderHandler_def reserveJobHandler_def pickupOrderHandler_def
  deliverOrderHandler_def failOrderHandler_def markBrokenHandler_def heartbeatHandler_def
  currentOrderHandler_def adminListOrdersHandler_def adminUpdateOrderHandler_def
  adminListDronesHandler_def adminMarkDroneBrokenHandler_def adminMarkDroneFixedHandler_def

lemma respond_answers:
  "respond ansOrder (answerM AnsOrder m) = respond FromOrder m"
  "respond ansView (answerM AnsView m') = respond FromOrderView m'"
  "respond ansViews (answerM AnsViews l) = respond (\<lambda>views. \<lparr>grOrders = map FromOrderView views\<rparr>) l"
  "respond ansDrone (answerM AnsDrone n) = respond FromDrone n"
  "respond ansDrones (answerM AnsDrones l') = respond (\<lambda>ds. \<lparr>grDrones = map FromDrone ds\<rparr>) l'"
  "respond ansStatus (answerM AnsStatus n') = respond FromDroneStatus n'"
  by (rule ext, rule ext, simp add: respond_def answerM_def run_rules ansOrder_def ansView_def
      ansViews_def ansDrone_def ansDrones_def ansStatus_def split: prod.splits sum.splits)+

lemma claims_of_context [simp]: "ClaimsFromContext (ContextWithClaims ctx claims) = Some claims"
  by (simp add: ClaimsFromContext_def ContextWithClaims_def)

lemma role_checked:
  "bindM (grpcRequireRole (ContextWithClaims ctx claims) role) k =
     (if Role claims \<noteq> role then throwM (Status PermissionDenied ''forbidden'') else k claims)"
  "bindM (getClaims (ContextWithClaims ctx claims)) k = k claims"
  by (simp_all add: grpcRequireRole_def getClaims_def)

lemma intercepted:
  assumes "full \<noteq> ''/drone.AuthService/IssueToken''"
  shows "authInterceptor srv ctx req full h =
    authenticated srv ctx (\<lambda>claims. h (ContextWithClaims ctx claims) req)"
  using assms by (simp add: authInterceptor_def authenticated_def Let_def)

lemma locations_of_request:
  "toDomainLocation l = fromT l"
  "(case v of None \<Rightarrow> None | Some x \<Rightarrow> Some \<lparr>Lat = tLat x, Lng = tLng x\<rparr>) = map_option fromT v"
  by (simp_all add: toDomainLocation_def fromT_def split: option.splits)

lemmas grpc_serve_simps = intercepted authenticated_def withRole_def role_checked respond_answers
  locations_of_request AdminMarkDroneBroken_def AdminMarkDroneFixed_def

lemma order_handlers_serve:
  "submitOrderHandler srv ctx (Inr q) (Some (authInterceptor srv)) =
     withRole srv ctx RoleEndUser (\<lambda>claims. respond ansOrder (serve (srvSvc srv)
       (ReqSubmit (Subject claims) (fromT (gsOrigin q)) (fromT (gsDestination q)))))"
  "withdrawOrderHandler srv ctx (Inr o') (Some (authInterceptor srv)) =
     withRole srv ctx RoleEndUser (\<lambda>claims. respond ansOrder (serve (srvSvc srv)
       (ReqWithdraw (Subject claims) (goOrderID o'))))"
  "getOrderHandler srv ctx (Inr o') (Some (authInterceptor srv)) =
     authenticated srv ctx (\<lambda>claims. respond ansView (serve (srvSvc srv)
       (ReqView (Subject claims) (Role claims) (goOrderID o'))))"
  by (simp_all add: grpc_handler_defs grpc_method_defs grpc_serve_simps)

lemma drone_handlers_serve:
  "reserveJobHandler srv ctx (Inr ()) (Some (authInterceptor srv)) =
     withRole srv ctx RoleDrone (\<lambda>claims. respond ansOrder (serve (srvSvc srv)
       (ReqReserve (Subject claims))))"
  "pickupOrderHandler srv ctx (Inr o') (Some (authInterceptor srv)) =
     withRole srv ctx RoleDrone (\<lambda>claims. respond ansOrder (serve (srvSvc srv)
       (ReqPickup (Subject claims) (goOrderID o'))))"
  "deliverOrderHandler srv ctx (Inr o') (Some (authInterceptor srv)) =
     withRole srv ctx RoleDrone (\<lambda>claims. respond ansOrder (serve (srvSvc srv)
       (ReqDeliver (Subject claims) (goOrderID o'))))"
  "failOrderHandler srv ctx (Inr f) (Some (authInterceptor srv)) =
     withRole srv ctx RoleDrone (\<lambda>claims. respond ansOrder (serve (srvSvc srv)
       (ReqFail (Subject claims) (gfOrderID f) (gfReason f))))"
  "markBrokenHandler srv ctx (Inr ()) (Some (authInterceptor srv)) =
     withRole srv ctx RoleDrone (\<lambda>claims. respond ansDrone (serve (srvSvc srv)
       (ReqBroken (Subject claims))))"
  "heartbeatHandler srv ctx (Inr h) (Some (authInterceptor srv)) =
     withRole srv ctx RoleDrone (\<lambda>claims. respond ansStatus (serve (srvSvc srv)
       (ReqHeartbeat (Subject claims) \<lparr>Lat = ghLat h, Lng = ghLng h\<rparr>)))"
  "currentOrderHandler srv ctx (Inr ()) (Some (authInterceptor srv)) =
     withRole srv ctx RoleDrone (\<lambda>claims. respond ansView (serve (srvSvc srv)
       (ReqCurrent (Subject claims))))"
  by (simp_all add: grpc_handler_defs grpc_method_defs grpc_serve_simps)

lemma admin_handlers_serve:
  "adminListOrdersHandler srv ctx (Inr l) (Some (authInterceptor srv)) =
     withRole srv ctx RoleAdmin (\<lambda>claims. respond ansViews (serve (srvSvc srv) (ReqListOrders
       \<lparr>fStatus = (if glStatus l \<noteq> '''' then Some (glStatus l) else None),
        fLimit = glLimit l, fOffset = glOffset l\<rparr>)))"
  "adminUpdateOrderHandler srv ctx (Inr u) (Some (authInterceptor srv)) =
     withRole srv ctx RoleAdmin (\<lambda>claims. respond ansOrder (serve (srvSvc srv)
       (ReqUpdate (guOrderID u) (map_option fromT (guOrigin u)) (map_option fromT (guDestination u)))))"
  "adminListDronesHandler srv ctx (Inr ()) (Some (authInterceptor srv)) =
     withRole srv ctx RoleAdmin (\<lambda>claims. respond ansDrones (serve (srvSvc srv) ReqListDrones))"
  "adminMarkDroneBrokenHandler srv ctx (Inr d) (Some (authInterceptor srv)) =
     withRole srv ctx RoleAdmin (\<lambda>claims. respond ansDrone (serve (srvSvc srv)
       (ReqAdminBroken (gdDroneID d))))"
  "adminMarkDroneFixedHandler srv ctx (Inr d) (Some (authInterceptor srv)) =
     withRole srv ctx RoleAdmin (\<lambda>claims. respond ansDrone (serve (srvSvc srv)
       (ReqAdminFixed (gdDroneID d))))"
  by (simp_all add: grpc_handler_defs grpc_method_defs grpc_serve_simps)

end
