(* ===== verification/ThriftIO.thy ===== *)
theory ThriftIO
  imports Service
begin

text \<open>
  Package \<open>internal/transport/thriftapi\<close>, the second half of \<open>processor.go\<close>: the functions that
  read request structs from a Thrift protocol and write response structs to one.

  The Thrift package is not part of the repository. A protocol is the record of the operations
  the code calls, over the state \<open>'p\<close> of the protocol; every operation may fail. A reader loops
  until it meets the stop field, which a protocol may never deliver, so the loops have a bound
  \<open>n\<close> on the number of fields of one struct; running out of it is an outcome of its own,
  \<open>OutOfFuel\<close>, and never an answer.
\<close>

section \<open>Protocols\<close>

datatype ttype = STOP | BOOL | BYTE | DOUBLE | I16 | I32 | I64 | STRING | STRUCT | MAP | SET | LIST

datatype mtype = CALL | REPLY | EXCEPTION | ONEWAY

datatype terr = TErr string | OutOfFuel

datatype excKind = UNKNOWN_METHOD | INTERNAL_ERROR | PROTOCOL_ERROR

datatype texc = AppExc excKind string

record 'p TProtocol =
  ReadMessageBegin :: "'p \<Rightarrow> (terr + string \<times> mtype \<times> int) \<times> 'p"
  ReadMessageEnd :: "'p \<Rightarrow> (terr + unit) \<times> 'p"
  ReadStructBegin :: "'p \<Rightarrow> (terr + unit) \<times> 'p"
  ReadStructEnd :: "'p \<Rightarrow> (terr + unit) \<times> 'p"
  ReadFieldBegin :: "'p \<Rightarrow> (terr + ttype \<times> int) \<times> 'p"
  ReadFieldEnd :: "'p \<Rightarrow> (terr + unit) \<times> 'p"
  ReadString :: "'p \<Rightarrow> (terr + string) \<times> 'p"
  ReadDouble :: "'p \<Rightarrow> (terr + float64) \<times> 'p"
  ReadI32 :: "'p \<Rightarrow> (terr + int) \<times> 'p"
  ReadI64 :: "'p \<Rightarrow> (terr + int) \<times> 'p"
  ReadListBegin :: "'p \<Rightarrow> (terr + ttype \<times> nat) \<times> 'p"
  ReadListEnd :: "'p \<Rightarrow> (terr + unit) \<times> 'p"
  SkipOf :: "ttype \<Rightarrow> 'p \<Rightarrow> (terr + unit) \<times> 'p"
  WriteMessageBeginOf :: "string \<Rightarrow> mtype \<Rightarrow> int \<Rightarrow> 'p \<Rightarrow> (terr + unit) \<times> 'p"
  WriteMessageEnd :: "'p \<Rightarrow> (terr + unit) \<times> 'p"
  WriteStructBeginOf :: "string \<Rightarrow> 'p \<Rightarrow> (terr + unit) \<times> 'p"
  WriteStructEnd :: "'p \<Rightarrow> (terr + unit) \<times> 'p"
  WriteFieldBeginOf :: "string \<Rightarrow> ttype \<Rightarrow> int \<Rightarrow> 'p \<Rightarrow> (terr + unit) \<times> 'p"
  WriteFieldEnd :: "'p \<Rightarrow> (terr + unit) \<times> 'p"
  WriteFieldStop :: "'p \<Rightarrow> (terr + unit) \<times> 'p"
  WriteListBeginOf :: "ttype \<Rightarrow> nat \<Rightarrow> 'p \<Rightarrow> (terr + unit) \<times> 'p"
  WriteListEnd :: "'p \<Rightarrow> (terr + unit) \<times> 'p"
  WriteStringOf :: "string \<Rightarrow> 'p \<Rightarrow> (terr + unit) \<times> 'p"
  WriteI32Of :: "int \<Rightarrow> 'p \<Rightarrow> (terr + unit) \<times> 'p"
  WriteI64Of :: "int \<Rightarrow> 'p \<Rightarrow> (terr + unit) \<times> 'p"
  WriteDoubleOf :: "float64 \<Rightarrow> 'p \<Rightarrow> (terr + unit) \<times> 'p"
  WriteExceptionOf :: "texc \<Rightarrow> 'p \<Rightarrow> (terr + unit) \<times> 'p"
  FlushOf :: "'p \<Rightarrow> (terr + unit) \<times> 'p"

text \<open>A program over one protocol; an operation without arguments is one as it stands.\<close>

type_synonym ('p, 'a) T = "('p TProtocol, 'p, terr, 'a) prog"

definition Skip :: "ttype \<Rightarrow> ('p, unit) T" where
  "Skip t = (\<lambda>P. SkipOf P t)"
definition WriteMessageBegin :: "string \<Rightarrow> mtype \<Rightarrow> int \<Rightarrow> ('p, unit) T" where
  "WriteMessageBegin m t i = (\<lambda>P. WriteMessageBeginOf P m t i)"
definition WriteStructBegin :: "string \<Rightarrow> ('p, unit) T" where
  "WriteStructBegin name = (\<lambda>P. WriteStructBeginOf P name)"
definition WriteFieldBegin :: "string \<Rightarrow> ttype \<Rightarrow> int \<Rightarrow> ('p, unit) T" where
  "WriteFieldBegin name t i = (\<lambda>P. WriteFieldBeginOf P name t i)"
definition WriteListBegin :: "ttype \<Rightarrow> nat \<Rightarrow> ('p, unit) T" where
  "WriteListBegin t n = (\<lambda>P. WriteListBeginOf P t n)"
definition WriteString :: "string \<Rightarrow> ('p, unit) T" where
  "WriteString v = (\<lambda>P. WriteStringOf P v)"
definition WriteI32 :: "int \<Rightarrow> ('p, unit) T" where
  "WriteI32 v = (\<lambda>P. WriteI32Of P v)"
definition WriteI64 :: "int \<Rightarrow> ('p, unit) T" where
  "WriteI64 v = (\<lambda>P. WriteI64Of P v)"
definition WriteDouble :: "float64 \<Rightarrow> ('p, unit) T" where
  "WriteDouble v = (\<lambda>P. WriteDoubleOf P v)"
definition WriteException :: "texc \<Rightarrow> ('p, unit) T" where
  "WriteException x = (\<lambda>P. WriteExceptionOf P x)"

section \<open>Readers\<close>

text \<open>The loop over the fields of a struct, with what the body does to the variables \<open>r\<close>.\<close>

fun fieldLoop :: "nat \<Rightarrow> (ttype \<Rightarrow> int \<Rightarrow> 'r \<Rightarrow> ('p, 'r) T) \<Rightarrow> 'r \<Rightarrow> ('p, 'r) T" where
  "fieldLoop 0 body r = throwM OutOfFuel"
| "fieldLoop (Suc n) body r =
     bindM ReadFieldBegin (\<lambda>(ft, fid).
     if ft = STOP then returnM r
     else bindM (body ft fid r) (\<lambda>r'. seqM ReadFieldEnd (fieldLoop n body r')))"

definition readStruct :: "nat \<Rightarrow> (ttype \<Rightarrow> int \<Rightarrow> 'r \<Rightarrow> ('p, 'r) T) \<Rightarrow> 'r \<Rightarrow> ('p, 'r) T" where
  "readStruct n body r =
     seqM ReadStructBegin (bindM (fieldLoop n body r) (\<lambda>r'. seqM ReadStructEnd (returnM r')))"

text \<open>The arguments of a call, \<open><Method>_args { 1: request }\<close>, and the end of the message.\<close>

definition readArgs :: "nat \<Rightarrow> (ttype \<Rightarrow> int \<Rightarrow> 'r \<Rightarrow> ('p, 'r) T) \<Rightarrow> 'r \<Rightarrow> ('p, 'r) T" where
  "readArgs n body r0 =
     bindM
      (readStruct n (\<lambda>ft fid r.
         if fid = 1 \<and> ft = STRUCT then readStruct n body r
         else seqM (Skip ft) (returnM r)) r0)
      (\<lambda>r. seqM ReadMessageEnd (returnM r))"

text \<open>Arguments that the code reads without the enclosing request field.\<close>

definition readFlat :: "nat \<Rightarrow> (ttype \<Rightarrow> int \<Rightarrow> 'r \<Rightarrow> ('p, 'r) T) \<Rightarrow> 'r \<Rightarrow> ('p, 'r) T" where
  "readFlat n body r0 =
     bindM (readStruct n body r0) (\<lambda>r. seqM ReadMessageEnd (returnM r))"

definition readLocation :: "nat \<Rightarrow> ('p, Location) T" where
  "readLocation n =
     readStruct n (\<lambda>ft fid l.
       if fid = 1 then bindM ReadDouble (\<lambda>x. returnM (l\<lparr>Lat := x\<rparr>))
       else if fid = 2 then bindM ReadDouble (\<lambda>x. returnM (l\<lparr>Lng := x\<rparr>))
       else seqM (Skip ft) (returnM l)) \<lparr>Lat = Fin 0, Lng = Fin 0\<rparr>"

definition readTokenRequest :: "nat \<Rightarrow> ('p, string \<times> string) T" where
  "readTokenRequest n =
     readArgs n (\<lambda>ft fid (name, role).
       if fid = 1 then bindM ReadString (\<lambda>v. returnM (v, role))
       else if fid = 2 then bindM ReadString (\<lambda>v. returnM (name, v))
       else seqM (Skip ft) (returnM (name, role))) ('''', '''')"

definition readAuthRequest :: "nat \<Rightarrow> ('p, string) T" where
  "readAuthRequest n =
     readArgs n (\<lambda>ft fid token.
       if fid = 1 then ReadString else seqM (Skip ft) (returnM token)) ''''"

definition readOrderIDRequest :: "nat \<Rightarrow> ('p, string \<times> string) T" where
  "readOrderIDRequest n =
     readArgs n (\<lambda>ft fid (token, orderID).
       if fid = 1 then bindM ReadString (\<lambda>v. returnM (v, orderID))
       else if fid = 2 then bindM ReadString (\<lambda>v. returnM (token, v))
       else seqM (Skip ft) (returnM (token, orderID))) ('''', '''')"

definition readDroneIDRequest :: "nat \<Rightarrow> ('p, string \<times> string) T" where
  "readDroneIDRequest n = readOrderIDRequest n"

definition readFailOrderRequest :: "nat \<Rightarrow> ('p, string \<times> string \<times> string) T" where
  "readFailOrderRequest n =
     readArgs n (\<lambda>ft fid (token, orderID, reason).
       if fid = 1 then bindM ReadString (\<lambda>v. returnM (v, orderID, reason))
       else if fid = 2 then bindM ReadString (\<lambda>v. returnM (token, v, reason))
       else if fid = 3 then bindM ReadString (\<lambda>v. returnM (token, orderID, v))
       else seqM (Skip ft) (returnM (token, orderID, reason))) ('''', '''', '''')"

definition readHeartbeatRequest :: "nat \<Rightarrow> ('p, string \<times> Location) T" where
  "readHeartbeatRequest n =
     readArgs n (\<lambda>ft fid (token, loc).
       if fid = 1 then bindM ReadString (\<lambda>v. returnM (v, loc))
       else if fid = 2 then
         (if ft \<noteq> STRUCT then seqM (Skip ft) (returnM (token, loc))
          else bindM (readLocation n) (\<lambda>l. returnM (token, l)))
       else seqM (Skip ft) (returnM (token, loc))) ('''', \<lparr>Lat = Fin 0, Lng = Fin 0\<rparr>)"

definition readSubmitOrderRequest :: "nat \<Rightarrow> ('p, string \<times> Location \<times> Location) T" where
  "readSubmitOrderRequest n =
     readFlat n (\<lambda>ft fid (token, origin, dest).
       if fid = 1 then bindM ReadString (\<lambda>v. returnM (v, origin, dest))
       else if fid = 2 then bindM (readLocation n) (\<lambda>l. returnM (token, l, dest))
       else if fid = 3 then bindM (readLocation n) (\<lambda>l. returnM (token, origin, l))
       else seqM (Skip ft) (returnM (token, origin, dest)))
       ('''', \<lparr>Lat = Fin 0, Lng = Fin 0\<rparr>, \<lparr>Lat = Fin 0, Lng = Fin 0\<rparr>)"

definition readListOrdersRequest :: "nat \<Rightarrow> ('p, string \<times> string \<times> int \<times> int) T" where
  "readListOrdersRequest n =
     readFlat n (\<lambda>ft fid (token, status, limit, offset).
       if fid = 1 then bindM ReadString (\<lambda>v. returnM (v, status, limit, offset))
       else if fid = 2 then bindM ReadString (\<lambda>v. returnM (token, v, limit, offset))
       else if fid = 3 then bindM ReadI32 (\<lambda>v. returnM (token, status, v, offset))
       else if fid = 4 then bindM ReadI32 (\<lambda>v. returnM (token, status, limit, v))
       else seqM (Skip ft) (returnM (token, status, limit, offset))) ('''', '''', 0, 0)"

definition readUpdateOrderRequest ::
  "nat \<Rightarrow> ('p, string \<times> string \<times> Location option \<times> Location option) T" where
  "readUpdateOrderRequest n =
     readFlat n (\<lambda>ft fid (token, orderID, origin, dest).
       if fid = 1 then bindM ReadString (\<lambda>v. returnM (v, orderID, origin, dest))
       else if fid = 2 then bindM ReadString (\<lambda>v. returnM (token, v, origin, dest))
       else if fid = 3 then bindM (readLocation n) (\<lambda>l. returnM (token, orderID, Some l, dest))
       else if fid = 4 then bindM (readLocation n) (\<lambda>l. returnM (token, orderID, origin, Some l))
       else seqM (Skip ft) (returnM (token, orderID, origin, dest))) ('''', '''', None, None)"

section \<open>Writers\<close>

fun seqAll :: "('p, unit) T list \<Rightarrow> ('p, unit) T" where
  "seqAll [] = returnM ()"
| "seqAll (m # ms) = seqM m (seqAll ms)"

definition writeField :: "string \<Rightarrow> ttype \<Rightarrow> int \<Rightarrow> ('p, unit) T \<Rightarrow> ('p, unit) T" where
  "writeField name t i m = seqM (WriteFieldBegin name t i) (seqM m WriteFieldEnd)"

text \<open>A field that is written only if its pointer is not nil.\<close>

definition writeOpt :: "'a option \<Rightarrow> ('a \<Rightarrow> ('p, unit) T) \<Rightarrow> ('p, unit) T" where
  "writeOpt v f = (case v of None \<Rightarrow> returnM () | Some x \<Rightarrow> f x)"

text \<open>\<open>Unix()\<close>: whole seconds since the epoch.\<close>

definition Unix :: "time \<Rightarrow> int" where
  "Unix t = t div 1000000000"

definition writeTokenResponse :: "string \<Rightarrow> time \<Rightarrow> ('p, unit) T" where
  "writeTokenResponse token expiry = seqAll
     [WriteStructBegin ''TokenResponse'',
      writeField ''token'' STRING 1 (WriteString token),
      writeField ''expiresAt'' I64 2 (WriteI64 (Unix expiry)),
      WriteFieldStop,
      WriteStructEnd]"

definition writeLocation :: "Location \<Rightarrow> ('p, unit) T" where
  "writeLocation loc = seqAll
     [WriteStructBegin ''Location'',
      writeField ''lat'' DOUBLE 1 (WriteDouble (Lat loc)),
      writeField ''lng'' DOUBLE 2 (WriteDouble (Lng loc)),
      WriteStructEnd]"

definition writeOrder :: "Order \<Rightarrow> ('p, unit) T" where
  "writeOrder order = seqAll
     [WriteStructBegin ''Order'',
      writeField ''id'' STRING 1 (WriteString (oID order)),
      writeField ''userId'' STRING 2 (WriteString (oUserID order)),
      writeField ''origin'' STRUCT 3 (writeLocation (oOrigin order)),
      writeField ''destination'' STRUCT 4 (writeLocation (oDestination order)),
      writeField ''status'' STRING 5 (WriteString (oStatus order)),
      writeOpt (oAssignedDroneID order) (\<lambda>v. writeField ''assignedDroneId'' STRING 6 (WriteString v)),
      writeOpt (oHandoffOrigin order) (\<lambda>l. writeField ''handoffOrigin'' STRUCT 7 (writeLocation l)),
      writeField ''createdAt'' I64 8 (WriteI64 (Unix (oCreatedAt order))),
      writeField ''updatedAt'' I64 9 (WriteI64 (Unix (oUpdatedAt order))),
      writeOpt (oReservedAt order) (\<lambda>t. writeField ''reservedAt'' I64 10 (WriteI64 (Unix t))),
      writeOpt (oPickedUpAt order) (\<lambda>t. writeField ''pickedUpAt'' I64 11 (WriteI64 (Unix t))),
      writeOpt (oDeliveredAt order) (\<lambda>t. writeField ''deliveredAt'' I64 12 (WriteI64 (Unix t))),
      writeOpt (oFailedAt order) (\<lambda>t. writeField ''failedAt'' I64 13 (WriteI64 (Unix t))),
      writeOpt (oFailureReason order) (\<lambda>v. writeField ''failureReason'' STRING 14 (WriteString v)),
      WriteStructEnd]"

definition writeOrderView :: "OrderView \<Rightarrow> ('p, unit) T" where
  "writeOrderView view = seqAll
     [WriteStructBegin ''OrderView'',
      writeField ''order'' STRUCT 1 (writeOrder (vOrder view)),
      writeOpt (vCurrentLocation view) (\<lambda>l. writeField ''currentLocation'' STRUCT 2 (writeLocation l)),
      writeOpt (vETASeconds view) (\<lambda>n. writeField ''etaSeconds'' I64 3 (WriteI64 n)),
      WriteStructEnd]"

definition writeDrone :: "Drone \<Rightarrow> ('p, unit) T" where
  "writeDrone drone = seqAll
     [WriteStructBegin ''Drone'',
      writeField ''id'' STRING 1 (WriteString (dID drone)),
      writeField ''status'' STRING 2 (WriteString (dStatus drone)),
      writeOpt (dLastLocation drone) (\<lambda>l. writeField ''lastLocation'' STRUCT 3 (writeLocation l)),
      writeOpt (dLastHeartbeatAt drone) (\<lambda>t. writeField ''lastHeartbeatAt'' I64 4 (WriteI64 (Unix t))),
      writeOpt (dCurrentOrderID drone) (\<lambda>v. writeField ''currentOrderId'' STRING 5 (WriteString v)),
      writeField ''createdAt'' I64 6 (WriteI64 (Unix (dCreatedAt drone))),
      writeField ''updatedAt'' I64 7 (WriteI64 (Unix (dUpdatedAt drone))),
      WriteStructEnd]"

definition writeDroneStatus :: "DroneStatusView \<Rightarrow> ('p, unit) T" where
  "writeDroneStatus view = seqAll
     [WriteStructBegin ''DroneStatus'',
      writeField ''drone'' STRUCT 1 (writeDrone (svDrone view)),
      writeOpt (svCurrentOrder view) (\<lambda>v. writeField ''currentOrder'' STRUCT 2 (writeOrderView v)),
      WriteStructEnd]"

definition writeOrderViewList :: "OrderView list \<Rightarrow> ('p, unit) T" where
  "writeOrderViewList views =
     seqM (WriteListBegin STRUCT (length views))
       (seqM (seqAll (map writeOrderView views)) WriteListEnd)"

definition writeDroneList :: "Drone list \<Rightarrow> ('p, unit) T" where
  "writeDroneList ds =
     seqM (WriteListBegin STRUCT (length ds)) (seqM (seqAll (map writeDrone ds)) WriteListEnd)"

end
