(* ===== verification/ThriftWire.thy ===== *)
theory ThriftWire
  imports ThriftIO
begin

text \<open>
  What the readers and writers of theory ThriftIO do with a protocol that carries Thrift
  values: the content of a stream as a list of tokens, the tokens of a value, and what the
  code relies on of a protocol that reads from or writes to such a stream. The beginnings
  and ends of structs and fields leave no token: they are not on the wire.
\<close>

section \<open>Values and their tokens\<close>

datatype tok =
    KField ttype int | KStop | KStr string | KDbl float64 | KI32 int | KI64 int
  | KListHead ttype nat | KMsg string mtype int | KExc texc

datatype tval =
    VStr string | VDbl float64 | VI32 int | VI64 int
  | VStruct "(int \<times> tval) list"
  | VList ttype "tval list"

fun typeOf :: "tval \<Rightarrow> ttype" where
  "typeOf (VStr s) = STRING"
| "typeOf (VDbl x) = DOUBLE"
| "typeOf (VI32 n) = I32"
| "typeOf (VI64 n) = I64"
| "typeOf (VStruct fs) = STRUCT"
| "typeOf (VList t vs) = LIST"

fun encode :: "tval \<Rightarrow> tok list" where
  "encode (VStr s) = [KStr s]"
| "encode (VDbl x) = [KDbl x]"
| "encode (VI32 n) = [KI32 n]"
| "encode (VI64 n) = [KI64 n]"
| "encode (VStruct fs) = concat (map (\<lambda>(i, v). KField (typeOf v) i # encode v) fs) @ [KStop]"
| "encode (VList t vs) = KListHead t (length vs) # concat (map encode vs)"

text \<open>The elements of a list have the type its head announces.\<close>

fun wellTyped :: "tval \<Rightarrow> bool" where
  "wellTyped (VStruct fs) \<longleftrightarrow> (\<forall>f\<in>set fs. wellTyped (snd f))"
| "wellTyped (VList t vs) \<longleftrightarrow> (\<forall>v\<in>set vs. typeOf v = t \<and> wellTyped v)"
| "wellTyped _ \<longleftrightarrow> True"

section \<open>What the code relies on\<close>

definition steady :: "('p \<Rightarrow> tok list) \<Rightarrow> ('p \<Rightarrow> (terr + unit) \<times> 'p) \<Rightarrow> bool" where
  "steady view f \<longleftrightarrow> (\<forall>p. \<exists>p'. f p = (Inr (), p') \<and> view p' = view p)"

definition stream_ok :: "'p TProtocol \<Rightarrow> ('p \<Rightarrow> tok list) \<Rightarrow> bool" where
  "stream_ok P view \<longleftrightarrow>
     steady view (ReadStructBegin P) \<and> steady view (ReadStructEnd P) \<and>
     steady view (ReadFieldEnd P) \<and> steady view (ReadMessageEnd P) \<and> steady view (ReadListEnd P) \<and>
     (\<forall>p m t i ts. view p = KMsg m t i # ts \<longrightarrow>
        (\<exists>p'. ReadMessageBegin P p = (Inr (m, t, i), p') \<and> view p' = ts)) \<and>
     (\<forall>p t i ts. view p = KField t i # ts \<longrightarrow> (\<exists>p'. ReadFieldBegin P p = (Inr (t, i), p') \<and> view p' = ts)) \<and>
     (\<forall>p ts. view p = KStop # ts \<longrightarrow> (\<exists>p' i. ReadFieldBegin P p = (Inr (STOP, i), p') \<and> view p' = ts)) \<and>
     (\<forall>p v ts. view p = KStr v # ts \<longrightarrow> (\<exists>p'. ReadString P p = (Inr v, p') \<and> view p' = ts)) \<and>
     (\<forall>p v ts. view p = KDbl v # ts \<longrightarrow> (\<exists>p'. ReadDouble P p = (Inr v, p') \<and> view p' = ts)) \<and>
     (\<forall>p v ts. view p = KI32 v # ts \<longrightarrow> (\<exists>p'. ReadI32 P p = (Inr v, p') \<and> view p' = ts)) \<and>
     (\<forall>p v ts. view p = KI64 v # ts \<longrightarrow> (\<exists>p'. ReadI64 P p = (Inr v, p') \<and> view p' = ts)) \<and>
     (\<forall>p t n ts. view p = KListHead t n # ts \<longrightarrow> (\<exists>p'. ReadListBegin P p = (Inr (t, n), p') \<and> view p' = ts)) \<and>
     (\<forall>p v ts. view p = encode v @ ts \<and> wellTyped v \<longrightarrow>
        (\<exists>p'. SkipOf P (typeOf v) p = (Inr (), p') \<and> view p' = ts))"

text \<open>
  A protocol that refuses to read a string at the head of a string field. The binary protocol
  does: it takes the type byte and the identifier of the field for a length, which is over the
  limit of a message.
\<close>

definition strict_strings :: "'p TProtocol \<Rightarrow> ('p \<Rightarrow> tok list) \<Rightarrow> bool" where
  "strict_strings P view \<longleftrightarrow>
     (\<forall>p i ts. view p = KField STRING i # ts \<longrightarrow> (\<exists>e p'. ReadString P p = (Inl (TErr e), p')))"

definition appends :: "('p \<Rightarrow> tok list) \<Rightarrow> ('p \<Rightarrow> (terr + unit) \<times> 'p) \<Rightarrow> tok list \<Rightarrow> bool" where
  "appends sink f ks \<longleftrightarrow> (\<forall>p. \<exists>p'. f p = (Inr (), p') \<and> sink p' = sink p @ ks)"

definition sink_ok :: "'p TProtocol \<Rightarrow> ('p \<Rightarrow> tok list) \<Rightarrow> bool" where
  "sink_ok P sink \<longleftrightarrow>
     (\<forall>name. appends sink (WriteStructBeginOf P name) []) \<and> appends sink (WriteStructEnd P) [] \<and>
     appends sink (WriteFieldEnd P) [] \<and> appends sink (WriteListEnd P) [] \<and>
     (\<forall>m t i. appends sink (WriteMessageBeginOf P m t i) [KMsg m t i]) \<and>
     appends sink (WriteMessageEnd P) [] \<and> appends sink (FlushOf P) [] \<and>
     (\<forall>x. appends sink (WriteExceptionOf P x) [KExc x]) \<and>
     appends sink (WriteFieldStop P) [KStop] \<and>
     (\<forall>name t i. appends sink (WriteFieldBeginOf P name t i) [KField t i]) \<and>
     (\<forall>t n. appends sink (WriteListBeginOf P t n) [KListHead t n]) \<and>
     (\<forall>v. appends sink (WriteStringOf P v) [KStr v]) \<and>
     (\<forall>v. appends sink (WriteI32Of P v) [KI32 v]) \<and>
     (\<forall>v. appends sink (WriteI64Of P v) [KI64 v]) \<and>
     (\<forall>v. appends sink (WriteDoubleOf P v) [KDbl v])"

section \<open>Readers\<close>

text \<open>From content \<open>ts\<close> the program returns \<open>x\<close> and leaves \<open>ts'\<close>.\<close>

definition yields :: "'p TProtocol \<Rightarrow> ('p \<Rightarrow> tok list) \<Rightarrow> ('p, 'a) T \<Rightarrow> tok list \<Rightarrow> 'a \<Rightarrow> tok list \<Rightarrow> bool" where
  "yields P view m ts x ts' \<longleftrightarrow> (\<forall>p. view p = ts \<longrightarrow> (\<exists>p'. m P p = (Inr x, p') \<and> view p' = ts'))"

lemma yields_returnM: "yields P view (returnM x) ts x ts"
  by (simp add: yields_def returnM_def)

lemma yields_bindM:
  assumes "yields P view m ts x ts1" and "yields P view (f x) ts1 y ts2"
  shows "yields P view (bindM m f) ts y ts2"
  using assms unfolding yields_def bindM_def by fastforce

lemma yields_seqM:
  assumes "yields P view m ts x ts1" and "yields P view k ts1 y ts2"
  shows "yields P view (seqM m k) ts y ts2"
  unfolding seqM_def using assms by (rule yields_bindM)

lemma yields_ops:
  assumes "stream_ok P view"
  shows "yields P view ReadStructBegin ts () ts" "yields P view ReadStructEnd ts () ts"
    "yields P view ReadFieldEnd ts () ts" "yields P view ReadMessageEnd ts () ts"
    "yields P view ReadFieldBegin (KField t i # ts) (t, i) ts"
    "yields P view ReadString (KStr s # ts) s ts"
    "yields P view ReadDouble (KDbl x # ts) x ts" "yields P view ReadI32 (KI32 n # ts) n ts"
    "yields P view ReadMessageBegin (KMsg m mt i # ts) (m, mt, i) ts"
    "yields P view ReadI64 (KI64 n # ts) n ts"
    "yields P view ReadListBegin (KListHead t k # ts) (t, k) ts" "yields P view ReadListEnd ts () ts"
  using assms by (simp_all add: stream_ok_def steady_def yields_def) metis+

lemma yields_Skip:
  assumes "stream_ok P view" and "wellTyped v"
  shows "yields P view (Skip (typeOf v)) (encode v @ ts) () ts"
  using assms by (simp add: stream_ok_def yields_def Skip_def)

lemma stream_stop:
  assumes "stream_ok P view" and "view p = KStop # ts"
  shows "\<exists>p' i. ReadFieldBegin P p = (Inr (STOP, i), p') \<and> view p' = ts"
  using assms by (simp add: stream_ok_def)

lemma typeOf_not_STOP [simp]: "typeOf v \<noteq> STOP"
  by (cases v) simp_all

lemma yields_fieldLoop:
  assumes P: "stream_ok P view"
    and body: "\<And>i v r ts. (i, v) \<in> set fs \<Longrightarrow>
      yields P view (body (typeOf v) i r) (encode v @ ts) (upd i v r) ts"
    and "length fs < n"
  shows "yields P view (fieldLoop n body r)
    (concat (map (\<lambda>(i, v). KField (typeOf v) i # encode v) fs) @ KStop # ts)
    (fold (\<lambda>(i, v). upd i v) fs r) ts"
  using body \<open>length fs < n\<close>
proof (induction fs arbitrary: n r)
  case Nil
  then obtain m where n: "n = Suc m" by (cases n) auto
  show ?case unfolding yields_def
  proof (intro allI impI)
    fix p
    assume "view p = concat (map (\<lambda>(i, v). KField (typeOf v) i # encode v) []) @ KStop # ts"
    then obtain p' i where "ReadFieldBegin P p = (Inr (STOP, i), p')" "view p' = ts"
      using stream_stop [OF P, of p ts] by fastforce
    then show "\<exists>p'. fieldLoop n body r P p = (Inr (fold (\<lambda>(i, v). upd i v) [] r), p') \<and> view p' = ts"
      by (simp add: n run_rules)
  qed
next
  case (Cons f fs)
  obtain i v where f: "f = (i, v)" by fastforce
  obtain m where n: "n = Suc m" "length fs < m" using Cons.prems(2) by (cases n) auto
  let ?rest = "concat (map (\<lambda>(i, v). KField (typeOf v) i # encode v) fs) @ KStop # ts"
  have loop: "yields P view (fieldLoop m body (upd i v r)) ?rest (fold (\<lambda>(i, v). upd i v) fs (upd i v r)) ts"
    using Cons.prems(1) n(2) by (intro Cons.IH) auto
  have "yields P view (body (typeOf v) i r) (encode v @ ?rest) (upd i v r) ?rest"
    using Cons.prems(1) f by simp
  then have "yields P view (bindM (body (typeOf v) i r) (\<lambda>r'. seqM ReadFieldEnd (fieldLoop m body r')))
      (encode v @ ?rest) (fold (\<lambda>(i, v). upd i v) fs (upd i v r)) ts"
    by (rule yields_bindM) (rule yields_seqM [OF yields_ops(3) [OF P] loop])
  then have "yields P view (fieldLoop (Suc m) body r) (KField (typeOf v) i # encode v @ ?rest)
      (fold (\<lambda>(i, v). upd i v) fs (upd i v r)) ts"
    unfolding fieldLoop.simps by (intro yields_bindM [OF yields_ops(5) [OF P]]) simp
  then show ?case unfolding n f by simp
qed

lemma yields_readStruct:
  assumes P: "stream_ok P view"
    and body: "\<And>i v r ts. (i, v) \<in> set fs \<Longrightarrow>
      yields P view (body (typeOf v) i r) (encode v @ ts) (upd i v r) ts"
    and n: "length fs < n"
  shows "yields P view (readStruct n body r) (encode (VStruct fs) @ ts)
    (fold (\<lambda>(i, v). upd i v) fs r) ts"
proof -
  have "yields P view (fieldLoop n body r) (encode (VStruct fs) @ ts) (fold (\<lambda>(i, v). upd i v) fs r) ts"
    using yields_fieldLoop [where body = body and upd = upd and r = r and ts = ts, OF P body n] by simp
  then show ?thesis unfolding readStruct_def
    by (intro yields_seqM [OF yields_ops(1) [OF P]] yields_bindM)
      (auto intro: yields_seqM yields_ops [OF P] yields_returnM)
qed

lemma yields_readArgs:
  assumes P: "stream_ok P view"
    and body: "\<And>i v r ts. (i, v) \<in> set fs \<Longrightarrow>
      yields P view (body (typeOf v) i r) (encode v @ ts) (upd i v r) ts"
    and n: "length fs < n" "1 < n"
  shows "yields P view (readArgs n body r) (encode (VStruct [(1, VStruct fs)]) @ ts)
    (fold (\<lambda>(i, v). upd i v) fs r) ts"
proof -
  let ?outer = "\<lambda>ft fid r. if fid = 1 \<and> ft = STRUCT then readStruct n body r
    else seqM (Skip ft) (returnM r)"
  have "yields P view (?outer (typeOf v) i r') (encode v @ ts') (fold (\<lambda>(i, v). upd i v) fs r') ts'"
    if "(i, v) \<in> set [(1 :: int, VStruct fs)]" for i v r' ts'
    using that yields_readStruct [where body = body and upd = upd and r = r' and ts = ts', OF P body n(1)]
    by simp
  from yields_readStruct [where body = ?outer and r = r and ts = ts
      and upd = "\<lambda>i v. fold (\<lambda>(i, v). upd i v) fs" and fs = "[(1, VStruct fs)]" and n = n, OF P this]
  have "yields P view (readStruct n ?outer r) (encode (VStruct [(1, VStruct fs)]) @ ts)
      (fold (\<lambda>(i, v). upd i v) fs r) ts"
    using n(2) by simp
  then show ?thesis unfolding readArgs_def
    by (rule yields_bindM) (rule yields_seqM [OF yields_ops(4) [OF P] yields_returnM])
qed

lemma yields_readFlat:
  assumes P: "stream_ok P view"
    and body: "\<And>i v r ts. (i, v) \<in> set fs \<Longrightarrow>
      yields P view (body (typeOf v) i r) (encode v @ ts) (upd i v r) ts"
    and n: "length fs < n"
  shows "yields P view (readFlat n body r) (encode (VStruct fs) @ ts)
    (fold (\<lambda>(i, v). upd i v) fs r) ts"
  unfolding readFlat_def
  by (rule yields_bindM [OF yields_readStruct [where body = body and upd = upd, OF P body n]])
    (simp_all add: yields_seqM [OF yields_ops(4) [OF P] yields_returnM])

text \<open>
  What a list of fields says of one of them: the value of its last occurrence. Fields may come
  in any order, more than once or not at all.
\<close>

definition updStr :: "int \<Rightarrow> int \<Rightarrow> tval \<Rightarrow> string \<Rightarrow> string" where
  "updStr k i v s = (if i = k then (case v of VStr t \<Rightarrow> t | _ \<Rightarrow> s) else s)"

definition updDbl :: "int \<Rightarrow> int \<Rightarrow> tval \<Rightarrow> float64 \<Rightarrow> float64" where
  "updDbl k i v x = (if i = k then (case v of VDbl y \<Rightarrow> y | _ \<Rightarrow> x) else x)"

definition updInt :: "int \<Rightarrow> int \<Rightarrow> tval \<Rightarrow> int \<Rightarrow> int" where
  "updInt k i v x = (if i = k then (case v of VI32 y \<Rightarrow> y | _ \<Rightarrow> x) else x)"

definition lastStr :: "(int \<times> tval) list \<Rightarrow> int \<Rightarrow> string" where
  "lastStr fs k = fold (\<lambda>(i, v). updStr k i v) fs ''''"

definition lastInt :: "(int \<times> tval) list \<Rightarrow> int \<Rightarrow> int" where
  "lastInt fs k = fold (\<lambda>(i, v). updInt k i v) fs 0"

definition wireLocation :: "(int \<times> tval) list \<Rightarrow> Location" where
  "wireLocation fs = \<lparr>Lat = fold (\<lambda>(i, v). updDbl 1 i v) fs (Fin 0),
                    Lng = fold (\<lambda>(i, v). updDbl 2 i v) fs (Fin 0)\<rparr>"

definition updLoc :: "int \<Rightarrow> int \<Rightarrow> tval \<Rightarrow> Location \<Rightarrow> Location" where
  "updLoc k i v l = (if i = k then (case v of VStruct fs \<Rightarrow> wireLocation fs | _ \<Rightarrow> l) else l)"

definition lastLoc :: "(int \<times> tval) list \<Rightarrow> int \<Rightarrow> Location" where
  "lastLoc fs k = fold (\<lambda>(i, v). updLoc k i v) fs \<lparr>Lat = Fin 0, Lng = Fin 0\<rparr>"

definition updLocPtr :: "int \<Rightarrow> int \<Rightarrow> tval \<Rightarrow> Location option \<Rightarrow> Location option" where
  "updLocPtr k i v l = (if i = k then (case v of VStruct fs \<Rightarrow> Some (wireLocation fs) | _ \<Rightarrow> l) else l)"

definition lastLocPtr :: "(int \<times> tval) list \<Rightarrow> int \<Rightarrow> Location option" where
  "lastLocPtr fs k = fold (\<lambda>(i, v). updLocPtr k i v) fs None"

lemmas upd_defs = updStr_def updDbl_def updInt_def updLoc_def updLocPtr_def

text \<open>Fields whose values have the types of the interface definition; other fields may be anything.\<close>

datatype fieldKind = StrField | IntField | LocField

fun locFields :: "nat \<Rightarrow> tval \<Rightarrow> bool" where
  "locFields n (VStruct fs) \<longleftrightarrow> length fs < n \<and>
     (\<forall>(i, v)\<in>set fs. wellTyped v \<and> (i \<in> {1, 2} \<longrightarrow> (\<exists>x. v = VDbl x)))"
| "locFields n _ \<longleftrightarrow> False"

definition hasKind :: "nat \<Rightarrow> fieldKind \<Rightarrow> tval \<Rightarrow> bool" where
  "hasKind n k v \<longleftrightarrow>
     (case k of StrField \<Rightarrow> (\<exists>s. v = VStr s) | IntField \<Rightarrow> (\<exists>x. v = VI32 x) | LocField \<Rightarrow> locFields n v)"

definition conforms :: "nat \<Rightarrow> (int \<rightharpoonup> fieldKind) \<Rightarrow> (int \<times> tval) list \<Rightarrow> bool" where
  "conforms n kinds fs \<longleftrightarrow> length fs < n \<and> 1 < n \<and>
     (\<forall>(i, v)\<in>set fs. wellTyped v \<and> (case kinds i of None \<Rightarrow> True | Some k \<Rightarrow> hasKind n k v))"

lemma yields_str_field:
  assumes "stream_ok P view" and "hasKind n StrField v" and "\<And>s. v = VStr s \<Longrightarrow> f s = y"
  shows "yields P view (bindM ReadString (\<lambda>x. returnM (f x))) (encode v @ ts) y ts"
  using assms(2,3) yields_bindM [OF yields_ops(6) [OF assms(1)] yields_returnM]
  by (auto simp: hasKind_def)

lemma yields_int_field:
  assumes "stream_ok P view" and "hasKind n IntField v" and "\<And>x. v = VI32 x \<Longrightarrow> f x = y"
  shows "yields P view (bindM ReadI32 (\<lambda>x. returnM (f x))) (encode v @ ts) y ts"
  using assms(2,3) yields_bindM [OF yields_ops(8) [OF assms(1)] yields_returnM]
  by (auto simp: hasKind_def)

lemma yields_skip_field:
  assumes "stream_ok P view" and "wellTyped v" and "typeOf v = t" and "r = r'"
  shows "yields P view (seqM (Skip t) (returnM r)) (encode v @ ts) r' ts"
  unfolding assms(3,4) [symmetric] by (rule yields_seqM [OF yields_Skip [OF assms(1,2)] yields_returnM])

lemma yields_dbl_field:
  assumes "stream_ok P view" and "f x = y"
  shows "yields P view (bindM ReadDouble (\<lambda>x. returnM (f x))) (KDbl x # ts) y ts"
  unfolding assms(2) [symmetric] by (rule yields_bindM [OF yields_ops(7) [OF assms(1)] yields_returnM])

lemma fold_location:
  "fold (\<lambda>(i, v) l. \<lparr>Lat = f i v (Lat l), Lng = g i v (Lng l)\<rparr>) fs \<lparr>Lat = a, Lng = b\<rparr> =
     \<lparr>Lat = fold (\<lambda>(i, v). f i v) fs a, Lng = fold (\<lambda>(i, v). g i v) fs b\<rparr>"
  by (induction fs arbitrary: a b) auto

lemma yields_readLocation:
  assumes P: "stream_ok P view" and v: "locFields n (VStruct fs)"
  shows "yields P view (readLocation n) (encode (VStruct fs) @ ts) (wireLocation fs) ts"
proof -
  let ?upd = "\<lambda>i v l. \<lparr>Lat = updDbl 1 i v (Lat l), Lng = updDbl 2 i v (Lng l)\<rparr>"
  have "yields P view (if i = 1 then bindM ReadDouble (\<lambda>x. returnM (r\<lparr>Lat := x\<rparr>))
      else if i = 2 then bindM ReadDouble (\<lambda>x. returnM (r\<lparr>Lng := x\<rparr>))
      else seqM (Skip (typeOf v)) (returnM r)) (encode v @ ts') (?upd i v r) ts'"
    if "(i, v) \<in> set fs" for i v and r :: Location and ts'
  proof -
    have "wellTyped v" "i \<in> {1, 2} \<Longrightarrow> \<exists>x. v = VDbl x" using assms(2) that by auto
    then show ?thesis
      by (auto simp: updDbl_def intro!: yields_skip_field [OF P] yields_dbl_field [OF P])
  qed
  from yields_readStruct [where upd = ?upd, OF P this, where n = n and r = "\<lparr>Lat = Fin 0, Lng = Fin 0\<rparr>" and ts = ts] v
  show ?thesis unfolding readLocation_def wireLocation_def by (simp add: fold_location)
qed

lemma yields_loc_field:
  assumes "stream_ok P view" and "hasKind n LocField v" and "\<And>fs. v = VStruct fs \<Longrightarrow> f (wireLocation fs) = y"
  shows "yields P view (bindM (readLocation n) (\<lambda>x. returnM (f x))) (encode v @ ts) y ts"
proof -
  obtain fs where v: "v = VStruct fs" "locFields n (VStruct fs)"
    using assms(2) by (cases v) (simp_all add: hasKind_def)
  show ?thesis unfolding v
    by (rule yields_bindM [OF yields_readLocation [OF assms(1) v(2)]])
      (use assms(3) v in \<open>auto intro: yields_returnM\<close>)
qed

lemma loc_field_struct: "hasKind n LocField v \<Longrightarrow> typeOf v = STRUCT"
  by (cases v) (simp_all add: hasKind_def)

lemma fold_tuples:
  "fold (\<lambda>(i, v) (a, b). (f i v a, g i v b)) fs (a0, b0) =
     (fold (\<lambda>(i, v). f i v) fs a0, fold (\<lambda>(i, v). g i v) fs b0)"
  "fold (\<lambda>(i, v) (a, b, c). (f i v a, g i v b, h i v c)) fs (a0, b0, c0) =
     (fold (\<lambda>(i, v). f i v) fs a0, fold (\<lambda>(i, v). g i v) fs b0, fold (\<lambda>(i, v). h i v) fs c0)"
  "fold (\<lambda>(i, v) (a, b, c, d). (f i v a, g i v b, h i v c, k i v d)) fs (a0, b0, c0, d0) =
     (fold (\<lambda>(i, v). f i v) fs a0, fold (\<lambda>(i, v). g i v) fs b0, fold (\<lambda>(i, v). h i v) fs c0,
      fold (\<lambda>(i, v). k i v) fs d0)"
  by (induction fs arbitrary: a0 b0 c0 d0) auto

lemmas last_defs = lastStr_def lastInt_def lastLoc_def lastLocPtr_def

text \<open>The arguments of a method as the interface definition has them, and as three readers expect them.\<close>

definition wrapped :: "(int \<times> tval) list \<Rightarrow> tok list" where
  "wrapped fs = encode (VStruct [(1, VStruct fs)])"

definition flat :: "(int \<times> tval) list \<Rightarrow> tok list" where
  "flat fs = encode (VStruct fs)"

lemma yields_wrapped:
  assumes "stream_ok P view" and "conforms n kinds fs"
    and "\<And>i v r ts. wellTyped v \<Longrightarrow> (case kinds i of None \<Rightarrow> True | Some k \<Rightarrow> hasKind n k v) \<Longrightarrow>
      yields P view (body (typeOf v) i r) (encode v @ ts) (upd i v r) ts"
    and "fold (\<lambda>(i, v). upd i v) fs r = x"
  shows "yields P view (readArgs n body r) (wrapped fs @ ts) x ts"
  unfolding assms(4) [symmetric] wrapped_def
  by (rule yields_readArgs [OF assms(1)]) (use assms(2,3) in \<open>auto simp: conforms_def\<close>)

lemma yields_flat:
  assumes "stream_ok P view" and "conforms n kinds fs"
    and "\<And>i v r ts. wellTyped v \<Longrightarrow> (case kinds i of None \<Rightarrow> True | Some k \<Rightarrow> hasKind n k v) \<Longrightarrow>
      yields P view (body (typeOf v) i r) (encode v @ ts) (upd i v r) ts"
    and "fold (\<lambda>(i, v). upd i v) fs r = x"
  shows "yields P view (readFlat n body r) (flat fs @ ts) x ts"
  unfolding assms(4) [symmetric] flat_def
  by (rule yields_readFlat [OF assms(1)]) (use assms(2,3) in \<open>auto simp: conforms_def\<close>)

lemmas field_rules = yields_str_field yields_int_field yields_loc_field yields_skip_field

lemma yields_readTokenRequest:
  assumes P: "stream_ok P view" and fs: "conforms n [1 \<mapsto> StrField, 2 \<mapsto> StrField] fs"
  shows "yields P view (readTokenRequest n) (wrapped fs @ ts) (lastStr fs 1, lastStr fs 2) ts"
  unfolding readTokenRequest_def
  by (rule yields_wrapped [OF P fs, where upd = "\<lambda>i v (a, b). (updStr 1 i v a, updStr 2 i v b)"]; (simp add: fold_tuples last_defs; fail)?)
    (auto simp: upd_defs loc_field_struct split: prod.splits intro!: field_rules [OF P])

lemma yields_readOrderIDRequest:
  assumes P: "stream_ok P view" and fs: "conforms n [1 \<mapsto> StrField, 2 \<mapsto> StrField] fs"
  shows "yields P view (readOrderIDRequest n) (wrapped fs @ ts) (lastStr fs 1, lastStr fs 2) ts"
  unfolding readOrderIDRequest_def
  by (rule yields_wrapped [OF P fs, where upd = "\<lambda>i v (a, b). (updStr 1 i v a, updStr 2 i v b)"]; (simp add: fold_tuples last_defs; fail)?)
    (auto simp: upd_defs loc_field_struct split: prod.splits intro!: field_rules [OF P])

lemma yields_readFailOrderRequest:
  assumes P: "stream_ok P view" and fs: "conforms n [1 \<mapsto> StrField, 2 \<mapsto> StrField, 3 \<mapsto> StrField] fs"
  shows "yields P view (readFailOrderRequest n) (wrapped fs @ ts) (lastStr fs 1, lastStr fs 2, lastStr fs 3) ts"
  unfolding readFailOrderRequest_def
  by (rule yields_wrapped [OF P fs, where upd = "\<lambda>i v (a, b, c). (updStr 1 i v a, updStr 2 i v b, updStr 3 i v c)"]; (simp add: fold_tuples last_defs; fail)?)
    (auto simp: upd_defs loc_field_struct split: prod.splits intro!: field_rules [OF P])

lemma yields_readHeartbeatRequest:
  assumes P: "stream_ok P view" and fs: "conforms n [1 \<mapsto> StrField, 2 \<mapsto> LocField] fs"
  shows "yields P view (readHeartbeatRequest n) (wrapped fs @ ts) (lastStr fs 1, lastLoc fs 2) ts"
  unfolding readHeartbeatRequest_def
  by (rule yields_wrapped [OF P fs, where upd = "\<lambda>i v (a, b). (updStr 1 i v a, updLoc 2 i v b)"]; (simp add: fold_tuples last_defs; fail)?)
    (auto simp: upd_defs loc_field_struct split: prod.splits intro!: field_rules [OF P])

lemma yields_readSubmitOrderRequest:
  assumes P: "stream_ok P view" and fs: "conforms n [1 \<mapsto> StrField, 2 \<mapsto> LocField, 3 \<mapsto> LocField] fs"
  shows "yields P view (readSubmitOrderRequest n) (flat fs @ ts) (lastStr fs 1, lastLoc fs 2, lastLoc fs 3) ts"
  unfolding readSubmitOrderRequest_def
  by (rule yields_flat [OF P fs, where upd = "\<lambda>i v (a, b, c). (updStr 1 i v a, updLoc 2 i v b, updLoc 3 i v c)"]; (simp add: fold_tuples last_defs; fail)?)
    (auto simp: upd_defs loc_field_struct split: prod.splits intro!: field_rules [OF P])

lemma yields_readListOrdersRequest:
  assumes P: "stream_ok P view" and fs: "conforms n [1 \<mapsto> StrField, 2 \<mapsto> StrField, 3 \<mapsto> IntField, 4 \<mapsto> IntField] fs"
  shows "yields P view (readListOrdersRequest n) (flat fs @ ts) (lastStr fs 1, lastStr fs 2, lastInt fs 3, lastInt fs 4) ts"
  unfolding readListOrdersRequest_def
  by (rule yields_flat [OF P fs, where upd = "\<lambda>i v (a, b, c, d). (updStr 1 i v a, updStr 2 i v b, updInt 3 i v c, updInt 4 i v d)"]; (simp add: fold_tuples last_defs; fail)?)
    (auto simp: upd_defs loc_field_struct split: prod.splits intro!: field_rules [OF P])

lemma yields_readUpdateOrderRequest:
  assumes P: "stream_ok P view" and fs: "conforms n [1 \<mapsto> StrField, 2 \<mapsto> StrField, 3 \<mapsto> LocField, 4 \<mapsto> LocField] fs"
  shows "yields P view (readUpdateOrderRequest n) (flat fs @ ts) (lastStr fs 1, lastStr fs 2, lastLocPtr fs 3, lastLocPtr fs 4) ts"
  unfolding readUpdateOrderRequest_def
  by (rule yields_flat [OF P fs, where upd = "\<lambda>i v (a, b, c, d). (updStr 1 i v a, updStr 2 i v b, updLocPtr 3 i v c, updLocPtr 4 i v d)"]; (simp add: fold_tuples last_defs; fail)?)
    (auto simp: upd_defs loc_field_struct split: prod.splits intro!: field_rules [OF P])

lemma yields_readAuthRequest:
  assumes P: "stream_ok P view" and fs: "conforms n [1 \<mapsto> StrField] fs"
  shows "yields P view (readAuthRequest n) (wrapped fs @ ts) (lastStr fs 1) ts"
  unfolding readAuthRequest_def
  by (rule yields_wrapped [OF P fs, where upd = "updStr 1"]; (simp add: last_defs; fail)?)
    (auto simp: upd_defs hasKind_def intro!: yields_skip_field [OF P] yields_ops(6) [OF P])

section \<open>Writers\<close>

text \<open>The tokens the writers produce.\<close>

definition optToks :: "('a \<Rightarrow> tok list) \<Rightarrow> 'a option \<Rightarrow> tok list" where
  "optToks f v = (case v of None \<Rightarrow> [] | Some x \<Rightarrow> f x)"

definition strToks :: "int \<Rightarrow> string \<Rightarrow> tok list" where
  "strToks i s = [KField STRING i, KStr s]"

definition timeToks :: "int \<Rightarrow> time \<Rightarrow> tok list" where
  "timeToks i t = [KField I64 i, KI64 (Unix t)]"

definition locToks :: "int \<Rightarrow> Location \<Rightarrow> tok list" where
  "locToks i l = [KField STRUCT i, KField DOUBLE 1, KDbl (Lat l), KField DOUBLE 2, KDbl (Lng l)]"

definition orderToks :: "Order \<Rightarrow> tok list" where
  "orderToks ord =
     strToks 1 (oID ord) @ strToks 2 (oUserID ord) @ locToks 3 (oOrigin ord) @
     locToks 4 (oDestination ord) @ strToks 5 (oStatus ord) @ optToks (strToks 6) (oAssignedDroneID ord) @
     optToks (locToks 7) (oHandoffOrigin ord) @ timeToks 8 (oCreatedAt ord) @ timeToks 9 (oUpdatedAt ord) @
     optToks (timeToks 10) (oReservedAt ord) @ optToks (timeToks 11) (oPickedUpAt ord) @
     optToks (timeToks 12) (oDeliveredAt ord) @ optToks (timeToks 13) (oFailedAt ord) @
     optToks (strToks 14) (oFailureReason ord)"

definition viewToks :: "OrderView \<Rightarrow> tok list" where
  "viewToks v =
     KField STRUCT 1 # orderToks (vOrder v) @ optToks (locToks 2) (vCurrentLocation v) @
     optToks (\<lambda>x. [KField I64 3, KI64 x]) (vETASeconds v)"

definition droneToks :: "Drone \<Rightarrow> tok list" where
  "droneToks dr =
     strToks 1 (dID dr) @ strToks 2 (dStatus dr) @ optToks (locToks 3) (dLastLocation dr) @
     optToks (timeToks 4) (dLastHeartbeatAt dr) @ optToks (strToks 5) (dCurrentOrderID dr) @
     timeToks 6 (dCreatedAt dr) @ timeToks 7 (dUpdatedAt dr)"

definition statusToks :: "DroneStatusView \<Rightarrow> tok list" where
  "statusToks v =
     KField STRUCT 1 # droneToks (svDrone v) @
     optToks (\<lambda>w. KField STRUCT 2 # viewToks w) (svCurrentOrder v)"

text \<open>The program succeeds and appends the tokens.\<close>

definition emits :: "'p TProtocol \<Rightarrow> ('p \<Rightarrow> tok list) \<Rightarrow> ('p, unit) T \<Rightarrow> tok list \<Rightarrow> bool" where
  "emits P sink m ks \<longleftrightarrow> appends sink (m P) ks"

lemma emits_returnM: "emits P sink (returnM ()) []"
  by (simp add: emits_def appends_def returnM_def)

lemma emits_seqM:
  assumes "emits P sink m ks" and "emits P sink n ks'"
  shows "emits P sink (seqM m n) (ks @ ks')"
  unfolding emits_def appends_def
proof
  fix p
  obtain p1 where "m P p = (Inr (), p1)" "sink p1 = sink p @ ks"
    using assms(1) unfolding emits_def appends_def by blast
  moreover obtain p2 where "n P p1 = (Inr (), p2)" "sink p2 = sink p1 @ ks'"
    using assms(2) unfolding emits_def appends_def by blast
  ultimately show "\<exists>p'. seqM m n P p = (Inr (), p') \<and> sink p' = sink p @ ks @ ks'"
    by (simp add: run_rules)
qed

lemma emits_ops:
  assumes "sink_ok P sink"
  shows "emits P sink (WriteStructBegin name) []" "emits P sink WriteStructEnd []"
    "emits P sink WriteFieldEnd []" "emits P sink WriteListEnd []"
    "emits P sink WriteFieldStop [KStop]"
    "emits P sink (WriteFieldBegin name t i) [KField t i]"
    "emits P sink (WriteListBegin t n) [KListHead t n]"
    "emits P sink (WriteString v) [KStr v]" "emits P sink (WriteI64 x) [KI64 x]"
    "emits P sink (WriteDouble d) [KDbl d]"
    "emits P sink (WriteMessageBegin m mt i) [KMsg m mt i]"
    "emits P sink WriteMessageEnd []" "emits P sink FlushOf []"
    "emits P sink (WriteException x') [KExc x']"
    "emits P sink (WriteI32 x) [KI32 x]"
  using assms by (simp_all add: emits_def sink_ok_def WriteStructBegin_def WriteFieldBegin_def
      WriteListBegin_def WriteString_def WriteI32_def WriteI64_def WriteDouble_def WriteMessageBegin_def
      WriteException_def)

lemma emits_writeField:
  assumes "sink_ok P sink" and "emits P sink m ks"
  shows "emits P sink (writeField name t i m) (KField t i # ks)"
  using emits_seqM [OF emits_ops(6) [OF assms(1)] emits_seqM [OF assms(2) emits_ops(3) [OF assms(1)]]]
  by (simp add: writeField_def)

lemma emits_writeOpt:
  assumes "\<And>x. emits P sink (f x) (ks x)"
  shows "emits P sink (writeOpt v f) (optToks ks v)"
  using assms emits_returnM by (cases v) (simp_all add: writeOpt_def optToks_def)

lemma emits_seqAll:
  "list_all2 (\<lambda>m ks. emits P sink m ks) ms kss \<Longrightarrow> emits P sink (seqAll ms) (concat kss)"
  by (induction rule: list_all2_induct) (auto intro: emits_returnM emits_seqM)

lemma emits_seqAllI:
  assumes "list_all2 (\<lambda>m ks. emits P sink m ks) ms kss" and "concat kss = ks"
  shows "emits P sink (seqAll ms) ks"
  using emits_seqAll [OF assms(1)] assms(2) by simp

lemmas emits_all = list_all2_Cons [THEN iffD2, OF conjI] list_all2_Nil [THEN iffD2, OF refl]

lemma emits_location:
  assumes "sink_ok P sink"
  shows "emits P sink (writeField name STRUCT i (writeLocation l)) (locToks i l)"
  unfolding writeLocation_def locToks_def
  by (rule emits_writeField [OF assms], rule emits_seqAllI,
      (rule emits_all emits_writeField [OF assms] emits_ops [OF assms])+) simp

lemma emits_strings_and_times:
  assumes "sink_ok P sink"
  shows "emits P sink (writeField name STRING i (WriteString s)) (strToks i s)"
    and "emits P sink (writeField name I64 i (WriteI64 (Unix t))) (timeToks i t)"
  unfolding strToks_def timeToks_def by (rule emits_writeField emits_ops assms)+

lemmas emits_fields = emits_strings_and_times emits_location emits_ops(1,2,5)

lemma emits_writeTokenResponse:
  assumes "sink_ok P sink"
  shows "emits P sink (writeTokenResponse token t) (encode (VStruct [(1, VStr token), (2, VI64 (Unix t))]))"
  unfolding writeTokenResponse_def
  by (rule emits_seqAllI, (rule emits_all emits_writeOpt emits_fields [OF assms])+)
    (simp add: strToks_def timeToks_def)

lemma emits_writeOrder:
  assumes "sink_ok P sink"
  shows "emits P sink (writeOrder ord) (orderToks ord)"
  unfolding writeOrder_def orderToks_def
  by (rule emits_seqAllI, (rule emits_all emits_writeOpt emits_fields [OF assms])+) simp

lemma emits_writeOrderView:
  assumes "sink_ok P sink"
  shows "emits P sink (writeOrderView v) (viewToks v)"
  unfolding writeOrderView_def viewToks_def
  by (rule emits_seqAllI, (rule emits_all emits_writeOpt emits_fields [OF assms]
      emits_writeField [OF assms] emits_writeOrder [OF assms] emits_ops(9) [OF assms])+) simp

lemma emits_writeDrone:
  assumes "sink_ok P sink"
  shows "emits P sink (writeDrone dr) (droneToks dr)"
  unfolding writeDrone_def droneToks_def
  by (rule emits_seqAllI, (rule emits_all emits_writeOpt emits_fields [OF assms])+) simp

lemma emits_writeDroneStatus:
  assumes "sink_ok P sink"
  shows "emits P sink (writeDroneStatus v) (statusToks v)"
  unfolding writeDroneStatus_def statusToks_def
  by (rule emits_seqAllI, (rule emits_all emits_writeOpt emits_ops(1,2) [OF assms] emits_writeField [OF assms]
      emits_writeOrderView [OF assms] emits_writeDrone [OF assms])+) simp

lemma emits_map:
  assumes "\<And>x. emits P sink (f x) (ks x)"
  shows "emits P sink (seqAll (map f xs)) (concat (map ks xs))"
  by (rule emits_seqAll) (simp add: assms list_all2_conv_all_nth)

lemma emits_lists:
  assumes "sink_ok P sink"
  shows "emits P sink (writeOrderViewList views)
      (KListHead STRUCT (length views) # concat (map viewToks views))"
    and "emits P sink (writeDroneList ds) (KListHead STRUCT (length ds) # concat (map droneToks ds))"
  unfolding writeOrderViewList_def writeDroneList_def
  using emits_seqM [OF emits_ops(7) [OF assms] emits_seqM [OF emits_map [OF emits_writeOrderView [OF assms]]
        emits_ops(4) [OF assms]]]
    emits_seqM [OF emits_ops(7) [OF assms] emits_seqM [OF emits_map [OF emits_writeDrone [OF assms]]
        emits_ops(4) [OF assms]]]
  by simp_all

text \<open>
  In the tokens of a value every struct is closed: there are at least as many stops as struct
  fields. The writers above, except the one of the token, write no stop at all.
\<close>

definition stops :: "tok list \<Rightarrow> nat" where
  "stops ks = length (filter (\<lambda>k. k = KStop) ks)"

definition openings :: "tok list \<Rightarrow> nat" where
  "openings ks = length (filter (\<lambda>k. \<exists>i. k = KField STRUCT i) ks)"

lemma stops_simps [simp]:
  "stops [] = 0" "stops (k # ks) = (if k = KStop then Suc (stops ks) else stops ks)"
  "stops (ks @ ks') = stops ks + stops ks'"
  by (simp_all add: stops_def)

lemma openings_simps [simp]:
  "openings [] = 0"
  "openings (k # ks) = (if \<exists>i. k = KField STRUCT i then Suc (openings ks) else openings ks)"
  "openings (ks @ ks') = openings ks + openings ks'"
  by (simp_all add: openings_def)

lemma encode_closed:
  "openings (encode v) + (if typeOf v = STRUCT then 1 else 0) \<le> stops (encode v)"
proof (induction v rule: encode.induct)
  case (5 fs)
  have "openings (concat (map (\<lambda>(i, v). KField (typeOf v) i # encode v) fs)) \<le>
      stops (concat (map (\<lambda>(i, v). KField (typeOf v) i # encode v) fs))"
    using 5 by (induction fs) (force split: if_splits)+
  then show ?case by simp
next
  case (6 t vs)
  then show ?case by (induction vs) (force split: if_splits)+
qed simp_all

lemma optToks_stops [simp]: "(\<And>x. stops (f x) = 0) \<Longrightarrow> stops (optToks f v) = 0"
  by (cases v) (simp_all add: optToks_def)

lemma writers_never_stop [simp]:
  "stops (strToks i s) = 0" "stops (timeToks i t) = 0" "stops (locToks i l) = 0"
  "stops (orderToks ord) = 0" "stops (viewToks w) = 0" "stops (droneToks dr) = 0"
  "stops (statusToks u) = 0"
  by (simp_all add: strToks_def timeToks_def locToks_def orderToks_def viewToks_def droneToks_def
      statusToks_def)

section \<open>A protocol over lists of tokens\<close>

text \<open>
  A protocol that meets these conditions: its state is the list of tokens still to be read, or
  written so far. To skip a value takes at most twice as many steps as it has tokens.
\<close>

fun skipVal :: "nat \<Rightarrow> ttype \<Rightarrow> tok list \<Rightarrow> tok list option"
  and skipFields :: "nat \<Rightarrow> tok list \<Rightarrow> tok list option"
  and skipElems :: "nat \<Rightarrow> ttype \<Rightarrow> nat \<Rightarrow> tok list \<Rightarrow> tok list option" where
  "skipVal 0 t ks = None"
| "skipVal (Suc n) t ks =
     (if t = STRUCT then skipFields n ks
      else case ks of
         KListHead u m # ks' \<Rightarrow> if t = LIST then skipElems n u m ks' else None
       | KStr x # ks' \<Rightarrow> if t = STRING then Some ks' else None
       | KDbl x # ks' \<Rightarrow> if t = DOUBLE then Some ks' else None
       | KI32 x # ks' \<Rightarrow> if t = I32 then Some ks' else None
       | KI64 x # ks' \<Rightarrow> if t = I64 then Some ks' else None
       | _ \<Rightarrow> None)"
| "skipFields 0 ks = None"
| "skipFields (Suc n) ks =
     (case ks of
        KStop # ks' \<Rightarrow> Some ks'
      | KField t i # ks' \<Rightarrow> (case skipVal n t ks' of None \<Rightarrow> None | Some r \<Rightarrow> skipFields n r)
      | _ \<Rightarrow> None)"
| "skipElems 0 t m ks = None"
| "skipElems (Suc n) t m ks =
     (case m of 0 \<Rightarrow> Some ks
      | Suc m' \<Rightarrow> (case skipVal n t ks of None \<Rightarrow> None | Some r \<Rightarrow> skipElems n t m' r))"

lemma encode_nonempty: "0 < length (encode v)"
  by (cases v) simp_all

lemma skipFields_encode:
  assumes "\<And>i v n ts. (i, v) \<in> set fs \<Longrightarrow> 2 * length (encode v) \<le> n \<Longrightarrow>
      skipVal n (typeOf v) (encode v @ ts) = Some ts"
    and "2 * length (concat (map (\<lambda>(i, v). KField (typeOf v) i # encode v) fs)) < n"
  shows "skipFields n (concat (map (\<lambda>(i, v). KField (typeOf v) i # encode v) fs) @ KStop # ts) = Some ts"
  using assms
proof (induction fs arbitrary: n)
  case Nil
  then show ?case by (cases n) simp_all
next
  case (Cons f fs)
  obtain m where n: "n = Suc m" using Cons.prems(2) by (cases n) simp_all
  have "skipFields m (concat (map (\<lambda>(i, v). KField (typeOf v) i # encode v) fs) @ KStop # ts) = Some ts"
    using Cons.prems n by (intro Cons.IH) (auto split: prod.splits)
  moreover have "skipVal m (typeOf (snd f)) (encode (snd f) @ ts') = Some ts'" for ts'
    using Cons.prems(1) [of "fst f" "snd f" m ts'] Cons.prems(2) n by (cases f) auto
  ultimately show ?case by (cases f) (simp add: n)
qed

lemma skipElems_encode:
  assumes "\<And>v n ts. v \<in> set vs \<Longrightarrow> 2 * length (encode v) \<le> n \<Longrightarrow> skipVal n t (encode v @ ts) = Some ts"
    and "2 * length (concat (map encode vs)) < n"
  shows "skipElems n t (length vs) (concat (map encode vs) @ ts) = Some ts"
  using assms
proof (induction vs arbitrary: n)
  case Nil
  then show ?case by (cases n) simp_all
next
  case (Cons v vs)
  obtain m where n: "n = Suc m" using Cons.prems(2) by (cases n) simp_all
  have "skipElems m t (length vs) (concat (map encode vs) @ ts) = Some ts"
    using Cons.prems n encode_nonempty [of v] by (intro Cons.IH) (simp_all del: length_greater_0_conv)
  moreover have "skipVal m t (encode v @ ts') = Some ts'" for ts'
    using Cons.prems(1) [of v m ts'] Cons.prems(2) n by auto
  ultimately show ?case by (simp add: n)
qed

lemma skipVal_scalars:
  assumes "2 \<le> n"
  shows "skipVal n STRING (KStr x # ks) = Some ks" "skipVal n DOUBLE (KDbl d # ks) = Some ks"
    "skipVal n I32 (KI32 k # ks) = Some ks" "skipVal n I64 (KI64 k # ks) = Some ks"
  using assms by (cases n; simp)+

lemma skipVal_encode:
  "wellTyped v \<Longrightarrow> 2 * length (encode v) \<le> n \<Longrightarrow> skipVal n (typeOf v) (encode v @ ts) = Some ts"
proof (induction v arbitrary: n ts rule: encode.induct)
  case (5 fs)
  then obtain m where n: "n = Suc m" by (cases n) auto
  have "skipFields m (concat (map (\<lambda>(i, v). KField (typeOf v) i # encode v) fs) @ KStop # ts) = Some ts"
  proof (rule skipFields_encode)
    fix i v n ts'
    assume iv: "(i, v) \<in> set fs" and "2 * length (encode v) \<le> n"
    then have "wellTyped v" using "5.prems"(1) by auto
    with iv show "skipVal n (typeOf v) (encode v @ ts') = Some ts'"
      using "5.IH" [OF iv refl] \<open>2 * length (encode v) \<le> n\<close> by simp
  qed (use "5.prems"(2) n in simp)
  then show ?case by (simp add: n)
next
  case (6 t vs)
  then obtain m where n: "n = Suc m" by (cases n) auto
  have "skipElems m t (length vs) (concat (map encode vs) @ ts) = Some ts"
  proof (rule skipElems_encode)
    fix v n ts'
    assume v: "v \<in> set vs" and "2 * length (encode v) \<le> n"
    then have "wellTyped v" "typeOf v = t" using "6.prems"(1) by auto
    then show "skipVal n t (encode v @ ts') = Some ts'"
      using "6.IH" [OF v] \<open>2 * length (encode v) \<le> n\<close> by simp
  qed (use "6.prems"(2) n in simp)
  then show ?case by (simp add: n)
qed (simp_all add: skipVal_scalars)

definition expect :: "string \<Rightarrow> (tok \<Rightarrow> 'a option) \<Rightarrow> tok list \<Rightarrow> (terr + 'a) \<times> tok list" where
  "expect what f ks =
     (case ks of [] \<Rightarrow> (Inl (TErr what), [])
      | k # ks' \<Rightarrow> (case f k of None \<Rightarrow> (Inl (TErr what), ks) | Some x \<Rightarrow> (Inr x, ks')))"

definition put :: "tok list \<Rightarrow> tok list \<Rightarrow> (terr + unit) \<times> tok list" where
  "put new ks = (Inr (), ks @ new)"

definition tokProto :: "tok list TProtocol" where
  "tokProto =
     \<lparr>ReadMessageBegin = expect ''message'' (\<lambda>k. case k of KMsg m t i \<Rightarrow> Some (m, t, i) | _ \<Rightarrow> None),
      ReadMessageEnd = put [], ReadStructBegin = put [], ReadStructEnd = put [],
      ReadFieldBegin = expect ''field''
        (\<lambda>k. case k of KField t i \<Rightarrow> Some (t, i) | KStop \<Rightarrow> Some (STOP, 0) | _ \<Rightarrow> None),
      ReadFieldEnd = put [],
      ReadString = expect ''string'' (\<lambda>k. case k of KStr x \<Rightarrow> Some x | _ \<Rightarrow> None),
      ReadDouble = expect ''double'' (\<lambda>k. case k of KDbl x \<Rightarrow> Some x | _ \<Rightarrow> None),
      ReadI32 = expect ''i32'' (\<lambda>k. case k of KI32 x \<Rightarrow> Some x | _ \<Rightarrow> None),
      ReadI64 = expect ''i64'' (\<lambda>k. case k of KI64 x \<Rightarrow> Some x | _ \<Rightarrow> None),
      ReadListBegin = expect ''list'' (\<lambda>k. case k of KListHead t n \<Rightarrow> Some (t, n) | _ \<Rightarrow> None),
      ReadListEnd = put [],
      SkipOf = (\<lambda>t ks. case skipVal (2 * length ks) t ks of
        None \<Rightarrow> (Inl (TErr ''skip''), ks) | Some r \<Rightarrow> (Inr (), r)),
      WriteMessageBeginOf = (\<lambda>m t i. put [KMsg m t i]), WriteMessageEnd = put [],
      WriteStructBeginOf = (\<lambda>name. put []), WriteStructEnd = put [],
      WriteFieldBeginOf = (\<lambda>name t i. put [KField t i]), WriteFieldEnd = put [],
      WriteFieldStop = put [KStop], WriteListBeginOf = (\<lambda>t n. put [KListHead t n]),
      WriteListEnd = put [], WriteStringOf = (\<lambda>v. put [KStr v]), WriteI32Of = (\<lambda>v. put [KI32 v]), WriteI64Of = (\<lambda>v. put [KI64 v]),
      WriteDoubleOf = (\<lambda>v. put [KDbl v]), WriteExceptionOf = (\<lambda>x. put [KExc x]), FlushOf = put []\<rparr>"

lemma tokProto_ok:
  "stream_ok tokProto (\<lambda>ks. ks)" "sink_ok tokProto (\<lambda>ks. ks)" "strict_strings tokProto (\<lambda>ks. ks)"
proof -
  have "skipVal (2 * length (encode v @ ts)) (typeOf v) (encode v @ ts) = Some ts" if "wellTyped v" for v ts
    using skipVal_encode [OF that] by simp
  then show "stream_ok tokProto (\<lambda>ks. ks)"
    by (simp add: stream_ok_def tokProto_def expect_def put_def steady_def)
  show "sink_ok tokProto (\<lambda>ks. ks)"
    by (simp add: sink_ok_def tokProto_def put_def appends_def)
  show "strict_strings tokProto (\<lambda>ks. ks)"
    by (auto simp: strict_strings_def tokProto_def expect_def split: list.splits tok.splits)
qed

text \<open>A reader without the outer argument struct meets the struct of the argument, and refuses.\<close>

lemma flat_reader_refuses:
  assumes P: "stream_ok P view" and strict: "strict_strings P view" and "0 < n"
    and body: "\<And>r. \<exists>k. body STRUCT 1 r = bindM ReadString k"
    and p: "view p = wrapped ((i, VStr s) # fs) @ ts"
  shows "\<exists>e p'. readFlat n body r0 P p = (Inl (TErr e), p')"
proof -
  let ?fs = "(i, VStr s) # fs"
  have w: "wrapped ?fs @ ts = KField STRUCT 1 # encode (VStruct ?fs) @ KStop # ts" by (simp add: wrapped_def)
  obtain p1 where p1: "ReadStructBegin P p = (Inr (), p1)" "view p1 = view p"
    using yields_ops(1) [OF P] unfolding yields_def by blast
  obtain p2 where p2: "ReadFieldBegin P p1 = (Inr (STRUCT, 1), p2)" "view p2 = encode (VStruct ?fs) @ KStop # ts"
    using yields_ops(5) [OF P] p1(2) p w unfolding yields_def by metis
  then have "\<exists>ks. view p2 = KField STRING i # ks" by simp
  then obtain e p3 where "ReadString P p2 = (Inl (TErr e), p3)" using strict unfolding strict_strings_def by blast
  moreover obtain k where "body STRUCT 1 r0 = bindM ReadString k" using body by blast
  ultimately show ?thesis using p1 p2(1) \<open>0 < n\<close>
    by (cases n) (simp_all add: readFlat_def readStruct_def run_rules)
qed

end
