(* ===== verification/ThriftProc.thy ===== *)
theory ThriftProc
  imports ThriftWire Http
begin

text \<open>
  Package \<open>internal/transport/thriftapi\<close>, the first half of \<open>processor.go\<close>: the table of
  handlers, the dispatch of a message, the handlers, and how replies and exceptions are
  written.

  A call has a protocol to read from and one to write to, beside the service. Its programs
  run over these three states. A reader that runs out of its bound on the number of fields
  makes the whole call end as \<open>Diverged\<close>; every other error of a protocol is a value the
  handlers inspect or, as in \<open>_ = out.Flush(ctx)\<close>, drop.
\<close>

section \<open>Programs of a call\<close>

record ('i, 'o) wiring =
  inProto :: "'i TProtocol"
  outProto :: "'o TProtocol"
  world :: env

record ('i, 'o) conn =
  inSt :: 'i
  outSt :: 'o
  svcSt :: st

datatype diverged = Diverged

type_synonym ('i, 'o, 'a) H = "(('i, 'o) wiring, ('i, 'o) conn, diverged, 'a) prog"

text \<open>The error \<open>err.Error()\<close> of a protocol operation, or its value.\<close>

definition outcome :: "terr + 'a \<Rightarrow> diverged + (string + 'a)" where
  "outcome r = (case r of Inl OutOfFuel \<Rightarrow> Inl Diverged | Inl (TErr e) \<Rightarrow> Inr (Inl e) | Inr x \<Rightarrow> Inr (Inr x))"

definition tryIn :: "('i, 'a) T \<Rightarrow> ('i, 'o, string + 'a) H" where
  "tryIn m = (\<lambda>W c. case m (inProto W) (inSt c) of (r, p) \<Rightarrow> (outcome r, c\<lparr>inSt := p\<rparr>))"

definition tryOut :: "('o, 'a) T \<Rightarrow> ('i, 'o, string + 'a) H" where
  "tryOut m = (\<lambda>W c. case m (outProto W) (outSt c) of (r, p) \<Rightarrow> (outcome r, c\<lparr>outSt := p\<rparr>))"

definition trySvc :: "'a M \<Rightarrow> ('i, 'o, gerror + 'a) H" where
  "trySvc m = (\<lambda>W c. case m (world W) (svcSt c) of (r, s) \<Rightarrow> (Inr r, c\<lparr>svcSt := s\<rparr>))"

type_synonym verdict = "bool \<times> texc option"

section \<open>Replies\<close>

text \<open>\<open>if err := m; err != nil { return false, PROTOCOL_ERROR(err) }\<close>, then the rest.\<close>

definition orFail :: "('o, unit) T \<Rightarrow> ('i, 'o, verdict) H \<Rightarrow> ('i, 'o, verdict) H" where
  "orFail m k = bindM (tryOut m) (\<lambda>r. case r of
      Inl err \<Rightarrow> returnM (False, Some (AppExc PROTOCOL_ERROR err))
    | Inr _ \<Rightarrow> k)"

definition writeReply :: "string \<Rightarrow> int \<Rightarrow> ('o, unit) T \<Rightarrow> ('i, 'o, verdict) H" where
  "writeReply method seqID writeSuccess =
     orFail (WriteMessageBegin method REPLY seqID)
    (orFail (WriteStructBegin (method @ ''_result''))
    (orFail writeSuccess
    (orFail WriteFieldEnd
    (orFail WriteFieldStop
    (orFail WriteStructEnd
    (orFail WriteMessageEnd
    (orFail FlushOf
    (returnM (True, None)))))))))"

definition writeException :: "string \<Rightarrow> int \<Rightarrow> texc \<Rightarrow> ('i, 'o, verdict) H" where
  "writeException method seqID appErr =
     seqM (tryOut (WriteMessageBegin method EXCEPTION seqID))
    (seqM (tryOut (WriteException appErr))
    (seqM (tryOut WriteMessageEnd)
    (seqM (tryOut FlushOf)
    (returnM (False, Some appErr)))))"

definition mapError :: "gerror \<Rightarrow> texc" where
  "mapError err =
     (if errorsIs err ErrUnauthorized then AppExc PROTOCOL_ERROR ''unauthorized''
      else if errorsIs err ErrForbidden then AppExc PROTOCOL_ERROR ''forbidden''
      else if errorsIs err ErrNotFound then AppExc PROTOCOL_ERROR ''not found''
      else if errorsIs err ErrConflict then AppExc PROTOCOL_ERROR ''conflict''
      else if errorsIs err ErrInvalid then AppExc PROTOCOL_ERROR ''invalid request''
      else if errorsIs err ErrPrecondition then AppExc PROTOCOL_ERROR ''precondition failed''
      else if errorsIs err ErrNoJob then AppExc PROTOCOL_ERROR ''no job''
      else AppExc INTERNAL_ERROR ''internal error'')"

section \<open>Authorisation\<close>

text \<open>\<open>p.auth.ParseToken(token)\<close>: the library reads the clock to check the dates of the token.\<close>

definition parseTokenM :: "Server \<Rightarrow> string \<Rightarrow> Claims M" where
  "parseTokenM p token =
     bindM nowM (\<lambda>now. case ParseToken (srvJWT p) (srvAuth p) token now of
        Inl err \<Rightarrow> throwM err | Inr claims \<Rightarrow> returnM claims)"

definition authorize :: "Server \<Rightarrow> string \<Rightarrow> string \<Rightarrow> ('i, 'o, texc + Claims) H" where
  "authorize p token role =
     bindM (trySvc (parseTokenM p token)) (\<lambda>r. case r of
        Inl err \<Rightarrow> returnM (Inl (AppExc PROTOCOL_ERROR ''unauthorized''))
      | Inr claims \<Rightarrow>
          if Role claims \<noteq> role then returnM (Inl (AppExc PROTOCOL_ERROR ''forbidden''))
          else returnM (Inr claims))"

definition authorizeAny :: "Server \<Rightarrow> string \<Rightarrow> ('i, 'o, texc + Claims) H" where
  "authorizeAny p token =
     bindM (trySvc (parseTokenM p token)) (\<lambda>r. case r of
        Inl err \<Rightarrow> returnM (Inl (AppExc PROTOCOL_ERROR ''unauthorized''))
      | Inr claims \<Rightarrow> returnM (Inr claims))"

section \<open>Handlers\<close>

text \<open>The argument \<open>n\<close> is the bound on the fields of a struct; a handler gets the sequence number.\<close>

type_synonym ('i, 'o) handlerFunc = "int \<Rightarrow> ('i, 'o, verdict) H"

definition thriftIssueToken :: "Server \<Rightarrow> nat \<Rightarrow> ('i, 'o) handlerFunc" where
  "thriftIssueToken p n seqID =
     bindM (tryIn (readTokenRequest n)) (\<lambda>r. case r of
        Inl err \<Rightarrow> writeException ''IssueToken'' seqID (AppExc PROTOCOL_ERROR err)
      | Inr (name, role) \<Rightarrow>
          if name = '''' \<or> \<not> ValidateRole role
          then writeException ''IssueToken'' seqID (AppExc PROTOCOL_ERROR ''invalid request'')
          else bindM (trySvc (IssueToken (srvJWT p) (srvAuth p) name role)) (\<lambda>r. case r of
             Inl err \<Rightarrow> writeException ''IssueToken'' seqID (AppExc INTERNAL_ERROR ''token error'')
           | Inr (jwt, expiry) \<Rightarrow> writeReply ''IssueToken'' seqID
               (seqM (WriteFieldBegin ''success'' STRUCT 0) (writeTokenResponse jwt expiry))))"

definition thriftSubmitOrder :: "Server \<Rightarrow> nat \<Rightarrow> ('i, 'o) handlerFunc" where
  "thriftSubmitOrder p n seqID =
     bindM (tryIn (readSubmitOrderRequest n)) (\<lambda>r. case r of
        Inl err \<Rightarrow> writeException ''SubmitOrder'' seqID (AppExc PROTOCOL_ERROR err)
      | Inr (authToken, origin, dest) \<Rightarrow>
          bindM (authorize p authToken RoleEndUser) (\<lambda>a. case a of
             Inl appErr \<Rightarrow> writeException ''SubmitOrder'' seqID appErr
           | Inr claims \<Rightarrow>
               bindM (trySvc (SubmitOrder (Subject claims) origin dest)) (\<lambda>r. case r of
                  Inl err \<Rightarrow> writeException ''SubmitOrder'' seqID (mapError err)
                | Inr order \<Rightarrow> writeReply ''SubmitOrder'' seqID
                    (seqM (WriteFieldBegin ''success'' STRUCT 0) (writeOrder order)))))"

definition thriftWithdrawOrder :: "Server \<Rightarrow> nat \<Rightarrow> ('i, 'o) handlerFunc" where
  "thriftWithdrawOrder p n seqID =
     bindM (tryIn (readOrderIDRequest n)) (\<lambda>r. case r of
        Inl err \<Rightarrow> writeException ''WithdrawOrder'' seqID (AppExc PROTOCOL_ERROR err)
      | Inr (authToken, orderID) \<Rightarrow>
          bindM (authorize p authToken RoleEndUser) (\<lambda>a. case a of
             Inl appErr \<Rightarrow> writeException ''WithdrawOrder'' seqID appErr
           | Inr claims \<Rightarrow>
               bindM (trySvc (WithdrawOrder (Subject claims) orderID)) (\<lambda>r. case r of
                  Inl err \<Rightarrow> writeException ''WithdrawOrder'' seqID (mapError err)
                | Inr order \<Rightarrow> writeReply ''WithdrawOrder'' seqID
                    (seqM (WriteFieldBegin ''success'' STRUCT 0) (writeOrder order)))))"

definition thriftGetOrder :: "Server \<Rightarrow> nat \<Rightarrow> ('i, 'o) handlerFunc" where
  "thriftGetOrder p n seqID =
     bindM (tryIn (readOrderIDRequest n)) (\<lambda>r. case r of
        Inl err \<Rightarrow> writeException ''GetOrder'' seqID (AppExc PROTOCOL_ERROR err)
      | Inr (authToken, orderID) \<Rightarrow>
          bindM (authorizeAny p authToken) (\<lambda>a. case a of
             Inl appErr \<Rightarrow> writeException ''GetOrder'' seqID appErr
           | Inr claims \<Rightarrow>
               bindM (trySvc (GetOrderView (srvSvc p) (Subject claims) (Role claims) orderID)) (\<lambda>r. case r of
                  Inl err \<Rightarrow> writeException ''GetOrder'' seqID (mapError err)
                | Inr view \<Rightarrow> writeReply ''GetOrder'' seqID
                    (seqM (WriteFieldBegin ''success'' STRUCT 0) (writeOrderView view)))))"

definition thriftReserveJob :: "Server \<Rightarrow> nat \<Rightarrow> ('i, 'o) handlerFunc" where
  "thriftReserveJob p n seqID =
     bindM (tryIn (readAuthRequest n)) (\<lambda>r. case r of
        Inl err \<Rightarrow> writeException ''ReserveJob'' seqID (AppExc PROTOCOL_ERROR err)
      | Inr authToken \<Rightarrow>
          bindM (authorize p authToken RoleDrone) (\<lambda>a. case a of
             Inl appErr \<Rightarrow> writeException ''ReserveJob'' seqID appErr
           | Inr claims \<Rightarrow>
               bindM (trySvc (DroneReserveJob (Subject claims))) (\<lambda>r. case r of
                  Inl err \<Rightarrow> writeException ''ReserveJob'' seqID (mapError err)
                | Inr order \<Rightarrow> writeReply ''ReserveJob'' seqID
                    (seqM (WriteFieldBegin ''success'' STRUCT 0) (writeOrder order)))))"

definition thriftPickupOrder :: "Server \<Rightarrow> nat \<Rightarrow> ('i, 'o) handlerFunc" where
  "thriftPickupOrder p n seqID =
     bindM (tryIn (readOrderIDRequest n)) (\<lambda>r. case r of
        Inl err \<Rightarrow> writeException ''PickupOrder'' seqID (AppExc PROTOCOL_ERROR err)
      | Inr (authToken, orderID) \<Rightarrow>
          bindM (authorize p authToken RoleDrone) (\<lambda>a. case a of
             Inl appErr \<Rightarrow> writeException ''PickupOrder'' seqID appErr
           | Inr claims \<Rightarrow>
               bindM (trySvc (DronePickup (Subject claims) orderID)) (\<lambda>r. case r of
                  Inl err \<Rightarrow> writeException ''PickupOrder'' seqID (mapError err)
                | Inr order \<Rightarrow> writeReply ''PickupOrder'' seqID
                    (seqM (WriteFieldBegin ''success'' STRUCT 0) (writeOrder order)))))"

definition thriftDeliverOrder :: "Server \<Rightarrow> nat \<Rightarrow> ('i, 'o) handlerFunc" where
  "thriftDeliverOrder p n seqID =
     bindM (tryIn (readOrderIDRequest n)) (\<lambda>r. case r of
        Inl err \<Rightarrow> writeException ''DeliverOrder'' seqID (AppExc PROTOCOL_ERROR err)
      | Inr (authToken, orderID) \<Rightarrow>
          bindM (authorize p authToken RoleDrone) (\<lambda>a. case a of
             Inl appErr \<Rightarrow> writeException ''DeliverOrder'' seqID appErr
           | Inr claims \<Rightarrow>
               bindM (trySvc (DroneDeliver (Subject claims) orderID)) (\<lambda>r. case r of
                  Inl err \<Rightarrow> writeException ''DeliverOrder'' seqID (mapError err)
                | Inr order \<Rightarrow> writeReply ''DeliverOrder'' seqID
                    (seqM (WriteFieldBegin ''success'' STRUCT 0) (writeOrder order)))))"

definition thriftFailOrder :: "Server \<Rightarrow> nat \<Rightarrow> ('i, 'o) handlerFunc" where
  "thriftFailOrder p n seqID =
     bindM (tryIn (readFailOrderRequest n)) (\<lambda>r. case r of
        Inl err \<Rightarrow> writeException ''FailOrder'' seqID (AppExc PROTOCOL_ERROR err)
      | Inr (authToken, orderID, reason) \<Rightarrow>
          bindM (authorize p authToken RoleDrone) (\<lambda>a. case a of
             Inl appErr \<Rightarrow> writeException ''FailOrder'' seqID appErr
           | Inr claims \<Rightarrow>
               bindM (trySvc (DroneFail (Subject claims) orderID reason)) (\<lambda>r. case r of
                  Inl err \<Rightarrow> writeException ''FailOrder'' seqID (mapError err)
                | Inr order \<Rightarrow> writeReply ''FailOrder'' seqID
                    (seqM (WriteFieldBegin ''success'' STRUCT 0) (writeOrder order)))))"

definition thriftMarkBroken :: "Server \<Rightarrow> nat \<Rightarrow> ('i, 'o) handlerFunc" where
  "thriftMarkBroken p n seqID =
     bindM (tryIn (readAuthRequest n)) (\<lambda>r. case r of
        Inl err \<Rightarrow> writeException ''MarkBroken'' seqID (AppExc PROTOCOL_ERROR err)
      | Inr authToken \<Rightarrow>
          bindM (authorize p authToken RoleDrone) (\<lambda>a. case a of
             Inl appErr \<Rightarrow> writeException ''MarkBroken'' seqID appErr
           | Inr claims \<Rightarrow>
               bindM (trySvc (DroneMarkBroken (Subject claims))) (\<lambda>r. case r of
                  Inl err \<Rightarrow> writeException ''MarkBroken'' seqID (mapError err)
                | Inr drone \<Rightarrow> writeReply ''MarkBroken'' seqID
                    (seqM (WriteFieldBegin ''success'' STRUCT 0) (writeDrone drone)))))"

definition thriftHeartbeat :: "Server \<Rightarrow> nat \<Rightarrow> ('i, 'o) handlerFunc" where
  "thriftHeartbeat p n seqID =
     bindM (tryIn (readHeartbeatRequest n)) (\<lambda>r. case r of
        Inl err \<Rightarrow> writeException ''Heartbeat'' seqID (AppExc PROTOCOL_ERROR err)
      | Inr (authToken, loc) \<Rightarrow>
          bindM (authorize p authToken RoleDrone) (\<lambda>a. case a of
             Inl appErr \<Rightarrow> writeException ''Heartbeat'' seqID appErr
           | Inr claims \<Rightarrow>
               bindM (trySvc (DroneHeartbeat (srvSvc p) (Subject claims) loc)) (\<lambda>r. case r of
                  Inl err \<Rightarrow> writeException ''Heartbeat'' seqID (mapError err)
                | Inr view \<Rightarrow> writeReply ''Heartbeat'' seqID
                    (seqM (WriteFieldBegin ''success'' STRUCT 0) (writeDroneStatus view)))))"

definition thriftCurrentOrder :: "Server \<Rightarrow> nat \<Rightarrow> ('i, 'o) handlerFunc" where
  "thriftCurrentOrder p n seqID =
     bindM (tryIn (readAuthRequest n)) (\<lambda>r. case r of
        Inl err \<Rightarrow> writeException ''CurrentOrder'' seqID (AppExc PROTOCOL_ERROR err)
      | Inr authToken \<Rightarrow>
          bindM (authorize p authToken RoleDrone) (\<lambda>a. case a of
             Inl appErr \<Rightarrow> writeException ''CurrentOrder'' seqID appErr
           | Inr claims \<Rightarrow>
               bindM (trySvc (DroneCurrentOrder (srvSvc p) (Subject claims))) (\<lambda>r. case r of
                  Inl err \<Rightarrow> writeException ''CurrentOrder'' seqID (mapError err)
                | Inr view \<Rightarrow> writeReply ''CurrentOrder'' seqID
                    (seqM (WriteFieldBegin ''success'' STRUCT 0) (writeOrderView view)))))"

definition thriftAdminListOrders :: "Server \<Rightarrow> nat \<Rightarrow> ('i, 'o) handlerFunc" where
  "thriftAdminListOrders p n seqID =
     bindM (tryIn (readListOrdersRequest n)) (\<lambda>r. case r of
        Inl err \<Rightarrow> writeException ''ListOrders'' seqID (AppExc PROTOCOL_ERROR err)
      | Inr (authToken, status, limit, offset) \<Rightarrow>
          bindM (authorize p authToken RoleAdmin) (\<lambda>a. case a of
             Inl appErr \<Rightarrow> writeException ''ListOrders'' seqID appErr
           | Inr claims \<Rightarrow>
               bindM (trySvc (AdminListOrders (srvSvc p)
             \<lparr>fStatus = (if status \<noteq> '''' then Some status else None),
              fLimit = limit, fOffset = offset\<rparr>)) (\<lambda>r. case r of
                  Inl err \<Rightarrow> writeException ''ListOrders'' seqID (mapError err)
                | Inr views \<Rightarrow> writeReply ''ListOrders'' seqID
                    (seqM (WriteFieldBegin ''success'' LIST 0) (writeOrderViewList views)))))"

definition thriftAdminUpdateOrder :: "Server \<Rightarrow> nat \<Rightarrow> ('i, 'o) handlerFunc" where
  "thriftAdminUpdateOrder p n seqID =
     bindM (tryIn (readUpdateOrderRequest n)) (\<lambda>r. case r of
        Inl err \<Rightarrow> writeException ''UpdateOrder'' seqID (AppExc PROTOCOL_ERROR err)
      | Inr (authToken, orderID, origin, dest) \<Rightarrow>
          bindM (authorize p authToken RoleAdmin) (\<lambda>a. case a of
             Inl appErr \<Rightarrow> writeException ''UpdateOrder'' seqID appErr
           | Inr claims \<Rightarrow>
               bindM (trySvc (AdminUpdateOrder orderID origin dest)) (\<lambda>r. case r of
                  Inl err \<Rightarrow> writeException ''UpdateOrder'' seqID (mapError err)
                | Inr order \<Rightarrow> writeReply ''UpdateOrder'' seqID
                    (seqM (WriteFieldBegin ''success'' STRUCT 0) (writeOrder order)))))"

definition thriftAdminListDrones :: "Server \<Rightarrow> nat \<Rightarrow> ('i, 'o) handlerFunc" where
  "thriftAdminListDrones p n seqID =
     bindM (tryIn (readAuthRequest n)) (\<lambda>r. case r of
        Inl err \<Rightarrow> writeException ''ListDrones'' seqID (AppExc PROTOCOL_ERROR err)
      | Inr authToken \<Rightarrow>
          bindM (authorize p authToken RoleAdmin) (\<lambda>a. case a of
             Inl appErr \<Rightarrow> writeException ''ListDrones'' seqID appErr
           | Inr claims \<Rightarrow>
               bindM (trySvc (AdminListDrones)) (\<lambda>r. case r of
                  Inl err \<Rightarrow> writeException ''ListDrones'' seqID (mapError err)
                | Inr ds \<Rightarrow> writeReply ''ListDrones'' seqID
                    (seqM (WriteFieldBegin ''success'' LIST 0) (writeDroneList ds)))))"

definition thriftAdminMarkDroneBroken :: "Server \<Rightarrow> nat \<Rightarrow> ('i, 'o) handlerFunc" where
  "thriftAdminMarkDroneBroken p n seqID =
     bindM (tryIn (readDroneIDRequest n)) (\<lambda>r. case r of
        Inl err \<Rightarrow> writeException ''MarkDroneBroken'' seqID (AppExc PROTOCOL_ERROR err)
      | Inr (authToken, droneID) \<Rightarrow>
          bindM (authorize p authToken RoleAdmin) (\<lambda>a. case a of
             Inl appErr \<Rightarrow> writeException ''MarkDroneBroken'' seqID appErr
           | Inr claims \<Rightarrow>
               bindM (trySvc (AdminMarkDroneBroken droneID)) (\<lambda>r. case r of
                  Inl err \<Rightarrow> writeException ''MarkDroneBroken'' seqID (mapError err)
                | Inr drone \<Rightarrow> writeReply ''MarkDroneBroken'' seqID
                    (seqM (WriteFieldBegin ''success'' STRUCT 0) (writeDrone drone)))))"

definition thriftAdminMarkDroneFixed :: "Server \<Rightarrow> nat \<Rightarrow> ('i, 'o) handlerFunc" where
  "thriftAdminMarkDroneFixed p n seqID =
     bindM (tryIn (readDroneIDRequest n)) (\<lambda>r. case r of
        Inl err \<Rightarrow> writeException ''MarkDroneFixed'' seqID (AppExc PROTOCOL_ERROR err)
      | Inr (authToken, droneID) \<Rightarrow>
          bindM (authorize p authToken RoleAdmin) (\<lambda>a. case a of
             Inl appErr \<Rightarrow> writeException ''MarkDroneFixed'' seqID appErr
           | Inr claims \<Rightarrow>
               bindM (trySvc (AdminMarkDroneFixed droneID)) (\<lambda>r. case r of
                  Inl err \<Rightarrow> writeException ''MarkDroneFixed'' seqID (mapError err)
                | Inr drone \<Rightarrow> writeReply ''MarkDroneFixed'' seqID
                    (seqM (WriteFieldBegin ''success'' STRUCT 0) (writeDrone drone)))))"

section \<open>Dispatch\<close>

record ('i, 'o) Processor =
  pServer :: Server
  processorMap :: "string \<Rightarrow> ('i, 'o) handlerFunc option"

definition NewProcessor :: "nat \<Rightarrow> Server \<Rightarrow> ('i, 'o) Processor" where
  "NewProcessor n p =
     \<lparr>pServer = p, processorMap = map_of
       [(''IssueToken'', thriftIssueToken p n),
        (''SubmitOrder'', thriftSubmitOrder p n),
        (''WithdrawOrder'', thriftWithdrawOrder p n),
        (''GetOrder'', thriftGetOrder p n),
        (''ReserveJob'', thriftReserveJob p n),
        (''PickupOrder'', thriftPickupOrder p n),
        (''DeliverOrder'', thriftDeliverOrder p n),
        (''FailOrder'', thriftFailOrder p n),
        (''MarkBroken'', thriftMarkBroken p n),
        (''Heartbeat'', thriftHeartbeat p n),
        (''CurrentOrder'', thriftCurrentOrder p n),
        (''ListOrders'', thriftAdminListOrders p n),
        (''UpdateOrder'', thriftAdminUpdateOrder p n),
        (''ListDrones'', thriftAdminListDrones p n),
        (''MarkDroneBroken'', thriftAdminMarkDroneBroken p n),
        (''MarkDroneFixed'', thriftAdminMarkDroneFixed p n)]\<rparr>"

definition ProcessorMap :: "('i, 'o) Processor \<Rightarrow> string \<Rightarrow> ('i, 'o) handlerFunc option" where
  "ProcessorMap p = processorMap p"

definition AddToProcessorMap ::
  "('i, 'o) Processor \<Rightarrow> string \<Rightarrow> ('i, 'o) handlerFunc \<Rightarrow> ('i, 'o) Processor" where
  "AddToProcessorMap p name processor = p\<lparr>processorMap := (processorMap p)(name \<mapsto> processor)\<rparr>"

definition Process :: "('i, 'o) Processor \<Rightarrow> ('i, 'o, verdict) H" where
  "Process p =
     bindM (tryIn ReadMessageBegin) (\<lambda>r. case r of
        Inl err \<Rightarrow> returnM (False, Some (AppExc PROTOCOL_ERROR err))
      | Inr (name, messageType, seqID) \<Rightarrow>
          if messageType \<noteq> CALL \<and> messageType \<noteq> ONEWAY
          then writeException name seqID (AppExc PROTOCOL_ERROR ''invalid message type'')
          else
           (case processorMap p name of
              None \<Rightarrow>
                seqM (tryIn (Skip STRUCT))
               (seqM (tryIn ReadMessageEnd)
               (writeException name seqID (AppExc UNKNOWN_METHOD ''unknown method'')))
            | Some processor \<Rightarrow> processor seqID))"

section \<open>Specification\<close>

text \<open>
  A call to a method other than \<open>IssueToken\<close>: its arguments are a token and, given the claims
  of the token, a request of the service; the answer is written as the result.
\<close>

fun writeAnswer :: "answer \<Rightarrow> ('o, unit) T" where
  "writeAnswer (AnsOrder order) = writeOrder order"
| "writeAnswer (AnsView view) = writeOrderView view"
| "writeAnswer (AnsViews views) = writeOrderViewList views"
| "writeAnswer (AnsDrone drone) = writeDrone drone"
| "writeAnswer (AnsDrones ds) = writeDroneList ds"
| "writeAnswer (AnsStatus view) = writeDroneStatus view"

fun answerType :: "answer \<Rightarrow> ttype" where
  "answerType (AnsViews views) = LIST"
| "answerType (AnsDrones ds) = LIST"
| "answerType _ = STRUCT"

type_synonym 'i arguments = "('i, string \<times> (Claims \<Rightarrow> request)) T"

definition argsM :: "('i, 'q) T \<Rightarrow> ('q \<Rightarrow> string \<times> (Claims \<Rightarrow> request)) \<Rightarrow> 'i arguments" where
  "argsM reader f = bindM reader (\<lambda>q. returnM (f q))"

definition thriftTable :: "nat \<Rightarrow> (string \<times> string option \<times> 'i arguments) list" where
  "thriftTable n =
     [(''SubmitOrder'', Some RoleEndUser, argsM (readSubmitOrderRequest n)
         (\<lambda>(t, origin, dest). (t, \<lambda>c. ReqSubmit (Subject c) origin dest))),
      (''WithdrawOrder'', Some RoleEndUser, argsM (readOrderIDRequest n)
         (\<lambda>(t, i). (t, \<lambda>c. ReqWithdraw (Subject c) i))),
      (''GetOrder'', None, argsM (readOrderIDRequest n)
         (\<lambda>(t, i). (t, \<lambda>c. ReqView (Subject c) (Role c) i))),
      (''ReserveJob'', Some RoleDrone, argsM (readAuthRequest n)
         (\<lambda>t. (t, \<lambda>c. ReqReserve (Subject c)))),
      (''PickupOrder'', Some RoleDrone, argsM (readOrderIDRequest n)
         (\<lambda>(t, i). (t, \<lambda>c. ReqPickup (Subject c) i))),
      (''DeliverOrder'', Some RoleDrone, argsM (readOrderIDRequest n)
         (\<lambda>(t, i). (t, \<lambda>c. ReqDeliver (Subject c) i))),
      (''FailOrder'', Some RoleDrone, argsM (readFailOrderRequest n)
         (\<lambda>(t, i, reason). (t, \<lambda>c. ReqFail (Subject c) i reason))),
      (''MarkBroken'', Some RoleDrone, argsM (readAuthRequest n)
         (\<lambda>t. (t, \<lambda>c. ReqBroken (Subject c)))),
      (''Heartbeat'', Some RoleDrone, argsM (readHeartbeatRequest n)
         (\<lambda>(t, loc). (t, \<lambda>c. ReqHeartbeat (Subject c) loc))),
      (''CurrentOrder'', Some RoleDrone, argsM (readAuthRequest n)
         (\<lambda>t. (t, \<lambda>c. ReqCurrent (Subject c)))),
      (''ListOrders'', Some RoleAdmin, argsM (readListOrdersRequest n)
         (\<lambda>(t, st, limit, offset). (t, \<lambda>c. ReqListOrders
            \<lparr>fStatus = (if st \<noteq> '''' then Some st else None), fLimit = limit, fOffset = offset\<rparr>))),
      (''UpdateOrder'', Some RoleAdmin, argsM (readUpdateOrderRequest n)
         (\<lambda>(t, i, origin, dest). (t, \<lambda>c. ReqUpdate i origin dest))),
      (''ListDrones'', Some RoleAdmin, argsM (readAuthRequest n) (\<lambda>t. (t, \<lambda>c. ReqListDrones))),
      (''MarkDroneBroken'', Some RoleAdmin, argsM (readDroneIDRequest n)
         (\<lambda>(t, i). (t, \<lambda>c. ReqAdminBroken i))),
      (''MarkDroneFixed'', Some RoleAdmin, argsM (readDroneIDRequest n)
         (\<lambda>(t, i). (t, \<lambda>c. ReqAdminFixed i)))]"

definition authorizeFor :: "Server \<Rightarrow> string option \<Rightarrow> string \<Rightarrow> ('i, 'o, texc + Claims) H" where
  "authorizeFor p role token =
     (case role of None \<Rightarrow> authorizeAny p token | Some r \<Rightarrow> authorize p token r)"

definition thriftCall ::
  "Server \<Rightarrow> string \<Rightarrow> string option \<times> 'i arguments \<Rightarrow> ('i, 'o) handlerFunc" where
  "thriftCall p method spec seqID =
     bindM (tryIn (snd spec)) (\<lambda>r. case r of
        Inl err \<Rightarrow> writeException method seqID (AppExc PROTOCOL_ERROR err)
      | Inr (token, request) \<Rightarrow>
          bindM (authorizeFor p (fst spec) token) (\<lambda>a. case a of
             Inl appErr \<Rightarrow> writeException method seqID appErr
           | Inr claims \<Rightarrow>
               bindM (trySvc (serve (srvSvc p) (request claims))) (\<lambda>r. case r of
                  Inl err \<Rightarrow> writeException method seqID (mapError err)
                | Inr a \<Rightarrow> writeReply method seqID
                    (seqM (WriteFieldBegin ''success'' (answerType a) 0) (writeAnswer a)))))"

lemma tryIn_argsM:
  "bindM (tryIn (argsM reader f)) k = bindM (tryIn reader) (\<lambda>r. k (map_sum id f r))"
  by (rule ext)+ (auto simp: tryIn_def argsM_def outcome_def run_rules split: prod.splits sum.splits terr.splits)

lemma trySvc_answerM:
  "bindM (trySvc (answerM f m)) k = bindM (trySvc m) (\<lambda>r. k (map_sum id f r))"
  by (rule ext)+ (auto simp: trySvc_def answerM_def run_rules split: prod.splits sum.splits)

lemma bindM_cong: "(\<And>x. f x = g x) \<Longrightarrow> bindM m f = bindM m g"
  by presburger

lemmas thrift_handler_defs = thriftSubmitOrder_def thriftWithdrawOrder_def thriftGetOrder_def
  thriftReserveJob_def thriftPickupOrder_def thriftDeliverOrder_def thriftFailOrder_def
  thriftMarkBroken_def thriftHeartbeat_def thriftCurrentOrder_def thriftAdminListOrders_def
  thriftAdminUpdateOrder_def thriftAdminListDrones_def thriftAdminMarkDroneBroken_def
  thriftAdminMarkDroneFixed_def

text \<open>Every handler of the table is the call of its specification.\<close>

lemma map_sum_case:
  "(case map_sum id f r of Inl e \<Rightarrow> g e | Inr x \<Rightarrow> h x) = (case r of Inl e \<Rightarrow> g e | Inr x \<Rightarrow> h (f x))"
  by (cases r) simp_all

lemma thrift_handlers:
  "thriftSubmitOrder p n = thriftCall p ''SubmitOrder'' (Some RoleEndUser, argsM (readSubmitOrderRequest n)
         (\<lambda>(t, origin, dest). (t, \<lambda>c. ReqSubmit (Subject c) origin dest)))"
  "thriftWithdrawOrder p n = thriftCall p ''WithdrawOrder'' (Some RoleEndUser, argsM (readOrderIDRequest n)
         (\<lambda>(t, i). (t, \<lambda>c. ReqWithdraw (Subject c) i)))"
  "thriftGetOrder p n = thriftCall p ''GetOrder'' (None, argsM (readOrderIDRequest n)
         (\<lambda>(t, i). (t, \<lambda>c. ReqView (Subject c) (Role c) i)))"
  "thriftReserveJob p n = thriftCall p ''ReserveJob'' (Some RoleDrone, argsM (readAuthRequest n)
         (\<lambda>t. (t, \<lambda>c. ReqReserve (Subject c))))"
  "thriftPickupOrder p n = thriftCall p ''PickupOrder'' (Some RoleDrone, argsM (readOrderIDRequest n)
         (\<lambda>(t, i). (t, \<lambda>c. ReqPickup (Subject c) i)))"
  "thriftDeliverOrder p n = thriftCall p ''DeliverOrder'' (Some RoleDrone, argsM (readOrderIDRequest n)
         (\<lambda>(t, i). (t, \<lambda>c. ReqDeliver (Subject c) i)))"
  "thriftFailOrder p n = thriftCall p ''FailOrder'' (Some RoleDrone, argsM (readFailOrderRequest n)
         (\<lambda>(t, i, reason). (t, \<lambda>c. ReqFail (Subject c) i reason)))"
  "thriftMarkBroken p n = thriftCall p ''MarkBroken'' (Some RoleDrone, argsM (readAuthRequest n)
         (\<lambda>t. (t, \<lambda>c. ReqBroken (Subject c))))"
  "thriftHeartbeat p n = thriftCall p ''Heartbeat'' (Some RoleDrone, argsM (readHeartbeatRequest n)
         (\<lambda>(t, loc). (t, \<lambda>c. ReqHeartbeat (Subject c) loc)))"
  "thriftCurrentOrder p n = thriftCall p ''CurrentOrder'' (Some RoleDrone, argsM (readAuthRequest n)
         (\<lambda>t. (t, \<lambda>c. ReqCurrent (Subject c))))"
  "thriftAdminListOrders p n = thriftCall p ''ListOrders'' (Some RoleAdmin, argsM (readListOrdersRequest n)
         (\<lambda>(t, st, limit, offset). (t, \<lambda>c. ReqListOrders
            \<lparr>fStatus = (if st \<noteq> '''' then Some st else None), fLimit = limit, fOffset = offset\<rparr>)))"
  "thriftAdminUpdateOrder p n = thriftCall p ''UpdateOrder'' (Some RoleAdmin, argsM (readUpdateOrderRequest n)
         (\<lambda>(t, i, origin, dest). (t, \<lambda>c. ReqUpdate i origin dest)))"
  "thriftAdminListDrones p n = thriftCall p ''ListDrones'' (Some RoleAdmin, argsM (readAuthRequest n) (\<lambda>t. (t, \<lambda>c. ReqListDrones)))"
  "thriftAdminMarkDroneBroken p n = thriftCall p ''MarkDroneBroken'' (Some RoleAdmin, argsM (readDroneIDRequest n)
         (\<lambda>(t, i). (t, \<lambda>c. ReqAdminBroken i)))"
  "thriftAdminMarkDroneFixed p n = thriftCall p ''MarkDroneFixed'' (Some RoleAdmin, argsM (readDroneIDRequest n)
         (\<lambda>(t, i). (t, \<lambda>c. ReqAdminFixed i)))"
  by (rule ext, simp add: thrift_handler_defs thriftCall_def tryIn_argsM authorizeFor_def
      trySvc_answerM map_sum_case split_def cong del: sum.case_cong_weak)+

lemma thrift_handlers_call:
  assumes "name \<noteq> ''IssueToken''"
  shows "processorMap (NewProcessor n p) name = map_option (thriftCall p name) (map_of (thriftTable n) name)"
  using assms by (simp add: NewProcessor_def thriftTable_def thrift_handlers)

section \<open>What a call does\<close>

definition ticked :: "st \<Rightarrow> st" where
  "ticked s = s\<lparr>nclock := Suc (nclock s)\<rparr>"

text \<open>The outcome of a call whose arguments are a token and a request: an exception or an answer.\<close>

definition thriftOutcome ::
  "Server \<Rightarrow> string option \<Rightarrow> string \<Rightarrow> (Claims \<Rightarrow> request) \<Rightarrow> env \<Rightarrow> st \<Rightarrow> (texc + answer) \<times> st" where
  "thriftOutcome p role token req E s =
     (case ParseToken (srvJWT p) (srvAuth p) token (clock E (nclock s)) of
        Inl _ \<Rightarrow> (Inl (AppExc PROTOCOL_ERROR ''unauthorized''), ticked s)
      | Inr claims \<Rightarrow>
          if role \<noteq> None \<and> role \<noteq> Some (Role claims)
          then (Inl (AppExc PROTOCOL_ERROR ''forbidden''), ticked s)
          else (case serve (srvSvc p) (req claims) E (ticked s) of
             (Inl err, s') \<Rightarrow> (Inl (mapError err), s') | (Inr a, s') \<Rightarrow> (Inr a, s')))"

definition verdictOf :: "texc + answer \<Rightarrow> verdict" where
  "verdictOf r = (case r of Inl x \<Rightarrow> (False, Some x) | Inr a \<Rightarrow> (True, None))"

fun answerToks :: "answer \<Rightarrow> tok list" where
  "answerToks (AnsOrder order) = orderToks order"
| "answerToks (AnsView view) = viewToks view"
| "answerToks (AnsViews views) = KListHead STRUCT (length views) # concat (map viewToks views)"
| "answerToks (AnsDrone drone) = droneToks drone"
| "answerToks (AnsDrones ds) = KListHead STRUCT (length ds) # concat (map droneToks ds)"
| "answerToks (AnsStatus view) = statusToks view"

definition resultToks :: "answer \<Rightarrow> tok list" where
  "resultToks a = KField (answerType a) 0 # answerToks a @ [KStop]"

definition responseToks :: "string \<Rightarrow> int \<Rightarrow> texc + answer \<Rightarrow> tok list" where
  "responseToks method seqID r =
     (case r of Inl x \<Rightarrow> [KMsg method EXCEPTION seqID, KExc x]
      | Inr a \<Rightarrow> KMsg method REPLY seqID # resultToks a)"

lemma emits_writeAnswer:
  assumes "sink_ok P sink"
  shows "emits P sink (writeAnswer a) (answerToks a)"
  using emits_writeOrder [OF assms] emits_writeOrderView [OF assms] emits_writeDrone [OF assms]
    emits_writeDroneStatus [OF assms] emits_lists [OF assms]
  by (cases a) simp_all

lemma emits_success:
  assumes "sink_ok P sink"
  shows "emits P sink (seqM (WriteFieldBegin ''success'' (answerType a) 0) (writeAnswer a))
    (KField (answerType a) 0 # answerToks a)"
  using emits_seqM [OF emits_ops(6) [OF assms] emits_writeAnswer [OF assms]] by simp

text \<open>A part of a call that only writes: it returns and appends to the output.\<close>

definition responds ::
  "('i, 'o) wiring \<Rightarrow> ('o \<Rightarrow> tok list) \<Rightarrow> ('i, 'o, 'a) H \<Rightarrow> 'a \<Rightarrow> tok list \<Rightarrow> bool" where
  "responds W sink m x ks \<longleftrightarrow> (\<forall>c. \<exists>o'. m W c = (Inr x, c\<lparr>outSt := o'\<rparr>) \<and> sink o' = sink (outSt c) @ ks)"

lemma responds_returnM: "responds W sink (returnM x) x []"
  unfolding responds_def
proof
  fix c :: "('a, 'b) conn"
  show "\<exists>o'. returnM x W c = (Inr x, c\<lparr>outSt := o'\<rparr>) \<and> sink o' = sink (outSt c) @ []"
    by (rule exI [of _ "outSt c"]) (simp add: returnM_def)
qed

lemma tryOut_emits:
  assumes "emits (outProto W) sink m ks"
  shows "\<exists>o'. tryOut m W c = (Inr (Inr ()), c\<lparr>outSt := o'\<rparr>) \<and> sink o' = sink (outSt c) @ ks"
proof -
  obtain o' where "m (outProto W) (outSt c) = (Inr (), o')" "sink o' = sink (outSt c) @ ks"
    using assms unfolding emits_def appends_def by blast
  then show ?thesis by (intro exI [of _ o']) (simp add: tryOut_def outcome_def)
qed

lemma responds_orFail:
  assumes "emits (outProto W) sink m ks" and "responds W sink k x ks'"
  shows "responds W sink (orFail m k) x (ks @ ks')"
  unfolding responds_def
proof
  fix c
  obtain o1 where "tryOut m W c = (Inr (Inr ()), c\<lparr>outSt := o1\<rparr>)" "sink o1 = sink (outSt c) @ ks"
    using tryOut_emits [OF assms(1)] by blast
  moreover obtain o2 where "k W (c\<lparr>outSt := o1\<rparr>) = (Inr x, c\<lparr>outSt := o2\<rparr>)" "sink o2 = sink o1 @ ks'"
    using assms(2) [unfolded responds_def, rule_format, of "c\<lparr>outSt := o1\<rparr>"] by auto
  ultimately show "\<exists>o'. orFail m k W c = (Inr x, c\<lparr>outSt := o'\<rparr>) \<and> sink o' = sink (outSt c) @ ks @ ks'"
    by (intro exI [of _ o2]) (simp add: orFail_def run_rules)
qed

lemma responds_seqM:
  assumes "emits (outProto W) sink m ks" and "responds W sink k x ks'"
  shows "responds W sink (seqM (tryOut m) k) x (ks @ ks')"
  unfolding responds_def
proof
  fix c
  obtain o1 where "tryOut m W c = (Inr (Inr ()), c\<lparr>outSt := o1\<rparr>)" "sink o1 = sink (outSt c) @ ks"
    using tryOut_emits [OF assms(1)] by blast
  moreover obtain o2 where "k W (c\<lparr>outSt := o1\<rparr>) = (Inr x, c\<lparr>outSt := o2\<rparr>)" "sink o2 = sink o1 @ ks'"
    using assms(2) [unfolded responds_def, rule_format, of "c\<lparr>outSt := o1\<rparr>"] by auto
  ultimately show "\<exists>o'. seqM (tryOut m) k W c = (Inr x, c\<lparr>outSt := o'\<rparr>) \<and>
      sink o' = sink (outSt c) @ ks @ ks'"
    by (intro exI [of _ o2]) (simp add: run_rules)
qed

lemma responds_writeReply:
  assumes P: "sink_ok (outProto W) sink" and w: "emits (outProto W) sink w ks"
  shows "responds W sink (writeReply method seqID w) (True, None) (KMsg method REPLY seqID # ks @ [KStop])"
proof -
  have "responds W sink (writeReply method seqID w) (True, None)
      ([KMsg method REPLY seqID] @ [] @ ks @ [] @ [KStop] @ [] @ [] @ [] @ [])"
    unfolding writeReply_def by (intro responds_orFail w emits_ops [OF P] responds_returnM)
  then show ?thesis by simp
qed

lemma responds_writeException:
  assumes P: "sink_ok (outProto W) sink"
  shows "responds W sink (writeException method seqID x) (False, Some x) [KMsg method EXCEPTION seqID, KExc x]"
proof -
  have "responds W sink (writeException method seqID x) (False, Some x)
      ([KMsg method EXCEPTION seqID] @ [KExc x] @ [] @ [] @ [])"
    unfolding writeException_def by (intro responds_seqM emits_ops [OF P] responds_returnM)
  then show ?thesis by simp
qed

lemma authorizeFor_run:
  "authorizeFor p role token W c =
     (Inr (case ParseToken (srvJWT p) (srvAuth p) token (clock (world W) (nclock (svcSt c))) of
             Inl _ \<Rightarrow> Inl (AppExc PROTOCOL_ERROR ''unauthorized'')
           | Inr claims \<Rightarrow> if role \<noteq> None \<and> role \<noteq> Some (Role claims)
               then Inl (AppExc PROTOCOL_ERROR ''forbidden'') else Inr claims),
      c\<lparr>svcSt := ticked (svcSt c)\<rparr>)"
  by (cases "ParseToken (srvJWT p) (srvAuth p) token (clock (world W) (nclock (svcSt c)))")
    (auto simp: authorizeFor_def authorizeAny_def authorize_def trySvc_def parseTokenM_def nowM_def
      ticked_def run_rules split: option.splits)

text \<open>The call once its arguments are read.\<close>

lemma thriftCall_responds:
  assumes args: "snd spec (inProto W) (inSt c) = (Inr (token, req), i')"
    and P: "sink_ok (outProto W) sink"
    and out: "thriftOutcome p (fst spec) token req (world W) (svcSt c) = (r, s')"
  shows "\<exists>o'. thriftCall p name spec seqID W c =
      (Inr (verdictOf r), \<lparr>inSt = i', outSt = o', svcSt = s'\<rparr>) \<and>
    sink o' = sink (outSt c) @ responseToks name seqID r"
proof -
  let ?c = "c\<lparr>inSt := i', svcSt := s'\<rparr>"
  have c: "\<lparr>inSt = i', outSt = o', svcSt = s'\<rparr> = ?c\<lparr>outSt := o'\<rparr>" for o' by simp
  have exc: "\<exists>o'. writeException name seqID x W ?c = (Inr (False, Some x), ?c\<lparr>outSt := o'\<rparr>) \<and>
      sink o' = sink (outSt c) @ [KMsg name EXCEPTION seqID, KExc x]" for x
    using responds_writeException [OF P, of name seqID x, unfolded responds_def, rule_format, of ?c] by auto
  have rep: "\<exists>o'. writeReply name seqID
        (seqM (WriteFieldBegin ''success'' (answerType a) 0) (writeAnswer a)) W ?c =
        (Inr (True, None), ?c\<lparr>outSt := o'\<rparr>) \<and>
      sink o' = sink (outSt c) @ KMsg name REPLY seqID # resultToks a" for a
    using responds_writeReply [OF P emits_success [OF P], of name seqID a, unfolded responds_def,
        rule_format, of ?c] by (auto simp: resultToks_def)
  show ?thesis unfolding c using args out exc rep
    by (auto simp: thriftCall_def tryIn_def outcome_def run_rules authorizeFor_run thriftOutcome_def
        trySvc_def verdictOf_def responseToks_def split: sum.splits if_splits prod.splits)
qed

text \<open>Nothing but the request touches the service.\<close>

lemma svcSt_writes [simp]:
  "svcSt (snd (tryOut m W c)) = svcSt c" "svcSt (snd (tryIn m' W c)) = svcSt c"
  by (simp_all add: tryOut_def tryIn_def split: prod.splits)

lemma svcSt_bindM:
  assumes "\<And>x c'. svcSt (snd (f x W c')) = svcSt c'"
  shows "svcSt (snd (bindM m f W c)) = svcSt (snd (m W c))"
  using assms by (simp add: bindM_def split: prod.splits sum.splits)

lemma svcSt_orFail:
  assumes "\<And>c'. svcSt (snd (k W c')) = svcSt c'"
  shows "svcSt (snd (orFail m k W c)) = svcSt c"
  unfolding orFail_def
  by (subst svcSt_bindM) (auto simp: assms returnM_def split: sum.splits)

lemma svcSt_seqM:
  assumes "\<And>c'. svcSt (snd (k W c')) = svcSt c'"
  shows "svcSt (snd (seqM m k W c)) = svcSt (snd (m W c))"
  unfolding seqM_def using assms by (rule svcSt_bindM)

lemma svcSt_responses [simp]:
  "svcSt (snd (writeReply method seqID w W c)) = svcSt c"
  "svcSt (snd (writeException method seqID x W c)) = svcSt c"
  unfolding writeReply_def writeException_def
  by (simp_all add: svcSt_orFail svcSt_seqM returnM_def)

lemma thriftCall_svc:
  "svcSt (snd (thriftCall p method spec seqID W c)) =
     (case fst (snd spec (inProto W) (inSt c)) of
        Inl _ \<Rightarrow> svcSt c
      | Inr (token, req) \<Rightarrow> snd (thriftOutcome p (fst spec) token req (world W) (svcSt c)))"
proof (cases "snd spec (inProto W) (inSt c)")
  case (Pair r i)
  show ?thesis
  proof (cases r)
    case (Inl e)
    with Pair show ?thesis by (cases e) (simp_all add: thriftCall_def tryIn_def outcome_def run_rules)
  next
    case (Inr x)
    obtain token req where x: "x = (token, req)" by fastforce
    show ?thesis
      by (cases "ParseToken (srvJWT p) (srvAuth p) token (clock (world W) (nclock (svcSt c)))")
        (auto simp: Pair Inr x thriftCall_def tryIn_def outcome_def run_rules authorizeFor_run
          thriftOutcome_def trySvc_def split: sum.splits prod.splits)
  qed
qed

lemma IssueToken_db: "db (snd (IssueToken J a name role E s)) = db s"
  by (simp add: IssueToken_def run_rules nowM_def Let_def split: sum.splits)

lemma db_bindM:
  assumes "\<And>x c'. db (svcSt (snd (f x W c'))) = db (svcSt c')" and "db (svcSt (snd (m W c))) = db (svcSt c)"
  shows "db (svcSt (snd (bindM m f W c))) = db (svcSt c)"
  using assms by (auto simp add: bindM_def split: prod.splits sum.splits)

lemma thriftIssueToken_svc: "db (svcSt (snd (thriftIssueToken p n seqID W c))) = db (svcSt c)"
proof -
  have issue: "db (svcSt (snd (trySvc (IssueToken J a name role) W c'))) = db (svcSt c')" for J a name role c'
    using IssueToken_db [of J a name role "world W" "svcSt c'"] by (simp add: trySvc_def case_prod_beta)
  show ?thesis unfolding thriftIssueToken_def
    by (intro db_bindM) (auto intro!: db_bindM issue split: sum.splits)
qed

text \<open>What a message to the processor does to the service: nothing, or one call of the table.\<close>

lemma tryIn_ok: "m (inProto W) (inSt c) = (Inr x, i) \<Longrightarrow> tryIn m W c = (Inr (Inr x), c\<lparr>inSt := i\<rparr>)"
  by (simp add: tryIn_def outcome_def)

lemma Process_read:
  assumes "ReadMessageBegin (inProto W) (inSt c) = (Inr (name, mt, seqID), i)" and "mt = CALL \<or> mt = ONEWAY"
  shows "processorMap P name = Some h \<Longrightarrow> Process P W c = h seqID W (c\<lparr>inSt := i\<rparr>)"
    and "processorMap P name = None \<Longrightarrow> svcSt (snd (Process P W c)) = svcSt c"
  using assms by (auto simp: Process_def tryIn_ok run_bindM svcSt_seqM)

lemma Process_refused:
  assumes "\<And>name mt seqID i. ReadMessageBegin (inProto W) (inSt c) = (Inr (name, mt, seqID), i) \<Longrightarrow>
    mt \<noteq> CALL \<and> mt \<noteq> ONEWAY"
  shows "svcSt (snd (Process P W c)) = svcSt c"
proof (cases "ReadMessageBegin (inProto W) (inSt c)")
  case (Pair r i)
  show ?thesis
  proof (cases r)
    case (Inl e)
    with Pair show ?thesis by (cases e) (simp_all add: Process_def tryIn_def outcome_def run_rules)
  next
    case (Inr x)
    obtain name mt seqID where x: "x = (name, mt, seqID)" by (cases x) auto
    from assms [of name mt seqID i] Pair Inr x have "mt \<noteq> CALL" "mt \<noteq> ONEWAY" by simp_all
    then show ?thesis using Pair Inr x by (simp add: Process_def tryIn_def outcome_def run_bindM)
  qed
qed

lemma Process_svc:
  fixes W :: "('i, 'o) wiring"
  obtains (unchanged) "db (svcSt (snd (Process (NewProcessor n p) W c))) = db (svcSt c)"
  | (call) name role token req and args :: "'i arguments" and i i'
    where "map_of (thriftTable n) name = Some (role, args)" "args (inProto W) i = (Inr (token, req), i')"
      "svcSt (snd (Process (NewProcessor n p) W c)) =
         snd (thriftOutcome p role token req (world W) (svcSt c))"
proof (cases "\<exists>name mt seqID i. ReadMessageBegin (inProto W) (inSt c) = (Inr (name, mt, seqID), i) \<and>
    (mt = CALL \<or> mt = ONEWAY)")
  case False
  then have "svcSt (snd (Process (NewProcessor n p) W c)) = svcSt c"
    by (intro Process_refused) blast
  then show ?thesis by (intro unchanged) simp
next
  case True
  then obtain name mt seqID i where rd: "ReadMessageBegin (inProto W) (inSt c) = (Inr (name, mt, seqID), i)"
      "mt = CALL \<or> mt = ONEWAY" by blast
  note read = Process_read [OF rd, of "NewProcessor n p"]
  show ?thesis
  proof (cases "name = ''IssueToken''")
    case True
    then have "Process (NewProcessor n p) W c = thriftIssueToken p n seqID W (c\<lparr>inSt := i\<rparr>)"
      by (intro read) (simp add: NewProcessor_def)
    then show ?thesis by (intro unchanged) (simp add: thriftIssueToken_svc)
  next
    case name: False
    show ?thesis
    proof (cases "map_of (thriftTable n) name :: (string option \<times> 'i arguments) option")
      case None
      then have "svcSt (snd (Process (NewProcessor n p) W c)) = svcSt c"
        by (intro read) (simp add: thrift_handlers_call [OF name])
      then show ?thesis by (intro unchanged) simp
    next
      case (Some spec)
      then have "Process (NewProcessor n p) W c = thriftCall p name spec seqID W (c\<lparr>inSt := i\<rparr>)"
        by (intro read) (simp add: thrift_handlers_call [OF name])
      then have "svcSt (snd (Process (NewProcessor n p) W c)) =
          (case fst (snd spec (inProto W) i) of Inl _ \<Rightarrow> svcSt c
           | Inr (token, req) \<Rightarrow> snd (thriftOutcome p (fst spec) token req (world W) (svcSt c)))"
        by (simp add: thriftCall_svc cong del: sum.case_cong_weak)
      then show ?thesis
        using unchanged call [of name "fst spec" "snd spec" i] Some
        by (cases "snd spec (inProto W) i") (auto split: sum.splits)
    qed
  qed
qed

text \<open>A call whose arguments the wire delivers is answered with its outcome.\<close>

lemma Process_call:
  assumes I: "stream_ok (inProto W) view" and O: "sink_ok (outProto W) sink"
    and msg: "view (inSt c) = KMsg name mt seqID # ts" "mt = CALL \<or> mt = ONEWAY"
    and spec: "map_of (thriftTable n) name = Some (role, args)"
    and args: "yields (inProto W) view args ts (token, req) rest"
    and out: "thriftOutcome p role token req (world W) (svcSt c) = (r, s')"
  shows "\<exists>i' o'. Process (NewProcessor n p) W c =
      (Inr (verdictOf r), \<lparr>inSt = i', outSt = o', svcSt = s'\<rparr>) \<and>
    view i' = rest \<and> sink o' = sink (outSt c) @ responseToks name seqID r"
proof -
  have name: "name \<noteq> ''IssueToken''" using spec by (auto simp: thriftTable_def)
  obtain i where i: "ReadMessageBegin (inProto W) (inSt c) = (Inr (name, mt, seqID), i)" "view i = ts"
    using yields_ops(9) [OF I] msg(1) unfolding yields_def by blast
  obtain i' where i': "args (inProto W) i = (Inr (token, req), i')" "view i' = rest"
    using args i(2) unfolding yields_def by blast
  let ?c = "c\<lparr>inSt := i\<rparr>"
  have "Process (NewProcessor n p) W c = thriftCall p name (role, args) seqID W ?c"
    using i msg(2) spec
    by (auto simp: Process_def tryIn_def outcome_def run_rules thrift_handlers_call [OF name])
  moreover have "\<exists>o'. thriftCall p name (role, args) seqID W ?c =
      (Inr (verdictOf r), \<lparr>inSt = i', outSt = o', svcSt = s'\<rparr>) \<and>
      sink o' = sink (outSt ?c) @ responseToks name seqID r"
    by (rule thriftCall_responds [where sink = sink]) (use i'(1) O out in simp_all)
  ultimately show ?thesis using i'(2) by auto
qed

lemma yields_argsM:
  "yields P view reader ts q rest \<Longrightarrow> yields P view (argsM reader f) ts (f q) rest"
  unfolding argsM_def by (rule yields_bindM [OF _ yields_returnM])

lemma argsM_error:
  assumes "reader P i = (Inl e, i')"
  shows "argsM reader f P i = (Inl e, i')"
  using assms by (simp add: argsM_def run_rules)

lemma argsM_refuses:
  assumes "\<exists>e i'. reader P i = (Inl (TErr e), i')"
  shows "\<exists>e i'. argsM reader f P i = (Inl (TErr e), i')"
  by (insert assms) (elim exE, intro exI, erule argsM_error)

end
