(* ===== verification/Access.thy ===== *)
theory Access
  imports Grpc ThriftProc
begin

text \<open>
  Access control, across the three transports. \<open>permitted\<close> is the policy: end users act in
  their own name on their orders, drones report for themselves, the administrators do the
  rest. The contract \<open>gateway\<close> says that what a transport does to the service is nothing, or one
  permitted request for the claims of a token that was presented and parsed. It is
  interpreted on the HTTP routes, on the unary handlers of gRPC behind their interceptor, and
  on the Thrift processor.
\<close>

fun permitted :: "Claims \<Rightarrow> request \<Rightarrow> bool" where
  "permitted c (ReqSubmit user origin dest) \<longleftrightarrow> Role c = RoleEndUser \<and> user = Subject c"
| "permitted c (ReqWithdraw user i) \<longleftrightarrow> Role c = RoleEndUser \<and> user = Subject c"
| "permitted c (ReqView user role i) \<longleftrightarrow> user = Subject c \<and> role = Role c"
| "permitted c (ReqListOrders filt) \<longleftrightarrow> Role c = RoleAdmin"
| "permitted c (ReqUpdate i origin dest) \<longleftrightarrow> Role c = RoleAdmin"
| "permitted c ReqListDrones \<longleftrightarrow> Role c = RoleAdmin"
| "permitted c (ReqAdminBroken i) \<longleftrightarrow> Role c = RoleAdmin"
| "permitted c (ReqAdminFixed i) \<longleftrightarrow> Role c = RoleAdmin"
| "permitted c (ReqReserve i) \<longleftrightarrow> Role c = RoleDrone \<and> i = Subject c"
| "permitted c (ReqPickup i u) \<longleftrightarrow> Role c = RoleDrone \<and> i = Subject c"
| "permitted c (ReqDeliver i u) \<longleftrightarrow> Role c = RoleDrone \<and> i = Subject c"
| "permitted c (ReqFail i u reason) \<longleftrightarrow> Role c = RoleDrone \<and> i = Subject c"
| "permitted c (ReqBroken i) \<longleftrightarrow> Role c = RoleDrone \<and> i = Subject c"
| "permitted c (ReqFixed i) \<longleftrightarrow> False"
| "permitted c (ReqHeartbeat i l) \<longleftrightarrow> Role c = RoleDrone \<and> i = Subject c"
| "permitted c (ReqCurrent i) \<longleftrightarrow> Role c = RoleDrone \<and> i = Subject c"

definition oneRequest :: "Server \<Rightarrow> env \<Rightarrow> (string \<Rightarrow> bool) \<Rightarrow> st \<Rightarrow> st \<Rightarrow> bool" where
  "oneRequest srv E presented s s' \<longleftrightarrow> db s' = db s \<or>
     (\<exists>token claims r. presented token \<and>
        ParseToken (srvJWT srv) (srvAuth srv) token (clock E (nclock s)) = Inr claims \<and>
        permitted claims r \<and> s' = snd (serve (srvSvc srv) r E (ticked s)))"

lemma db_ticked [simp]: "db (ticked s) = db s"
  by (simp add: ticked_def)

locale gateway =
  fixes srv :: Server and E :: env and presented :: "string \<Rightarrow> bool"
    and view :: "'c \<Rightarrow> st" and run :: "'c \<Rightarrow> 'c"
  assumes guarded: "oneRequest srv E presented (view c) (view (run c))"
begin

lemma all_or_nothing:
  assumes "env_ok E" and "db_inv E (db (view c))"
  shows "db (view (run c)) = db (view c) \<or> (\<exists>a. svc_step E (db (view c)) a (db (view (run c))))"
proof -
  have "db_inv E (db (ticked (view c)))" using assms(2) by simp
  from serve_all_or_nothing [OF assms(1) this] show ?thesis
    using guarded [of c] unfolding oneRequest_def by (metis db_ticked)
qed

lemma keeps_inv:
  "env_ok E \<Longrightarrow> db_inv E (db (view c)) \<Longrightarrow> db_inv E (db (view (run c)))"
  using all_or_nothing svc_step_inv by metis

lemma change_authorised:
  assumes "jwt_ok (srvJWT srv) signed" and "db (view (run c)) \<noteq> db (view c)"
  obtains token claims r where "presented token" "signed token SigningMethodHS256 (secret (srvAuth srv)) claims"
    "permitted claims r" "view (run c) = snd (serve (srvSvc srv) r E (ticked (view c)))"
  using guarded [of c] assms parsed_token_signed unfolding oneRequest_def by metis

end

section \<open>HTTP\<close>

lemma http_permitted:
  assumes "httpRequest rt claims req = Some r" and "rt \<noteq> RtToken" and "Role claims = routeRole rt"
  shows "permitted claims r"
  using assms by (cases rt) (auto simp: bodyRequest_def)

lemma handleIssueToken_db: "db (snd (handleIssueToken srv req E s)) = db s"
  by (simp add: handleIssueToken_def returnM_def IssueToken_db split: option.splits)

lemma http_guarded:
  "oneRequest srv E (\<lambda>t. t = ExtractBearerToken (hAuthorization req)) s (snd (ServeHTTP srv rt req E s))"
proof (cases "rt = RtToken")
  case True
  then show ?thesis by (simp add: oneRequest_def handleIssueToken_db)
next
  case False
  note [simp] = ServeHTTP_serves [OF False]
  show ?thesis
  proof (cases rule: requireRole_cases [of srv "routeRole rt" "serveRoute srv rt" req E s])
    case rejected
    then show ?thesis by (simp add: oneRequest_def)
  next
    case (admitted claims)
    show ?thesis
    proof (cases "httpRequest rt claims req")
      case None
      then show ?thesis by (simp add: admitted(3) oneRequest_def serveRoute_def returnM_def)
    next
      case (Some r)
      then have "snd (requireRole srv (routeRole rt) (serveRoute srv rt) req E s) =
          snd (serve (srvSvc srv) r E (ticked s))"
        by (simp add: admitted(3) serveRoute_def ticked_def)
      then show ?thesis using http_permitted [OF Some False admitted(2)] admitted(1)
        unfolding oneRequest_def by auto
    qed
  qed
qed

interpretation http: gateway srv E "\<lambda>t. t = ExtractBearerToken (hAuthorization req)" "\<lambda>s. s"
  "\<lambda>s. snd (ServeHTTP srv rt req E s)"
  by unfold_locales (rule http_guarded)

section \<open>gRPC\<close>

definition grpcToken :: "goctx \<Rightarrow> string" where
  "grpcToken ctx = ExtractBearerToken
     (if ctxMetadata ctx ''authorization'' = [] then '''' else ctxMetadata ctx ''authorization'' ! 0)"

lemma snd_respond [simp]: "snd (respond f m E s) = snd (m E s)"
  by (simp add: respond_def run_rules split: prod.splits sum.splits)

lemma authenticated_guarded:
  assumes "\<And>claims. permitted claims (r claims)"
  shows "oneRequest srv E (\<lambda>t. t = grpcToken ctx) s
    (snd (authenticated srv ctx (\<lambda>claims. respond f (serve (srvSvc srv) (r claims))) E s))"
proof (cases "ParseToken (srvJWT srv) (srvAuth srv) (grpcToken ctx) (clock E (nclock s))")
  case (Inl e)
  then show ?thesis
    by (simp add: oneRequest_def authenticated_def grpcToken_def Let_def run_rules nowM_def)
next
  case (Inr claims)
  then have "grpcToken ctx \<noteq> '''' \<Longrightarrow>
      snd (authenticated srv ctx (\<lambda>claims. respond f (serve (srvSvc srv) (r claims))) E s) =
      snd (serve (srvSvc srv) (r claims) E (ticked s))"
    by (simp add: authenticated_def grpcToken_def Let_def run_bindM run_mapErrM nowM_def ticked_def)
  moreover have "grpcToken ctx = '''' \<Longrightarrow>
      snd (authenticated srv ctx (\<lambda>claims. respond f (serve (srvSvc srv) (r claims))) E s) = s"
    by (simp add: authenticated_def grpcToken_def Let_def run_rules)
  ultimately show ?thesis using Inr assms [of claims] unfolding oneRequest_def by metis
qed

lemma withRole_guarded:
  assumes "\<And>claims. Role claims = role \<Longrightarrow> permitted claims (r claims)"
  shows "oneRequest srv E (\<lambda>t. t = grpcToken ctx) s
    (snd (withRole srv ctx role (\<lambda>claims. respond f (serve (srvSvc srv) (r claims))) E s))"
proof (cases "ParseToken (srvJWT srv) (srvAuth srv) (grpcToken ctx) (clock E (nclock s))")
  case (Inl e)
  then show ?thesis
    by (simp add: oneRequest_def withRole_def authenticated_def grpcToken_def Let_def run_rules nowM_def)
next
  case (Inr claims)
  show ?thesis
  proof (cases "grpcToken ctx = '''' \<or> Role claims \<noteq> role")
    case True
    with Inr show ?thesis
      by (auto simp: oneRequest_def withRole_def authenticated_def grpcToken_def Let_def run_rules nowM_def)
  next
    case False
    then have "snd (withRole srv ctx role (\<lambda>claims. respond f (serve (srvSvc srv) (r claims))) E s) =
        snd (serve (srvSvc srv) (r claims) E (ticked s))"
      using Inr by (simp add: withRole_def authenticated_def grpcToken_def Let_def run_bindM run_mapErrM
          nowM_def ticked_def)
    then show ?thesis using Inr False assms [of claims] unfolding oneRequest_def by metis
  qed
qed

lemmas grpc_guarded = withRole_guarded authenticated_guarded

text \<open>A handler whose request does not decode fails before the method runs.\<close>

lemma undecoded:
  "unaryHandler method full ctx (Inl e) i = throwM e"
  by (simp add: unaryHandler_def)

lemma gateway_handler:
  assumes "\<And>e. h (Inl e) = (throwM e :: 'r G)"
    and "\<And>q s. oneRequest srv E T s (snd (h (Inr q) E s))"
  shows "gateway srv E T (\<lambda>s. s) (\<lambda>s. snd (h dec E s))"
  using assms by unfold_locales (cases dec; simp add: throwM_def oneRequest_def)

interpretation grpc_submit: gateway srv E "\<lambda>t. t = grpcToken ctx" "\<lambda>s. s"
  "\<lambda>s. snd (submitOrderHandler srv ctx dec (Some (authInterceptor srv)) E s)"
  by (rule gateway_handler, simp add: submitOrderHandler_def undecoded)
    (simp add: order_handlers_serve grpc_guarded del: serve.simps split del: if_split)

interpretation grpc_withdraw: gateway srv E "\<lambda>t. t = grpcToken ctx" "\<lambda>s. s"
  "\<lambda>s. snd (withdrawOrderHandler srv ctx dec (Some (authInterceptor srv)) E s)"
  by (rule gateway_handler, simp add: withdrawOrderHandler_def undecoded)
    (simp add: order_handlers_serve grpc_guarded del: serve.simps split del: if_split)

interpretation grpc_view: gateway srv E "\<lambda>t. t = grpcToken ctx" "\<lambda>s. s"
  "\<lambda>s. snd (getOrderHandler srv ctx dec (Some (authInterceptor srv)) E s)"
  by (rule gateway_handler, simp add: getOrderHandler_def undecoded)
    (simp add: order_handlers_serve grpc_guarded del: serve.simps split del: if_split)

interpretation grpc_reserve: gateway srv E "\<lambda>t. t = grpcToken ctx" "\<lambda>s. s"
  "\<lambda>s. snd (reserveJobHandler srv ctx dec (Some (authInterceptor srv)) E s)"
  by (rule gateway_handler, simp add: reserveJobHandler_def undecoded)
    (simp add: drone_handlers_serve grpc_guarded del: serve.simps split del: if_split)

interpretation grpc_pickup: gateway srv E "\<lambda>t. t = grpcToken ctx" "\<lambda>s. s"
  "\<lambda>s. snd (pickupOrderHandler srv ctx dec (Some (authInterceptor srv)) E s)"
  by (rule gateway_handler, simp add: pickupOrderHandler_def undecoded)
    (simp add: drone_handlers_serve grpc_guarded del: serve.simps split del: if_split)

interpretation grpc_deliver: gateway srv E "\<lambda>t. t = grpcToken ctx" "\<lambda>s. s"
  "\<lambda>s. snd (deliverOrderHandler srv ctx dec (Some (authInterceptor srv)) E s)"
  by (rule gateway_handler, simp add: deliverOrderHandler_def undecoded)
    (simp add: drone_handlers_serve grpc_guarded del: serve.simps split del: if_split)

interpretation grpc_fail: gateway srv E "\<lambda>t. t = grpcToken ctx" "\<lambda>s. s"
  "\<lambda>s. snd (failOrderHandler srv ctx dec (Some (authInterceptor srv)) E s)"
  by (rule gateway_handler, simp add: failOrderHandler_def undecoded)
    (simp add: drone_handlers_serve grpc_guarded del: serve.simps split del: if_split)

interpretation grpc_broken: gateway srv E "\<lambda>t. t = grpcToken ctx" "\<lambda>s. s"
  "\<lambda>s. snd (markBrokenHandler srv ctx dec (Some (authInterceptor srv)) E s)"
  by (rule gateway_handler, simp add: markBrokenHandler_def undecoded)
    (simp add: drone_handlers_serve grpc_guarded del: serve.simps split del: if_split)

interpretation grpc_heartbeat: gateway srv E "\<lambda>t. t = grpcToken ctx" "\<lambda>s. s"
  "\<lambda>s. snd (heartbeatHandler srv ctx dec (Some (authInterceptor srv)) E s)"
  by (rule gateway_handler, simp add: heartbeatHandler_def undecoded)
    (simp add: drone_handlers_serve grpc_guarded del: serve.simps split del: if_split)

interpretation grpc_current: gateway srv E "\<lambda>t. t = grpcToken ctx" "\<lambda>s. s"
  "\<lambda>s. snd (currentOrderHandler srv ctx dec (Some (authInterceptor srv)) E s)"
  by (rule gateway_handler, simp add: currentOrderHandler_def undecoded)
    (simp add: drone_handlers_serve grpc_guarded del: serve.simps split del: if_split)

interpretation grpc_orders: gateway srv E "\<lambda>t. t = grpcToken ctx" "\<lambda>s. s"
  "\<lambda>s. snd (adminListOrdersHandler srv ctx dec (Some (authInterceptor srv)) E s)"
  by (rule gateway_handler, simp add: adminListOrdersHandler_def undecoded)
    (simp add: admin_handlers_serve grpc_guarded del: serve.simps split del: if_split)

interpretation grpc_update: gateway srv E "\<lambda>t. t = grpcToken ctx" "\<lambda>s. s"
  "\<lambda>s. snd (adminUpdateOrderHandler srv ctx dec (Some (authInterceptor srv)) E s)"
  by (rule gateway_handler, simp add: adminUpdateOrderHandler_def undecoded)
    (simp add: admin_handlers_serve grpc_guarded del: serve.simps split del: if_split)

interpretation grpc_drones: gateway srv E "\<lambda>t. t = grpcToken ctx" "\<lambda>s. s"
  "\<lambda>s. snd (adminListDronesHandler srv ctx dec (Some (authInterceptor srv)) E s)"
  by (rule gateway_handler, simp add: adminListDronesHandler_def undecoded)
    (simp add: admin_handlers_serve grpc_guarded del: serve.simps split del: if_split)

interpretation grpc_drone_broken: gateway srv E "\<lambda>t. t = grpcToken ctx" "\<lambda>s. s"
  "\<lambda>s. snd (adminMarkDroneBrokenHandler srv ctx dec (Some (authInterceptor srv)) E s)"
  by (rule gateway_handler, simp add: adminMarkDroneBrokenHandler_def undecoded)
    (simp add: admin_handlers_serve grpc_guarded del: serve.simps split del: if_split)

interpretation grpc_drone_fixed: gateway srv E "\<lambda>t. t = grpcToken ctx" "\<lambda>s. s"
  "\<lambda>s. snd (adminMarkDroneFixedHandler srv ctx dec (Some (authInterceptor srv)) E s)"
  by (rule gateway_handler, simp add: adminMarkDroneFixedHandler_def undecoded)
    (simp add: admin_handlers_serve grpc_guarded del: serve.simps split del: if_split)

lemma grpcIssueToken_db: "db (snd (grpcIssueToken srv ctx req E s)) = db s"
  using IssueToken_db [of "srvJWT srv" "srvAuth srv" "gtName req" "gtRole req" E s]
  by (auto simp: grpcIssueToken_def run_rules split: prod.splits sum.splits)

interpretation grpc_token: gateway srv E "\<lambda>t. False" "\<lambda>s. s"
  "\<lambda>s. snd (issueTokenHandler srv ctx dec (Some (authInterceptor srv)) E s)"
  by (rule gateway_handler, simp add: issueTokenHandler_def undecoded)
    (simp add: issueTokenHandler_def unaryHandler_def authInterceptor_def oneRequest_def grpcIssueToken_db)

section \<open>Thrift\<close>

lemma thrift_table_permitted:
  assumes "map_of (thriftTable n) name = Some (role, args)" and "args P i = (Inr (token, req), i')"
    and "role = None \<or> role = Some (Role claims)"
  shows "permitted claims (req claims)"
  using assms
  by (auto simp: thriftTable_def argsM_def run_rules split: if_splits prod.splits sum.splits)

lemma thrift_guarded:
  "oneRequest p (world W) (\<lambda>t. True) (svcSt c) (svcSt (snd (Process (NewProcessor n p) W c)))"
proof (cases rule: Process_svc [of n p W c])
  case unchanged
  then show ?thesis by (simp add: oneRequest_def)
next
  case (call name role token req args i i')
  show ?thesis
  proof (cases "ParseToken (srvJWT p) (srvAuth p) token (clock (world W) (nclock (svcSt c)))")
    case (Inl e)
    then show ?thesis using call(3) by (simp add: oneRequest_def thriftOutcome_def)
  next
    case (Inr claims)
    show ?thesis
    proof (cases "role = None \<or> role = Some (Role claims)")
      case True
      then have "snd (thriftOutcome p role token req (world W) (svcSt c)) =
          snd (serve (srvSvc p) (req claims) (world W) (ticked (svcSt c)))"
        using Inr by (auto simp: thriftOutcome_def split: prod.splits sum.splits)
      then show ?thesis using call Inr thrift_table_permitted [OF call(1,2) True]
        unfolding oneRequest_def by metis
    next
      case False
      then show ?thesis using call(3) Inr by (simp add: oneRequest_def thriftOutcome_def)
    qed
  qed
qed

interpretation thrift: gateway p "world W" "\<lambda>t. True" svcSt
  "\<lambda>c. snd (Process (NewProcessor n p) W c)"
  by unfold_locales (rule thrift_guarded)

section \<open>The class of an error\<close>

text \<open>The sentinel that an error is or wraps, in the order the transports test them.\<close>

definition errClass :: "gerror \<Rightarrow> gerror option" where
  "errClass err = List.find (errorsIs err)
     [ErrUnauthorized, ErrForbidden, ErrNotFound, ErrConflict, ErrInvalid, ErrPrecondition, ErrNoJob]"

lemma errClass_cases:
  "errClass err \<in> {Some ErrUnauthorized, Some ErrForbidden, Some ErrNotFound, Some ErrConflict,
     Some ErrInvalid, Some ErrPrecondition, Some ErrNoJob, None}"
  by (simp add: errClass_def)

lemma writeError_class:
  "writeError err = (case errClass err of
     None \<Rightarrow> respondJSON 500 (errorJSON ''internal'' ''internal error'')
   | Some e \<Rightarrow> writeError e)"
  by (simp add: errClass_def writeError_def)

lemma mapServiceError_class:
  "mapServiceError err = (case errClass err of
     None \<Rightarrow> Status Internal ''internal error'' | Some e \<Rightarrow> mapServiceError e)"
  by (simp add: errClass_def mapServiceError_def)

lemma mapError_class:
  "mapError err = (case errClass err of
     None \<Rightarrow> AppExc INTERNAL_ERROR ''internal error'' | Some e \<Rightarrow> mapError e)"
  by (simp add: errClass_def mapError_def)

end
