(* ===== verification/History.thy ===== *)
theory History
  imports Refine
begin

text \<open>
  What one committed step says about the life of an order: at most one order changes, along
  an edge of the status graph, keeping its owner and its creation time, and exactly one
  order event, the one that names the change, joins the outbox in the same commit.
\<close>

text \<open>
  The status graph with the event each edge is announced by: \<open>eventFor old new\<close> is the event
  type of a change from status \<open>old\<close> (\<open>None\<close>: no such order) to \<open>new\<close>, and \<open>None\<close> when there
  is no such edge.
\<close>

definition eventFor :: "OrderStatus option \<Rightarrow> OrderStatus \<Rightarrow> string option" where
  "eventFor old new =
     (case old of
        None \<Rightarrow> if new = OrderStatusCreated then Some EventOrderCreated else None
      | Some status \<Rightarrow>
          if IsTerminal status then None
          else if new = status then Some EventOrderUpdated
          else if new = OrderStatusReserved \<and> waiting status then Some EventOrderReserved
          else if new = OrderStatusPickedUp \<and> status = OrderStatusReserved
          then Some EventOrderPickedUp
          else if new = OrderStatusDelivered \<and> status = OrderStatusPickedUp
          then Some EventOrderDelivered
          else if new = OrderStatusFailed \<and> status = OrderStatusPickedUp
          then Some EventOrderFailed
          else if new = OrderStatusHandoffRequested \<and> status = OrderStatusPickedUp
          then Some EventOrderHandoffRequested
          else if new = OrderStatusCreated \<and> status = OrderStatusReserved
          then Some EventOrderUpdated
          else if new = OrderStatusWithdrawn \<and>
            (status = OrderStatusCreated \<or> status = OrderStatusReserved)
          then Some EventOrderWithdrawn
          else None)"

definition isOrderEvent :: "outbox_row \<Rightarrow> bool" where
  "isOrderEvent r \<longleftrightarrow> ob_aggregate_type r = AggregateOrder"

definition announces :: "outbox_row \<Rightarrow> string \<Rightarrow> string \<Rightarrow> Order \<Rightarrow> bool" where
  "announces r t u ord \<longleftrightarrow>
     ob_event_type r = t \<and> ob_aggregate_id r = u \<and> ob_published_at r = None \<and>
     jsonMember (ob_payload r) ''status'' = Some (JString (oStatus ord)) \<and>
     jsonMember (ob_payload r) ''drone_id'' = Some (jsonStringPtr (oAssignedDroneID ord))"

definition order_change :: "db \<Rightarrow> string \<Rightarrow> Order \<Rightarrow> db \<Rightarrow> outbox_row list \<Rightarrow> bool" where
  "order_change d u ord d' evs \<longleftrightarrow>
     ordersOf d' = (ordersOf d)(u \<mapsto> ord) \<and>
     (\<forall>old. ordersOf d u = Some old \<longrightarrow>
        oUserID ord = oUserID old \<and> oCreatedAt ord = oCreatedAt old) \<and>
     (\<exists>t r. eventFor (map_option oStatus (ordersOf d u)) (oStatus ord) = Some t \<and>
        filter isOrderEvent evs = [r] \<and> announces r t u ord)"

lemma eventFor_edges:
  "eventFor None OrderStatusCreated = Some EventOrderCreated"
  "\<not> IsTerminal status \<Longrightarrow> eventFor (Some status) status = Some EventOrderUpdated"
  "waiting status \<Longrightarrow> eventFor (Some status) OrderStatusReserved = Some EventOrderReserved"
  "eventFor (Some OrderStatusReserved) OrderStatusPickedUp = Some EventOrderPickedUp"
  "eventFor (Some OrderStatusPickedUp) OrderStatusDelivered = Some EventOrderDelivered"
  "eventFor (Some OrderStatusPickedUp) OrderStatusFailed = Some EventOrderFailed"
  "eventFor (Some OrderStatusPickedUp) OrderStatusHandoffRequested = Some EventOrderHandoffRequested"
  "eventFor (Some OrderStatusReserved) OrderStatusCreated = Some EventOrderUpdated"
  "eventFor (Some OrderStatusCreated) OrderStatusWithdrawn = Some EventOrderWithdrawn"
  "eventFor (Some OrderStatusReserved) OrderStatusWithdrawn = Some EventOrderWithdrawn"
  by (auto simp: eventFor_def waiting_def)

lemma eventFor_terminal: "IsTerminal status \<Longrightarrow> eventFor (Some status) new = None"
  by (simp add: eventFor_def)

lemma order_event_row:
  "isOrderEvent (outboxInsertRow E v (NewOrderEvent v t ord dr now))"
  "oID ord = u \<Longrightarrow> announces (outboxInsertRow E v (NewOrderEvent v t ord dr now)) t u
     ((storedOrder E ord)\<lparr>oID := u, oCreatedAt := w\<rparr>)"
  "oID ord = u \<Longrightarrow> announces (outboxInsertRow E v (NewOrderEvent v t ord dr now)) t u
     ((storedOrder E ord)\<lparr>oID := u\<rparr>)"
  "\<not> isOrderEvent (outboxInsertRow E v (NewDroneEvent v t dr' now))"
  by (simp_all add: isOrderEvent_def announces_def outboxInsertRow_def)

lemma order_change_upd:
  assumes "ordersOf d u = Some old" and "ordersOf d' = ordersOf (updOrder E u ord d)"
    and "oID ord = u" and "oUserID ord = oUserID old"
    and "eventFor (Some (oStatus old)) (oStatus ord) = Some t"
    and "filter isOrderEvent evs = [outboxInsertRow E v (NewOrderEvent v t ord dr now)]"
  shows "order_change d u ((storedOrder E ord)\<lparr>oID := u, oCreatedAt := oCreatedAt old\<rparr>) d' evs"
  using assms by (simp add: order_change_def ordersOf_updOrder_Some order_event_row)

lemma order_change_ins:
  assumes "ordersOf d u = None" and "ordersOf d' = ordersOf (insOrder E u ord d)"
    and "oID ord = u" and "oStatus ord = OrderStatusCreated"
    and "filter isOrderEvent evs = [outboxInsertRow E v (NewOrderEvent v EventOrderCreated ord dr now)]"
  shows "order_change d u ((storedOrder E ord)\<lparr>oID := u\<rparr>) d' evs"
  using assms by (simp add: order_change_def ordersOf_insOrder order_event_row eventFor_edges)

lemma handedOff_sel [simp]:
  "oID (handedOff dr now ord) = oID ord" "oUserID (handedOff dr now ord) = oUserID ord"
  "oStatus (handedOff dr now ord) = OrderStatusHandoffRequested"
  "oAssignedDroneID (handedOff dr now ord) = None"
  "oHandoffOrigin (handedOff dr now ord) =
     (case dLastLocation dr of None \<Rightarrow> oHandoffOrigin ord | Some l \<Rightarrow> Some l)"
  by (simp_all add: handedOff_def Let_def split: option.splits)

lemma requeued_sel [simp]:
  "oID (requeued now ord) = oID ord" "oUserID (requeued now ord) = oUserID ord"
  "oStatus (requeued now ord) = OrderStatusCreated"
  "oAssignedDroneID (requeued now ord) = None" "oHandoffOrigin (requeued now ord) = None"
  by (simp_all add: requeued_def)

lemma one_order_changed:
  assumes "order_change d u ord d' evs" and "outbox_events d' = outbox_events d @ evs"
  shows "\<exists>evs. outbox_events d' = outbox_events d @ evs \<and>
    ((ordersOf d' = ordersOf d \<and> filter isOrderEvent evs = []) \<or> (\<exists>u ord. order_change d u ord d' evs))"
  using assms by blast

lemma svc_step_orders:
  assumes "svc_step E d a d'"
  shows "\<exists>evs. outbox_events d' = outbox_events d @ evs \<and>
    ((ordersOf d' = ordersOf d \<and> filter isOrderEvent evs = []) \<or> (\<exists>u ord. order_change d u ord d' evs))"
  using assms
proof cases
  case (submit i v origin dest ord userID now)
  show ?thesis
    by (rule one_order_changed [OF order_change_ins [where E = E and ord = ord and v = v and dr = None and now = now]])
      (use submit in \<open>simp_all add: order_event_row\<close>)
next
  case (withdraw_created u ord0 userID v ord now)
  show ?thesis
    by (rule one_order_changed [OF order_change_upd [where E = E and old = ord0 and ord = ord and v = v and dr = None and now = now]])
      (use withdraw_created in \<open>simp_all add: ordersOf_id order_event_row eventFor_edges\<close>)
next
  case (withdraw_reserved u ord0 userID v i dr0 dr now0 ord now)
  show ?thesis
    by (rule one_order_changed [OF order_change_upd [where E = E and old = ord0 and ord = ord and v = v and dr = None and now = now]])
      (use withdraw_reserved in \<open>simp_all add: ordersOf_id order_event_row eventFor_edges\<close>)
next
  case (update u ord0 v ord now now2)
  have sel: "oID ord = oID ord0 \<and> oUserID ord = oUserID ord0 \<and> oStatus ord = oStatus ord0"
    by (subst update(8), subst (3) update(8), subst (5) update(8)) simp
  show ?thesis
    by (rule one_order_changed [OF order_change_upd [where E = E and old = ord0 and ord = ord and v = v and dr = None and now = now2]])
      (use update sel in \<open>simp_all add: ordersOf_id order_event_row eventFor_edges\<close>)
next
  case (reserve dr0 i t u ord0 v ord now dr)
  show ?thesis
    by (rule one_order_changed [OF order_change_upd [where E = E and old = ord0 and ord = ord and v = v and dr = "Some dr" and now = now]])
      (use reserve in \<open>auto simp: ordersOf_id order_event_row eventFor_edges
        ordersOf_updOrder_Some\<close>)
next
  case (pickup u ord0 i v ord now now2)
  show ?thesis
    by (rule one_order_changed [OF order_change_upd [where E = E and old = ord0 and ord = ord and v = v and dr = None and now = now2]])
      (use pickup in \<open>simp_all add: ordersOf_id order_event_row eventFor_edges\<close>)
next
  case (complete u ord0 i v dr0 status etype reason ord now dr)
  show ?thesis
    by (rule one_order_changed [OF order_change_upd [where E = E and old = ord0 and ord = ord and v = v and dr = "Some dr" and now = now]])
      (use complete in \<open>auto simp: ordersOf_id order_event_row eventFor_edges\<close>)
next
  case (break_idle dr0 i t v dr now)
  then show ?thesis by (simp add: order_event_row)
next
  case (break_carrying i dr0 u ord0 v v' ord now etype dr1 dr)
  show ?thesis
    by (rule one_order_changed [OF order_change_upd [where E = E and old = ord0 and ord = ord and v = v and dr = "Some dr1" and now = now]])
      (use break_carrying in \<open>auto simp: ordersOf_id order_event_row eventFor_edges\<close>)
next
  case (mark_fixed dr0 i t v dr now)
  then show ?thesis by (simp add: order_event_row)
next
  case (beat dr0 i t loc dr now)
  then show ?thesis by simp
qed

text \<open>What the requests can do to one order, whatever the database answers.\<close>

lemma serve_order_change:
  assumes "env_ok E" and "db_inv E (db s)"
  shows "\<exists>evs. outbox_events (db (snd (serve S r E s))) = outbox_events (db s) @ evs \<and>
    ((ordersOf (db (snd (serve S r E s))) = ordersOf (db s) \<and> filter isOrderEvent evs = []) \<or>
     (\<exists>u ord. order_change (db s) u ord (db (snd (serve S r E s))) evs))"
  using serve_all_or_nothing [OF assms, of S r]
proof (elim disjE exE)
  assume "db (snd (serve S r E s)) = db s"
  then show ?thesis by (intro exI [of _ "[]"]) simp
qed (rule svc_step_orders)

lemma order_change_at:
  assumes "order_change d u ord d' evs" and "ordersOf d' k = Some ord'" and "ordersOf d k \<noteq> Some ord'"
  shows "k = u" and "ord' = ord"
  using assms by (auto simp: order_change_def split: if_splits)

lemma order_change_keeps:
  assumes "order_change d u ord d' evs" and "ordersOf d k = Some old"
  obtains new where "ordersOf d' k = Some new" "oUserID new = oUserID old" "oCreatedAt new = oCreatedAt old"
    "new = old \<or> eventFor (Some (oStatus old)) (oStatus new) \<noteq> None"
  using assms by (cases "k = u") (auto simp: order_change_def)

end
