(* ===== verification/Scenario.thy ===== *)
theory Scenario
  imports History
begin

text \<open>
  Sequences of requests, and a concrete run used to check the statements of the development
  on evaluated data: an environment without faults whose identifiers are \<open>a\<close>, \<open>aa\<close>, \<open>aaa\<close>
  and so on, a service on exact arithmetic, and a customer's order that drone \<open>d1\<close> reserves,
  picks up and delivers. The run is evaluated by unfolding the definitions.
\<close>

fun serveAll :: "Service \<Rightarrow> request list \<Rightarrow> env \<Rightarrow> st \<Rightarrow> st" where
  "serveAll S [] E s = s"
| "serveAll S (r # rs) E s = serveAll S rs E (snd (serve S r E s))"

definition demoEnv :: env where
  "demoEnv = \<lparr>clock = int, uuids = (\<lambda>n. replicate (Suc n) (CHR ''a'')), faults = (\<lambda>_. None),
     landed = (\<lambda>_. False), locked = (\<lambda>_ _. False), dbClock = int, uuidText = Some,
     dbTime = (\<lambda>t. t), collate = (\<lambda>_ _. True)\<rparr>"

definition demoStart :: st where
  "demoStart = \<lparr>db = emptyDB, work = emptyDB, nclock = 0, nuuid = 0, ncall = 0\<rparr>"

definition demoService :: Service where
  "demoService = \<lparr>svcSpeed = Fin 15, svcFPU = exact_fpu\<rparr>"

definition demoSpot :: Location where
  "demoSpot = \<lparr>Lat = Fin 10, Lng = Fin 20\<rparr>"

definition demoSubmit :: request where
  "demoSubmit = ReqSubmit ''ann'' demoSpot demoSpot"

definition demoRun :: "request list \<Rightarrow> st" where
  "demoRun rs = serveAll demoService rs demoEnv demoStart"

lemma serveAll_append: "serveAll S (rs @ rs') E s = serveAll S rs' E (serveAll S rs E s)"
  by (induction rs arbitrary: s) simp_all

lemma reachable_serveAll: "reachable S E s \<Longrightarrow> reachable S E (serveAll S rs E s)"
  by (induction rs arbitrary: s) (simp_all add: reachable.request)

lemma demoEnv_sel [simp]:
  "clock demoEnv n = int n" "uuids demoEnv n = replicate (Suc n) (CHR ''a'')"
  "faults demoEnv n = None" "landed demoEnv n = False" "locked demoEnv n u = False"
  "dbClock demoEnv n = int n" "uuidText demoEnv x = Some x" "dbTime demoEnv t = t"
  by (simp_all add: demoEnv_def)

lemma demoEnv_ok: "env_ok demoEnv"
  by (simp add: env_ok_def)

lemma demoSpot_valid [simp]: "ValidateLocation demoSpot = None"
  by (simp add: demoSpot_def ValidateLocation_def)

lemma demoStart_sel [simp]:
  "db demoStart = emptyDB" "work demoStart = emptyDB" "nclock demoStart = 0"
  "nuuid demoStart = 0" "ncall demoStart = 0"
  by (simp_all add: demoStart_def)

lemma demo_reachable: "reachable demoService demoEnv (demoRun rs)"
  by (simp add: demoRun_def reachable_serveAll reachable.start)

lemma demo_inv: "db_inv demoEnv (db (demoRun rs))"
  using demo_reachable demoEnv_ok by (rule reachable_db_inv)

lemmas eval_defs =
  run_rules eval_def answerM_def SubmitOrder_def withTx_def BeginTx_def callM_def Let_def
  nowM_def newUUID_def CreateOrder_def enqueueOrderEvent_def EnqueueEvent_def execTx_def
  orderInsertSQL_def outboxInsertSQL_def commitReturn_def Commit_def Rollback_def emptyDB_def
  DroneReserveJob_def getOrCreateDrone_def GetDroneForUpdate_def queryRow_def liftE_def
  droneSelectByIDSQL_def CreateDrone_def droneInsertSQL_def uuidNullable_def newDrone_def
  insDrone_def ReserveNextOrder_def orderReserveSQL_def insOrder_def insEvent_def reservable_def
  orderInsertRow_def newOrder_def NewOrderEvent_def NewEvent_def outboxInsertRow_def
  jsonStringPtr_def droneInsertRow_def UpdateOrder_def UpdateDrone_def orderUpdateSQL_def
  droneUpdateSQL_def updOrder_def updDrone_def orderUpdateRow_def droneUpdateRow_def
  DronePickup_def updateOrderForDrone_def pickupFn_def GetOrderForUpdate_def
  orderSelectByIDSQL_def orderOfRow_def droneOfRow_def locationOf_def DroneDeliver_def
  completeOrderForDrone_def completed_def WithdrawOrder_def AdminUpdateOrder_def
  DroneMarkBroken_def releaseOrder_def enqueueDroneEvent_def NewDroneEvent_def DroneMarkFixed_def
  DroneHeartbeat_def demoRun_def demoSubmit_def ordersOf_def dronesOf_def DroneFail_def
  GetOrder_def GetDrone_def buildOrderView_def GetOrderView_def AdminMarkDroneBroken_def
  AdminMarkDroneFixed_def DroneCurrentOrder_def

lemma demo_delivered:
  "ordersOf (db (demoRun [demoSubmit, ReqReserve ''d1'', ReqPickup ''d1'' ''a'', ReqDeliver ''d1'' ''a'']))
     ''a'' = Some \<lparr>oID = ''a'', oUserID = ''ann'', oOrigin = demoSpot, oDestination = demoSpot,
      oStatus = OrderStatusDelivered, oAssignedDroneID = Some ''d1'', oHandoffOrigin = None,
      oCreatedAt = 0, oUpdatedAt = 5, oReservedAt = Some 2, oPickedUpAt = Some 3,
      oDeliveredAt = Some 5, oFailedAt = None, oFailureReason = None\<rparr>"
  by (simp add: eval_defs)

lemma demo_carried:
  "ordersOf (db (demoRun [demoSubmit, ReqReserve ''d1'', ReqPickup ''d1'' ''a''])) ''a'' =
     Some \<lparr>oID = ''a'', oUserID = ''ann'', oOrigin = demoSpot, oDestination = demoSpot,
      oStatus = OrderStatusPickedUp, oAssignedDroneID = Some ''d1'', oHandoffOrigin = None,
      oCreatedAt = 0, oUpdatedAt = 3, oReservedAt = Some 2, oPickedUpAt = Some 3,
      oDeliveredAt = None, oFailedAt = None, oFailureReason = None\<rparr>"
  "dronesOf (db (demoRun [demoSubmit, ReqReserve ''d1'', ReqPickup ''d1'' ''a''])) ''d1'' =
     Some \<lparr>dID = ''d1'', dStatus = DroneStatusActive, dLastLocation = None, dLastHeartbeatAt = None,
      dCurrentOrderID = Some ''a'', dCreatedAt = 1, dUpdatedAt = 2\<rparr>"
  by (simp_all add: eval_defs)

lemma demo_waiting:
  "ordersOf (db (demoRun [demoSubmit])) ''a'' = Some (newOrder ''a'' ''ann'' demoSpot demoSpot 0)"
  "dronesOf (db (demoRun [demoSubmit])) ''d1'' = None"
  by (simp_all add: eval_defs)

end
