(* ===== verification/Outbox.thy ===== *)
theory Outbox
  imports Scenario
begin

text \<open>
  Package \<open>internal/events\<close>, files \<open>outbox.go\<close> and \<open>noop.go\<close>, and the NATS publisher of
  \<open>internal/events/nats\<close>: the worker that reads pending events from the outbox, hands them to
  a publisher and marks the ones the publisher accepted.

  The repository and the publisher are interfaces, so they are arguments here: a repository
  is its two operations, a publisher a state machine over the state \<open>'b\<close> of whatever stands
  behind it. Printing to the logger is left out. The worker waits for its ticker and its
  context; what it hears is a list of signals, in the order in which the \<open>select\<close> takes them.
\<close>

section \<open>Publishers\<close>

record 'b Publisher =
  Publish :: "Event \<Rightarrow> 'b \<Rightarrow> (gerror + unit) \<times> 'b"
  Close :: "'b \<Rightarrow> (gerror + unit) \<times> 'b"

definition NoopPublisher :: "'b Publisher" where
  "NoopPublisher = \<lparr>Publish = (\<lambda>event b. (Inr (), b)), Close = (\<lambda>b. (Inr (), b))\<rparr>"

text \<open>\<open>json.Marshal\<close> of an event: the members in the order of the struct's fields.\<close>

definition eventJSON :: "Event \<Rightarrow> json" where
  "eventJSON ev = JObject
     [(''ID'', JString (eID ev)), (''Type'', JString (eType ev)),
      (''AggregateType'', JString (eAggregateType ev)),
      (''AggregateID'', JString (eAggregateID ev)),
      (''Payload'', ePayload ev), (''OccurredAt'', JTime (eOccurredAt ev))]"

text \<open>The NATS publisher over the connection's own \<open>Publish\<close> and \<open>Close\<close>; \<open>New\<close> fills in the
  default subject. An event read from the outbox always has a JSON text: its members are strings, a
  time and the payload, which the database holds as JSON.\<close>

definition natsSubject :: "string \<Rightarrow> string" where
  "natsSubject subject = (if subject = '''' then ''drone.events'' else subject)"

definition natsPublisher ::
  "(string \<Rightarrow> json \<Rightarrow> 'b \<Rightarrow> (gerror + unit) \<times> 'b) \<Rightarrow> ('b \<Rightarrow> 'b) \<Rightarrow> string \<Rightarrow> 'b Publisher" where
  "natsPublisher ncPublish ncClose subject =
     \<lparr>Publish = (\<lambda>event b. ncPublish (natsSubject subject) (eventJSON event) b),
      Close = (\<lambda>b. (Inr (), ncClose b))\<rparr>"

section \<open>The worker\<close>

record OutboxRepository =
  repoFetchPending :: "int \<Rightarrow> Event list M"
  repoMarkPublished :: "string list \<Rightarrow> unit M"

definition pgOutbox :: OutboxRepository where
  "pgOutbox = \<lparr>repoFetchPending = FetchPending, repoMarkPublished = MarkPublished\<rparr>"

record 'b OutboxWorker =
  wRepo :: OutboxRepository
  wPublisher :: "'b Publisher"
  wPollInterval :: int
  wBatchSize :: int

type_synonym ('b, 'a) W = "(env, st \<times> 'b, gerror, 'a) prog"

definition repoM :: "'a M \<Rightarrow> ('b, 'a) W" where
  "repoM m = (\<lambda>E (s, b). case m E s of (r, s') \<Rightarrow> (r, (s', b)))"

definition publishM :: "'b Publisher \<Rightarrow> Event \<Rightarrow> ('b, unit) W" where
  "publishM P ev = (\<lambda>E (s, b). case Publish P ev b of (r, b') \<Rightarrow> (r, (s, b')))"

fun publishLoop :: "'b Publisher \<Rightarrow> Event list \<Rightarrow> string list \<Rightarrow> ('b, string list) W" where
  "publishLoop P [] published = returnM published"
| "publishLoop P (evt # evts) published =
     bindM (attemptM (publishM P evt)) (\<lambda>r. case r of
        Inl err \<Rightarrow> publishLoop P evts published
      | Inr _ \<Rightarrow> publishLoop P evts (published @ [eID evt]))"

text \<open>One turn of the loop after the ticker fired; every error is logged and dropped.\<close>

definition tick :: "'b OutboxWorker \<Rightarrow> ('b, unit) W" where
  "tick w =
     bindM (attemptM (repoM (repoFetchPending (wRepo w) (wBatchSize w)))) (\<lambda>r. case r of
        Inl err \<Rightarrow> returnM ()
      | Inr evts \<Rightarrow>
          if evts = [] then returnM ()
          else bindM (publishLoop (wPublisher w) evts []) (\<lambda>published.
               bindM (attemptM (repoM (repoMarkPublished (wRepo w) published))) (\<lambda>_.
               returnM ())))"

datatype signal = Ticked | Cancelled

definition second :: int where "second = 1000000000"

definition withDefaults :: "'b OutboxWorker \<Rightarrow> 'b OutboxWorker" where
  "withDefaults w =
     w\<lparr>wPollInterval := (if wPollInterval w \<le> 0 then second else wPollInterval w),
       wBatchSize := (if wBatchSize w \<le> 0 then 50 else wBatchSize w)\<rparr>"

definition errCancelled :: gerror where
  "errCancelled = OtherErr ''context canceled''"

text \<open>The loop of \<open>Start\<close>: it returns only when the context is done.\<close>

fun startLoop :: "'b OutboxWorker \<Rightarrow> signal list \<Rightarrow> ('b, unit) W" where
  "startLoop w [] = returnM ()"
| "startLoop w (Cancelled # sigs) = throwM errCancelled"
| "startLoop w (Ticked # sigs) = seqM (tick w) (startLoop w sigs)"

definition Start :: "'b OutboxWorker \<Rightarrow> signal list \<Rightarrow> ('b, unit) W" where
  "Start w sigs = startLoop (withDefaults w) sigs"

section \<open>Specification\<close>

definition pendingRows :: "db \<Rightarrow> outbox_row list" where
  "pendingRows d = filter (\<lambda>r. ob_published_at r = None) (outbox_events d)"

definition pendingEvents :: "db \<Rightarrow> Event set" where
  "pendingEvents d = eventOfRow ` set (pendingRows d)"

text \<open>What the code relies on of a broker: a successful publish has handed the event to it, for good.\<close>

definition broker_ok :: "'b Publisher \<Rightarrow> ('b \<Rightarrow> Event set) \<Rightarrow> bool" where
  "broker_ok P sent \<longleftrightarrow>
     (\<forall>ev b b'. Publish P ev b = (Inr (), b') \<longrightarrow> ev \<in> sent b') \<and>
     (\<forall>ev b. sent b \<subseteq> sent (snd (Publish P ev b)))"

definition outbox_ok :: "env \<Rightarrow> db \<Rightarrow> bool" where
  "outbox_ok E d \<longleftrightarrow> distinct (map ob_id (outbox_events d)) \<and>
     (\<forall>r\<in>set (outbox_events d). uuidText E (ob_id r) = Some (ob_id r))"

text \<open>The rows after a mark of the identifiers that satisfy a predicate.\<close>

definition markRow :: "(string \<Rightarrow> bool) \<Rightarrow> time \<Rightarrow> outbox_row \<Rightarrow> outbox_row" where
  "markRow p t r = (if p (ob_id r) then r\<lparr>ob_published_at := Some t\<rparr> else r)"

section \<open>Publishing a batch\<close>

lemma wp_repoM [wp_rules]:
  "wp (repoM m) Q R E (s, b) = wp m (\<lambda>x s'. Q x (s', b)) (\<lambda>e s'. R e (s', b)) E s"
  by (simp add: wp_def repoM_def split: prod.splits sum.splits)

lemma wp_publishM [wp_rules]:
  "wp (publishM P ev) Q R E (s, b) =
     (case Publish P ev b of (Inr u, b') \<Rightarrow> Q u (s, b') | (Inl e, b') \<Rightarrow> R e (s, b'))"
  by (simp add: wp_def publishM_def split: prod.splits sum.splits)

lemma publishLoop_spec:
  assumes "broker_ok P sent"
  shows "wp (publishLoop P evts acc)
    (\<lambda>ids (s', b'). s' = s \<and> sent b \<subseteq> sent b' \<and> set acc \<subseteq> set ids \<and>
      (\<forall>i\<in>set ids - set acc. \<exists>ev\<in>set evts. eID ev = i \<and> ev \<in> sent b'))
    (\<lambda>_ _. False) E (s, b)"
proof (induction evts arbitrary: acc b)
  case Nil
  then show ?case by (simp add: wp_returnM)
next
  case (Cons ev evts)
  obtain r b1 where p: "Publish P ev b = (r, b1)" by fastforce
  have sub: "sent b \<subseteq> sent b1"
    using assms p by (metis broker_ok_def snd_conv)
  show ?case
  proof (cases r)
    case (Inl e)
    have "wp (publishLoop P evts acc) (\<lambda>ids (s', b'). s' = s \<and> sent b \<subseteq> sent b' \<and> set acc \<subseteq> set ids \<and>
      (\<forall>i\<in>set ids - set acc. \<exists>ev'\<in>set (ev # evts). eID ev' = i \<and> ev' \<in> sent b'))
      (\<lambda>_ _. False) E (s, b1)"
      by (rule wp_mono [OF Cons.IH]) (use sub in auto)
    then show ?thesis using Inl p by (simp add: wp_rules)
  next
    case (Inr u)
    have got: "ev \<in> sent b1" using assms p Inr by (simp add: broker_ok_def)
    have "wp (publishLoop P evts (acc @ [eID ev])) (\<lambda>ids (s', b'). s' = s \<and> sent b \<subseteq> sent b' \<and>
      set acc \<subseteq> set ids \<and>
      (\<forall>i\<in>set ids - set acc. \<exists>ev'\<in>set (ev # evts). eID ev' = i \<and> ev' \<in> sent b'))
      (\<lambda>_ _. False) E (s, b1)"
      by (rule wp_mono [OF Cons.IH]) (use sub got in fastforce)+
    then show ?thesis using Inr p by (simp add: wp_rules)
  qed
qed

section \<open>The contract of the repository\<close>

text \<open>
  What the worker relies on of its repository: fetching changes nothing and returns pending
  events, and marking takes away pending events of the given identifiers only. \<open>ok\<close> is the
  repository's own invariant.
\<close>

locale outbox_repository =
  fixes fetch :: "int \<Rightarrow> Event list M" and mark :: "string list \<Rightarrow> unit M"
    and pending :: "db \<Rightarrow> Event set" and ok :: "env \<Rightarrow> db \<Rightarrow> bool"
  assumes fetch_reads: "db (snd (fetch n E s)) = db s"
    and fetch_pending: "ok E (db s) \<Longrightarrow> fetch n E s = (Inr evs, s') \<Longrightarrow> set evs \<subseteq> pending (db s)"
    and pending_inj: "ok E d \<Longrightarrow> inj_on eID (pending d)"
    and mark_only: "ok E (db s) \<Longrightarrow> set ids \<subseteq> eID ` pending (db s) \<Longrightarrow> ev \<in> pending (db s) \<Longrightarrow>
      ev \<notin> pending (db (snd (mark ids E s))) \<Longrightarrow> eID ev \<in> set ids"
    and mark_ok: "ok E (db s) \<Longrightarrow> ok E (db (snd (mark ids E s)))"
begin

text \<open>No pending event is lost in a turn: it is still pending, or the broker has it.\<close>

lemma tick_keeps_events:
  assumes P: "broker_ok (wPublisher w) sent" and ok: "ok E (db s)"
    and repo: "repoFetchPending (wRepo w) = fetch" "repoMarkPublished (wRepo w) = mark"
  shows "wp (tick w) (\<lambda>_ (s', b'). ok E (db s') \<and> sent b \<subseteq> sent b' \<and>
      (\<forall>ev\<in>pending (db s). ev \<in> pending (db s') \<or> ev \<in> sent b')) (\<lambda>_ _. False) E (s, b)"
proof -
  obtain r s1 where f: "fetch (wBatchSize w) E s = (r, s1)" by fastforce
  have d1: "db s1 = db s" using fetch_reads [of "wBatchSize w" E s] f by simp
  show ?thesis
  proof (cases r)
    case (Inl e)
    then show ?thesis using f d1 ok by (simp add: tick_def repo wp_rules wp_run)
  next
    case (Inr evs)
    have evs: "set evs \<subseteq> pending (db s)" using fetch_pending [OF ok] f Inr by simp
    have marked: "wp (bindM (attemptM (repoM (mark ids))) (\<lambda>_. returnM ()))
        (\<lambda>_ (s', b'). ok E (db s') \<and> sent b \<subseteq> sent b' \<and>
          (\<forall>ev\<in>pending (db s). ev \<in> pending (db s') \<or> ev \<in> sent b')) (\<lambda>_ _. False) E (s1, b1)"
      if b1: "sent b \<subseteq> sent b1" and ids: "\<forall>i\<in>set ids. \<exists>ev\<in>set evs. eID ev = i \<and> ev \<in> sent b1"
      for ids b1
    proof -
      obtain r2 s2 where m: "mark ids E s1 = (r2, s2)" by fastforce
      have "ok E (db s2)" using mark_ok [of E s1 ids] ok d1 m by simp
      moreover have "ev \<in> pending (db s2) \<or> ev \<in> sent b1" if ev: "ev \<in> pending (db s)" for ev
      proof (rule disjCI)
        assume "ev \<notin> sent b1"
        moreover have "ev' = ev" if "ev' \<in> set evs" "eID ev' = eID ev" for ev'
          using pending_inj [OF ok] ev evs that by (auto dest: inj_onD)
        ultimately have "eID ev \<notin> set ids" using ids by blast
        moreover have "set ids \<subseteq> eID ` pending (db s1)" using ids evs d1 by fastforce
        ultimately show "ev \<in> pending (db s2)" using mark_only [of E s1 ids ev] ok d1 ev m by auto
      qed
      ultimately show ?thesis using b1 m by (cases r2) (simp_all add: wp_rules wp_run)
    qed
    have "wp (publishLoop (wPublisher w) evs []) (\<lambda>ids sb. wp (bindM (attemptM (repoM (mark ids))) (\<lambda>_. returnM ()))
        (\<lambda>_ (s', b'). ok E (db s') \<and> sent b \<subseteq> sent b' \<and>
          (\<forall>ev\<in>pending (db s). ev \<in> pending (db s') \<or> ev \<in> sent b')) (\<lambda>_ _. False) E sb)
        (\<lambda>_ _. False) E (s1, b)"
      by (rule wp_mono [OF publishLoop_spec [OF P]]) (use marked in \<open>auto split: prod.splits\<close>)
    then show ?thesis using f d1 ok Inr by (simp add: tick_def repo wp_rules wp_run)
  qed
qed

end

section \<open>The repository of the store meets the contract\<close>

lemma fetch_result:
  "FetchPending n E s = (Inr evs, s') \<Longrightarrow>
   evs = map eventOfRow (outboxFetchPendingSQL (if n \<le> 0 then 50 else n) (db s))"
  using wp_okD [of "FetchPending n" "\<lambda>x _. x = map eventOfRow (outboxFetchPendingSQL (if n \<le> 0 then 50 else n) (db s))"
      "\<lambda>_ _. True" E s evs s'] by (simp add: wp_FetchPending)

lemma FetchPending_reads: "reads_only (FetchPending n)"
  by (rule reads_onlyI) (simp add: wp_FetchPending)

lemma eventOfRow_id [simp]: "eID (eventOfRow r) = ob_id r"
  by (simp add: eventOfRow_def)

lemma markRow_id [simp]: "ob_id (markRow p t r) = ob_id r"
  by (simp add: markRow_def)

lemma markRow_none: "map (markRow (\<lambda>_. False) t) rows = rows"
  by (induction rows) (simp_all add: markRow_def)

lemma mark_sql:
  "outboxMarkPublishedSQL ids t E d =
     (if \<exists>i\<in>set ids. uuidText E i = None then Inl errUUID
      else Inr (d\<lparr>outbox_events :=
        map (markRow (\<lambda>u. \<exists>i\<in>set ids. uuidText E i = Some u) t) (outbox_events d)\<rparr>))"
  by (simp add: outboxMarkPublishedSQL_def markRow_def [abs_def])

lemma MarkPublished_db:
  "\<exists>p t. db (snd (MarkPublished ids E s)) =
      (db s)\<lparr>outbox_events := map (markRow p t) (outbox_events (db s))\<rparr> \<and>
    (\<forall>u. p u \<longrightarrow> (\<exists>i\<in>set ids. uuidText E i = Some u))"
proof -
  let ?p = "\<lambda>u. \<exists>i\<in>set ids. uuidText E i = Some u"
  have "db (snd (MarkPublished ids E s)) = db s \<or>
      (\<exists>t. db (snd (MarkPublished ids E s)) =
        (db s)\<lparr>outbox_events := map (markRow ?p t) (outbox_events (db s))\<rparr>)"
    by (auto simp: MarkPublished_def returnM_def execPool_def callM_def Let_def
        mark_sql split: option.splits)
  then show ?thesis
  proof (elim disjE exE)
    assume "db (snd (MarkPublished ids E s)) = db s"
    then show ?thesis
      by (intro exI [of _ "\<lambda>_. False"] exI [of _ 0]) (simp add: markRow_none)
  qed blast
qed

lemma table_frames [simp]:
  "ordersOf (d\<lparr>outbox_events := evs\<rparr>) = ordersOf d" "dronesOf (d\<lparr>outbox_events := evs\<rparr>) = dronesOf d"
  by (simp_all add: ordersOf_def dronesOf_def fun_eq_iff)

lemma db_inv_markRow:
  "db_inv E d \<Longrightarrow> db_inv E (d\<lparr>outbox_events := map (markRow p t) (outbox_events d)\<rparr>)"
  by (simp add: db_inv_def keys_ok_def canonical_def comp_def)

lemma pendingEvents_markRow:
  assumes "ev \<in> pendingEvents d"
    and "ev \<notin> pendingEvents (d\<lparr>outbox_events := map (markRow p t) (outbox_events d)\<rparr>)"
  shows "p (eID ev)"
proof (rule ccontr)
  assume np: "\<not> p (eID ev)"
  from assms(1) obtain r where r: "r \<in> set (outbox_events d)" "ob_published_at r = None" "ev = eventOfRow r"
    by (auto simp: pendingEvents_def pendingRows_def)
  with np have "markRow p t r = r" by (simp add: markRow_def)
  with r assms(2) show False by (force simp: pendingEvents_def pendingRows_def)
qed

interpretation pg_outbox: outbox_repository FetchPending MarkPublished pendingEvents outbox_ok
proof unfold_locales
  fix n E and s :: st
  show "db (snd (FetchPending n E s)) = db s"
    using FetchPending_reads by (simp add: reads_only_def)
next
  fix E n evs and s s' :: st
  assume "FetchPending n E s = (Inr evs, s')"
  from fetch_result [OF this] show "set evs \<subseteq> pendingEvents (db s)"
    by (auto simp: pendingEvents_def pendingRows_def outboxFetchPendingSQL_def dest!: in_set_takeD)
next
  fix E d
  assume "outbox_ok E d"
  then show "inj_on eID (pendingEvents d)"
    by (auto simp: inj_on_def outbox_ok_def pendingEvents_def pendingRows_def distinct_map)
next
  fix E ids ev and s :: st
  assume ok: "outbox_ok E (db s)" and ids: "set ids \<subseteq> eID ` pendingEvents (db s)"
    and ev: "ev \<in> pendingEvents (db s)" "ev \<notin> pendingEvents (db (snd (MarkPublished ids E s)))"
  obtain p t where m: "db (snd (MarkPublished ids E s)) =
      (db s)\<lparr>outbox_events := map (markRow p t) (outbox_events (db s))\<rparr>"
      "\<And>u. p u \<Longrightarrow> \<exists>i\<in>set ids. uuidText E i = Some u"
    using MarkPublished_db by blast
  have "p (eID ev)" using pendingEvents_markRow [OF ev(1)] ev(2) m(1) by auto
  then obtain i where i: "i \<in> set ids" "uuidText E i = Some (eID ev)" using m(2) by blast
  with ids ok have "uuidText E i = Some i"
    by (force simp: outbox_ok_def pendingEvents_def pendingRows_def)
  with i show "eID ev \<in> set ids" by simp
next
  fix E ids and s :: st
  assume "outbox_ok E (db s)"
  then show "outbox_ok E (db (snd (MarkPublished ids E s)))"
    using MarkPublished_db [of ids E s] by (auto simp: outbox_ok_def comp_def)
qed

end
