(* ===== verification/Delivery.thy ===== *)
theory Delivery
  imports Outbox
begin

text \<open>
  The outbox and its worker together with the service: requests and turns of the worker in
  any interleaving. No committed event is lost, whatever faults the database and the broker
  have; without faults the worker empties the outbox.
\<close>

section \<open>Requests and turns of the worker\<close>

inductive system :: "Service \<Rightarrow> 'b OutboxWorker \<Rightarrow> env \<Rightarrow> st \<times> 'b \<Rightarrow> bool"
  for S :: Service and w :: "'b OutboxWorker" and E :: env where
  boot: "db s = emptyDB \<Longrightarrow> system S w E (s, b)"
| request: "system S w E (s, b) \<Longrightarrow> system S w E (snd (serve S r E s), b)"
| turn: "system S w E sb \<Longrightarrow> system S w E (snd (tick w E sb))"

definition accounted :: "('b \<Rightarrow> Event set) \<Rightarrow> st \<times> 'b \<Rightarrow> bool" where
  "accounted sent sb \<longleftrightarrow> (\<forall>r\<in>set (outbox_events (db (fst sb))).
     ob_published_at r = None \<or> eventOfRow r \<in> sent (snd sb))"

lemma svc_step_unpublished:
  assumes "svc_step E d a d'"
  shows "\<exists>evs. outbox_events d' = outbox_events d @ evs \<and> (\<forall>r\<in>set evs. ob_published_at r = None)"
  using assms by cases (simp_all add: outboxInsertRow_def)

lemma wp_snd:
  assumes "wp m (\<lambda>_. I) (\<lambda>_. I) E s"
  shows "I (snd (m E s))"
  using assms by (cases "m E s"; cases "fst (m E s)") (simp_all add: wp_def)

lemmas wp_worker = wp_bindM wp_attemptM wp_repoM wp_publishM wp_returnM wp_if wp_case_sum wp_run

lemma tick_db:
  assumes "wRepo w = pgOutbox"
  shows "\<exists>p t. db (fst (snd (tick w E (s, b)))) =
    (db s)\<lparr>outbox_events := map (markRow p t) (outbox_events (db s))\<rparr>"
proof -
  let ?I = "\<lambda>sb. \<exists>p t. db (fst sb) = (db s)\<lparr>outbox_events := map (markRow p t) (outbox_events (db s))\<rparr>"
  have same: "?I (s', b')" if "db s' = db s" for s' b'
    by (intro exI [of _ "\<lambda>_. False"] exI [of _ 0]) (simp add: markRow_none that)
  note same0 = same [OF refl, simplified]
  obtain r s1 where f: "FetchPending (wBatchSize w) E s = (r, s1)" by fastforce
  have d1: "db s1 = db s" using FetchPending_reads f by (metis reads_only_def snd_conv)
  have m: "wp (repoM (MarkPublished ids)) (\<lambda>_. ?I) (\<lambda>_. ?I) E (s', b')"
    if "db s' = db s" for ids s' b'
    using MarkPublished_db [of ids E s'] that
    by (cases "MarkPublished ids E s'"; cases "fst (MarkPublished ids E s')")
      (simp_all add: wp_worker, blast+)
  have loop: "wp (publishLoop P evs acc) (\<lambda>_ sb. db (fst sb) = db s) (\<lambda>_ sb. db (fst sb) = db s) E (s', b')"
    if "db s' = db s" for P evs acc s' and b' :: 'a
    using that by (induction evs arbitrary: acc s' b')
      (auto simp: wp_rules split: prod.splits sum.splits)
  have "wp (tick w) (\<lambda>_. ?I) (\<lambda>_. ?I) E (s, b)"
  proof (cases r)
    case (Inl e)
    then show ?thesis using f d1 same0 by (simp add: tick_def assms pgOutbox_def wp_worker)
  next
    case (Inr evs)
    have "wp (publishLoop (wPublisher w) evs []) (\<lambda>ids. wp (repoM (MarkPublished ids))
      (\<lambda>_. ?I) (\<lambda>_. ?I) E) (\<lambda>_. ?I) E (s1, b)"
      by (rule wp_mono [OF loop [OF d1]]) (use m same0 in auto)
    then show ?thesis using Inr f d1 same0 by (simp add: tick_def assms pgOutbox_def wp_worker)
  qed
  from wp_snd [OF this] show ?thesis .
qed

lemma db_inv_outbox_ok: "db_inv E d \<Longrightarrow> outbox_ok E d"
  by (simp add: db_inv_def keys_ok_def canonical_def outbox_ok_def)

lemma eventOfRow_markRow [simp]: "eventOfRow (markRow p t r) = eventOfRow r"
  by (simp add: eventOfRow_def markRow_def)

lemma accounted_tick:
  assumes "broker_ok (wPublisher w) sent" and "wRepo w = pgOutbox" and inv: "db_inv E (db s)"
    and acc: "accounted sent (s, b)"
  shows "db_inv E (db (fst (snd (tick w E (s, b)))))" and "accounted sent (snd (tick w E (s, b)))"
proof -
  obtain s' b' where t: "snd (tick w E (s, b)) = (s', b')" by fastforce
  obtain p t where d': "db s' = (db s)\<lparr>outbox_events := map (markRow p t) (outbox_events (db s))\<rparr>"
    using tick_db [OF assms(2)] t by (metis fst_conv)
  then show "db_inv E (db (fst (snd (tick w E (s, b)))))"
    using inv t by (simp add: db_inv_markRow)
  have ok: "outbox_ok E (db s')" using inv d' by (simp add: db_inv_outbox_ok db_inv_markRow)
  have keep: "sent b \<subseteq> sent b'" "\<forall>ev\<in>pendingEvents (db s). ev \<in> pendingEvents (db s') \<or> ev \<in> sent b'"
    using pg_outbox.tick_keeps_events [OF assms(1) db_inv_outbox_ok [OF inv], where b = b] t
    by (auto simp: assms(2) pgOutbox_def wp_def split: prod.splits sum.splits)
  have "eventOfRow r' \<in> sent b'" if r': "r' \<in> set (outbox_events (db s'))" "ob_published_at r' \<noteq> None" for r'
  proof -
    obtain r where r: "r \<in> set (outbox_events (db s))" "r' = markRow p t r" using r'(1) d' by auto
    show ?thesis
    proof (cases "ob_published_at r = None")
      case True
      then have "eventOfRow r' \<in> pendingEvents (db s)" using r by (auto simp: pendingEvents_def pendingRows_def)
      moreover have "eventOfRow r' \<notin> pendingEvents (db s')"
      proof
        assume "eventOfRow r' \<in> pendingEvents (db s')"
        then obtain q where q: "q \<in> set (outbox_events (db s'))" "ob_published_at q = None" "ob_id q = ob_id r'"
          by (auto simp: pendingEvents_def pendingRows_def) (metis eventOfRow_id)
        with ok r'(1) have "q = r'" by (auto simp: outbox_ok_def distinct_map inj_on_def)
        with q r'(2) show False by simp
      qed
      ultimately show ?thesis using keep(2) by blast
    next
      case False
      then show ?thesis using acc r keep(1) by (auto simp: accounted_def)
    qed
  qed
  then show "accounted sent (snd (tick w E (s, b)))" using t unfolding accounted_def by (metis fst_conv snd_conv)
qed

lemma accounted_request:
  assumes "env_ok E" and "db_inv E (db s)" and "accounted sent (s, b)"
  shows "db_inv E (db (snd (serve S r E s)))" and "accounted sent (snd (serve S r E s), b)"
proof -
  note c = serve_all_or_nothing [OF assms(1,2), of S r]
  then show "db_inv E (db (snd (serve S r E s)))" using svc_step_inv assms(2) by metis
  from c show "accounted sent (snd (serve S r E s), b)"
  proof (elim disjE exE)
    fix a assume "svc_step E (db s) a (db (snd (serve S r E s)))"
    from svc_step_unpublished [OF this] assms(3) show ?thesis by (auto simp: accounted_def)
  qed (use assms(3) in \<open>simp add: accounted_def\<close>)
qed

lemma system_invariant:
  assumes "env_ok E" and "broker_ok (wPublisher w) sent" and "wRepo w = pgOutbox"
    and "system S w E sb"
  shows "db_inv E (db (fst sb)) \<and> accounted sent sb"
  using assms(4)
proof (induction rule: system.induct)
  case (boot s b)
  then show ?case by (simp add: db_inv_emptyDB accounted_def) (simp add: emptyDB_def)
next
  case (request s b r)
  then show ?case using accounted_request [OF assms(1)] by (metis fst_conv)
next
  case (turn sb)
  then show ?case using accounted_tick [OF assms(2,3)] by (metis prod.collapse)
qed

section \<open>The outbox drains\<close>

lemma length_filter_taken:
  assumes "distinct (map key xs)"
  shows "length (filter (\<lambda>x. key x \<notin> key ` set (take n (sort_key f xs))) xs) = length xs - n"
proof -
  let ?ys = "sort_key f xs"
  let ?P = "\<lambda>x. key x \<notin> key ` set (take n ?ys)"
  have "distinct (map key ?ys)" using assms by (simp add: distinct_map)
  then have "distinct (map key (take n ?ys) @ map key (drop n ?ys))"
    by (metis append_take_drop_id map_append)
  then have "filter ?P (drop n ?ys) = drop n ?ys"
    by (intro filter_True) auto
  moreover have "filter ?P (take n ?ys) = []" by (auto simp: filter_empty_conv)
  ultimately have "filter ?P (take n ?ys @ drop n ?ys) = drop n ?ys" by (simp only: filter_append) simp
  then have "length (filter ?P ?ys) = length xs - n" by simp
  moreover have "length (filter ?P ?ys) = length (filter ?P xs)" by (metis filter_sort length_sort)
  ultimately show ?thesis by simp
qed

lemma filter_markRow:
  "filter (\<lambda>r. ob_published_at r = None) (map (markRow p t) rows) =
   filter (\<lambda>r. \<not> p (ob_id r)) (filter (\<lambda>r. ob_published_at r = None) rows)"
  by (induction rows) (simp_all add: markRow_def)

lemma publishLoop_accepts:
  assumes "\<And>ev b. \<exists>b'. Publish P ev b = (Inr (), b')"
  shows "\<exists>b'. publishLoop P evts acc E (s, b) = (Inr (acc @ map eID evts), (s, b'))"
proof (induction evts arbitrary: acc b)
  case Nil
  then show ?case by (simp add: returnM_def)
next
  case (Cons ev evts)
  obtain b1 where "Publish P ev b = (Inr (), b1)" using assms by blast
  then show ?case using Cons.IH [of "acc @ [eID ev]" b1]
    by (auto simp: run_rules publishM_def)
qed

lemma mark_fetched:
  assumes ok: "outbox_ok E d" and rows: "rows = outboxFetchPendingSQL n d" "0 < n"
  shows "\<exists>d'. outboxMarkPublishedSQL (map ob_id rows) t E d = Inr d' \<and> outbox_ok E d' \<and>
    length (pendingRows d') = length (pendingRows d) - nat n"
proof -
  have sub: "set rows \<subseteq> set (outbox_events d)"
    unfolding rows outboxFetchPendingSQL_def by (auto dest!: in_set_takeD)
  then have canon: "\<forall>i\<in>set (map ob_id rows). uuidText E i = Some i"
    using ok by (auto simp: outbox_ok_def)
  let ?d' = "d\<lparr>outbox_events := map (markRow (\<lambda>u. \<exists>i\<in>set (map ob_id rows). uuidText E i = Some u) t)
    (outbox_events d)\<rparr>"
  have "outboxMarkPublishedSQL (map ob_id rows) t E d = Inr ?d'"
    using canon by (simp add: mark_sql)
  moreover have "outbox_ok E ?d'" using ok by (simp add: outbox_ok_def comp_def)
  moreover have "pendingRows ?d' = filter (\<lambda>r. ob_id r \<notin> ob_id ` set rows) (pendingRows d)"
  proof -
    have "(\<exists>i\<in>set (map ob_id rows). uuidText E i = Some u) \<longleftrightarrow> u \<in> ob_id ` set rows" for u
      using canon by auto
    then show ?thesis by (simp add: pendingRows_def filter_markRow)
  qed
  moreover have "length (filter (\<lambda>r. ob_id r \<notin> ob_id ` set rows) (pendingRows d)) = length (pendingRows d) - nat n"
    unfolding rows outboxFetchPendingSQL_def pendingRows_def [symmetric]
    by (rule length_filter_taken) (use ok in \<open>simp add: outbox_ok_def pendingRows_def distinct_map_filter\<close>)
  ultimately show ?thesis by (intro exI [of _ ?d']) simp
qed

lemma tick_drains:
  assumes nofault: "\<And>n. faults E n = None"
    and accepts: "\<And>ev b. \<exists>b'. Publish (wPublisher w) ev b = (Inr (), b')"
    and w: "wRepo w = pgOutbox" "0 < wBatchSize w" and ok: "outbox_ok E (db s)"
  shows "\<exists>s' b'. tick w E (s, b) = (Inr (), (s', b')) \<and> outbox_ok E (db s') \<and>
    length (pendingRows (db s')) = length (pendingRows (db s)) - nat (wBatchSize w)"
proof -
  define rows where "rows = outboxFetchPendingSQL (wBatchSize w) (db s)"
  obtain d' where d': "outboxMarkPublishedSQL (map ob_id rows) (dbClock E (Suc (ncall s))) E (db s) = Inr d'"
      "outbox_ok E d'" "length (pendingRows d') = length (pendingRows (db s)) - nat (wBatchSize w)"
    using mark_fetched [OF ok rows_def w(2)] by blast
  have f: "FetchPending (wBatchSize w) E s = (Inr (map eventOfRow rows), called s)"
    using nofault w(2) by (simp add: FetchPending_def mapM_scan callM_def Let_def run_rules rows_def)
  show ?thesis
  proof (cases "rows = []")
    case True
    with d' have "pendingRows d' = pendingRows (db s)"
      by (auto simp: mark_sql markRow_none)
    then have "length (pendingRows (db s)) = length (pendingRows (db s)) - nat (wBatchSize w)" using d'(3) by simp
    then show ?thesis using True f ok by (simp add: tick_def w pgOutbox_def run_rules repoM_def)
  next
    case False
    obtain b1 where "publishLoop (wPublisher w) (map eventOfRow rows) [] E (called s, b) =
        (Inr (map ob_id rows), (called s, b1))"
      using publishLoop_accepts [OF accepts, of "map eventOfRow rows" "[]" E "called s" b]
      by (auto simp: comp_def)
    then show ?thesis using False f d' nofault
      by (simp add: tick_def w pgOutbox_def run_rules repoM_def MarkPublished_def execPool_def callM_def Let_def)
  qed
qed

lemma ticks_drain:
  assumes nofault: "\<And>n. faults E n = None"
    and accepts: "\<And>ev b. \<exists>b'. Publish (wPublisher w) ev b = (Inr (), b')"
    and w: "wRepo w = pgOutbox" "0 < wBatchSize w" and ok: "outbox_ok E (db s)"
  shows "\<exists>s' b'. startLoop w (replicate k Ticked) E (s, b) = (Inr (), (s', b')) \<and>
    length (pendingRows (db s')) = length (pendingRows (db s)) - k * nat (wBatchSize w)"
  using ok
proof (induction k arbitrary: s b)
  case 0
  then show ?case by (simp add: returnM_def)
next
  case (Suc k)
  obtain s1 b1 where t: "tick w E (s, b) = (Inr (), (s1, b1))" "outbox_ok E (db s1)"
      "length (pendingRows (db s1)) = length (pendingRows (db s)) - nat (wBatchSize w)"
    using tick_drains [OF nofault accepts w Suc.prems] by blast
  from Suc.IH [OF t(2), of b1] t show ?case by (auto simp: run_rules)
qed

end
