(* ===== verification/Platform.thy ===== *)
theory Platform
  imports Access Delivery
begin

text \<open>
  The whole backend: calls over HTTP, gRPC and Thrift in any order, interleaved with turns of
  the outbox worker, on one database. Every state that can arise satisfies the invariant of
  the service and accounts for every event.
\<close>

text \<open>What a unary call of one of the four services does to the state.\<close>

inductive grpcCall :: "Server \<Rightarrow> env \<Rightarrow> goctx \<Rightarrow> st \<Rightarrow> st \<Rightarrow> bool"
  for srv :: Server and E :: env and ctx :: goctx and s :: st where
  "grpcCall srv E ctx s (snd (issueTokenHandler srv ctx q (Some (authInterceptor srv)) E s))"
| "grpcCall srv E ctx s (snd (submitOrderHandler srv ctx q (Some (authInterceptor srv)) E s))"
| "grpcCall srv E ctx s (snd (withdrawOrderHandler srv ctx q (Some (authInterceptor srv)) E s))"
| "grpcCall srv E ctx s (snd (getOrderHandler srv ctx q (Some (authInterceptor srv)) E s))"
| "grpcCall srv E ctx s (snd (reserveJobHandler srv ctx q (Some (authInterceptor srv)) E s))"
| "grpcCall srv E ctx s (snd (pickupOrderHandler srv ctx q (Some (authInterceptor srv)) E s))"
| "grpcCall srv E ctx s (snd (deliverOrderHandler srv ctx q (Some (authInterceptor srv)) E s))"
| "grpcCall srv E ctx s (snd (failOrderHandler srv ctx q (Some (authInterceptor srv)) E s))"
| "grpcCall srv E ctx s (snd (markBrokenHandler srv ctx q (Some (authInterceptor srv)) E s))"
| "grpcCall srv E ctx s (snd (heartbeatHandler srv ctx q (Some (authInterceptor srv)) E s))"
| "grpcCall srv E ctx s (snd (currentOrderHandler srv ctx q (Some (authInterceptor srv)) E s))"
| "grpcCall srv E ctx s (snd (adminListOrdersHandler srv ctx q (Some (authInterceptor srv)) E s))"
| "grpcCall srv E ctx s (snd (adminUpdateOrderHandler srv ctx q (Some (authInterceptor srv)) E s))"
| "grpcCall srv E ctx s (snd (adminListDronesHandler srv ctx q (Some (authInterceptor srv)) E s))"
| "grpcCall srv E ctx s (snd (adminMarkDroneBrokenHandler srv ctx q (Some (authInterceptor srv)) E s))"
| "grpcCall srv E ctx s (snd (adminMarkDroneFixedHandler srv ctx q (Some (authInterceptor srv)) E s))"

inductive_cases grpcCallE: "grpcCall srv E ctx s s'"

lemma oneRequest_mono:
  "oneRequest srv E P s s' \<Longrightarrow> (\<And>t. P t \<Longrightarrow> Q t) \<Longrightarrow> oneRequest srv E Q s s'"
  unfolding oneRequest_def by blast

lemma grpc_call_guarded:
  assumes "grpcCall srv E ctx s s'"
  shows "oneRequest srv E (\<lambda>t. t = grpcToken ctx) s s'"
  using assms
  by cases (auto intro: grpc_submit.guarded grpc_withdraw.guarded grpc_view.guarded grpc_reserve.guarded
      grpc_pickup.guarded grpc_deliver.guarded grpc_fail.guarded grpc_broken.guarded
      grpc_heartbeat.guarded grpc_current.guarded grpc_orders.guarded grpc_update.guarded
      grpc_drones.guarded grpc_drone_broken.guarded grpc_drone_fixed.guarded
      oneRequest_mono [OF grpc_token.guarded])

text \<open>\<open>W\<close> holds the Thrift protocols and the environment; a call may find its connection in any state.\<close>

inductive platform :: "Server \<Rightarrow> nat \<Rightarrow> 'b OutboxWorker \<Rightarrow> ('i, 'o) wiring \<Rightarrow> st \<times> 'b \<Rightarrow> bool"
  for srv :: Server and n :: nat and w :: "'b OutboxWorker" and W :: "('i, 'o) wiring" where
  boot: "db s = emptyDB \<Longrightarrow> platform srv n w W (s, b)"
| http: "platform srv n w W (s, b) \<Longrightarrow> platform srv n w W (snd (ServeHTTP srv rt req (world W) s), b)"
| grpc: "platform srv n w W (s, b) \<Longrightarrow> grpcCall srv (world W) ctx s s' \<Longrightarrow> platform srv n w W (s', b)"
| thrift: "platform srv n w W (svcSt c, b) \<Longrightarrow>
    platform srv n w W (svcSt (snd (Process (NewProcessor n srv) W c)), b)"
| turn: "platform srv n w W sb \<Longrightarrow> platform srv n w W (snd (tick w (world W) sb))"

lemma accounted_guarded:
  assumes "env_ok E" and "db_inv E (db s)" and "accounted sent (s, b)" and "oneRequest srv E T s s'"
  shows "db_inv E (db s') \<and> accounted sent (s', b)"
  using assms(4) unfolding oneRequest_def
proof (elim disjE exE conjE)
  assume "db s' = db s"
  then show ?thesis using assms(2,3) by (simp add: accounted_def)
next
  fix r assume s': "s' = snd (serve (srvSvc srv) r E (ticked s))"
  have "db_inv E (db (ticked s))" "accounted sent (ticked s, b)"
    using assms(2,3) by (simp_all add: accounted_def)
  from accounted_request [OF assms(1) this, of "srvSvc srv" r] show ?thesis unfolding s' by (rule conjI)
qed

lemma platform_invariant:
  assumes "env_ok (world W)" and "broker_ok (wPublisher w) sent" and "wRepo w = pgOutbox"
    and "platform srv n w W sb"
  shows "db_inv (world W) (db (fst sb)) \<and> accounted sent sb"
  using assms(4)
proof (induction rule: platform.induct)
  case (boot s b)
  then show ?case by (simp add: db_inv_emptyDB accounted_def) (simp add: emptyDB_def)
next
  case (http s b rt req)
  then show ?case using accounted_guarded [OF assms(1) _ _ http_guarded] by (metis fst_conv)
next
  case (grpc s b ctx s')
  then show ?case using accounted_guarded [OF assms(1) _ _ grpc_call_guarded] by (metis fst_conv)
next
  case (thrift c b)
  then show ?case using accounted_guarded [OF assms(1) _ _ thrift_guarded] by (metis fst_conv)
next
  case (turn sb)
  then show ?case using accounted_tick [OF assms(2,3)] by (metis prod.collapse)
qed

end
