(* ===== verification/Workers.thy ===== *)
theory Workers
  imports Platform
begin

text \<open>
  Several outbox workers at once. The server runs one, and every process of \<open>cmd/worker\<close> another,
  all on the same table. A turn of a worker is not one step here: fetching a batch, publishing
  each event and marking the published ones are steps of their own, and between them anything
  else can happen, the steps of other workers, requests and crashes included. The steps of
  one worker are those of the loop of \<open>Start\<close>.
\<close>

section \<open>The steps of a worker\<close>

datatype phase = Waiting | Publishing "Event list" "string list" | Marking "string list"

fun workerStep :: "'b OutboxWorker \<Rightarrow> phase \<Rightarrow> ('b, phase) W" where
  "workerStep w Waiting =
     bindM (attemptM (repoM (repoFetchPending (wRepo w) (wBatchSize w)))) (\<lambda>r. case r of
        Inl err \<Rightarrow> returnM Waiting
      | Inr evts \<Rightarrow> returnM (if evts = [] then Waiting else Publishing evts []))"
| "workerStep w (Publishing [] published) = returnM (Marking published)"
| "workerStep w (Publishing (evt # evts) published) =
     bindM (attemptM (publishM (wPublisher w) evt)) (\<lambda>r. case r of
        Inl err \<Rightarrow> returnM (Publishing evts published)
      | Inr _ \<Rightarrow> returnM (Publishing evts (published @ [eID evt])))"
| "workerStep w (Marking published) =
     bindM (attemptM (repoM (repoMarkPublished (wRepo w) published))) (\<lambda>_. returnM Waiting)"

text \<open>A worker on its own: its steps until it waits again are one turn of the loop.\<close>

inductive steps :: "'b OutboxWorker \<Rightarrow> env \<Rightarrow> phase \<times> st \<times> 'b \<Rightarrow> phase \<times> st \<times> 'b \<Rightarrow> bool"
  for w :: "'b OutboxWorker" and E :: env where
  one: "workerStep w p E sb = (Inr p', sb') \<Longrightarrow> steps w E (p, sb) (p', sb')"
| more: "workerStep w p E sb = (Inr p1, sb1) \<Longrightarrow> steps w E (p1, sb1) c \<Longrightarrow> steps w E (p, sb) c"

lemma publishing_steps:
  assumes "publishLoop (wPublisher w) evts published E sb = (Inr ids, sb')"
  shows "steps w E (Publishing evts published, sb) (Marking ids, sb')"
  using assms
proof (induction evts arbitrary: published sb)
  case Nil
  then show ?case by (intro steps.one) (simp add: run_rules)
next
  case (Cons evt evts)
  obtain s b where sb: "sb = (s, b)" by fastforce
  obtain r b' where p: "Publish (wPublisher w) evt b = (r, b')" by fastforce
  show ?case
  proof (cases r)
    case (Inl e)
    then show ?thesis using Cons p sb
      by (intro steps.more [of w _ E sb "Publishing evts published" "(s, b')"])
        (simp_all add: run_rules publishM_def)
  next
    case (Inr u)
    then show ?thesis using Cons p sb
      by (intro steps.more [of w _ E sb "Publishing evts (published @ [eID evt])" "(s, b')"])
        (simp_all add: run_rules publishM_def)
  qed
qed

lemma publishLoop_returns: "\<exists>ids sb'. publishLoop P evts acc E sb = (Inr ids, sb')"
proof (induction evts arbitrary: acc sb)
  case (Cons evt evts)
  obtain r sb1 where "publishM P evt E sb = (r, sb1)" by (rule prod.exhaust)
  then show ?case using Cons.IH by (cases r) (auto simp: run_rules)
qed (auto simp: run_rules)

lemma steps_trans:
  "steps w E c1 c2 \<Longrightarrow> steps w E c2 c3 \<Longrightarrow> steps w E c1 c3"
  by (induction rule: steps.induct) (auto intro: steps.more)

lemma tick_steps: "steps w E (Waiting, sb) (Waiting, snd (tick w E sb))"
proof -
  obtain r sb1 where f: "repoM (repoFetchPending (wRepo w) (wBatchSize w)) E sb = (r, sb1)" by (rule prod.exhaust)
  show ?thesis
  proof (cases "\<exists>evts. r = Inr evts \<and> evts \<noteq> []")
    case True
    then obtain evts where evts: "r = Inr evts" "evts \<noteq> []" by blast
    obtain ids sb2 where p: "publishLoop (wPublisher w) evts [] E sb1 = (Inr ids, sb2)"
      using publishLoop_returns by blast
    obtain r3 sb3 where m: "repoM (repoMarkPublished (wRepo w) ids) E sb2 = (r3, sb3)" by (rule prod.exhaust)
    have t: "snd (tick w E sb) = sb3" using f evts p m by (simp add: tick_def run_rules)
    have "steps w E (Waiting, sb) (Publishing evts [], sb1)"
      using f evts by (intro steps.one) (simp add: run_rules)
    moreover have "steps w E (Marking ids, sb2) (Waiting, sb3)"
      using m by (intro steps.one) (simp add: run_rules)
    ultimately show ?thesis unfolding t using publishing_steps [OF p] steps_trans by blast
  next
    case False
    then have "workerStep w Waiting E sb = (Inr Waiting, sb1)" "snd (tick w E sb) = sb1"
      using f by (cases r; auto simp: tick_def run_rules)+
    then show ?thesis by (simp add: steps.one)
  qed
qed

section \<open>The cluster\<close>

text \<open>
  \<open>ws\<close> are the workers and \<open>phs\<close> their phases. A crash throws away what a worker remembers.
\<close>

inductive cluster ::
  "Server \<Rightarrow> nat \<Rightarrow> 'b OutboxWorker list \<Rightarrow> ('i, 'o) wiring \<Rightarrow> st \<times> 'b \<times> phase list \<Rightarrow> bool"
  for srv :: Server and n :: nat and ws :: "'b OutboxWorker list" and W :: "('i, 'o) wiring" where
  boot: "db s = emptyDB \<Longrightarrow> cluster srv n ws W (s, b, map (\<lambda>_. Waiting) ws)"
| http: "cluster srv n ws W (s, b, phs) \<Longrightarrow>
    cluster srv n ws W (snd (ServeHTTP srv rt req (world W) s), b, phs)"
| grpc: "cluster srv n ws W (s, b, phs) \<Longrightarrow> grpcCall srv (world W) ctx s s' \<Longrightarrow>
    cluster srv n ws W (s', b, phs)"
| thrift: "cluster srv n ws W (svcSt c, b, phs) \<Longrightarrow>
    cluster srv n ws W (svcSt (snd (Process (NewProcessor n srv) W c)), b, phs)"
| work: "cluster srv n ws W (s, b, phs) \<Longrightarrow> i < length ws \<Longrightarrow>
    workerStep (ws ! i) (phs ! i) (world W) (s, b) = (Inr p, (s', b')) \<Longrightarrow>
    cluster srv n ws W (s', b', phs[i := p])"
| crash: "cluster srv n ws W (s, b, phs) \<Longrightarrow> cluster srv n ws W (s, b, phs[i := Waiting])"

text \<open>What a worker remembers: stored events, and identifiers of stored events the broker has.\<close>

definition stored :: "db \<Rightarrow> Event \<Rightarrow> bool" where
  "stored d ev \<longleftrightarrow> ev \<in> eventOfRow ` set (outbox_events d)"

fun remembers :: "('b \<Rightarrow> Event set) \<Rightarrow> db \<Rightarrow> 'b \<Rightarrow> phase \<Rightarrow> bool" where
  "remembers sent d b Waiting = True"
| "remembers sent d b (Publishing evts ids) =
     ((\<forall>ev\<in>set evts. stored d ev) \<and> (\<forall>i\<in>set ids. \<exists>ev. stored d ev \<and> eID ev = i \<and> ev \<in> sent b))"
| "remembers sent d b (Marking ids) = (\<forall>i\<in>set ids. \<exists>ev. stored d ev \<and> eID ev = i \<and> ev \<in> sent b)"

lemma remembers_mono:
  assumes "remembers sent d b p" and "\<And>ev. stored d ev \<Longrightarrow> stored d' ev" and "sent b \<subseteq> sent b'"
  shows "remembers sent d' b' p"
  using assms(1) by (cases p) (use assms(2,3) in \<open>fastforce\<close>)+

lemma stored_markRow [simp]:
  "stored (d\<lparr>outbox_events := map (markRow p t) (outbox_events d)\<rparr>) = stored d"
  by (simp add: stored_def fun_eq_iff image_image)

lemma marked_sent:
  assumes inv: "db_inv E (db s)" and acc: "accounted sent (s, b)"
    and ids: "remembers sent (db s) b (Marking ids)"
    and m: "MarkPublished ids E s = (r, s')"
  shows "db_inv E (db s') \<and> accounted sent (s', b) \<and> stored (db s') = stored (db s)"
proof -
  obtain p t where d': "db s' = (db s)\<lparr>outbox_events := map (markRow p t) (outbox_events (db s))\<rparr>"
      and p: "\<And>u. p u \<Longrightarrow> \<exists>i\<in>set ids. uuidText E i = Some u"
    using MarkPublished_db [of ids E s] m by auto
  have ok: "outbox_ok E (db s)" using inv by (rule db_inv_outbox_ok)
  have "eventOfRow q \<in> sent b" if q: "q \<in> set (outbox_events (db s))" "p (ob_id q)" for q
  proof -
    obtain i where i: "i \<in> set ids" "uuidText E i = Some (ob_id q)" using p q(2) by blast
    then obtain q' where q': "q' \<in> set (outbox_events (db s))" "ob_id q' = i" "eventOfRow q' \<in> sent b"
      using ids by (auto simp: stored_def)
    then have "ob_id q' = ob_id q" using ok i(2) by (auto simp: outbox_ok_def)
    with ok q(1) q'(1) have "q' = q" by (auto simp: outbox_ok_def distinct_map inj_on_def)
    with q' show ?thesis by simp
  qed
  then have "ob_published_at (markRow p t q) = None \<or> eventOfRow q \<in> sent b"
    if "q \<in> set (outbox_events (db s))" for q
    using acc that by (cases "p (ob_id q)") (auto simp: accounted_def markRow_def)
  then have "accounted sent (s', b)" by (auto simp: accounted_def d')
  then show ?thesis using inv by (simp add: d' db_inv_markRow)
qed

text \<open>One step of a worker keeps the invariant and what it remembers.\<close>

lemma worker_step_keeps:
  assumes P: "broker_ok (wPublisher w) sent" and repo: "wRepo w = pgOutbox"
    and inv: "db_inv E (db s)" and acc: "accounted sent (s, b)" and rem: "remembers sent (db s) b p"
    and run: "workerStep w p E (s, b) = (Inr p', (s', b'))"
  shows "db_inv E (db s') \<and> accounted sent (s', b') \<and> stored (db s') = stored (db s) \<and>
    sent b \<subseteq> sent b' \<and> remembers sent (db s') b' p'"
  using rem run
proof (cases p)
  case Waiting
  obtain r s1 where f: "FetchPending (wBatchSize w) E s = (r, s1)" by fastforce
  have d: "db s1 = db s" using FetchPending_reads f by (metis reads_only_def snd_conv)
  have "set evts \<subseteq> pendingEvents (db s)" if "r = Inr evts" for evts
    using pg_outbox.fetch_pending [OF db_inv_outbox_ok [OF inv]] f that by blast
  then have "stored (db s) ev" if "r = Inr evts" "ev \<in> set evts" for evts ev
    using that by (auto simp: stored_def pendingEvents_def pendingRows_def)
  then show ?thesis using Waiting run f d inv acc
    by (cases r) (auto simp: repo pgOutbox_def run_rules repoM_def accounted_def split: if_splits)
next
  case (Publishing evts ids)
  show ?thesis
  proof (cases evts)
    case Nil
    then show ?thesis using Publishing run rem inv acc by (auto simp: run_rules)
  next
    case (Cons evt evts')
    obtain r b1 where p: "Publish (wPublisher w) evt b = (r, b1)" by fastforce
    have mono: "sent b \<subseteq> sent b1" using P p by (metis broker_ok_def snd_conv)
    have got: "evt \<in> sent b1" if "r = Inr ()" using P p that by (simp add: broker_ok_def)
    have "b' = b1" "s' = s" "p' = (case r of Inl _ \<Rightarrow> Publishing evts' ids | Inr _ \<Rightarrow> Publishing evts' (ids @ [eID evt]))"
      using run Publishing Cons p by (auto simp: run_rules publishM_def split: sum.splits)
    moreover have "accounted sent (s, b1)" using acc mono by (auto simp: accounted_def)
    moreover have "remembers sent (db s) b1 (case r of Inl _ \<Rightarrow> Publishing evts' ids
        | Inr _ \<Rightarrow> Publishing evts' (ids @ [eID evt]))"
      using rem Publishing Cons mono got by (cases r) fastforce+
    ultimately show ?thesis using inv mono by simp
  qed
next
  case (Marking ids)
  obtain r s1 where m: "MarkPublished ids E s = (r, s1)" by fastforce
  then have "s' = s1" "b' = b" "p' = Waiting"
    using run Marking by (auto simp: repo pgOutbox_def run_rules repoM_def)
  then show ?thesis using marked_sent [OF inv acc _ m] rem Marking by simp
qed

section \<open>The invariant of the cluster\<close>

definition cluster_ok :: "env \<Rightarrow> ('b \<Rightarrow> Event set) \<Rightarrow> st \<times> 'b \<times> phase list \<Rightarrow> bool" where
  "cluster_ok E sent c \<longleftrightarrow> (case c of (s, b, phs) \<Rightarrow>
     db_inv E (db s) \<and> accounted sent (s, b) \<and> (\<forall>p\<in>set phs. remembers sent (db s) b p))"

lemma guarded_stored:
  assumes "env_ok E" and "db_inv E (db s)" and "oneRequest srv E T s s'" and "stored (db s) ev"
  shows "stored (db s') ev"
  using assms(3) unfolding oneRequest_def
proof (elim disjE exE conjE)
  fix r assume s': "s' = snd (serve (srvSvc srv) r E (ticked s))"
  have "db_inv E (db (ticked s))" using assms(2) by simp
  from serve_all_or_nothing [OF assms(1) this, of "srvSvc srv" r] show ?thesis
  proof (elim disjE exE)
    fix a assume "svc_step E (db (ticked s)) a (db (snd (serve (srvSvc srv) r E (ticked s))))"
    from svc_step_unpublished [OF this] assms(4) show ?thesis unfolding s' by (auto simp: stored_def)
  qed (use assms(4) s' in \<open>simp\<close>)
qed (use assms(4) in \<open>simp add: stored_def\<close>)

lemma cluster_ok_request:
  assumes "env_ok E" and "cluster_ok E sent (s, b, phs)" and "oneRequest srv E T s s'"
  shows "cluster_ok E sent (s', b, phs)"
proof -
  have inv: "db_inv E (db s)" "accounted sent (s, b)" using assms(2) by (simp_all add: cluster_ok_def)
  have "remembers sent (db s') b p" if "p \<in> set phs" for p
  proof (rule remembers_mono)
    show "remembers sent (db s) b p" using assms(2) that by (simp add: cluster_ok_def)
  qed (rule guarded_stored [OF assms(1) inv(1) assms(3)], simp_all)
  then show ?thesis using accounted_guarded [OF assms(1) inv assms(3)] by (simp add: cluster_ok_def)
qed

lemma cluster_invariant:
  assumes E: "env_ok (world W)"
    and ws: "\<And>w. w \<in> set ws \<Longrightarrow> broker_ok (wPublisher w) sent \<and> wRepo w = pgOutbox"
    and "cluster srv n ws W c"
  shows "cluster_ok (world W) sent c \<and> length (snd (snd c)) = length ws"
  using assms(3)
proof (induction rule: cluster.induct)
  case (boot s b)
  then show ?case
    by (auto simp: cluster_ok_def db_inv_emptyDB accounted_def) (simp add: emptyDB_def)
next
  case (http s b phs rt req)
  then show ?case by (auto intro: cluster_ok_request [OF E _ http_guarded])
next
  case (grpc s b phs ctx s')
  then show ?case by (auto intro: cluster_ok_request [OF E _ grpc_call_guarded])
next
  case (thrift c b phs)
  then show ?case by (auto intro: cluster_ok_request [OF E _ thrift_guarded])
next
  case (work s b phs i p s' b')
  let ?w = "ws ! i"
  have w: "broker_ok (wPublisher ?w) sent" "wRepo ?w = pgOutbox" using ws work.hyps(2) by simp_all
  have ok: "db_inv (world W) (db s)" "accounted sent (s, b)" "\<And>q. q \<in> set phs \<Longrightarrow> remembers sent (db s) b q"
    and len: "length phs = length ws"
    using work.IH by (simp_all add: cluster_ok_def)
  have "remembers sent (db s) b (phs ! i)" using ok(3) work.hyps(2) len by simp
  from worker_step_keeps [OF w ok(1,2) this work.hyps(3)] have k: "db_inv (world W) (db s')"
      "accounted sent (s', b')" "stored (db s') = stored (db s)" "sent b \<subseteq> sent b'" "remembers sent (db s') b' p"
    by simp_all
  have "remembers sent (db s') b' q" if "q \<in> set (phs[i := p])" for q
  proof -
    have "q = p \<or> q \<in> set phs" using set_update_subset_insert [of phs i p] that by blast
    then show ?thesis
      using k ok(3) remembers_mono [where sent = sent and d = "db s" and d' = "db s'" and b = b and b' = b' and p = q]
      by auto
  qed
  then show ?case using k len by (simp add: cluster_ok_def)
next
  case (crash s b phs i)
  then show ?case using set_update_subset_insert [of phs i Waiting] by (auto simp: cluster_ok_def)
qed

section \<open>Whole turns\<close>

text \<open>A worker that is never interrupted makes whole turns: the platform is a part of the cluster.\<close>

lemma cluster_steps:
  assumes "steps w (world W) (p, s, b) (p', s', b')" and "cluster srv n [w] W (s, b, [p])"
  shows "cluster srv n [w] W (s', b', [p'])"
  using assms
proof (induction "(p, s, b)" "(p', s', b')" arbitrary: p s b rule: steps.induct)
  case (one p)
  then show ?case using cluster.work [of srv n "[w]" W s b "[p]" 0 p' s' b'] by simp
next
  case (more p p1 sb1)
  obtain s1 b1 where sb1: "sb1 = (s1, b1)" by (rule prod.exhaust)
  have "cluster srv n [w] W (s1, b1, [p1])"
    using more cluster.work [of srv n "[w]" W _ _ "[p]" 0 p1 s1 b1] sb1 by simp
  then show ?case using more sb1 by blast
qed

lemma platform_in_cluster:
  assumes "platform srv n w W sb"
  shows "cluster srv n [w] W (fst sb, snd sb, [Waiting])"
  using assms
proof (induction rule: platform.induct)
  case (boot s b)
  then show ?case using cluster.boot [of s srv n "[w]" W b] by simp
next
  case (turn sb)
  obtain s b where sb: "sb = (s, b)" by (rule prod.exhaust)
  obtain s' b' where t: "snd (tick w (world W) sb) = (s', b')" by (rule prod.exhaust)
  have "cluster srv n [w] W (s', b', [Waiting])"
    by (rule cluster_steps [OF _ turn.IH [unfolded sb fst_conv snd_conv]])
      (use tick_steps [of w "world W" sb] sb t in simp)
  then show ?case using t by simp
qed (auto intro: cluster.http cluster.grpc cluster.thrift)

section \<open>The end of a worker\<close>

lemma tick_returns: "fst (tick w E sb) = Inr ()"
proof -
  obtain r sb1 where f: "repoM (repoFetchPending (wRepo w) (wBatchSize w)) E sb = (r, sb1)" by (rule prod.exhaust)
  show ?thesis
  proof (cases r)
    case (Inr evts)
    obtain ids sb2 where p: "publishLoop (wPublisher w) evts [] E sb1 = (Inr ids, sb2)"
      using publishLoop_returns by blast
    obtain r3 sb3 where "repoM (repoMarkPublished (wRepo w) ids) E sb2 = (r3, sb3)" by (rule prod.exhaust)
    with f Inr p show ?thesis by (simp add: tick_def run_rules)
  qed (use f in \<open>simp add: tick_def run_rules\<close>)
qed

lemma startLoop_ends: "fst (startLoop w sigs E sb) = (if Cancelled \<in> set sigs then Inl errCancelled else Inr ())"
proof (induction w sigs arbitrary: sb rule: startLoop.induct)
  case (3 w sigs)
  obtain sb' where "tick w E sb = (Inr (), sb')" using tick_returns [of w E sb] by (metis prod.collapse)
  then show ?case using 3 by (simp add: run_rules)
qed (simp_all add: run_rules)

lemma Start_ends: "fst (Start w sigs E sb) = (if Cancelled \<in> set sigs then Inl errCancelled else Inr ())"
  by (simp add: Start_def startLoop_ends)

end
