(* ===== verification/Migrate.thy ===== *)
theory Migrate
  imports Domain "HOL-Library.List_Lexorder" "HOL-Library.Char_ord"
begin

text \<open>
  Package \<open>internal/repo/postgres\<close>, file \<open>migrate.go\<close>: the scripts of a directory are applied in
  the order of their names, each once; a table records the names of the applied ones.

  The database is a table of versions and the data the scripts work on, of any type \<open>'d\<close>. What
  a script does is a parameter, as are the directory, the contents of the files and the faults:
  a call of the pool may report an error, with or without its effect having taken place.
\<close>

section \<open>The database and the directory\<close>

record 'd mdb =
  mData :: 'd
  schema_migrations :: "string list option"
  mCalls :: nat

datatype dirError = NotExist | DirError string

record 'd menv =
  runScript :: "string \<Rightarrow> 'd \<Rightarrow> (gerror + unit) \<times> 'd"
  ReadDir :: "string \<Rightarrow> dirError + (string \<times> bool) list"
  ReadFile :: "string \<Rightarrow> gerror + string"
  poolFaults :: "nat \<Rightarrow> string option"
  poolLanded :: "nat \<Rightarrow> bool"

type_synonym ('d, 'a) mig = "('d menv, 'd mdb, gerror, 'a) prog"

text \<open>\<open>pool.Exec\<close>: when a call reports a fault, its effect may still have taken place.\<close>

definition poolExec :: "('d menv \<Rightarrow> 'd mdb \<Rightarrow> (gerror + unit) \<times> 'd mdb) \<Rightarrow> ('d, unit) mig" where
  "poolExec f = (\<lambda>E s.
     let n = mCalls s; s1 = s\<lparr>mCalls := Suc n\<rparr> in
     case poolFaults E n of
       None \<Rightarrow> f E s1
     | Some msg \<Rightarrow> (Inl (OtherErr msg), if poolLanded E n then snd (f E s1) else s1))"

definition poolQuery :: "('d mdb \<Rightarrow> gerror + 'a) \<Rightarrow> ('d, 'a) mig" where
  "poolQuery f = (\<lambda>E s.
     let n = mCalls s; s1 = s\<lparr>mCalls := Suc n\<rparr> in
     case poolFaults E n of None \<Rightarrow> (f s1, s1) | Some msg \<Rightarrow> (Inl (OtherErr msg), s1))"

definition errNoTable :: gerror where
  "errNoTable = OtherErr ''relation schema_migrations does not exist''"

section \<open>Paths\<close>

text \<open>
  \<open>filepath.Join\<close> of a directory in clean form, as both callers pass it, and the name of one of
  its entries; \<open>filepath.Base\<close>; \<open>strings.HasSuffix\<close>.
\<close>

definition Join :: "string \<Rightarrow> string \<Rightarrow> string" where
  "Join dir name = dir @ CHR ''/'' # name"

definition Base :: "string \<Rightarrow> string" where
  "Base path =
     (if path = '''' then ''.''
      else let last = rev (takeWhile (\<lambda>c. c \<noteq> CHR ''/'') (dropWhile (\<lambda>c. c = CHR ''/'') (rev path)))
           in if last = '''' then ''/'' else last)"

definition HasSuffix :: "string \<Rightarrow> string \<Rightarrow> bool" where
  "HasSuffix s suf \<longleftrightarrow> length suf \<le> length s \<and> drop (length s - length suf) s = suf"

section \<open>Applying migrations\<close>

definition ensureMigrationsTable :: "('d, unit) mig" where
  "ensureMigrationsTable = poolExec (\<lambda>E s.
     (Inr (), s\<lparr>schema_migrations := Some (case schema_migrations s of None \<Rightarrow> [] | Some vs \<Rightarrow> vs)\<rparr>))"

definition isMigrationApplied :: "string \<Rightarrow> ('d, bool) mig" where
  "isMigrationApplied version = poolQuery (\<lambda>s.
     case schema_migrations s of None \<Rightarrow> Inl errNoTable | Some vs \<Rightarrow> Inr (version \<in> set vs))"

definition markMigrationApplied :: "string \<Rightarrow> ('d, unit) mig" where
  "markMigrationApplied version = poolExec (\<lambda>E s.
     case schema_migrations s of
       None \<Rightarrow> (Inl errNoTable, s)
     | Some vs \<Rightarrow>
         if version \<in> set vs then (Inl (OtherErr ''duplicate key value''), s)
         else (Inr (), s\<lparr>schema_migrations := Some (vs @ [version])\<rparr>))"

definition execScript :: "string \<Rightarrow> ('d, unit) mig" where
  "execScript content = poolExec (\<lambda>E s.
     case runScript E content (mData s) of (r, d) \<Rightarrow> (r, s\<lparr>mData := d\<rparr>))"

definition readFileM :: "string \<Rightarrow> ('d, string) mig" where
  "readFileM path = (\<lambda>E s. (ReadFile E path, s))"

fun sqlFiles :: "string \<Rightarrow> (string \<times> bool) list \<Rightarrow> string list" where
  "sqlFiles dir [] = []"
| "sqlFiles dir ((name, isDir) # entries) =
     (if isDir then sqlFiles dir entries
      else if HasSuffix name ''.sql'' then Join dir name # sqlFiles dir entries
      else sqlFiles dir entries)"

fun applyFiles :: "string list \<Rightarrow> ('d, unit) mig" where
  "applyFiles [] = returnM ()"
| "applyFiles (path # paths) =
     (let version = Base path in
      bindM (isMigrationApplied version) (\<lambda>applied.
      if applied then applyFiles paths
      else
       bindM (readFileM path) (\<lambda>content.
       seqM (mapErrM (Wrapped (''apply '' @ version @ '': '')) (execScript content))
      (seqM (markMigrationApplied version)
      (applyFiles paths)))))"

definition ApplyMigrations :: "string \<Rightarrow> ('d, unit) mig" where
  "ApplyMigrations dir =
     seqM ensureMigrationsTable
     (\<lambda>E s. case ReadDir E dir of
        Inl NotExist \<Rightarrow> (Inr (), s)
      | Inl (DirError msg) \<Rightarrow> (Inl (OtherErr msg), s)
      | Inr entries \<Rightarrow> applyFiles (sort (sqlFiles dir entries)) E s)"

section \<open>Specification\<close>

definition versions :: "'d mdb \<Rightarrow> string list" where
  "versions s = (case schema_migrations s of None \<Rightarrow> [] | Some vs \<Rightarrow> vs)"

definition migrations :: "'d menv \<Rightarrow> string \<Rightarrow> string list" where
  "migrations E dir = (case ReadDir E dir of Inl _ \<Rightarrow> [] | Inr entries \<Rightarrow> sort (sqlFiles dir entries))"

definition unapplied :: "string list \<Rightarrow> string list \<Rightarrow> string list" where
  "unapplied vs paths = filter (\<lambda>p. Base p \<notin> set vs) paths"

definition contentOf :: "'d menv \<Rightarrow> string \<Rightarrow> string" where
  "contentOf E p = (case ReadFile E p of Inr c \<Rightarrow> c | Inl _ \<Rightarrow> '''')"

fun runAll :: "'d menv \<Rightarrow> string list \<Rightarrow> 'd \<Rightarrow> 'd" where
  "runAll E [] d = d"
| "runAll E (p # ps) d = runAll E ps (snd (runScript E (contentOf E p) d))"

text \<open>
  After \<open>k\<close> of the files: their names are recorded, and they ran in this order, and perhaps the
  next one too.
\<close>

definition progressed :: "'d menv \<Rightarrow> string list \<Rightarrow> nat \<Rightarrow> 'd mdb \<Rightarrow> 'd mdb \<Rightarrow> bool" where
  "progressed E paths k s s' \<longleftrightarrow>
     versions s' = versions s @ map Base (take k paths) \<and>
     (mData s' = runAll E (take k paths) (mData s) \<or> mData s' = runAll E (take (Suc k) paths) (mData s))"

section \<open>Paths\<close>

lemma Base_Join:
  assumes "CHR ''/'' \<notin> set name" and "name \<noteq> ''''"
  shows "Base (Join dir name) = name"
proof -
  obtain c cs where "rev name = c # cs" using assms(2) by (cases "rev name") auto
  moreover have "CHR ''/'' \<notin> set (rev name)" using assms(1) by simp
  ultimately have "dropWhile (\<lambda>c. c = CHR ''/'') (rev name @ CHR ''/'' # rev dir) = rev name @ CHR ''/'' # rev dir"
    by auto
  moreover have "takeWhile (\<lambda>c. c \<noteq> CHR ''/'') (rev name @ CHR ''/'' # rev dir) = rev name"
    using assms(1) by (subst takeWhile_append2) auto
  ultimately show ?thesis using assms(2) by (simp add: Base_def Join_def Let_def)
qed

text \<open>The entries of a directory: their names are distinct and have no separator.\<close>

definition dir_ok :: "(string \<times> bool) list \<Rightarrow> bool" where
  "dir_ok entries \<longleftrightarrow> distinct (map fst entries) \<and> (\<forall>name\<in>fst ` set entries. CHR ''/'' \<notin> set name)"

lemma Base_sqlFiles:
  "dir_ok entries \<Longrightarrow> map Base (sqlFiles dir entries) =
     map fst (filter (\<lambda>(name, isDir). \<not> isDir \<and> HasSuffix name ''.sql'') entries)"
proof (induction dir entries rule: sqlFiles.induct)
  case (2 dir name isDir entries)
  then have "dir_ok entries" "CHR ''/'' \<notin> set name" by (simp_all add: dir_ok_def)
  moreover have "HasSuffix name ''.sql'' \<Longrightarrow> name \<noteq> ''''" by (auto simp: HasSuffix_def)
  ultimately show ?case using 2 by (simp add: Base_Join)
qed simp

lemma distinct_versions:
  assumes "dir_ok entries"
  shows "distinct (map Base (sort (sqlFiles dir entries)))"
proof -
  have "distinct (map Base (sqlFiles dir entries))"
    unfolding Base_sqlFiles [OF assms] using assms by (simp add: dir_ok_def distinct_map_filter)
  then show ?thesis by (simp add: distinct_map inj_on_def)
qed

section \<open>Calls\<close>

lemma applied_cases:
  assumes "schema_migrations s = Some vs"
  obtains s1 where "isMigrationApplied v E s = (Inr (v \<in> set vs), s1)"
      "schema_migrations s1 = Some vs" "mData s1 = mData s"
  | e s1 where "isMigrationApplied v E s = (Inl e, s1)"
      "schema_migrations s1 = Some vs" "mData s1 = mData s"
  using assms by (cases "poolFaults E (mCalls s)") (auto simp: isMigrationApplied_def poolQuery_def Let_def)

lemma script_cases:
  assumes "schema_migrations s = Some vs"
  obtains s1 where "execScript c E s = (Inr (), s1)"
      "schema_migrations s1 = Some vs" "mData s1 = snd (runScript E c (mData s))"
  | e s1 where "execScript c E s = (Inl e, s1)" "schema_migrations s1 = Some vs"
      "mData s1 = mData s \<or> mData s1 = snd (runScript E c (mData s))"
proof -
  obtain r d where "runScript E c (mData s) = (r, d)" by fastforce
  with assms that show thesis
    by (cases "poolFaults E (mCalls s)"; cases r)
      (auto simp: execScript_def poolExec_def Let_def split: if_splits)
qed

lemma mark_cases:
  assumes "schema_migrations s = Some vs" and "v \<notin> set vs"
  obtains s1 where "markMigrationApplied v E s = (Inr (), s1)"
      "schema_migrations s1 = Some (vs @ [v])" "mData s1 = mData s"
  | e s1 where "markMigrationApplied v E s = (Inl e, s1)" "mData s1 = mData s"
      "schema_migrations s1 = Some vs \<or> schema_migrations s1 = Some (vs @ [v])"
  using assms that
  by (cases "poolFaults E (mCalls s)")
    (auto simp: markMigrationApplied_def poolExec_def Let_def split: if_splits)

section \<open>Progress\<close>

lemma versions_Some: "schema_migrations s = Some vs \<Longrightarrow> versions s = vs"
  by (simp add: versions_def)

lemma progressed_none: "versions s' = versions s \<Longrightarrow> mData s' = mData s \<Longrightarrow> progressed E paths 0 s s'"
  by (simp add: progressed_def)

lemma progressed_Suc:
  assumes "progressed E paths k s1 s'" and "versions s1 = versions s @ [Base p]"
    and "mData s1 = snd (runScript E (contentOf E p) (mData s))"
  shows "progressed E (p # paths) (Suc k) s s'"
  using assms by (simp add: progressed_def)

lemma unapplied_Cons:
  "Base p \<notin> set (map Base paths) \<Longrightarrow> unapplied (vs @ [Base p]) paths = unapplied vs paths"
  by (auto simp: unapplied_def image_iff intro!: filter_cong)

text \<open>One file that is not recorded yet, and one step of the loop.\<close>

lemma new_file_cases:
  assumes s: "schema_migrations s = Some vs" and new: "Base p \<notin> set vs"
    and body: "body = bindM (readFileM p) (\<lambda>content.
        seqM (mapErrM (Wrapped (''apply '' @ Base p @ '': '')) (execScript content))
       (seqM (markMigrationApplied (Base p)) rest))"
  obtains (applied) s1 where "body E s = rest E s1"
      "schema_migrations s1 = Some (vs @ [Base p])" "mData s1 = snd (runScript E (contentOf E p) (mData s))"
  | (stopped) e s1 k where "body E s = (Inl e, s1)" "progressed E (p # ps) k s s1"
proof (cases "ReadFile E p")
  case (Inl e)
  have "progressed E (p # ps) 0 s s" by (rule progressed_none) simp_all
  with Inl show thesis by (intro stopped [of e s 0]) (simp_all add: body run_rules readFileM_def)
next
  case (Inr c)
  then have c: "contentOf E p = c" by (simp add: contentOf_def)
  show thesis
  proof (rule script_cases [OF s, of c E])
    fix e s2
    assume x: "execScript c E s = (Inl e, s2)" "schema_migrations s2 = Some vs"
      "mData s2 = mData s \<or> mData s2 = snd (runScript E c (mData s))"
    then have "progressed E (p # ps) 0 s s2" using s c by (auto simp: progressed_def versions_Some)
    with x(1) Inr show thesis by (intro stopped) (simp_all add: body run_rules readFileM_def)
  next
    fix s2
    assume s2: "execScript c E s = (Inr (), s2)" "schema_migrations s2 = Some vs"
      "mData s2 = snd (runScript E c (mData s))"
    have run: "body E s = seqM (markMigrationApplied (Base p)) rest E s2"
      using s2(1) Inr by (simp add: body run_rules readFileM_def)
    show thesis
    proof (rule mark_cases [OF s2(2) new, of E])
      fix s3
      assume "markMigrationApplied (Base p) E s2 = (Inr (), s3)"
        "schema_migrations s3 = Some (vs @ [Base p])" "mData s3 = mData s2"
      then show thesis using run s2(3) c by (intro applied [of s3]) (simp_all add: run_rules)
    next
      fix e s3
      assume m: "markMigrationApplied (Base p) E s2 = (Inl e, s3)" "mData s3 = mData s2"
        "schema_migrations s3 = Some vs \<or> schema_migrations s3 = Some (vs @ [Base p])"
      from m(3) have "progressed E (p # ps) 0 s s3 \<or> progressed E (p # ps) 1 s s3"
        using s s2(3) c m(2) by (auto simp: progressed_def versions_Some)
      then show thesis using run m(1) stopped by (auto simp: run_rules)
    qed
  qed
qed

lemma file_cases:
  assumes s: "schema_migrations s = Some vs"
  obtains (skipped) s1 where "Base p \<in> set vs" "applyFiles (p # paths) E s = applyFiles paths E s1"
      "schema_migrations s1 = Some vs" "mData s1 = mData s"
  | (applied) s1 where "Base p \<notin> set vs" "applyFiles (p # paths) E s = applyFiles paths E s1"
      "schema_migrations s1 = Some (vs @ [Base p])" "mData s1 = snd (runScript E (contentOf E p) (mData s))"
  | (stopped) e s1 k where "applyFiles (p # paths) E s = (Inl e, s1)"
      "progressed E (unapplied vs (p # paths)) k s s1"
proof (rule applied_cases [OF s, of "Base p" E])
  fix e s1
  assume "isMigrationApplied (Base p) E s = (Inl e, s1)" "schema_migrations s1 = Some vs" "mData s1 = mData s"
  then show thesis using s
    by (intro stopped [of e s1 0]) (simp_all add: run_rules Let_def progressed_none versions_Some)
next
  fix s1
  assume q: "isMigrationApplied (Base p) E s = (Inr (Base p \<in> set vs), s1)"
    and s1: "schema_migrations s1 = Some vs" "mData s1 = mData s"
  show thesis
  proof (cases "Base p \<in> set vs")
    case True
    then show thesis using q s1 by (intro skipped [of s1]) (simp_all add: run_rules Let_def)
  next
    case new: False
    have u: "unapplied vs (p # paths) = p # unapplied vs paths" using new by (simp add: unapplied_def)
    have same: "progressed E ps k s1 s' = progressed E ps k s s'" for ps k s'
      using s s1 by (simp add: progressed_def versions_Some)
    show thesis
      by (rule new_file_cases [OF s1(1) new refl, where rest = "applyFiles paths" and E = E and ps = "unapplied vs paths"])
        (use q new s1(2) u same in \<open>auto simp: run_rules Let_def intro: applied stopped\<close>)
  qed
qed

lemma applyFiles_progress:
  assumes "schema_migrations s = Some vs" and "distinct (map Base paths)"
  shows "\<exists>k. progressed E (unapplied vs paths) k s (snd (applyFiles paths E s)) \<and>
    (fst (applyFiles paths E s) = Inr () \<longrightarrow> k = length (unapplied vs paths))"
  using assms
proof (induction paths arbitrary: s vs)
  case Nil
  then show ?case by (auto simp: unapplied_def run_rules Let_def progressed_def)
next
  case (Cons p paths)
  note s = Cons.prems(1)
  from s show ?case
  proof (cases rule: file_cases [where p = p and paths = paths and E = E])
    case (skipped s1)
    then have "progressed E paths' k s1 s' = progressed E paths' k s s'" for paths' k s'
      using s by (simp add: progressed_def versions_Some)
    with skipped show ?thesis using Cons.IH [OF skipped(3)] Cons.prems(2) by (simp add: unapplied_def)
  next
    case (applied s1)
    then have u: "unapplied vs (p # paths) = p # unapplied (vs @ [Base p]) paths"
      using Cons.prems(2) unapplied_Cons [of p paths vs] by (simp add: unapplied_def)
    from Cons.IH [OF applied(3)] Cons.prems(2) obtain k where
      k: "progressed E (unapplied (vs @ [Base p]) paths) k s1 (snd (applyFiles paths E s1))"
         "fst (applyFiles paths E s1) = Inr () \<longrightarrow> k = length (unapplied (vs @ [Base p]) paths)"
      by auto
    have "progressed E (p # unapplied (vs @ [Base p]) paths) (Suc k) s (snd (applyFiles paths E s1))"
      by (rule progressed_Suc [OF k(1)]) (use s applied in \<open>simp_all add: versions_Some\<close>)
    then show ?thesis unfolding u applied(2) using k(2) by (intro exI [of _ "Suc k"]) simp
  next
    case (stopped e s1 k)
    then show ?thesis by auto
  qed
qed

declare applyFiles.simps(2) [simp del]

section \<open>Migrating a database\<close>

lemma ApplyMigrations_progress:
  assumes "\<forall>entries. ReadDir E dir = Inr entries \<longrightarrow> dir_ok entries"
  shows "\<exists>k. progressed E (unapplied (versions s) (migrations E dir)) k s (snd (ApplyMigrations dir E s)) \<and>
    (fst (ApplyMigrations dir E s) = Inr () \<and> (\<exists>entries. ReadDir E dir = Inr entries) \<longrightarrow>
      k = length (unapplied (versions s) (migrations E dir)))"
proof -
  obtain r s1 where e: "ensureMigrationsTable E s = (r, s1)" by fastforce
  then have s1: "versions s1 = versions s" "mData s1 = mData s" "r = Inr () \<Longrightarrow> schema_migrations s1 = Some (versions s)"
    by (auto simp: ensureMigrationsTable_def poolExec_def versions_def Let_def split: option.splits if_splits)
  have same: "progressed E paths k s1 s' = progressed E paths k s s'" for paths k s'
    using s1 by (simp add: progressed_def)
  show ?thesis
  proof (cases "r = Inr () \<and> (\<exists>entries. ReadDir E dir = Inr entries)")
    case True
    then obtain entries where d: "ReadDir E dir = Inr entries" by blast
    have "snd (ApplyMigrations dir E s) = snd (applyFiles (migrations E dir) E s1)"
      "fst (ApplyMigrations dir E s) = fst (applyFiles (migrations E dir) E s1)"
      using e True d by (simp_all add: ApplyMigrations_def run_rules Let_def migrations_def)
    then show ?thesis
      using applyFiles_progress [OF s1(3) distinct_versions [OF assms [rule_format, OF d]], of E dir] True d
      by (simp add: migrations_def same)
  next
    case False
    then have "snd (ApplyMigrations dir E s) = s1"
      using e by (cases r) (auto simp: ApplyMigrations_def run_rules Let_def split: sum.splits dirError.splits)
    moreover have "fst (ApplyMigrations dir E s) \<noteq> Inr () \<or> \<not> (\<exists>entries. ReadDir E dir = Inr entries)"
      using e False by (cases r) (auto simp: ApplyMigrations_def run_rules Let_def)
    ultimately show ?thesis using s1 progressed_none by blast
  qed
qed

lemma applyFiles_nothing:
  assumes "schema_migrations s = Some vs" and "unapplied vs paths = []"
    and "\<And>n. mCalls s \<le> n \<Longrightarrow> poolFaults E n = None"
  shows "\<exists>s'. applyFiles paths E s = (Inr (), s') \<and> mData s' = mData s \<and> schema_migrations s' = Some vs"
  using assms
proof (induction paths arbitrary: s)
  case (Cons p paths)
  let ?s = "s\<lparr>mCalls := Suc (mCalls s)\<rparr>"
  have "Base p \<in> set vs" "unapplied vs paths = []"
    using Cons.prems(2) by (auto simp: unapplied_def split: if_splits)
  then have "applyFiles (p # paths) E s = applyFiles paths E ?s"
    using Cons.prems(1,3) by (simp add: applyFiles.simps(2) run_rules isMigrationApplied_def poolQuery_def Let_def)
  then show ?case using Cons.IH [of ?s] Cons.prems \<open>unapplied vs paths = []\<close> by simp
qed (simp add: run_rules Let_def)

lemma ApplyMigrations_nothing:
  assumes "unapplied (versions s) (migrations E dir) = []"
    and "\<And>n. mCalls s \<le> n \<Longrightarrow> poolFaults E n = None" and "\<And>msg. ReadDir E dir \<noteq> Inl (DirError msg)"
  shows "\<exists>s'. ApplyMigrations dir E s = (Inr (), s') \<and> mData s' = mData s \<and> versions s' = versions s"
proof -
  let ?s = "s\<lparr>schema_migrations := Some (versions s), mCalls := Suc (mCalls s)\<rparr>"
  have e: "ensureMigrationsTable E s = (Inr (), ?s)"
    using assms(2) by (simp add: ensureMigrationsTable_def poolExec_def versions_def Let_def)
  show ?thesis
  proof (cases "ReadDir E dir")
    case (Inl err)
    then show ?thesis using assms(3) e
      by (cases err) (auto simp: ApplyMigrations_def run_rules versions_def)
  next
    case (Inr entries)
    then show ?thesis using applyFiles_nothing [of ?s "versions s" "migrations E dir" E] assms e
      by (auto simp: ApplyMigrations_def run_rules migrations_def versions_Some)
  qed
qed

lemma unapplied_recorded: "unapplied (vs @ map Base (unapplied vs paths)) paths = []"
  by (auto simp: unapplied_def filter_empty_conv)

section \<open>A directory with two scripts\<close>

definition demoDir :: "string list menv" where
  "demoDir = \<lparr>runScript = (\<lambda>c d. (Inr (), d @ [c])),
     ReadDir = (\<lambda>_. Inr [(''002.sql'', False), (''001.sql'', False), (''old.sql'', True), (''README'', False)]),
     ReadFile = (\<lambda>p. Inr p), poolFaults = (\<lambda>_. None), poolLanded = (\<lambda>_. False)\<rparr>"

definition demoEmpty :: "string list mdb" where
  "demoEmpty = \<lparr>mData = [], schema_migrations = None, mCalls = 0\<rparr>"

lemma demoDir_ok: "\<forall>entries. ReadDir demoDir dir = Inr entries \<longrightarrow> dir_ok entries"
  by (auto simp: demoDir_def dir_ok_def)

lemma demo_migrations: "migrations demoDir ''m'' = [''m/001.sql'', ''m/002.sql'']"
  by (simp add: migrations_def demoDir_def HasSuffix_def Join_def)

lemma demo_migrated:
  "ApplyMigrations ''m'' demoDir demoEmpty =
     (Inr (), \<lparr>mData = [''m/001.sql'', ''m/002.sql''],
       schema_migrations = Some [''001.sql'', ''002.sql''], mCalls = 7\<rparr>)"
  by (simp add: ApplyMigrations_def demoDir_def demoEmpty_def ensureMigrationsTable_def poolExec_def
      HasSuffix_def Join_def applyFiles.simps(2) isMigrationApplied_def poolQuery_def readFileM_def
      execScript_def markMigrationApplied_def Base_def Let_def run_rules)

end
