(* ===== verification/Configuration.thy ===== *)
theory Configuration
  imports Auth Strconv Float64
begin

text \<open>
  Package \<open>internal/config\<close>: the settings of the programs, read from the environment variables.
  \<open>os.Getenv\<close> is a function of the name that is empty for a variable that is not set.

  The parsers of the standard library that it uses besides those of theory Strconv are
  \<open>time.ParseDuration\<close> and \<open>strconv.ParseFloat\<close>. Of an error the code only looks at whether there
  is one, so here it is \<open>None\<close>.
\<close>

section \<open>time.ParseDuration\<close>

fun leadingInt :: "nat \<Rightarrow> string \<Rightarrow> (nat \<times> string) option" where
  "leadingInt x [] = Some (x, [])"
| "leadingInt x (c # cs) =
     (case digitVal c of
        None \<Rightarrow> Some (x, c # cs)
      | Some v \<Rightarrow>
          if x > 2 ^ 63 div 10 then None
          else if x * 10 + v > 2 ^ 63 then None
          else leadingInt (x * 10 + v) cs)"

fun leadingFraction :: "fpu \<Rightarrow> nat \<Rightarrow> float64 \<Rightarrow> bool \<Rightarrow> string \<Rightarrow> nat \<times> float64 \<times> string" where
  "leadingFraction F x scale overflow [] = (x, scale, [])"
| "leadingFraction F x scale overflow (c # cs) =
     (case digitVal c of
        None \<Rightarrow> (x, scale, c # cs)
      | Some v \<Rightarrow>
          if overflow \<or> x > (2 ^ 63 - 1) div 10 \<or> x * 10 + v > 2 ^ 63
          then leadingFraction F x scale True cs
          else leadingFraction F (x * 10 + v) (f64_mul F scale (Fin 10)) False cs)"

text \<open>The units; the micro sign has two encodings.\<close>

definition unitMap :: "(string \<times> nat) list" where
  "unitMap = [(''ns'', 1), (''us'', 1000),
     ([char_of (194 :: nat), char_of (181 :: nat), CHR ''s''], 1000),
     ([char_of (206 :: nat), char_of (188 :: nat), CHR ''s''], 1000),
     (''ms'', 1000000), (''s'', 1000000000), (''m'', 60000000000), (''h'', 3600000000000)]"

definition unitChar :: "char \<Rightarrow> bool" where
  "unitChar c \<longleftrightarrow> c \<noteq> CHR ''.'' \<and> digitVal c = None"

text \<open>One number with its unit: its value in nanoseconds and what follows it.\<close>

definition durationTerm :: "fpu \<Rightarrow> string \<Rightarrow> (nat \<times> string) option" where
  "durationTerm F s =
     (if s = [] \<or> unitChar (hd s) then None
      else case leadingInt 0 s of
        None \<Rightarrow> None
      | Some (v, s1) \<Rightarrow>
          let pre = (length s1 \<noteq> length s);
              (f, scale, s2) =
                (if s1 \<noteq> [] \<and> hd s1 = CHR ''.'' then leadingFraction F 0 (Fin 1) False (tl s1)
                 else (0, Fin 1, s1));
              post = (s1 \<noteq> [] \<and> hd s1 = CHR ''.'' \<and> length s2 \<noteq> length (tl s1));
              u = takeWhile unitChar s2
          in if \<not> pre \<and> \<not> post then None
             else if u = [] then None
             else case map_of unitMap u of
               None \<Rightarrow> None
             | Some unit \<Rightarrow>
                 if v > 2 ^ 63 div unit then None
                 else
                   let v1 = v * unit;
                       v2 = (if f > 0
                             then v1 + nat (int64_of F (f64_mul F (rnd F (real f))
                                      (f64_div_pos F (Fin (real unit)) scale)))
                             else v1)
                   in if v2 > 2 ^ 63 then None else Some (v2, drop (length u) s2))"

lemma leadingInt_suffix: "leadingInt x s = Some (v, r) \<Longrightarrow> length r \<le> length s"
  by (induction x s rule: leadingInt.induct) (auto split: option.splits if_splits)

lemma leadingFraction_suffix: "leadingFraction F x c b s = (f, d, r) \<Longrightarrow> length r \<le> length s"
  by (induction F x c b s rule: leadingFraction.induct) (auto split: option.splits if_splits)

lemma durationTerm_shorter:
  assumes "durationTerm F s = Some (v, r)"
  shows "length r < length s"
proof -
  obtain w s1 where s1: "leadingInt 0 s = Some (w, s1)"
    using assms by (auto simp: durationTerm_def split: if_splits option.splits)
  obtain f c s2 where s2: "(if s1 \<noteq> [] \<and> hd s1 = CHR ''.'' then leadingFraction F 0 (Fin 1) False (tl s1)
      else (0, Fin 1, s1)) = (f, c, s2)" by (metis prod_cases3)
  have "length s2 \<le> length s1"
    using s2 leadingFraction_suffix [of F 0 "Fin 1" False "tl s1" f c s2] by (auto split: if_splits)
  moreover have "r = drop (length (takeWhile unitChar s2)) s2" "takeWhile unitChar s2 \<noteq> []"
    using assms s1 s2 by (auto simp: durationTerm_def Let_def split: if_splits option.splits)
  moreover have "length s1 \<le> length s" using leadingInt_suffix [OF s1] .
  ultimately show ?thesis by (cases s2) auto
qed

text \<open>The sum is kept in an unsigned 64-bit integer.\<close>

function durationLoop :: "fpu \<Rightarrow> nat \<Rightarrow> string \<Rightarrow> nat option" where
  "durationLoop F d s =
     (if s = [] then Some d
      else case durationTerm F s of
        None \<Rightarrow> None
      | Some (v, r) \<Rightarrow>
          let d' = (d + v) mod 2 ^ 64 in
          if d' > 2 ^ 63 then None else durationLoop F d' r)"
  by pat_completeness auto
termination
  by (relation "measure (\<lambda>(F, d, s). length s)") (auto dest: durationTerm_shorter)

declare durationLoop.simps [simp del]

definition ParseDuration :: "fpu \<Rightarrow> string \<Rightarrow> int option" where
  "ParseDuration F s =
     (let neg = (s \<noteq> [] \<and> hd s = CHR ''-'');
          s1 = (if s \<noteq> [] \<and> (hd s = CHR ''-'' \<or> hd s = CHR ''+'') then tl s else s)
      in if s1 = ''0'' then Some 0
         else if s1 = [] then None
         else case durationLoop F 0 s1 of
           None \<Rightarrow> None
         | Some d \<Rightarrow>
             if neg then Some (- int d)
             else if d > 2 ^ 63 - 1 then None
             else Some (int d))"

section \<open>strconv.ParseFloat\<close>

definition lower :: "string \<Rightarrow> string" where
  "lower s = map asciiLower s"

definition special :: "string \<Rightarrow> float64 option" where
  "special s =
     (let neg = (s \<noteq> [] \<and> hd s = CHR ''-'');
          t = lower (if s \<noteq> [] \<and> (hd s = CHR ''-'' \<or> hd s = CHR ''+'') then tl s else s)
      in if t = ''inf'' \<or> t = ''infinity'' then Some (if neg then NegInf else PosInf)
         else if lower s = ''nan'' then Some NaN
         else None)"

definition hexVal :: "char \<Rightarrow> nat option" where
  "hexVal c =
     (case digitVal c of
        Some v \<Rightarrow> Some v
      | None \<Rightarrow> (let n = of_char (asciiLower c) :: nat in if 97 \<le> n \<and> n \<le> 102 then Some (n - 87) else None))"

text \<open>The digits of the mantissa as one number, how many of them follow the point, and the rest.\<close>

fun scanMantissa ::
  "bool \<Rightarrow> bool \<Rightarrow> bool \<Rightarrow> nat \<Rightarrow> nat \<Rightarrow> string \<Rightarrow> (bool \<times> nat \<times> nat \<times> string)" where
  "scanMantissa hex sawdot sawdigits m k [] = (sawdigits, m, k, [])"
| "scanMantissa hex sawdot sawdigits m k (c # cs) =
     (if c = CHR ''_'' then scanMantissa hex sawdot sawdigits m k cs
      else if c = CHR ''.'' then
        (if sawdot then (sawdigits, m, k, c # cs) else scanMantissa hex True sawdigits m k cs)
      else case (if hex then hexVal c else digitVal c) of
        None \<Rightarrow> (sawdigits, m, k, c # cs)
      | Some v \<Rightarrow> scanMantissa hex sawdot True (m * (if hex then 16 else 10) + v) (if sawdot then Suc k else k) cs)"

fun scanExponent :: "nat \<Rightarrow> string \<Rightarrow> nat \<times> string" where
  "scanExponent e [] = (e, [])"
| "scanExponent e (c # cs) =
     (if c = CHR ''_'' then scanExponent e cs
      else case digitVal c of
        None \<Rightarrow> (e, c # cs)
      | Some v \<Rightarrow> scanExponent (if e < 10000 then e * 10 + v else e) cs)"

text \<open>Underscores must separate digits; \<open>prev\<close> is the class of the character before.\<close>

fun underscores :: "bool \<Rightarrow> char \<Rightarrow> string \<Rightarrow> bool" where
  "underscores hex prev [] = (prev \<noteq> CHR ''_'')"
| "underscores hex prev (c # cs) =
     (if digitVal c \<noteq> None \<or> hex \<and> hexVal c \<noteq> None then underscores hex (CHR ''0'') cs
      else if c = CHR ''_'' then prev = CHR ''0'' \<and> underscores hex (CHR ''_'') cs
      else prev \<noteq> CHR ''_'' \<and> underscores hex (CHR ''!'') cs)"

definition underscoreOK :: "string \<Rightarrow> bool" where
  "underscoreOK s =
     (let t = (if s \<noteq> [] \<and> (hd s = CHR ''-'' \<or> hd s = CHR ''+'') then tl s else s) in
      if 2 \<le> length t \<and> hd t = CHR ''0'' \<and> asciiLower (t ! 1) \<in> {CHR ''b'', CHR ''o'', CHR ''x''}
      then underscores (asciiLower (t ! 1) = CHR ''x'') (CHR ''0'') (drop 2 t)
      else underscores False (CHR ''^'') t)"

text \<open>
  The exponent of the number: the value of the marked digits, and 0 where there is no mark; a
  hexadecimal number needs one. The whole string must be consumed.
\<close>

definition readExponent :: "bool \<Rightarrow> string \<Rightarrow> int option" where
  "readExponent hex s =
     (case s of
        [] \<Rightarrow> if hex then None else Some 0
      | c # cs \<Rightarrow>
          if asciiLower c \<noteq> (if hex then CHR ''p'' else CHR ''e'') then None
          else
            let ds = (if cs \<noteq> [] \<and> (hd cs = CHR ''-'' \<or> hd cs = CHR ''+'') then tl cs else cs) in
            if ds = [] \<or> digitVal (hd ds) = None then None
            else case scanExponent 0 ds of (e, r) \<Rightarrow>
              if r \<noteq> [] then None else Some (if hd cs = CHR ''-'' then - int e else int e))"

definition readFloat :: "string \<Rightarrow> real option" where
  "readFloat s =
     (let neg = (s \<noteq> [] \<and> hd s = CHR ''-'');
          t = (if s \<noteq> [] \<and> (hd s = CHR ''-'' \<or> hd s = CHR ''+'') then tl s else s);
          hex = (2 < length t \<and> hd t = CHR ''0'' \<and> asciiLower (t ! 1) = CHR ''x'')
      in case scanMantissa hex False False 0 0 (if hex then drop 2 t else t) of
           (sawdigits, m, k, r) \<Rightarrow>
             if \<not> sawdigits then None
             else case readExponent hex r of
               None \<Rightarrow> None
             | Some e \<Rightarrow>
                 if CHR ''_'' \<in> set s \<and> \<not> underscoreOK s then None
                 else let v = (if hex then real m * 2 powi (e - 4 * int k) else real m * 10 powi (e - int k))
                      in Some (if neg then - v else v))"

text \<open>A number that rounds to an infinity is an error.\<close>

definition ParseFloat :: "fpu \<Rightarrow> string \<Rightarrow> float64 option" where
  "ParseFloat F s =
     (case special s of
        Some x \<Rightarrow> Some x
      | None \<Rightarrow>
          (case readFloat s of
             None \<Rightarrow> None
           | Some v \<Rightarrow> (case rnd F v of Fin x \<Rightarrow> Some (Fin x) | _ \<Rightarrow> None)))"

section \<open>The configuration\<close>

type_synonym environ = "string \<Rightarrow> string"

record Config =
  DatabaseURL :: string
  JWTSecret :: string
  JWTTTL :: int
  HTTPAddr :: string
  GRPCAddr :: string
  ThriftAddr :: string
  DroneSpeedMPS :: float64
  MigrateOnStart :: bool
  NATSURL :: string
  NATSSubject :: string
  OutboxEnabled :: bool
  OutboxInterval :: int
  OutboxBatch :: int

definition getString :: "environ \<Rightarrow> string \<Rightarrow> string \<Rightarrow> string" where
  "getString env key def = (let v = env key in if v = '''' then def else v)"

definition getDuration :: "fpu \<Rightarrow> environ \<Rightarrow> string \<Rightarrow> int \<Rightarrow> int" where
  "getDuration F env key def =
     (let v = env key in
      if v = '''' then def else case ParseDuration F v of None \<Rightarrow> def | Some d \<Rightarrow> d)"

definition getFloat :: "fpu \<Rightarrow> environ \<Rightarrow> string \<Rightarrow> float64 \<Rightarrow> float64" where
  "getFloat F env key def =
     (let v = env key in
      if v = '''' then def else case ParseFloat F v of None \<Rightarrow> def | Some f \<Rightarrow> f)"

definition getBool :: "environ \<Rightarrow> string \<Rightarrow> bool \<Rightarrow> bool" where
  "getBool env key def =
     (let v = env key in
      if v = '''' then def else case ParseBool v of (b, ok) \<Rightarrow> if \<not> ok then def else b)"

definition getInt :: "environ \<Rightarrow> string \<Rightarrow> int \<Rightarrow> int" where
  "getInt env key def =
     (let v = env key in
      if v = '''' then def else case Atoi v of (i, ok) \<Rightarrow> if \<not> ok then def else i)"

definition nanoseconds :: int where "nanoseconds = 1000000000"

definition load :: "fpu \<Rightarrow> environ \<Rightarrow> bool \<Rightarrow> gerror + Config" where
  "load F env requireJWT =
     (if env ''DATABASE_URL'' = '''' then Inl (OtherErr ''DATABASE_URL is required'')
      else if requireJWT \<and> env ''JWT_SECRET'' = '''' then Inl (OtherErr ''JWT_SECRET is required'')
      else Inr
        \<lparr>DatabaseURL = env ''DATABASE_URL'',
         JWTSecret = env ''JWT_SECRET'',
         JWTTTL = getDuration F env ''JWT_TTL'' (3600 * nanoseconds),
         HTTPAddr = getString env ''HTTP_ADDR'' '':8080'',
         GRPCAddr = getString env ''GRPC_ADDR'' '':9090'',
         ThriftAddr = getString env ''THRIFT_ADDR'' '':9091'',
         DroneSpeedMPS = getFloat F env ''DRONE_SPEED_MPS'' (Fin 15),
         MigrateOnStart = getBool env ''MIGRATE_ON_START'' True,
         NATSURL = getString env ''NATS_URL'' ''nats://127.0.0.1:4222'',
         NATSSubject = getString env ''NATS_SUBJECT'' ''drone.events'',
         OutboxEnabled = getBool env ''OUTBOX_ENABLED'' True,
         OutboxInterval = getDuration F env ''OUTBOX_POLL_INTERVAL'' nanoseconds,
         OutboxBatch = getInt env ''OUTBOX_BATCH_SIZE'' 50\<rparr>)"

definition Load :: "fpu \<Rightarrow> environ \<Rightarrow> gerror + Config" where
  "Load F env = load F env True"

definition LoadWorker :: "fpu \<Rightarrow> environ \<Rightarrow> gerror + Config" where
  "LoadWorker F env = load F env False"

section \<open>Durations\<close>

lemma durationLoop_Nil [simp]: "durationLoop F d [] = Some d"
  by (simp add: durationLoop.simps)

lemma durationLoop_term:
  assumes "s \<noteq> []"
  shows "durationLoop F d s = (case durationTerm F s of None \<Rightarrow> None | Some (v, r) \<Rightarrow>
    if (d + v) mod 2 ^ 64 > 2 ^ 63 then None else durationLoop F ((d + v) mod 2 ^ 64) r)"
  using assms unfolding durationLoop.simps [of F d s] Let_def by simp

lemma durationLoop_bound: "durationLoop F d s = Some d' \<Longrightarrow> d \<le> 2 ^ 63 \<Longrightarrow> d' \<le> 2 ^ 63"
proof (induction s arbitrary: d rule: length_induct)
  case (1 s)
  show ?case
  proof (cases "s = []")
    case False
    then obtain v r where r: "durationTerm F s = Some (v, r)"
      using 1(2) by (auto simp: durationLoop_term split: option.splits)
    let ?d = "(d + v) mod 2 ^ 64"
    have "?d \<le> 2 ^ 63" "durationLoop F ?d r = Some d'"
      using 1(2) False r by (auto simp: durationLoop_term split: if_splits)
    then show ?thesis using 1(1) durationTerm_shorter [OF r] by blast
  qed (use 1 in simp)
qed

lemma decimalFrom_mono: "decimalFrom x s = Some n \<Longrightarrow> x \<le> n"
  by (induction x s rule: decimalFrom.induct) (fastforce split: option.splits)+

lemma leadingInt_digits:
  assumes "decimalFrom x s = Some n" and "n \<le> 2 ^ 63" and "digitVal c = None"
  shows "leadingInt x (s @ c # r) = Some (n, c # r)"
  using assms
proof (induction s arbitrary: x)
  case (Cons a s)
  then obtain v where v: "digitVal a = Some v" "decimalFrom (10 * x + v) s = Some n"
    by (auto split: option.splits)
  then have "10 * x + v \<le> 2 ^ 63" using decimalFrom_mono [OF v(2)] Cons.prems(2) by linarith
  then have "x \<le> 2 ^ 63 div 10" "x * 10 + v \<le> 2 ^ 63" by simp_all
  then show ?case using Cons.IH [OF v(2) Cons.prems(2,3)] v(1) by (simp add: mult.commute)
qed simp

lemma ParseDuration_range:
  assumes "ParseDuration F s = Some d"
  shows "minInt \<le> d \<and> d \<le> maxInt"
  using assms durationLoop_bound [of F 0]
  by (auto simp: ParseDuration_def minInt_def maxInt_def Let_def split: if_splits option.splits)

lemma unit_letters: "unitChar CHR ''n''" "unitChar CHR ''s''" "digitVal CHR ''n'' = None"
  by (simp_all add: unitChar_def digitVal_def)

lemma durationTerm_ns:
  assumes "n \<le> 2 ^ 63"
  shows "durationTerm F (Utoa n @ ''ns'') = Some (n, [])"
proof -
  obtain d cs where u: "Utoa n = digitChar d # cs" "d < 10" by (rule Utoa_hd)
  have "leadingInt 0 (Utoa n @ ''ns'') = Some (n, ''ns'')"
    using decimalFrom_Utoa assms unit_letters(3) by (rule leadingInt_digits)
  moreover have "\<not> unitChar (hd (Utoa n @ ''ns''))" using u by (simp add: unitChar_def)
  moreover have "length ''ns'' \<noteq> length (Utoa n @ ''ns'')" using u by simp
  moreover have "map_of unitMap ''ns'' = Some 1" by (simp add: unitMap_def)
  ultimately show ?thesis using assms u unit_letters by (simp add: durationTerm_def)
qed

lemma ParseDuration_ns:
  assumes "minInt \<le> n" and "n \<le> maxInt"
  shows "ParseDuration F (Itoa n @ ''ns'') = Some n"
proof -
  have loop: "durationLoop F 0 (Utoa k @ ''ns'') = Some k" if "k \<le> 2 ^ 63" for k
    using that by (simp add: durationLoop_term durationTerm_ns)
  obtain d cs where u: "Utoa (nat n) = digitChar d # cs" "d < 10" by (rule Utoa_hd)
  show ?thesis
  proof (cases "n < 0")
    case True
    then have "nat (- n) \<le> 2 ^ 63" using assms by (simp add: minInt_def)
    from loop [OF this] True show ?thesis by (simp add: ParseDuration_def Itoa_def)
  next
    case False
    then have "nat n \<le> 2 ^ 63" "nat n \<le> 2 ^ 63 - 1" using assms by (simp_all add: maxInt_def)
    then show ?thesis using loop [of "nat n"] False u digitChar_not_sign [OF u(2)]
      by (simp add: ParseDuration_def Itoa_def)
  qed
qed

section \<open>Reading settings\<close>

lemma Itoa_nonempty: "Itoa n \<noteq> ''''"
  by (cases "nat n" rule: Utoa_hd) (auto simp: Itoa_def)

lemma getDuration_range:
  "minInt \<le> def \<Longrightarrow> def \<le> maxInt \<Longrightarrow> minInt \<le> getDuration F env key def \<and> getDuration F env key def \<le> maxInt"
  using ParseDuration_range by (auto simp: getDuration_def Let_def split: option.splits)

lemma getInt_range:
  "minInt \<le> def \<Longrightarrow> def \<le> maxInt \<Longrightarrow> minInt \<le> getInt env key def \<and> getInt env key def \<le> maxInt"
  by (auto simp: getInt_def Let_def Atoi_def clampInt_def split: list.splits option.splits)

lemma get_printed:
  assumes "n \<in> {minInt..maxInt}"
  shows "env key = Itoa n \<Longrightarrow> getInt env key def = n"
    and "env key = Itoa n @ ''ns'' \<Longrightarrow> getDuration F env key def = n"
  using assms Itoa_nonempty by (simp_all add: getInt_def getDuration_def Atoi_Itoa ParseDuration_ns)

lemma get_default:
  assumes "env key = ''''"
  shows "getString env key s = s" "getDuration F env key d = d" "getFloat F env key x = x"
    "getBool env key b = b" "getInt env key i = i"
  using assms by (simp_all add: getString_def getDuration_def getFloat_def getBool_def getInt_def)

definition demoEnviron :: environ where
  "demoEnviron k =
     (if k = ''DATABASE_URL'' then ''db'' else if k = ''JWT_TTL'' then Itoa 90 @ ''ns'' else '''')"

end
