(* ===== verification/Program.thy ===== *)
theory Program
  imports Workers Migrate Configuration "HOL-Library.Multiset"
begin

text \<open>
  The two programs, \<open>cmd/server\<close> and \<open>cmd/worker\<close>: what they do from their start to the point where
  they serve, and how they end. \<open>log.Fatalf\<close> is an error that ends the program with its message.

  What a program asks of its host is a parameter: the environment variables, opening the pool,
  connecting to NATS, opening the listeners, the directory of the migrations, the JWT library
  and the floating point unit.
\<close>

section \<open>Constructors\<close>

definition service_New :: "fpu \<Rightarrow> float64 \<Rightarrow> Service" where
  "service_New F speedMPS = \<lparr>svcSpeed = speedMPS, svcFPU = F\<rparr>"

definition auth_New :: "string \<Rightarrow> int \<Rightarrow> Authenticator" where
  "auth_New key lifetime = \<lparr>secret = key, ttl = lifetime\<rparr>"

record 'b natsConn =
  ncPublish :: "string \<Rightarrow> json \<Rightarrow> 'b \<Rightarrow> (gerror + unit) \<times> 'b"
  ncClose :: "'b \<Rightarrow> 'b"

record ('d, 'b) host =
  getenv :: environ
  poolNew :: "string \<Rightarrow> gerror + unit"
  natsConnect :: "string \<Rightarrow> gerror + 'b natsConn"
  netListen :: "string \<Rightarrow> gerror + unit"
  serverSocket :: "string \<Rightarrow> gerror + unit"
  hostFiles :: "'d menv"
  hostFPU :: fpu
  hostJWT :: jwtlib

definition nats_New :: "('d, 'b) host \<Rightarrow> string \<Rightarrow> string \<Rightarrow> gerror + 'b Publisher" where
  "nats_New H url subject =
     (case natsConnect H url of
        Inl err \<Rightarrow> Inl err
      | Inr nc \<Rightarrow> Inr (natsPublisher (ncPublish nc) (ncClose nc) subject))"

definition thrift_NewServer :: "('d, 'b) host \<Rightarrow> nat \<Rightarrow> string \<Rightarrow> Server \<Rightarrow> gerror + ('i, 'o) Processor" where
  "thrift_NewServer H n addr srv =
     (case serverSocket H addr of Inl err \<Rightarrow> Inl err | Inr _ \<Rightarrow> Inr (NewProcessor n srv))"

section \<open>Starting\<close>

datatype fatal = Fatal string gerror

type_synonym ('d, 'b, 'a) boot = "(('d, 'b) host, 'd mdb, fatal, 'a) prog"

definition orFatal :: "string \<Rightarrow> (('d, 'b) host \<Rightarrow> gerror + 'a) \<Rightarrow> ('d, 'b, 'a) boot" where
  "orFatal what f = (\<lambda>H s. case f H of Inl err \<Rightarrow> (Inl (Fatal what err), s) | Inr x \<Rightarrow> (Inr x, s))"

definition fromHost :: "(('d, 'b) host \<Rightarrow> 'a) \<Rightarrow> ('d, 'b, 'a) boot" where
  "fromHost f = (\<lambda>H s. (Inr (f H), s))"

definition migrateOnStart :: "Config \<Rightarrow> ('d, 'b, unit) boot" where
  "migrateOnStart cfg = (\<lambda>H s.
     if MigrateOnStart cfg then
       (case ApplyMigrations ''migrations'' (hostFiles H) s of
          (Inl err, s') \<Rightarrow> (Inl (Fatal ''migration error'' err), s')
        | (Inr _, s') \<Rightarrow> (Inr (), s'))
     else (Inr (), s))"

definition newWorker :: "Config \<Rightarrow> 'b Publisher \<Rightarrow> 'b OutboxWorker" where
  "newWorker cfg publisher =
     \<lparr>wRepo = pgOutbox, wPublisher = publisher, wPollInterval = OutboxInterval cfg, wBatchSize = OutboxBatch cfg\<rparr>"

record ('b, 'i, 'o) running =
  runServer :: Server
  runHTTP :: string
  runGRPC :: string
  runThrift :: "('i, 'o) Processor"
  runWorker :: "'b OutboxWorker option"

definition serverMain :: "nat \<Rightarrow> ('d, 'b, ('b, 'i, 'o) running) boot" where
  "serverMain n =
     bindM (orFatal ''config error'' (\<lambda>H. Load (hostFPU H) (getenv H))) (\<lambda>cfg.
     seqM (orFatal ''db error'' (\<lambda>H. poolNew H (DatabaseURL cfg)))
    (seqM (migrateOnStart cfg)
    (bindM (fromHost (\<lambda>H. \<lparr>srvSvc = service_New (hostFPU H) (DroneSpeedMPS cfg),
        srvAuth = auth_New (JWTSecret cfg) (JWTTTL cfg), srvJWT = hostJWT H\<rparr>)) (\<lambda>srv.
     bindM (if OutboxEnabled cfg
            then orFatal ''nats error'' (\<lambda>H. nats_New H (NATSURL cfg) (NATSSubject cfg))
            else returnM NoopPublisher) (\<lambda>publisher.
     seqM (orFatal ''grpc listen error'' (\<lambda>H. netListen H (GRPCAddr cfg)))
    (bindM (orFatal ''thrift error'' (\<lambda>H. thrift_NewServer H n (ThriftAddr cfg) srv)) (\<lambda>processor.
     returnM \<lparr>runServer = srv, runHTTP = HTTPAddr cfg, runGRPC = GRPCAddr cfg, runThrift = processor,
       runWorker = (if OutboxEnabled cfg then Some (newWorker cfg publisher) else None)\<rparr>)))))))"

text \<open>\<open>None\<close>: the outbox is disabled, and the program exits at once.\<close>

definition workerMain :: "('d, 'b, 'b OutboxWorker option) boot" where
  "workerMain =
     bindM (orFatal ''config error'' (\<lambda>H. LoadWorker (hostFPU H) (getenv H))) (\<lambda>cfg.
     if \<not> OutboxEnabled cfg then returnM None
     else
       seqM (orFatal ''db error'' (\<lambda>H. poolNew H (DatabaseURL cfg)))
      (seqM (migrateOnStart cfg)
      (bindM (orFatal ''nats error'' (\<lambda>H. nats_New H (NATSURL cfg) (NATSSubject cfg))) (\<lambda>publisher.
       returnM (Some (newWorker cfg publisher))))))"

section \<open>Ending\<close>

text \<open>What the goroutines of the server make of the error their loop returned.\<close>

definition errServerClosed :: gerror where "errServerClosed = OtherErr ''http: Server closed''"
definition errServerStopped :: gerror where "errServerStopped = OtherErr ''grpc: the server has been stopped''"
definition errDeadline :: gerror where "errDeadline = OtherErr ''context deadline exceeded''"

definition httpTask :: "gerror option \<Rightarrow> gerror option" where
  "httpTask r = (case r of None \<Rightarrow> None | Some err \<Rightarrow> if \<not> errorsIs err errServerClosed then Some err else None)"

definition grpcTask :: "gerror option \<Rightarrow> gerror option" where
  "grpcTask r = (case r of None \<Rightarrow> None | Some err \<Rightarrow> if \<not> errorsIs err errServerStopped then Some err else None)"

definition workerTask :: "gerror + unit \<Rightarrow> gerror option" where
  "workerTask r =
     (case r of Inl err \<Rightarrow> if errorsIs err errCancelled \<or> errorsIs err errDeadline then None else Some err
      | Inr _ \<Rightarrow> None)"

text \<open>The end of the worker program.\<close>

definition workerEnd :: "gerror + unit \<Rightarrow> fatal + unit" where
  "workerEnd r =
     (case r of Inl err \<Rightarrow> if errorsIs err errCancelled \<or> errorsIs err errDeadline then Inr ()
                            else Inl (Fatal ''worker error'' err)
      | Inr _ \<Rightarrow> Inr ())"

text \<open>The group waits for all and returns the first error, in the order in which they ended.\<close>

definition groupWait :: "gerror option list \<Rightarrow> fatal + unit" where
  "groupWait rs = (case List.find (\<lambda>r. r \<noteq> None) rs of Some (Some err) \<Rightarrow> Inl (Fatal ''server error'' err) | _ \<Rightarrow> Inr ())"

text \<open>Where one task at most fails, the order in which they end does not matter.\<close>

lemma groupWait_one:
  assumes "set rs \<subseteq> {t, None}" and "t \<in> set rs"
  shows "groupWait rs = (case t of None \<Rightarrow> Inr () | Some err \<Rightarrow> Inl (Fatal ''server error'' err))"
proof (cases t)
  case None
  with assms(1) have "List.find (\<lambda>r. r \<noteq> None) rs = None" by (auto simp: find_None_iff)
  with None show ?thesis by (simp add: groupWait_def)
next
  case (Some err)
  obtain x where x: "List.find (\<lambda>r. r \<noteq> None) rs = Some x"
    using assms(2) Some by (cases "List.find (\<lambda>r. r \<noteq> None) rs") (auto simp: find_None_iff)
  then have "x \<in> set rs" "x \<noteq> None" by (auto simp: find_Some_iff) (metis nth_mem)
  with assms(1) Some x show ?thesis by (auto simp: groupWait_def)
qed

section \<open>What a start has done\<close>

lemma run_orFatal [run_rules]:
  "orFatal what f H s = (case f H of Inl err \<Rightarrow> (Inl (Fatal what err), s) | Inr x \<Rightarrow> (Inr x, s))"
  by (simp add: orFatal_def)

lemma run_fromHost [run_rules]: "fromHost f H s = (Inr (f H), s)"
  by (simp add: fromHost_def)

lemma migrateOnStart_complete:
  assumes "migrateOnStart cfg H s = (Inr (), s')" and "MigrateOnStart cfg"
    and "ReadDir (hostFiles H) ''migrations'' = Inr entries" and "dir_ok entries"
  shows "unapplied (versions s') (migrations (hostFiles H) ''migrations'') = []"
proof -
  have run: "ApplyMigrations ''migrations'' (hostFiles H) s = (Inr (), s')"
    using assms(1,2) by (auto simp: migrateOnStart_def split: prod.splits sum.splits)
  have "versions s' = versions s @ map Base (unapplied (versions s) (migrations (hostFiles H) ''migrations''))"
    using ApplyMigrations_progress [of "hostFiles H" "''migrations''" s] run assms(3,4)
    by (auto simp: progressed_def)
  then show ?thesis by (simp add: unapplied_recorded)
qed

lemma serverMain_cases:
  assumes "serverMain n H s = (Inr run, s')"
  obtains cfg srv where "Load (hostFPU H) (getenv H) = Inr cfg" "migrateOnStart cfg H s = (Inr (), s')"
    "srv = \<lparr>srvSvc = service_New (hostFPU H) (DroneSpeedMPS cfg),
        srvAuth = auth_New (JWTSecret cfg) (JWTTTL cfg), srvJWT = hostJWT H\<rparr>"
    "runServer run = srv" "runThrift run = NewProcessor n srv"
    "\<not> OutboxEnabled cfg \<and> runWorker run = None \<or>
     OutboxEnabled cfg \<and> (\<exists>nc. natsConnect H (NATSURL cfg) = Inr nc \<and>
       runWorker run = Some (newWorker cfg (natsPublisher (ncPublish nc) (ncClose nc) (NATSSubject cfg))))"
proof -
  obtain cfg where cfg: "Load (hostFPU H) (getenv H) = Inr cfg"
    using assms by (auto simp: serverMain_def run_rules split: sum.splits)
  then have pool: "poolNew H (DatabaseURL cfg) = Inr ()"
    using assms by (auto simp: serverMain_def run_rules split: sum.splits)
  obtain s1 where m: "migrateOnStart cfg H s = (Inr (), s1)"
    using assms cfg pool by (auto simp: serverMain_def run_rules split: sum.splits prod.splits)
  show thesis
    by (rule that [OF cfg])
      (use assms cfg pool m in \<open>auto simp: serverMain_def run_rules nats_New_def thrift_NewServer_def
        split: sum.splits if_splits\<close>)
qed

lemma workerMain_cases:
  assumes "workerMain H s = (Inr (Some w), s')"
  obtains cfg nc where "LoadWorker (hostFPU H) (getenv H) = Inr cfg" "migrateOnStart cfg H s = (Inr (), s')"
    "OutboxEnabled cfg" "natsConnect H (NATSURL cfg) = Inr nc"
    "w = newWorker cfg (natsPublisher (ncPublish nc) (ncClose nc) (NATSSubject cfg))"
proof -
  obtain cfg where cfg: "LoadWorker (hostFPU H) (getenv H) = Inr cfg"
    using assms by (auto simp: workerMain_def run_rules split: sum.splits)
  then have pool: "poolNew H (DatabaseURL cfg) = Inr ()" "OutboxEnabled cfg"
    using assms by (auto simp: workerMain_def run_rules split: sum.splits if_splits)
  obtain s1 where m: "migrateOnStart cfg H s = (Inr (), s1)"
    using assms cfg pool by (auto simp: workerMain_def run_rules split: sum.splits prod.splits)
  obtain nc where "natsConnect H (NATSURL cfg) = Inr nc"
    using assms cfg pool m by (auto simp: workerMain_def run_rules nats_New_def split: sum.splits)
  then show thesis
    using that [OF cfg _ pool(2)] assms cfg pool m by (simp add: workerMain_def run_rules nats_New_def)
qed

text \<open>The workers of a deployment: the one of the server, and those of the worker programs.\<close>

definition workersOf :: "('b, 'i, 'o) running \<Rightarrow> 'b OutboxWorker list" where
  "workersOf run = (case runWorker run of None \<Rightarrow> [] | Some w \<Rightarrow> [w])"

text \<open>
  What the programs rely on of NATS: a publish that succeeded has handed the event to the
  connection. The client library may still have it in its buffer; that counts as sent here.
\<close>

definition nats_ok :: "('d, 'b) host \<Rightarrow> ('b \<Rightarrow> Event set) \<Rightarrow> bool" where
  "nats_ok H sent \<longleftrightarrow> (\<forall>url nc subject. natsConnect H url = Inr nc \<longrightarrow>
     broker_ok (natsPublisher (ncPublish nc) (ncClose nc) subject) sent)"

lemma newWorker_sel [simp]:
  "wRepo (newWorker cfg P) = pgOutbox" "wPublisher (newWorker cfg P) = P" "wBatchSize (newWorker cfg P) = OutboxBatch cfg"
  by (simp_all add: newWorker_def)

lemma server_worker_ok:
  assumes "serverMain n H s = (Inr run, s')" and "nats_ok H sent" and "w \<in> set (workersOf run)"
  shows "broker_ok (wPublisher w) sent \<and> wRepo w = pgOutbox"
  using assms(1)
  by (rule serverMain_cases) (use assms(2,3) in \<open>auto simp: workersOf_def nats_ok_def split: option.splits\<close>)

lemma worker_program_ok:
  assumes "workerMain H s = (Inr (Some w), s')" and "nats_ok H sent"
  shows "broker_ok (wPublisher w) sent \<and> wRepo w = pgOutbox"
  using assms(1) by (rule workerMain_cases) (use assms(2) in \<open>auto simp: nats_ok_def\<close>)

lemma load_required:
  "Load F env = Inr cfg \<Longrightarrow> DatabaseURL cfg = env ''DATABASE_URL'' \<and> env ''DATABASE_URL'' \<noteq> '''' \<and>
     JWTSecret cfg = env ''JWT_SECRET'' \<and> env ''JWT_SECRET'' \<noteq> '''' \<and>
     MigrateOnStart cfg = getBool env ''MIGRATE_ON_START'' True \<and> OutboxEnabled cfg = getBool env ''OUTBOX_ENABLED'' True"
  by (auto simp: Load_def load_def split: if_splits)

end
