(* ===== verification/Shutdown.thy ===== *)
theory Shutdown
  imports Program
begin

text \<open>
  The server program from the moment it serves (\<open>cmd/server/main.go\<close>): the goroutines of the
  \<open>errgroup\<close>, the signal, the cancellation of their context and the orderly stop, as a step
  relation, and how the program ends.

  The servers are those of the libraries; a serving call returns as they document it: the one of
  HTTP with \<open>ErrServerClosed\<close> only after \<open>Shutdown\<close> was called, and the ones of gRPC and Thrift
  without an error only after they were stopped. Which of the stopping calls return is the
  argument \<open>calls\<close>: \<open>GracefulStop\<close> waits for the calls in flight, without a bound.
\<close>

section \<open>The group of goroutines\<close>

datatype task = TaskHTTP | TaskGRPC | TaskThrift | TaskWorker | TaskStop

text \<open>How far the last goroutine is; each stage but the first and the last is inside a call.\<close>

datatype stage = AwaitDone | InShutdown | InGracefulStop | InStop | AllStopped

record group =
  live :: "task set"
  ended :: "(task \<times> gerror option) list"
  ctxDone :: bool
  stopStage :: stage

definition startGroup :: "('b, 'i, 'o) running \<Rightarrow> group" where
  "startGroup run =
     \<lparr>live = {TaskHTTP, TaskGRPC, TaskThrift, TaskStop} \<union> (if runWorker run = None then {} else {TaskWorker}),
      ended = [], ctxDone = False, stopStage = AwaitDone\<rparr>"

text \<open>A goroutine returns; the first error cancels the context of the group.\<close>

definition finish :: "task \<Rightarrow> gerror option \<Rightarrow> group \<Rightarrow> group" where
  "finish t r G = G\<lparr>live := live G - {t}, ended := ended G @ [(t, r)], ctxDone := (ctxDone G \<or> r \<noteq> None)\<rparr>"

definition httpServe :: "stage \<Rightarrow> gerror option \<Rightarrow> bool" where
  "httpServe st r = (case r of None \<Rightarrow> False | Some e \<Rightarrow> errorsIs e errServerClosed \<longrightarrow> st \<noteq> AwaitDone)"

definition grpcServe :: "stage \<Rightarrow> gerror option \<Rightarrow> bool" where
  "grpcServe st r =
     ((case r of None \<Rightarrow> True | Some e \<Rightarrow> errorsIs e errServerStopped) \<longrightarrow> st \<in> {InGracefulStop, InStop, AllStopped})"

definition thriftServe :: "stage \<Rightarrow> gerror option \<Rightarrow> bool" where
  "thriftServe st r = (r = None \<longrightarrow> st \<in> {InStop, AllStopped})"

inductive turn :: "('b, 'i, 'o) running \<Rightarrow> (stage \<Rightarrow> bool) \<Rightarrow> group \<Rightarrow> group \<Rightarrow> bool"
  for run :: "('b, 'i, 'o) running" and calls :: "stage \<Rightarrow> bool" where
  signal: "\<not> ctxDone G \<Longrightarrow> turn run calls G (G\<lparr>ctxDone := True\<rparr>)"
| http: "TaskHTTP \<in> live G \<Longrightarrow> httpServe (stopStage G) r \<Longrightarrow> turn run calls G (finish TaskHTTP (httpTask r) G)"
| grpc: "TaskGRPC \<in> live G \<Longrightarrow> grpcServe (stopStage G) r \<Longrightarrow> turn run calls G (finish TaskGRPC (grpcTask r) G)"
| thrift: "TaskThrift \<in> live G \<Longrightarrow> thriftServe (stopStage G) r \<Longrightarrow> turn run calls G (finish TaskThrift r G)"
| worker: "TaskWorker \<in> live G \<Longrightarrow> ctxDone G \<Longrightarrow> runWorker run = Some w \<Longrightarrow> fst (Start w sigs E sb) = Inl err \<Longrightarrow>
    turn run calls G (finish TaskWorker (workerTask (Inl err)) G)"
| shutdown: "TaskStop \<in> live G \<Longrightarrow> ctxDone G \<Longrightarrow> stopStage G = AwaitDone \<Longrightarrow>
    turn run calls G (G\<lparr>stopStage := InShutdown\<rparr>)"
| graceful: "TaskStop \<in> live G \<Longrightarrow> stopStage G = InShutdown \<Longrightarrow> calls InShutdown \<Longrightarrow>
    turn run calls G (G\<lparr>stopStage := InGracefulStop\<rparr>)"
| stop: "TaskStop \<in> live G \<Longrightarrow> stopStage G = InGracefulStop \<Longrightarrow> calls InGracefulStop \<Longrightarrow>
    turn run calls G (G\<lparr>stopStage := InStop\<rparr>)"
| stopped: "TaskStop \<in> live G \<Longrightarrow> stopStage G = InStop \<Longrightarrow> calls InStop \<Longrightarrow>
    turn run calls G (finish TaskStop None (G\<lparr>stopStage := AllStopped\<rparr>))"

inductive_cases turn_cases: "turn run calls G G'"

inductive serving :: "('b, 'i, 'o) running \<Rightarrow> (stage \<Rightarrow> bool) \<Rightarrow> group \<Rightarrow> bool"
  for run :: "('b, 'i, 'o) running" and calls :: "stage \<Rightarrow> bool" where
  start: "serving run calls (startGroup run)"
| step: "serving run calls G \<Longrightarrow> turn run calls G G' \<Longrightarrow> serving run calls G'"

text \<open>\<open>g.Wait()\<close> and the end of \<open>main\<close>: nothing before all goroutines have returned.\<close>

definition serverEnd :: "group \<Rightarrow> (fatal + unit) option" where
  "serverEnd G = (if live G = {} then Some (groupWait (map snd (ended G))) else None)"

section \<open>How it ends\<close>

definition group_ok :: "('b, 'i, 'o) running \<Rightarrow> group \<Rightarrow> bool" where
  "group_ok run G \<longleftrightarrow> live G \<subseteq> live (startGroup run) \<and>
     (\<not> ctxDone G \<longrightarrow> G = startGroup run) \<and>
     (TaskStop \<in> live G \<longleftrightarrow> stopStage G \<noteq> AllStopped) \<and>
     live (startGroup run) \<subseteq> live G \<union> fst ` set (ended G) \<and>
     distinct (map fst (ended G)) \<and> live G \<inter> fst ` set (ended G) = {} \<and>
     (\<forall>t r. (t, r) \<in> set (ended G) \<longrightarrow> r \<noteq> None \<longrightarrow> t \<in> {TaskHTTP, TaskGRPC, TaskThrift})"

lemma early_errors:
  "httpServe AwaitDone r \<Longrightarrow> httpTask r \<noteq> None" "grpcServe AwaitDone r \<Longrightarrow> grpcTask r \<noteq> None"
  "thriftServe AwaitDone r \<Longrightarrow> r \<noteq> None"
  by (auto simp: httpServe_def httpTask_def grpcServe_def grpcTask_def thriftServe_def split: option.splits)

lemma worker_silent: "fst (Start w sigs E sb) = Inl err \<Longrightarrow> workerTask (Inl err) = None"
  by (auto simp: Start_ends workerTask_def split: if_splits)

lemma serving_ok: "serving run calls G \<Longrightarrow> group_ok run G"
proof (induction rule: serving.induct)
  case start
  show ?case by (simp add: group_ok_def startGroup_def)
next
  case (step G G')
  note ok = step.IH [unfolded group_ok_def]
  have start: "stopStage (startGroup run) = AwaitDone" "\<not> ctxDone (startGroup run)" by (simp_all add: startGroup_def)
  from step.hyps(2) show ?case
  proof cases
    case (http r)
    then show ?thesis using ok start early_errors(1) [of r]
      by (cases "ctxDone G") (auto simp: group_ok_def finish_def)
  next
    case (grpc r)
    then show ?thesis using ok start early_errors(2) [of r]
      by (cases "ctxDone G") (auto simp: group_ok_def finish_def)
  next
    case (thrift r)
    then show ?thesis using ok start early_errors(3) [of r]
      by (cases "ctxDone G") (auto simp: group_ok_def finish_def)
  next
    case (worker w sigs E sb err)
    then show ?thesis using ok worker_silent [OF worker(5)] by (auto simp: group_ok_def finish_def)
  qed (use ok start in \<open>auto simp: group_ok_def finish_def\<close>)
qed

text \<open>Every step brings the end nearer.\<close>

fun stepsLeft :: "stage \<Rightarrow> nat" where
  "stepsLeft AwaitDone = 4"
| "stepsLeft InShutdown = 3"
| "stepsLeft InGracefulStop = 2"
| "stepsLeft InStop = 1"
| "stepsLeft AllStopped = 0"

definition remaining :: "group \<Rightarrow> nat" where
  "remaining G = card (live G) + stepsLeft (stopStage G) + (if ctxDone G then 0 else 1)"

lemma live_finite: "group_ok run G \<Longrightarrow> finite (live G)"
  by (rule finite_subset [of _ "live (startGroup run)"]) (simp_all add: group_ok_def startGroup_def)

lemma finish_remaining:
  assumes "finite (live G)" and "t \<in> live G"
  shows "remaining (finish t r G) < remaining G"
  using card_Diff1_less [OF assms] by (auto simp: remaining_def finish_def)

lemma turn_remaining:
  assumes "turn run calls G G'" and "finite (live G)"
  shows "remaining G' < remaining G"
  using assms(1)
proof cases
  case stopped
  then show ?thesis using finish_remaining [of "G\<lparr>stopStage := AllStopped\<rparr>" TaskStop None] assms(2)
    by (simp add: remaining_def)
qed (use finish_remaining [OF assms(2)] in \<open>auto simp: remaining_def\<close>)

text \<open>Once the context is done, the group does not get stuck unless a stopping call does not return.\<close>

lemma turn_enabled:
  assumes "serving run calls G" and "ctxDone G" and "live G \<noteq> {}" and "\<And>c. calls c"
  shows "\<exists>G'. turn run calls G G'"
proof (cases "TaskStop \<in> live G")
  case True
  then show ?thesis
    using assms(2,4) serving_ok [OF assms(1)]
    by (cases "stopStage G") (auto simp: group_ok_def intro: turn.intros)
next
  case False
  note ok = serving_ok [OF assms(1), unfolded group_ok_def]
  with False have stage: "stopStage G = AllStopped" by auto
  obtain t where t: "t \<in> live G" using assms(3) by blast
  then show ?thesis
  proof (cases t)
    case TaskHTTP
    then show ?thesis using t stage by (auto intro!: exI turn.http [where r = "Some errServerClosed"] simp: httpServe_def)
  next
    case TaskGRPC
    then show ?thesis using t stage by (auto intro!: exI turn.grpc [where r = None] simp: grpcServe_def)
  next
    case TaskThrift
    then show ?thesis using t stage by (auto intro!: exI turn.thrift [where r = None] simp: thriftServe_def)
  next
    case TaskWorker
    then obtain w where w: "runWorker run = Some w" using t ok by (auto simp: startGroup_def split: if_splits)
    have "fst (Start w [Cancelled] E sb) = Inl errCancelled" for E sb by (simp add: Start_ends)
    from turn.worker [OF _ assms(2) w this] t TaskWorker show ?thesis by blast
  qed (use t False in simp)
qed

text \<open>The end of an orderly stop: nobody but the Thrift server can have failed.\<close>

lemma serverEnd_orderly:
  assumes "serving run calls G" and "serverEnd G = Some res"
  obtains t where "(TaskThrift, t) \<in> set (ended G)" and "ctxDone G" and "stopStage G = AllStopped"
    and "\<And>t'. (TaskThrift, t') \<in> set (ended G) \<Longrightarrow> t' = t"
    and "(\<And>r. (TaskHTTP, r) \<in> set (ended G) \<or> (TaskGRPC, r) \<in> set (ended G) \<Longrightarrow> r = None) \<Longrightarrow>
      res = (case t of None \<Rightarrow> Inr () | Some err \<Rightarrow> Inl (Fatal ''server error'' err))"
proof -
  note ok = serving_ok [OF assms(1), unfolded group_ok_def]
  have live: "live G = {}" and res: "res = groupWait (map snd (ended G))"
    using assms(2) by (auto simp: serverEnd_def split: if_splits)
  have "TaskThrift \<in> live (startGroup run)" by (simp add: startGroup_def)
  then obtain t where t: "(TaskThrift, t) \<in> set (ended G)" using ok live by fastforce
  have only: "t' = t" if "(TaskThrift, t') \<in> set (ended G)" for t'
    using eq_key_imp_eq_value [of "ended G"] that t ok by blast
  have "ctxDone G" using ok live by (auto simp: startGroup_def)
  moreover have "stopStage G = AllStopped" using ok live by auto
  moreover have "res = (case t of None \<Rightarrow> Inr () | Some err \<Rightarrow> Inl (Fatal ''server error'' err))"
    if "\<And>r. (TaskHTTP, r) \<in> set (ended G) \<or> (TaskGRPC, r) \<in> set (ended G) \<Longrightarrow> r = None"
  proof -
    have each: "r \<in> {t, None}" if r: "(t', r) \<in> set (ended G)" for t' r
    proof (cases "t' \<in> {TaskHTTP, TaskGRPC, TaskThrift}")
      case True
      with r only \<open>\<And>r. _ \<Longrightarrow> r = None\<close> show ?thesis by blast
    next
      case False
      with r ok show ?thesis by blast
    qed
    have "set (map snd (ended G)) \<subseteq> {t, None}" unfolding set_map by (rule image_subsetI) (metis each prod.collapse)
    moreover have "t \<in> set (map snd (ended G))" using t by force
    ultimately show ?thesis unfolding res by (rule groupWait_one)
  qed
  ultimately show ?thesis using that t only by blast
qed

text \<open>While \<open>GracefulStop\<close> does not return, the Thrift server is not asked to stop and the program goes on.\<close>

lemma graceful_blocks:
  assumes "serving run calls G" and "\<not> calls InGracefulStop"
  shows "stopStage G \<in> {AwaitDone, InShutdown, InGracefulStop} \<and> serverEnd G = None"
proof -
  have "stopStage G \<in> {AwaitDone, InShutdown, InGracefulStop}"
    using assms by (induction rule: serving.induct) (auto simp: startGroup_def finish_def elim!: turn_cases)
  with serving_ok [OF assms(1)] show ?thesis by (auto simp: group_ok_def serverEnd_def)
qed

end
