(* ===== verification/Outcomes.thy ===== *)
theory Outcomes
  imports Refine
begin

text \<open>
  What each operation of the service answers when the database has no faults: the result or
  the error, branch by branch. Theory Refine says what happens to the database; here an error
  is shown to leave it alone.
\<close>

text \<open>No faults, and identifiers that are generated from now on are not in use.\<close>

definition quiet :: "env \<Rightarrow> st \<Rightarrow> bool" where
  "quiet E s \<longleftrightarrow> (\<forall>n. faults E n = None) \<and> inj (uuids E) \<and>
     (\<forall>k\<ge>nuuid s. ordersOf (db s) (uuids E k) = None \<and>
        uuids E k \<notin> ob_id ` set (outbox_events (db s)))"

lemma quietD:
  assumes "quiet E s"
  shows "faults E n = None" "inj (uuids E)"
    "nuuid s \<le> k \<Longrightarrow> ordersOf (db s) (uuids E k) = None"
    "nuuid s \<le> k \<Longrightarrow> uuids E k \<notin> ob_id ` set (outbox_events (db s))"
    "uuids E j = uuids E k \<longleftrightarrow> j = k"
  using assms by (auto simp: quiet_def inj_eq)

text \<open>An operation answers with a given result, and an error leaves the database alone.\<close>

definition answers :: "'a M \<Rightarrow> env \<Rightarrow> st \<Rightarrow> gerror + 'a \<Rightarrow> bool" where
  "answers m E s r \<longleftrightarrow> fst (m E s) = r \<and> (\<forall>e. r = Inl e \<longrightarrow> db (snd (m E s)) = db s)"

lemma wp_answers:
  assumes "wp m (\<lambda>x s'. r = Inr x) (\<lambda>e s'. r = Inl e \<and> db s' = d) E s"
  shows "fst (m E s) = r" "r = Inl e \<Longrightarrow> db (snd (m E s)) = d"
  using assms by (auto simp: wp_def split: prod.splits sum.splits)

lemma wp_commitReturn:
  "faults E (ncall s) = None \<Longrightarrow> wp (commitReturn x) Q R E s = Q x ((called s)\<lparr>db := work s\<rparr>)"
  by (simp add: commitReturn_def wp_rules)

lemma wp_enqueueOrderEvent:
  assumes "faults E (ncall s) = None" and "uuidText E (uuids E (nuuid s)) = Some (uuids E (nuuid s))"
    and "uuids E (nuuid s) \<notin> ob_id ` set (outbox_events (work s))"
  shows "wp (enqueueOrderEvent t order drone w) Q R E s =
    Q () (s\<lparr>nuuid := Suc (nuuid s), ncall := Suc (ncall s), work := insEvent E (uuids E (nuuid s))
      (NewOrderEvent (uuids E (nuuid s)) t order drone w) (work s)\<rparr>)"
  using assms by (simp add: enqueueOrderEvent_def wp_rules)

definition submitAnswer :: "env \<Rightarrow> st \<Rightarrow> string \<Rightarrow> Location \<Rightarrow> Location \<Rightarrow> gerror + Order" where
  "submitAnswer E s user origin dest =
     (if ValidateLocation origin \<noteq> None then Inl (Wrapped ''origin: '' ErrInvalid)
      else if ValidateLocation dest \<noteq> None then Inl (Wrapped ''destination: '' ErrInvalid)
      else Inr (newOrder (uuids E (nuuid s)) user origin dest (clock E (nclock s))))"

lemma submit_answers:
  assumes "env_ok E" "db_inv E (db s)" "quiet E s"
  shows "wp (SubmitOrder user origin dest) (\<lambda>x s'. submitAnswer E s user origin dest = Inr x)
    (\<lambda>e s'. submitAnswer E s user origin dest = Inl e \<and> db s' = db s) E s"
  using assms quietD [OF assms(3)]
  by (simp add: SubmitOrder_def submitAnswer_def wp_enqueueOrderEvent wp_commitReturn wp_rules)

definition withOrder :: "env \<Rightarrow> db \<Rightarrow> string \<Rightarrow> (Order \<Rightarrow> gerror + 'a) \<Rightarrow> gerror + 'a" where
  "withOrder E d i f =
     (case uuidText E i of None \<Rightarrow> Inl errUUID
      | Some u \<Rightarrow> (case ordersOf d u of None \<Rightarrow> Inl ErrNotFound | Some ord \<Rightarrow> f ord))"

definition withdrawAnswer :: "env \<Rightarrow> st \<Rightarrow> string \<Rightarrow> string \<Rightarrow> gerror + Order" where
  "withdrawAnswer E s user i = withOrder E (db s) i (\<lambda>ord.
     if oUserID ord \<noteq> user then Inl ErrForbidden
     else if oStatus ord \<noteq> OrderStatusCreated \<and> oStatus ord \<noteq> OrderStatusReserved then Inl ErrPrecondition
     else Inr (ord\<lparr>oStatus := OrderStatusWithdrawn, oAssignedDroneID := None,
       oUpdatedAt := clock E (if oStatus ord = OrderStatusReserved then Suc (nclock s) else nclock s)\<rparr>))"

lemma withdraw_answers:
  assumes "env_ok E" "db_inv E (db s)" "quiet E s"
  shows "wp (WithdrawOrder user i) (\<lambda>x s'. withdrawAnswer E s user i = Inr x)
    (\<lambda>e s'. withdrawAnswer E s user i = Inl e \<and> db s' = db s) E s"
proof (cases "uuidText E i")
  case None
  then show ?thesis using quietD(1) [OF assms(3)]
    by (simp add: WithdrawOrder_def withdrawAnswer_def withOrder_def wp_rules)
next
  case (Some u)
  show ?thesis
  proof (cases "ordersOf (db s) u")
    case None
    then show ?thesis using quietD(1) [OF assms(3)] 
      by (simp add: Some WithdrawOrder_def wp_rules withdrawAnswer_def withOrder_def)
  next
    case ord: (Some ord)
    note facts = quietD(1) [OF assms(3)] quietD(4) [OF assms(3) order_refl] assms(1) ord
      order_read_id [OF assms(2) ord] Some
    show ?thesis
    proof (cases "oStatus ord = OrderStatusReserved")
      case True
      then have "held (oStatus ord)" by simp
      then obtain j dr where "oAssignedDroneID ord = Some j" "dronesOf (db s) j = Some dr"
        by (rule db_inv_holder [OF assms(2) ord])
      moreover have "withdrawAnswer E s user i =
          (if oUserID ord \<noteq> user then Inl ErrForbidden
           else Inr (ord\<lparr>oStatus := OrderStatusWithdrawn, oAssignedDroneID := None,
             oUpdatedAt := clock E (Suc (nclock s))\<rparr>))"
        using True ord Some by (simp add: withdrawAnswer_def withOrder_def)
      ultimately show ?thesis using facts True 
        by (simp add: WithdrawOrder_def wp_rules, simp add: wp_enqueueOrderEvent wp_commitReturn)
    next
      case False
      then have "withdrawAnswer E s user i =
          (if oUserID ord \<noteq> user then Inl ErrForbidden
           else if oStatus ord \<noteq> OrderStatusCreated then Inl ErrPrecondition
           else Inr (ord\<lparr>oStatus := OrderStatusWithdrawn, oAssignedDroneID := None,
             oUpdatedAt := clock E (nclock s)\<rparr>))"
        using ord Some by (simp add: withdrawAnswer_def withOrder_def)
      then show ?thesis using facts False 
        by (cases "oAssignedDroneID ord")
          (simp_all add: WithdrawOrder_def wp_rules, simp_all add: wp_enqueueOrderEvent wp_commitReturn)
    qed
  qed
qed

definition pickupAnswer :: "env \<Rightarrow> st \<Rightarrow> string \<Rightarrow> string \<Rightarrow> gerror + Order" where
  "pickupAnswer E s i u = withOrder E (db s) u (\<lambda>ord.
     if oAssignedDroneID ord \<noteq> Some i then Inl ErrForbidden
     else if oStatus ord \<noteq> OrderStatusReserved then Inl ErrPrecondition
     else Inr (ord\<lparr>oStatus := OrderStatusPickedUp, oPickedUpAt := Some (clock E (nclock s)),
       oUpdatedAt := clock E (nclock s)\<rparr>))"

lemma pickup_answers:
  assumes "env_ok E" "db_inv E (db s)" "quiet E s"
  shows "wp (DronePickup i u) (\<lambda>x s'. pickupAnswer E s i u = Inr x)
    (\<lambda>e s'. pickupAnswer E s i u = Inl e \<and> db s' = db s) E s"
  using assms quietD [OF assms(3)]
  by (auto simp: DronePickup_def updateOrderForDrone_def pickupFn_def pickupAnswer_def withOrder_def
      wp_enqueueOrderEvent wp_commitReturn wp_rules order_read_id dest: waiting_unassigned split: option.splits)

definition completeAnswer ::
  "env \<Rightarrow> st \<Rightarrow> string \<Rightarrow> string \<Rightarrow> OrderStatus \<Rightarrow> string \<Rightarrow> gerror + Order" where
  "completeAnswer E s i u status reason = withOrder E (db s) u (\<lambda>ord.
     if oAssignedDroneID ord \<noteq> Some i then Inl ErrForbidden
     else if oStatus ord \<noteq> OrderStatusPickedUp then Inl ErrPrecondition
     else Inr (completed status reason (clock E (nclock s)) ord))"

lemma complete_answers:
  assumes "env_ok E" "db_inv E (db s)" "quiet E s"
  shows "wp (completeOrderForDrone i u status reason) (\<lambda>x s'. completeAnswer E s i u status reason = Inr x)
    (\<lambda>e s'. completeAnswer E s i u status reason = Inl e \<and> db s' = db s) E s"
proof -
  have held: "dronesOf (db s) i \<noteq> None"
    if "ordersOf (db s) u = Some ord" "oStatus ord = OrderStatusPickedUp" "oAssignedDroneID ord = Some i" for u ord
    using db_inv_holder [OF assms(2) that(1)] that(2,3) by fastforce
  show ?thesis using assms quietD [OF assms(3)]
    by (auto simp: completeOrderForDrone_def completeAnswer_def withOrder_def wp_enqueueOrderEvent
        wp_commitReturn wp_rules order_read_id Let_def dest: held split: option.splits)
qed

section \<open>Reservation\<close>

lemma reserve_none:
  assumes "orderReserveSQL [OrderStatusCreated, OrderStatusHandoffRequested] (\<lambda>_. False) d = []"
    and "ordersOf d u = Some ord" and "oAssignedDroneID ord = None"
  shows "\<not> waiting (oStatus ord)"
proof
  assume w: "waiting (oStatus ord)"
  obtain r where r: "r \<in> set (orders d)" "ord = orderOfRow r"
    using assms(2) by (auto simp: ordersOf_def dest: rowFind_Some)
  have "filter (reservable [OrderStatusCreated, OrderStatusHandoffRequested] (\<lambda>_. False)) (orders d) = []"
    using assms(1) by (simp add: orderReserveSQL_def) (metis length_0_conv length_sort)
  then show False using r w assms(3) by (auto simp: filter_empty_conv reservable_def waiting_def)
qed

lemma reserve_first:
  assumes "orderReserveSQL [OrderStatusCreated, OrderStatusHandoffRequested] (\<lambda>_. False) d = row # rows"
    and "ordersOf d u = Some ord" and "oAssignedDroneID ord = None" and "waiting (oStatus ord)"
  shows "or_created_at row \<le> oCreatedAt ord"
proof -
  let ?P = "reservable [OrderStatusCreated, OrderStatusHandoffRequested] (\<lambda>_. False)"
  obtain r where r: "r \<in> set (orders d)" "ord = orderOfRow r"
    using assms(2) by (auto simp: ordersOf_def dest: rowFind_Some)
  then have "r \<in> set (filter ?P (orders d))"
    using assms(3,4) by (auto simp: reservable_def waiting_def)
  moreover obtain rest where "sort_key or_created_at (filter ?P (orders d)) = row # rest"
    using assms(1) unfolding orderReserveSQL_def
    by (cases "sort_key or_created_at (filter ?P (orders d))") auto
  ultimately show ?thesis using r by (auto dest: sort_key_Cons_least)
qed

lemma orders_ensureDrone [simp]: "orders (ensureDrone E i t d) = orders d"
  by (simp add: ensureDrone_def insDrone_def split: option.splits)

lemma orderReserveSQL_ensureDrone [simp]:
  "orderReserveSQL allowed lk (ensureDrone E i t d) = orderReserveSQL allowed lk d"
  by (simp add: orderReserveSQL_def)

text \<open>Who may have a job, and which: the oldest order that waits.\<close>

definition idle :: "db \<Rightarrow> string \<Rightarrow> bool" where
  "idle d i \<longleftrightarrow> (\<forall>dr. dronesOf d i = Some dr \<longrightarrow> dStatus dr \<noteq> DroneStatusBroken \<and> dCurrentOrderID dr = None)"

definition oldestWaiting :: "db \<Rightarrow> Order \<Rightarrow> bool" where
  "oldestWaiting d ord \<longleftrightarrow> ordersOf d (oID ord) = Some ord \<and> waiting (oStatus ord) \<and>
     (\<forall>u ord'. ordersOf d u = Some ord' \<longrightarrow> waiting (oStatus ord') \<longrightarrow> oCreatedAt ord \<le> oCreatedAt ord')"

definition refused :: "db \<Rightarrow> string \<Rightarrow> gerror \<Rightarrow> bool" where
  "refused d i e \<longleftrightarrow>
     (\<exists>dr. dronesOf d i = Some dr \<and> dStatus dr = DroneStatusBroken \<and> e = ErrPrecondition) \<or>
     (\<exists>dr. dronesOf d i = Some dr \<and> dCurrentOrderID dr \<noteq> None \<and> e = ErrConflict) \<or>
     idle d i \<and> (\<forall>u ord. ordersOf d u = Some ord \<longrightarrow> \<not> waiting (oStatus ord)) \<and> e = ErrNoJob"

lemma ensured_cases:
  "dStatus (ensured d i t) = DroneStatusBroken \<Longrightarrow>
     \<exists>dr. dronesOf d i = Some dr \<and> dStatus dr = DroneStatusBroken"
  "dCurrentOrderID (ensured d i t) \<noteq> None \<Longrightarrow> \<exists>dr. dronesOf d i = Some dr \<and> dCurrentOrderID dr \<noteq> None"
  "dStatus (ensured d i t) \<noteq> DroneStatusBroken \<Longrightarrow> dCurrentOrderID (ensured d i t) = None \<Longrightarrow> idle d i"
  by (auto simp: ensured_def idle_def split: option.splits)

lemma wp_getOrCreateDrone_quiet:
  assumes "\<And>n. faults E n = None"
    and "\<And>k. Q (ensured (work s) i t) (s\<lparr>ncall := k, work := ensureDrone E i t (work s)\<rparr>)"
  shows "wp (getOrCreateDrone i t) Q R E s"
proof (cases "dronesOf (work s) i")
  case None
  then show ?thesis using assms(1) assms(2) [of "Suc (Suc (ncall s))"]
    by (simp add: getOrCreateDrone_def wp_rules ensured_def ensureDrone_def)
next
  case (Some dr)
  then show ?thesis using assms(1) assms(2) [of "Suc (ncall s)"]
    by (simp add: getOrCreateDrone_def wp_rules ensured_def ensureDrone_def)
qed

lemma reserve_answers:
  assumes "env_ok E" "db_inv E (db s)" "quiet E s" and unlocked: "locked E = (\<lambda>_ _. False)"
  shows "wp (DroneReserveJob i)
    (\<lambda>x s'. idle (db s) i \<and> (\<exists>ord now. oldestWaiting (db s) ord \<and>
       x = ord\<lparr>oStatus := OrderStatusReserved, oAssignedDroneID := Some i,
               oReservedAt := Some now, oUpdatedAt := now\<rparr>))
    (\<lambda>e s'. refused (db s) i e \<and> db s' = db s) E s"
    (is "wp _ (\<lambda>x s'. ?Q x) (\<lambda>e s'. ?R e \<and> _ s') E s")
proof -
  let ?sql = "orderReserveSQL [OrderStatusCreated, OrderStatusHandoffRequested] (\<lambda>_. False) (db s)"
  note un = waiting_unassigned [OF assms(2)]
  have none: "refused (db s) i ErrNoJob"
    if "idle (db s) i" "?sql = []"
    using that un reserve_none [OF that(2)] by (auto simp: refused_def)
  have some: "oldestWaiting (db s) (orderOfRow row)" "uuidText E (or_id row) = Some (or_id row)"
    if row: "?sql = row # rows" for row rows
  proof -
    have r: "orderReserveSQL [OrderStatusCreated, OrderStatusHandoffRequested] (\<lambda>_. False)
        (ensureDrone E i 0 (db s)) = row # rows" using row by simp
    note c = reserve_choice [OF assms(2) r]
    show "uuidText E (or_id row) = Some (or_id row)" by (rule c)
    show "oldestWaiting (db s) (orderOfRow row)" unfolding oldestWaiting_def
      using c un reserve_first [OF row] by auto
  qed
  note facts = quietD(1) [OF assms(3)] quietD(4) [OF assms(3) order_refl] assms(1) unlocked
  let ?t = "clock E (nclock s)"
  have body: "wp (if dStatus drone = DroneStatusBroken then throwM ErrPrecondition
      else if dCurrentOrderID drone \<noteq> None then throwM ErrConflict
      else bindM (ReserveNextOrder [OrderStatusCreated, OrderStatusHandoffRequested]) (\<lambda>job.
       case job of
         None \<Rightarrow> throwM ErrNoJob
       | Some order0 \<Rightarrow>
           bindM nowM (\<lambda>now.
           let order = order0\<lparr>oStatus := OrderStatusReserved,
                              oAssignedDroneID := Some (dID drone),
                              oReservedAt := Some now, oUpdatedAt := now\<rparr>;
               drone' = drone\<lparr>dCurrentOrderID := Some (oID order), dUpdatedAt := now\<rparr> in
           seqM (UpdateOrder order)
          (seqM (UpdateDrone drone')
          (seqM (enqueueOrderEvent EventOrderReserved order (Some drone') now)
          (commitReturn order))))))
      (\<lambda>x s'. ?Q x) (\<lambda>e s'. ?R e \<and> db s' = db s) E s1"
    if "drone = ensured (db s) i ?t" "work s1 = ensureDrone E i ?t (db s)" "db s1 = db s" "nuuid s1 = nuuid s"
    for drone s1
  proof (cases "dStatus drone = DroneStatusBroken \<or> dCurrentOrderID drone \<noteq> None")
    case True
    then show ?thesis using that ensured_cases(1,2) [of "db s" i ?t] by (auto simp: wp_rules refused_def)
  next
    case False
    then have idle: "idle (db s) i" using that by (intro ensured_cases(3) [of _ _ ?t]) simp_all
    show ?thesis
    proof (cases ?sql)
      case Nil
      then show ?thesis using False that facts none [OF idle] by (simp add: wp_rules)
    next
      case (Cons row rows)
      then show ?thesis using False that facts idle some [OF Cons]
        by (simp add: wp_rules ensured_dID, simp add: wp_enqueueOrderEvent wp_commitReturn, blast)
    qed
  qed
  show ?thesis unfolding DroneReserveJob_def wp_withTx wp_bindM wp_nowM Rollback_sel
    by (rule conjI, simp add: facts(1), rule impI, rule wp_getOrCreateDrone_quiet, rule facts(1))
      (rule body; simp)
qed

section \<open>A drone breaks\<close>

lemma DroneMarkBroken_returns:
  "wp (DroneMarkBroken i) (\<lambda>x s'. dID x = i) (\<lambda>_ _. True) E s"
proof -
  have rel: "wp (releaseOrder dr u now) (\<lambda>x s'. dID x = dID dr) (\<lambda>_ _. True) E s'" for dr u now s'
    by (simp add: releaseOrder_def enqueueOrderEvent_def wp_rules)
  have get: "wp (getOrCreateDrone i t) (\<lambda>x s'. dID x = i) (\<lambda>_ _. True) E s'" for t s'
    by (simp add: getOrCreateDrone_def wp_rules dronesOf_id)
  have rest: "wp (bindM nowM (\<lambda>now. let drone1 = drone0\<lparr>dStatus := DroneStatusBroken\<rparr> in
      bindM (case dCurrentOrderID drone1 of None \<Rightarrow> returnM drone1
        | Some orderID \<Rightarrow> releaseOrder drone1 orderID now) (\<lambda>drone2.
      let drone = drone2\<lparr>dUpdatedAt := now\<rparr> in
      seqM (UpdateDrone drone) (seqM (enqueueDroneEvent EventDroneBroken drone now) (commitReturn drone)))))
      (\<lambda>x s'. dID x = i) (\<lambda>_ _. True) E s'" if "dID drone0 = i" for drone0 s'
    using that
    by (cases "dCurrentOrderID drone0")
      (auto simp: wp_rules enqueueDroneEvent_def commitReturn_def intro!: wp_mono [OF rel])
  show ?thesis unfolding DroneMarkBroken_def wp_withTx wp_bindM [of nowM] wp_nowM
      wp_bindM [of "getOrCreateDrone i t" for t]
    by (intro conjI allI impI, rule TrueI, rule wp_mono [OF get])
      (use rest [unfolded wp_bindM [of nowM] wp_nowM] in auto)
qed

definition releasedFrom :: "Drone \<Rightarrow> Order \<Rightarrow> Order \<Rightarrow> bool" where
  "releasedFrom dr old new \<longleftrightarrow> oAssignedDroneID new = None \<and>
     (oStatus old = OrderStatusPickedUp \<longrightarrow> oStatus new = OrderStatusHandoffRequested \<and>
        oHandoffOrigin new = (case dLastLocation dr of None \<Rightarrow> oHandoffOrigin old | Some l \<Rightarrow> Some l)) \<and>
     (oStatus old = OrderStatusReserved \<longrightarrow> oStatus new = OrderStatusCreated \<and>
        oHandoffOrigin new = None \<and> oReservedAt new = None)"

lemma broken_releases:
  assumes "env_ok E" "db_inv E (db s)" and run: "DroneMarkBroken i E s = (Inr x, s')"
    and dr: "dronesOf (db s) i = Some dr" "dCurrentOrderID dr = Some u" and old: "ordersOf (db s) u = Some old"
  shows "\<exists>new dr'. ordersOf (db s') u = Some new \<and> releasedFrom dr old new \<and>
    dronesOf (db s') i = Some dr' \<and> dStatus dr' = DroneStatusBroken \<and> dCurrentOrderID dr' = None"
proof -
  have i: "dID x = i" using wp_okD [OF DroneMarkBroken_returns run] .
  have "svc_step E (db s) (ABreak x) (db s')" by (rule broken_op.committed [OF assms(1,2) run])
  then show ?thesis
  proof cases
    case (break_idle dr0 j t v now)
    then have "j = i" using i ensured_dID by simp
    with break_idle dr show ?thesis by (simp add: ensured_def)
  next
    case (break_carrying j dr0 w ord0 v v' ord now etype dr1)
    then have "j = i" using i dronesOf_id by simp
    then have eqs: "dr0 = dr" "w = u" "ord0 = old" using break_carrying dr old by simp_all
    have "releasedFrom dr old (storedOrder E ord\<lparr>oID := u, oCreatedAt := oCreatedAt old\<rparr>)"
      using break_carrying eqs
      by (auto simp: releasedFrom_def storedOrder_def handedOff_def requeued_def split: option.splits)
    then show ?thesis using break_carrying eqs dr old \<open>j = i\<close> dronesOf_id [OF dr(1)]
      by (simp add: entity_updates storedDrone_def)
  qed
qed

section \<open>Lists\<close>

lemma buildOrderView_order: "wp (buildOrderView S ord) (\<lambda>v s'. vOrder v = ord) (\<lambda>_ _. True) E s"
  by (simp add: buildOrderView_def wp_rules)

lemma views_orders: "wp (mapM (buildOrderView S) ords) (\<lambda>vs s'. map vOrder vs = ords) (\<lambda>_ _. True) E s"
proof (induction ords arbitrary: s)
  case Nil
  then show ?case by (simp add: wp_returnM)
next
  case (Cons ord ords)
  have "wp (buildOrderView S ord) (\<lambda>v s'. wp (mapM (buildOrderView S) ords)
      (\<lambda>vs s'. map vOrder (v # vs) = ord # ords) (\<lambda>_ _. True) E s') (\<lambda>_ _. True) E s"
    by (rule wp_mono [OF buildOrderView_order]) (auto intro: wp_mono [OF Cons.IH])
  then show ?case by (simp add: wp_bindM wp_returnM)
qed

text \<open>The page of a listing: the orders of the status, oldest first, from the offset on.\<close>

definition page :: "OrderFilter \<Rightarrow> db \<Rightarrow> Order list" where
  "page filt d = map orderOfRow (take (nat (clampLimit (fLimit filt))) (drop (nat (fOffset filt))
     (sort_key or_created_at
       (filter (\<lambda>r. fStatus filt = None \<or> Some (or_status r) = fStatus filt) (orders d)))))"

lemma sorted_page: "sorted (map oCreatedAt (page filt d))"
proof -
  have "sorted (map or_created_at (take m (drop n (sort_key or_created_at rows))))" for m n rows
    by (metis drop_map sorted_sort_key sorted_wrt_drop sorted_wrt_take take_map)
  then show ?thesis by (simp add: page_def comp_def)
qed

lemma ListOrders_page:
  assumes "ListOrders filt E s = (Inr ords, s')"
  shows "0 \<le> fOffset filt \<and> ords = page filt (db s)"
proof -
  have "wp (ListOrders filt) (\<lambda>x _. 0 \<le> fOffset filt \<and> x = page filt (db s)) (\<lambda>_ _. True) E s"
    by (simp add: wp_ListOrders orderListSQL_def page_def)
  from wp_okD [OF this assms] show ?thesis .
qed

lemma AdminListOrders_unsorted:
  "AdminListOrders S filt E s = bindM (ListOrders filt) (mapM (buildOrderView S)) E s"
proof (cases "ListOrders filt E s")
  case (Pair r s1)
  show ?thesis
  proof (cases r)
    case (Inl e)
    with Pair show ?thesis by (simp add: AdminListOrders_def run_rules)
  next
    case (Inr ords)
    show ?thesis
    proof (cases "mapM (buildOrderView S) ords E s1")
      case m: (Pair r2 s2)
      have "sort_key (\<lambda>v. oCreatedAt (vOrder v)) vs = vs" if "r2 = Inr vs" for vs
      proof (rule sort_key_sorted_id)
        have "map vOrder vs = page filt (db s)"
          using wp_okD [OF views_orders m [unfolded that]] ListOrders_page Pair Inr by metis
        then have "map (\<lambda>v. oCreatedAt (vOrder v)) vs = map oCreatedAt (page filt (db s))"
          by (metis (no_types, lifting) map_map comp_def map_eq_conv)
        then show "sorted (map (\<lambda>v. oCreatedAt (vOrder v)) vs)" by (simp add: sorted_page)
      qed
      then show ?thesis using Pair Inr m by (cases r2) (simp_all add: AdminListOrders_def run_rules)
    qed
  qed
qed

lemma AdminListOrders_page:
  assumes "AdminListOrders S filt E s = (Inr views, s')"
  shows "0 \<le> fOffset filt" "map vOrder views = page filt (db s)"
proof -
  obtain ords s1 where l: "ListOrders filt E s = (Inr ords, s1)" "mapM (buildOrderView S) ords E s1 = (Inr views, s')"
    using assms unfolding AdminListOrders_unsorted run_bindM by (auto split: prod.splits sum.splits)
  show "0 \<le> fOffset filt" "map vOrder views = page filt (db s)"
    using ListOrders_page [OF l(1)] wp_okD [OF views_orders l(2)] by simp_all
qed

end
