(* ===== verification/Codec.thy ===== *)
theory Codec
  imports Grpc
begin

text \<open>
  The JSON codec of package \<open>internal/transport/grpcapi\<close> (\<open>codec.go\<close>) and the server that
  \<open>NewServer\<close> builds from it: what \<open>encoding/json\<close> renders for the messages of \<open>types.go\<close> and
  \<open>descriptors.go\<close>, what it reads into them, and the dispatch of a call by its full method name
  through the registered descriptors, with the interceptor.

  Messages are JSON values, as in theory Http; \<open>None\<close> stands for bytes that are not one JSON
  value. Their strings are valid UTF-8 and their numbers are spelled as the encoder spells
  them, so that a number with an integral value is an integer literal. The gRPC library chooses
  the codec by the content subtype and turns the errors of the codec and unknown methods into
  status errors: the record \<open>grpclib\<close>.
\<close>

section \<open>What the encoder renders\<close>

definition tokenRequestJSON :: "TokenRequest \<Rightarrow> json" where
  "tokenRequestJSON r = JObject [(''name'', JString (gtName r)), (''role'', JString (gtRole r))]"

definition tokenResponseJSON :: "TokenResponse \<Rightarrow> json" where
  "tokenResponseJSON r =
     JObject [(''token'', JString (gtToken r)), (''expires_at'', JString (gtExpiresAt r))]"

definition submitOrderRequestJSON :: "SubmitOrderRequest \<Rightarrow> json" where
  "submitOrderRequestJSON r = JObject
     [(''origin'', locationJSON (gsOrigin r)), (''destination'', locationJSON (gsDestination r))]"

definition orderIDRequestJSON :: "OrderIDRequest \<Rightarrow> json" where
  "orderIDRequestJSON r = JObject [(''order_id'', JString (goOrderID r))]"

definition failOrderRequestJSON :: "FailOrderRequest \<Rightarrow> json" where
  "failOrderRequestJSON r =
     JObject [(''order_id'', JString (gfOrderID r)), (''reason'', JString (gfReason r))]"

definition heartbeatRequestJSON :: "HeartbeatRequest \<Rightarrow> json" where
  "heartbeatRequestJSON r = JObject [(''lat'', JNumber (ghLat r)), (''lng'', JNumber (ghLng r))]"

definition intJSON :: "int \<Rightarrow> json" where
  "intJSON n = JNumber (Fin (of_int n))"

definition listOrdersRequestJSON :: "ListOrdersRequest \<Rightarrow> json" where
  "listOrdersRequestJSON r = JObject
     [(''status'', JString (glStatus r)), (''limit'', intJSON (glLimit r)), (''offset'', intJSON (glOffset r))]"

text \<open>A nil pointer without \<open>omitempty\<close> is \<open>null\<close>.\<close>

definition ptrJSON :: "('a \<Rightarrow> json) \<Rightarrow> 'a option \<Rightarrow> json" where
  "ptrJSON f v = (case v of None \<Rightarrow> JNull | Some x \<Rightarrow> f x)"

definition updateOrderRequestJSON :: "UpdateOrderRequest \<Rightarrow> json" where
  "updateOrderRequestJSON r = JObject
     [(''order_id'', JString (guOrderID r)), (''origin'', ptrJSON locationJSON (guOrigin r)),
      (''destination'', ptrJSON locationJSON (guDestination r))]"

definition droneIDRequestJSON :: "DroneIDRequest \<Rightarrow> json" where
  "droneIDRequestJSON r = JObject [(''drone_id'', JString (gdDroneID r))]"

definition emptyJSON :: "Empty \<Rightarrow> json" where
  "emptyJSON r = JObject []"

definition listOrdersResponseJSON :: "ListOrdersResponse \<Rightarrow> json" where
  "listOrdersResponseJSON r = JObject [(''orders'', JArray (map orderViewJSON (grOrders r)))]"

definition listDronesResponseJSON :: "ListDronesResponse \<Rightarrow> json" where
  "listDronesResponseJSON r = JObject [(''drones'', JArray (map droneJSON (grDrones r)))]"

lemmas message_json_defs = tokenRequestJSON_def tokenResponseJSON_def submitOrderRequestJSON_def
  orderIDRequestJSON_def failOrderRequestJSON_def heartbeatRequestJSON_def intJSON_def
  listOrdersRequestJSON_def updateOrderRequestJSON_def droneIDRequestJSON_def emptyJSON_def

section \<open>What the decoder reads\<close>

text \<open>The zero \<open>time.Time\<close>, January 1 of year 1, in nanoseconds since the Unix epoch.\<close>

definition zeroTime :: time where
  "zeroTime = - 62135596800000000000"

text \<open>An \<open>int\<close>: a number that is not an integer of 64 bits is an error.\<close>

definition decInt :: "int decoder" where
  "decInt j n =
     (case j of
        JNumber (Fin r) \<Rightarrow>
          if r = of_int \<lfloor>r\<rfloor> \<and> - (2 ^ 63) \<le> \<lfloor>r\<rfloor> \<and> \<lfloor>r\<rfloor> < 2 ^ 63 then (\<lfloor>r\<rfloor>, True) else (n, False)
      | JNull \<Rightarrow> (n, True)
      | _ \<Rightarrow> (n, False))"

definition decTokenRequest :: "TokenRequest decoder" where
  "decTokenRequest = decStruct
     [(''name'', onField gtName (\<lambda>v r. r\<lparr>gtName := v\<rparr>) decString),
      (''role'', onField gtRole (\<lambda>v r. r\<lparr>gtRole := v\<rparr>) decString)]"

definition decTokenResponse :: "TokenResponse decoder" where
  "decTokenResponse = decStruct
     [(''token'', onField gtToken (\<lambda>v r. r\<lparr>gtToken := v\<rparr>) decString),
      (''expires_at'', onField gtExpiresAt (\<lambda>v r. r\<lparr>gtExpiresAt := v\<rparr>) decString)]"

definition decSubmitOrderRequest :: "SubmitOrderRequest decoder" where
  "decSubmitOrderRequest = decStruct
     [(''origin'', onField gsOrigin (\<lambda>v r. r\<lparr>gsOrigin := v\<rparr>) decLocation),
      (''destination'', onField gsDestination (\<lambda>v r. r\<lparr>gsDestination := v\<rparr>) decLocation)]"

definition decOrderIDRequest :: "OrderIDRequest decoder" where
  "decOrderIDRequest = decStruct
     [(''order_id'', onField goOrderID (\<lambda>v r. r\<lparr>goOrderID := v\<rparr>) decString)]"

definition decFailOrderRequest :: "FailOrderRequest decoder" where
  "decFailOrderRequest = decStruct
     [(''order_id'', onField gfOrderID (\<lambda>v r. r\<lparr>gfOrderID := v\<rparr>) decString),
      (''reason'', onField gfReason (\<lambda>v r. r\<lparr>gfReason := v\<rparr>) decString)]"

definition decHeartbeatRequest :: "HeartbeatRequest decoder" where
  "decHeartbeatRequest = decStruct
     [(''lat'', onField ghLat (\<lambda>v r. r\<lparr>ghLat := v\<rparr>) decFloat),
      (''lng'', onField ghLng (\<lambda>v r. r\<lparr>ghLng := v\<rparr>) decFloat)]"

definition decListOrdersRequest :: "ListOrdersRequest decoder" where
  "decListOrdersRequest = decStruct
     [(''status'', onField glStatus (\<lambda>v r. r\<lparr>glStatus := v\<rparr>) decString),
      (''limit'', onField glLimit (\<lambda>v r. r\<lparr>glLimit := v\<rparr>) decInt),
      (''offset'', onField glOffset (\<lambda>v r. r\<lparr>glOffset := v\<rparr>) decInt)]"

definition decUpdateOrderRequest :: "UpdateOrderRequest decoder" where
  "decUpdateOrderRequest = decStruct
     [(''order_id'', onField guOrderID (\<lambda>v r. r\<lparr>guOrderID := v\<rparr>) decString),
      (''origin'', onField guOrigin (\<lambda>v r. r\<lparr>guOrigin := v\<rparr>) (decPtr zeroLocation decLocation)),
      (''destination'', onField guDestination (\<lambda>v r. r\<lparr>guDestination := v\<rparr>) (decPtr zeroLocation decLocation))]"

definition decDroneIDRequest :: "DroneIDRequest decoder" where
  "decDroneIDRequest = decStruct
     [(''drone_id'', onField gdDroneID (\<lambda>v r. r\<lparr>gdDroneID := v\<rparr>) decString)]"

definition decEmpty :: "Empty decoder" where
  "decEmpty = decStruct []"

text \<open>The responses, as a client reads them. An instant that was rendered as a string is read back.\<close>

definition decTime :: "time decoder" where
  "decTime j t = (case j of JTime t' \<Rightarrow> (t', True) | JNull \<Rightarrow> (t, True) | _ \<Rightarrow> (t, False))"

definition decOrderResponse :: "OrderResponse decoder" where
  "decOrderResponse = decStruct
     [(''id'', onField rID (\<lambda>v r. r\<lparr>rID := v\<rparr>) decString),
      (''user_id'', onField rUserID (\<lambda>v r. r\<lparr>rUserID := v\<rparr>) decString),
      (''origin'', onField rOrigin (\<lambda>v r. r\<lparr>rOrigin := v\<rparr>) decLocation),
      (''destination'', onField rDestination (\<lambda>v r. r\<lparr>rDestination := v\<rparr>) decLocation),
      (''status'', onField rStatus (\<lambda>v r. r\<lparr>rStatus := v\<rparr>) decString),
      (''assigned_drone_id'', onField rAssignedDroneID (\<lambda>v r. r\<lparr>rAssignedDroneID := v\<rparr>) (decPtr [] decString)),
      (''handoff_origin'', onField rHandoffOrigin (\<lambda>v r. r\<lparr>rHandoffOrigin := v\<rparr>) (decPtr zeroLocation decLocation)),
      (''created_at'', onField rCreatedAt (\<lambda>v r. r\<lparr>rCreatedAt := v\<rparr>) decTime),
      (''updated_at'', onField rUpdatedAt (\<lambda>v r. r\<lparr>rUpdatedAt := v\<rparr>) decTime),
      (''reserved_at'', onField rReservedAt (\<lambda>v r. r\<lparr>rReservedAt := v\<rparr>) (decPtr zeroTime decTime)),
      (''picked_up_at'', onField rPickedUpAt (\<lambda>v r. r\<lparr>rPickedUpAt := v\<rparr>) (decPtr zeroTime decTime)),
      (''delivered_at'', onField rDeliveredAt (\<lambda>v r. r\<lparr>rDeliveredAt := v\<rparr>) (decPtr zeroTime decTime)),
      (''failed_at'', onField rFailedAt (\<lambda>v r. r\<lparr>rFailedAt := v\<rparr>) (decPtr zeroTime decTime)),
      (''failure_reason'', onField rFailureReason (\<lambda>v r. r\<lparr>rFailureReason := v\<rparr>) (decPtr [] decString))]"

definition zeroOrderResponse :: OrderResponse where
  "zeroOrderResponse =
     \<lparr>rID = [], rUserID = [], rOrigin = zeroLocation, rDestination = zeroLocation, rStatus = [],
      rAssignedDroneID = None, rHandoffOrigin = None, rCreatedAt = zeroTime, rUpdatedAt = zeroTime,
      rReservedAt = None, rPickedUpAt = None, rDeliveredAt = None, rFailedAt = None, rFailureReason = None\<rparr>"

definition decOrderViewResponse :: "OrderViewResponse decoder" where
  "decOrderViewResponse = decStruct
     [(''order'', onField rvOrder (\<lambda>v r. r\<lparr>rvOrder := v\<rparr>) decOrderResponse),
      (''current_location'',
        onField rvCurrentLocation (\<lambda>v r. r\<lparr>rvCurrentLocation := v\<rparr>) (decPtr zeroLocation decLocation)),
      (''eta_seconds'', onField rvETASeconds (\<lambda>v r. r\<lparr>rvETASeconds := v\<rparr>) (decPtr 0 decInt))]"

definition zeroOrderViewResponse :: OrderViewResponse where
  "zeroOrderViewResponse = \<lparr>rvOrder = zeroOrderResponse, rvCurrentLocation = None, rvETASeconds = None\<rparr>"

definition decDroneResponse :: "DroneResponse decoder" where
  "decDroneResponse = decStruct
     [(''id'', onField rdID (\<lambda>v r. r\<lparr>rdID := v\<rparr>) decString),
      (''status'', onField rdStatus (\<lambda>v r. r\<lparr>rdStatus := v\<rparr>) decString),
      (''last_location'', onField rdLastLocation (\<lambda>v r. r\<lparr>rdLastLocation := v\<rparr>) (decPtr zeroLocation decLocation)),
      (''last_heartbeat_at'', onField rdLastHeartbeatAt (\<lambda>v r. r\<lparr>rdLastHeartbeatAt := v\<rparr>) (decPtr zeroTime decTime)),
      (''current_order_id'', onField rdCurrentOrderID (\<lambda>v r. r\<lparr>rdCurrentOrderID := v\<rparr>) (decPtr [] decString)),
      (''created_at'', onField rdCreatedAt (\<lambda>v r. r\<lparr>rdCreatedAt := v\<rparr>) decTime),
      (''updated_at'', onField rdUpdatedAt (\<lambda>v r. r\<lparr>rdUpdatedAt := v\<rparr>) decTime)]"

definition zeroDroneResponse :: DroneResponse where
  "zeroDroneResponse =
     \<lparr>rdID = [], rdStatus = [], rdLastLocation = None, rdLastHeartbeatAt = None, rdCurrentOrderID = None,
      rdCreatedAt = zeroTime, rdUpdatedAt = zeroTime\<rparr>"

definition decDroneStatusResponse :: "DroneStatusResponse decoder" where
  "decDroneStatusResponse = decStruct
     [(''drone'', onField rsDrone (\<lambda>v r. r\<lparr>rsDrone := v\<rparr>) decDroneResponse),
      (''current_order'',
        onField rsCurrentOrder (\<lambda>v r. r\<lparr>rsCurrentOrder := v\<rparr>) (decPtr zeroOrderViewResponse decOrderViewResponse))]"

definition zeroDroneStatusResponse :: DroneStatusResponse where
  "zeroDroneStatusResponse = \<lparr>rsDrone = zeroDroneResponse, rsCurrentOrder = None\<rparr>"

lemmas message_dec_defs = decTokenRequest_def decTokenResponse_def decSubmitOrderRequest_def
  decOrderIDRequest_def decFailOrderRequest_def decHeartbeatRequest_def decListOrdersRequest_def
  decUpdateOrderRequest_def decDroneIDRequest_def decEmpty_def

text \<open>The messages \<open>new\<close> makes.\<close>

definition zeroTokenRequest :: TokenRequest where
  "zeroTokenRequest = \<lparr>gtName = '''', gtRole = ''''\<rparr>"
definition zeroTokenResponse :: TokenResponse where
  "zeroTokenResponse = \<lparr>gtToken = '''', gtExpiresAt = ''''\<rparr>"
definition zeroSubmitOrderRequest :: SubmitOrderRequest where
  "zeroSubmitOrderRequest = \<lparr>gsOrigin = zeroLocation, gsDestination = zeroLocation\<rparr>"
definition zeroOrderIDRequest :: OrderIDRequest where
  "zeroOrderIDRequest = \<lparr>goOrderID = ''''\<rparr>"
definition zeroFailOrderRequest :: FailOrderRequest where
  "zeroFailOrderRequest = \<lparr>gfOrderID = '''', gfReason = ''''\<rparr>"
definition zeroHeartbeatRequest :: HeartbeatRequest where
  "zeroHeartbeatRequest = \<lparr>ghLat = Fin 0, ghLng = Fin 0\<rparr>"
definition zeroListOrdersRequest :: ListOrdersRequest where
  "zeroListOrdersRequest = \<lparr>glStatus = '''', glLimit = 0, glOffset = 0\<rparr>"
definition zeroUpdateOrderRequest :: UpdateOrderRequest where
  "zeroUpdateOrderRequest = \<lparr>guOrderID = '''', guOrigin = None, guDestination = None\<rparr>"
definition zeroDroneIDRequest :: DroneIDRequest where
  "zeroDroneIDRequest = \<lparr>gdDroneID = ''''\<rparr>"

lemmas zero_defs = zeroTokenRequest_def zeroTokenResponse_def zeroSubmitOrderRequest_def
  zeroOrderIDRequest_def zeroFailOrderRequest_def zeroHeartbeatRequest_def zeroListOrdersRequest_def
  zeroUpdateOrderRequest_def zeroDroneIDRequest_def zeroLocation_def

section \<open>The codec\<close>

definition jsonCodecName :: string where
  "jsonCodecName = ''json''"

definition jsonMarshal :: "('v \<Rightarrow> json) \<Rightarrow> 'v \<Rightarrow> string + json" where
  "jsonMarshal render v =
     (if encodable (render v) then Inr (render v) else Inl ''json: unsupported value'')"

definition jsonUnmarshal :: "'v decoder \<Rightarrow> json option \<Rightarrow> 'v \<Rightarrow> string + 'v" where
  "jsonUnmarshal dec data v =
     (case decodeBody dec v data of
        None \<Rightarrow> Inl ''json: cannot unmarshal''
      | Some r \<Rightarrow> Inr r)"

section \<open>The server\<close>

record grpclib =
  decodeStatus :: "string \<Rightarrow> status"
  encodeStatus :: "string \<Rightarrow> status"
  unknownStatus :: "string \<Rightarrow> status"

definition unary ::
  "grpclib \<Rightarrow> Server \<Rightarrow> (goctx \<Rightarrow> status + 'q \<Rightarrow> ('q, 'r) interceptor option \<Rightarrow> 'r G) \<Rightarrow>
     'q decoder \<Rightarrow> 'q \<Rightarrow> ('r \<Rightarrow> json) \<Rightarrow> goctx \<Rightarrow> json option \<Rightarrow> json G" where
  "unary lib srv handler dec new render ctx data =
     bindM (handler ctx
         (case jsonUnmarshal dec data new of Inl e \<Rightarrow> Inl (decodeStatus lib e) | Inr q \<Rightarrow> Inr q)
         (Some (authInterceptor srv)))
       (\<lambda>r. case jsonMarshal render r of
           Inl e \<Rightarrow> throwM (encodeStatus lib e)
         | Inr j \<Rightarrow> returnM j)"

text \<open>\<open>NewServer\<close>: the methods of the four descriptors by their full names, with their handlers.\<close>

definition grpcMethods :: "grpclib \<Rightarrow> Server \<Rightarrow> (string \<times> (goctx \<Rightarrow> json option \<Rightarrow> json G)) list" where
  "grpcMethods lib srv =
    [(''/drone.AuthService/IssueToken'',
        unary lib srv (issueTokenHandler srv) decTokenRequest zeroTokenRequest tokenResponseJSON),
     (''/drone.DroneService/ReserveJob'',
        unary lib srv (reserveJobHandler srv) decEmpty () orderJSON),
     (''/drone.DroneService/PickupOrder'',
        unary lib srv (pickupOrderHandler srv) decOrderIDRequest zeroOrderIDRequest orderJSON),
     (''/drone.DroneService/DeliverOrder'',
        unary lib srv (deliverOrderHandler srv) decOrderIDRequest zeroOrderIDRequest orderJSON),
     (''/drone.DroneService/FailOrder'',
        unary lib srv (failOrderHandler srv) decFailOrderRequest zeroFailOrderRequest orderJSON),
     (''/drone.DroneService/MarkBroken'',
        unary lib srv (markBrokenHandler srv) decEmpty () droneJSON),
     (''/drone.DroneService/Heartbeat'',
        unary lib srv (heartbeatHandler srv) decHeartbeatRequest zeroHeartbeatRequest droneStatusJSON),
     (''/drone.DroneService/CurrentOrder'',
        unary lib srv (currentOrderHandler srv) decEmpty () orderViewJSON),
     (''/drone.OrderService/SubmitOrder'',
        unary lib srv (submitOrderHandler srv) decSubmitOrderRequest zeroSubmitOrderRequest orderJSON),
     (''/drone.OrderService/WithdrawOrder'',
        unary lib srv (withdrawOrderHandler srv) decOrderIDRequest zeroOrderIDRequest orderJSON),
     (''/drone.OrderService/GetOrder'',
        unary lib srv (getOrderHandler srv) decOrderIDRequest zeroOrderIDRequest orderViewJSON),
     (''/drone.AdminService/ListOrders'',
        unary lib srv (adminListOrdersHandler srv) decListOrdersRequest zeroListOrdersRequest listOrdersResponseJSON),
     (''/drone.AdminService/UpdateOrder'',
        unary lib srv (adminUpdateOrderHandler srv) decUpdateOrderRequest zeroUpdateOrderRequest orderJSON),
     (''/drone.AdminService/ListDrones'',
        unary lib srv (adminListDronesHandler srv) decEmpty () listDronesResponseJSON),
     (''/drone.AdminService/MarkDroneBroken'',
        unary lib srv (adminMarkDroneBrokenHandler srv) decDroneIDRequest zeroDroneIDRequest droneJSON),
     (''/drone.AdminService/MarkDroneFixed'',
        unary lib srv (adminMarkDroneFixedHandler srv) decDroneIDRequest zeroDroneIDRequest droneJSON)]"

definition serveGrpc :: "grpclib \<Rightarrow> Server \<Rightarrow> string \<Rightarrow> goctx \<Rightarrow> json option \<Rightarrow> json G" where
  "serveGrpc lib srv full ctx data =
     (case map_of (grpcMethods lib srv) full of
        None \<Rightarrow> throwM (unknownStatus lib full)
      | Some method \<Rightarrow> method ctx data)"

lemma grpc_methods_described:
  "map fst (grpcMethods lib srv) =
     concat (map (\<lambda>(name, ms). map (\<lambda>(m, full). CHR ''/'' # name @ CHR ''/'' # m) ms)
       [authServiceDesc, droneServiceDesc, orderServiceDesc, adminServiceDesc])"
  by (simp add: grpcMethods_def authServiceDesc_def droneServiceDesc_def orderServiceDesc_def adminServiceDesc_def)

section \<open>What is written is read back\<close>

lemma dec_members [simp]:
  "decString (JString t) s = (t, True)" "decFloat (JNumber x) y = (x, True)"
  "- (2 ^ 63) \<le> n \<Longrightarrow> n < 2 ^ 63 \<Longrightarrow> decInt (JNumber (Fin (of_int n))) m = (n, True)"
  by (simp_all add: decString_def decFloat_def decInt_def)

lemma location_read [simp]: "decLocation (locationJSON l) l' = (l, True)"
  by (simp add: decLocation_def locationJSON_def decStruct_def onField_def fieldFor_def)

lemma location_ptr_read [simp]: "decPtr zeroLocation decLocation (ptrJSON locationJSON v) v' = (v, True)"
proof -
  have "locationJSON l \<noteq> JNull" for l by (simp add: locationJSON_def)
  then show ?thesis by (cases v) (simp_all add: decPtr_def ptrJSON_def)
qed

locale message =
  fixes render :: "'v \<Rightarrow> json" and dec :: "'v decoder" and new :: 'v and fits :: "'v \<Rightarrow> bool"
  assumes read_back: "fits v \<Longrightarrow> dec (render v) new = (v, True)"
begin

lemma unmarshal_marshal:
  assumes "fits v" and "jsonMarshal render v = Inr j"
  shows "jsonUnmarshal dec (Some j) new = Inr v"
  using assms read_back [OF assms(1)]
  by (simp add: jsonMarshal_def jsonUnmarshal_def decodeBody_def split: if_splits)

lemma ptr_read_back:
  assumes "fits v" and "render v \<noteq> JNull"
  shows "decPtr new dec (render v) None = (Some v, True)"
  using assms read_back by (simp add: decPtr_def)

end

lemmas message_simps = message_json_defs message_dec_defs decStruct_def onField_def fieldFor_def

interpretation token_request: message tokenRequestJSON decTokenRequest zeroTokenRequest "\<lambda>_. True"
  by unfold_locales (simp add: message_simps)
interpretation token_response: message tokenResponseJSON decTokenResponse zeroTokenResponse "\<lambda>_. True"
  by unfold_locales (simp add: message_simps)
interpretation submit_order_request: message submitOrderRequestJSON decSubmitOrderRequest zeroSubmitOrderRequest "\<lambda>_. True"
  by unfold_locales (simp add: message_simps)
interpretation order_id_request: message orderIDRequestJSON decOrderIDRequest zeroOrderIDRequest "\<lambda>_. True"
  by unfold_locales (simp add: message_simps)
interpretation fail_order_request: message failOrderRequestJSON decFailOrderRequest zeroFailOrderRequest "\<lambda>_. True"
  by unfold_locales (simp add: message_simps)
interpretation heartbeat_request: message heartbeatRequestJSON decHeartbeatRequest zeroHeartbeatRequest "\<lambda>_. True"
  by unfold_locales (simp add: message_simps)
interpretation list_orders_request: message listOrdersRequestJSON decListOrdersRequest zeroListOrdersRequest
  "\<lambda>r. glLimit r \<in> {- (2 ^ 63) ..< 2 ^ 63} \<and> glOffset r \<in> {- (2 ^ 63) ..< 2 ^ 63}"
  by unfold_locales (simp add: message_simps)
interpretation update_order_request: message updateOrderRequestJSON decUpdateOrderRequest zeroUpdateOrderRequest "\<lambda>_. True"
  by unfold_locales (simp add: message_simps)
interpretation drone_id_request: message droneIDRequestJSON decDroneIDRequest zeroDroneIDRequest "\<lambda>_. True"
  by unfold_locales (simp add: message_simps)
interpretation empty_request: message emptyJSON decEmpty "()" "\<lambda>_. True"
  by unfold_locales (simp add: message_simps)

text \<open>A member that is left out when nil is read back into a nil pointer.\<close>

lemma decMembers_append:
  "decMembers fs (ms @ ns) r =
     (case decMembers fs ms r of (r', ok) \<Rightarrow> (case decMembers fs ns r' of (r'', ok') \<Rightarrow> (r'', ok \<and> ok')))"
  by (induction fs ms r rule: decMembers.induct) (auto split: option.splits prod.splits)

lemma omitted_read:
  assumes "fieldFor fs k = Some (onField get put (decPtr z d))" and "get r = None" and "put None r = r"
    and "\<And>x. v = Some x \<Longrightarrow> d (f x) z = (x, True) \<and> f x \<noteq> JNull"
  shows "decMembers fs (omitEmpty k f v) r = (put v r, True)"
  using assms by (cases v) (simp_all add: omitEmpty_def onField_def decPtr_def)

lemma ptr_members [simp]:
  "decTime (JTime t) t' = (t, True)" "locationJSON l \<noteq> JNull"
  by (simp_all add: decTime_def locationJSON_def)

lemmas response_simps = decStruct_def decMembers_append omitted_read fieldFor_def onField_def

interpretation order_response: message orderJSON decOrderResponse zeroOrderResponse "\<lambda>_. True"
  by unfold_locales (simp add: decOrderResponse_def orderJSON_def zeroOrderResponse_def response_simps)

interpretation drone_response: message droneJSON decDroneResponse zeroDroneResponse "\<lambda>_. True"
  by unfold_locales (simp add: decDroneResponse_def droneJSON_def zeroDroneResponse_def response_simps)

definition etaFits :: "OrderViewResponse \<Rightarrow> bool" where
  "etaFits r \<longleftrightarrow> (\<forall>n. rvETASeconds r = Some n \<longrightarrow> n \<in> {- (2 ^ 63) ..< 2 ^ 63})"

interpretation order_view_response: message orderViewJSON decOrderViewResponse zeroOrderViewResponse etaFits
  by unfold_locales (simp add: decOrderViewResponse_def orderViewJSON_def zeroOrderViewResponse_def etaFits_def
      order_response.read_back response_simps)

interpretation drone_status_response: message droneStatusJSON decDroneStatusResponse zeroDroneStatusResponse
  "\<lambda>r. \<forall>v. rsCurrentOrder r = Some v \<longrightarrow> etaFits v"
proof unfold_locales
  fix r :: DroneStatusResponse
  have "orderViewJSON v \<noteq> JNull" for v by (simp add: orderViewJSON_def)
  moreover assume "\<forall>v. rsCurrentOrder r = Some v \<longrightarrow> etaFits v"
  ultimately show "decDroneStatusResponse (droneStatusJSON r) zeroDroneStatusResponse = (r, True)"
    by (simp add: decDroneStatusResponse_def droneStatusJSON_def zeroDroneStatusResponse_def
        drone_response.read_back order_view_response.read_back response_simps)
qed

end
