(* ===== verification/Agreement.thy ===== *)
theory Agreement
  imports Codec
begin

text \<open>
  The HTTP routes and the gRPC methods as two faces of one service: for a request of a route, the
  method and the JSON message that ask for the same over gRPC, and the relation between the two
  answers. The token route and \<open>GET /orders/{id}\<close>, which HTTP offers to end users only and gRPC
  to everybody with a token, are left out.
\<close>

section \<open>The same request over gRPC\<close>

fun grpcMethod :: "route \<Rightarrow> string" where
  "grpcMethod RtToken = ''/drone.AuthService/IssueToken''"
| "grpcMethod RtReserve = ''/drone.DroneService/ReserveJob''"
| "grpcMethod RtPickup = ''/drone.DroneService/PickupOrder''"
| "grpcMethod RtDeliver = ''/drone.DroneService/DeliverOrder''"
| "grpcMethod RtFail = ''/drone.DroneService/FailOrder''"
| "grpcMethod RtBroken = ''/drone.DroneService/MarkBroken''"
| "grpcMethod RtHeartbeat = ''/drone.DroneService/Heartbeat''"
| "grpcMethod RtCurrent = ''/drone.DroneService/CurrentOrder''"
| "grpcMethod RtSubmit = ''/drone.OrderService/SubmitOrder''"
| "grpcMethod RtWithdraw = ''/drone.OrderService/WithdrawOrder''"
| "grpcMethod RtGetOrder = ''/drone.OrderService/GetOrder''"
| "grpcMethod RtListOrders = ''/drone.AdminService/ListOrders''"
| "grpcMethod RtUpdate = ''/drone.AdminService/UpdateOrder''"
| "grpcMethod RtListDrones = ''/drone.AdminService/ListDrones''"
| "grpcMethod RtDroneBroken = ''/drone.AdminService/MarkDroneBroken''"
| "grpcMethod RtDroneFixed = ''/drone.AdminService/MarkDroneFixed''"

text \<open>
  The message: the body itself where the path carries nothing, otherwise what was read from the
  body, the path and the query. \<open>None\<close>: the body does not decode, or the route is left out.
\<close>

fun grpcMessage :: "route \<Rightarrow> httpReq \<Rightarrow> json option" where
  "grpcMessage RtReserve req = Some (emptyJSON ())"
| "grpcMessage RtBroken req = Some (emptyJSON ())"
| "grpcMessage RtCurrent req = Some (emptyJSON ())"
| "grpcMessage RtListDrones req = Some (emptyJSON ())"
| "grpcMessage RtPickup req = Some (orderIDRequestJSON \<lparr>goOrderID = hParamID req\<rparr>)"
| "grpcMessage RtDeliver req = Some (orderIDRequestJSON \<lparr>goOrderID = hParamID req\<rparr>)"
| "grpcMessage RtWithdraw req = Some (orderIDRequestJSON \<lparr>goOrderID = hParamID req\<rparr>)"
| "grpcMessage RtDroneBroken req = Some (droneIDRequestJSON \<lparr>gdDroneID = hParamID req\<rparr>)"
| "grpcMessage RtDroneFixed req = Some (droneIDRequestJSON \<lparr>gdDroneID = hParamID req\<rparr>)"
| "grpcMessage RtSubmit req =
     (case decodeBody decSubmit \<lparr>sbOrigin = zeroLocation, sbDestination = zeroLocation\<rparr> (hBody req) of
        None \<Rightarrow> None | Some b \<Rightarrow> hBody req)"
| "grpcMessage RtHeartbeat req =
     (case decodeBody decLocation zeroLocation (hBody req) of None \<Rightarrow> None | Some l \<Rightarrow> hBody req)"
| "grpcMessage RtFail req =
     map_option (\<lambda>reason. failOrderRequestJSON \<lparr>gfOrderID = hParamID req, gfReason = reason\<rparr>)
       (decodeBody decReason '''' (hBody req))"
| "grpcMessage RtUpdate req =
     map_option (\<lambda>b. updateOrderRequestJSON
         \<lparr>guOrderID = hParamID req, guOrigin = ubOrigin b, guDestination = ubDestination b\<rparr>)
       (decodeBody decUpdate \<lparr>ubOrigin = None, ubDestination = None\<rparr> (hBody req))"
| "grpcMessage RtListOrders req = Some (listOrdersRequestJSON
     \<lparr>glStatus = hQuery req ''status'', glLimit = fst (Atoi (hQuery req ''limit'')),
      glOffset = fst (Atoi (hQuery req ''offset''))\<rparr>)"
| "grpcMessage _ req = None"

section \<open>The same answer\<close>

text \<open>Lists come in an object over gRPC and alone over HTTP.\<close>

definition httpBody :: "route \<Rightarrow> json \<Rightarrow> json" where
  "httpBody rt j =
     (if rt = RtListOrders \<or> rt = RtListDrones
      then (case j of JObject ms \<Rightarrow> snd (hd ms) | _ \<Rightarrow> j) else j)"

fun httpCode :: "code \<Rightarrow> int" where
  "httpCode Unauthenticated = 401"
| "httpCode PermissionDenied = 403"
| "httpCode NotFound = 404"
| "httpCode Aborted = 409"
| "httpCode InvalidArgument = 422"
| "httpCode FailedPrecondition = 409"
| "httpCode Internal = 500"

text \<open>
  The states are the same; a result over gRPC is the body over HTTP; a status error is the HTTP
  status of its code, unless the result has no JSON rendering: then HTTP sends no body.
\<close>

definition sameReply :: "route \<Rightarrow> (gerror + httpResp) \<times> st \<Rightarrow> (status + json) \<times> st \<Rightarrow> bool" where
  "sameReply rt h g \<longleftrightarrow> snd h = snd g \<and>
     (case fst h of
        Inl e \<Rightarrow> False
      | Inr resp \<Rightarrow>
          (case fst g of
             Inr j \<Rightarrow> resp = \<lparr>respStatus = okStatus rt, respBody = Some (httpBody rt j)\<rparr>
           | Inl (Status c msg) \<Rightarrow>
               (respStatus resp = httpCode c \<and> respBody resp \<noteq> None) \<or>
               (respStatus resp = okStatus rt \<and> respBody resp = None)))"

lemma error_status:
  "\<exists>c msg. mapServiceError err = Status c msg \<and> respStatus (writeError err) = httpCode c \<and>
     respBody (writeError err) \<noteq> None"
  by (simp add: mapServiceError_def writeError_def respondJSON_def errorJSON_def)

lemma sameReply_error:
  assumes "respStatus resp = httpCode c" and "respBody resp \<noteq> None"
  shows "sameReply rt (Inr resp, s) (Inl (Status c msg), s)"
  using assms by (simp add: sameReply_def)

lemma unauthorised_replies:
  "respStatus (writeError ErrUnauthorized) = 401" "\<exists>y. respBody (writeError ErrUnauthorized) = Some y"
  "respStatus (writeError ErrForbidden) = 403" "\<exists>y. respBody (writeError ErrForbidden) = Some y"
  by (simp_all add: writeError_def respondJSON_def errorJSON_def)

text \<open>An answer of one kind, rendered on both sides.\<close>

definition marshalled :: "grpclib \<Rightarrow> ('r \<Rightarrow> json) \<Rightarrow> 'r G \<Rightarrow> json G" where
  "marshalled lib render m =
     bindM m (\<lambda>r. case jsonMarshal render r of Inl e \<Rightarrow> throwM (encodeStatus lib e) | Inr j \<Rightarrow> returnM j)"

lemma unary_decoded:
  assumes "jsonUnmarshal dec data new = Inr q"
  shows "unary lib srv h dec new render ctx data =
    marshalled lib render (h ctx (Inr q) (Some (authInterceptor srv)))"
  using assms by (simp add: unary_def marshalled_def)

lemma served_alike:
  assumes body: "\<And>x. httpBody rt (render (f (K x))) = answerJSON (K x)"
    and enc: "\<And>x. encodable (render (f (K x))) = encodable (answerJSON (K x))"
  shows "sameReply rt (reply (okStatus rt) answerJSON (answerM K m) E s)
      (marshalled lib render (respond f (answerM K m)) E s)"
proof (cases "m E s")
  case (Pair r s')
  show ?thesis
  proof (cases r)
    case (Inl err)
    with Pair error_status [of err] show ?thesis
      by (auto simp: reply_def marshalled_def respond_def answerM_def run_rules intro!: sameReply_error)
  next
    case (Inr x)
    with Pair show ?thesis
      by (cases "encodable (answerJSON (K x))"; cases "encodeStatus lib ''json: unsupported value''")
        (simp_all add: reply_def marshalled_def respond_def answerM_def run_rules jsonMarshal_def enc body
          respondJSON_def sameReply_def)
  qed
qed

lemma role_alike:
  assumes auth: "ctxMetadata ctx ''authorization'' = [hAuthorization req]"
    and req: "\<And>claims. httpRequest rt claims req = Some (r claims)"
    and kind: "\<And>claims. serve (srvSvc srv) (r claims) = answerM K (m claims)"
    and body: "\<And>x. httpBody rt (render (f (K x))) = answerJSON (K x)"
    and enc: "\<And>x. encodable (render (f (K x))) = encodable (answerJSON (K x))"
  shows "sameReply rt (requireRole srv role (serveRoute srv rt) req E s)
      (marshalled lib render (withRole srv ctx role (\<lambda>claims. respond f (serve (srvSvc srv) (r claims)))) E s)"
proof -
  let ?token = "ExtractBearerToken (hAuthorization req)"
  show ?thesis
  proof (cases "?token = ''''")
    case True
    with auth show ?thesis
      by (auto simp: requireRole_def marshalled_def withRole_def authenticated_def run_rules unauthorised_replies
          intro!: sameReply_error)
  next
    case False
    show ?thesis
    proof (cases "ParseToken (srvJWT srv) (srvAuth srv) ?token (clock E (nclock s))")
      case (Inl e)
      with False auth show ?thesis
        by (auto simp: requireRole_def marshalled_def withRole_def authenticated_def run_rules nowM_def
            unauthorised_replies intro!: sameReply_error)
    next
      case (Inr claims)
      let ?s = "s\<lparr>nclock := Suc (nclock s)\<rparr>"
      have run: "marshalled lib render (withRole srv ctx role k) E s =
          marshalled lib render
            (if Role claims \<noteq> role then throwM (Status PermissionDenied ''forbidden'') else k claims) E ?s"
        for k
        using False Inr auth by (simp add: marshalled_def withRole_def authenticated_def run_rules nowM_def)
      have run': "requireRole srv role (serveRoute srv rt) req E s =
          (if Role claims \<noteq> role then returnM (writeError ErrForbidden) else serveRoute srv rt claims req) E ?s"
        using False Inr by (simp add: requireRole_def run_rules nowM_def)
      show ?thesis
      proof (cases "Role claims = role")
        case True
        then show ?thesis using served_alike [where rt = rt and render = render and f = f and K = K, OF body enc]
          unfolding run run' by (simp add: serveRoute_def req kind)
      next
        case False
        then show ?thesis unfolding run run'
          by (auto simp: marshalled_def run_rules unauthorised_replies intro!: sameReply_error)
      qed
    qed
  qed
qed

section \<open>Every route\<close>

text \<open>Two structs with the same members decode alike.\<close>

definition alike :: "('a \<Rightarrow> 'b) \<Rightarrow> 'b decoder \<Rightarrow> 'a decoder \<Rightarrow> bool" where
  "alike \<phi> f g \<longleftrightarrow> (\<forall>j r. f j (\<phi> r) = map_prod \<phi> id (g j r))"

lemma alike_member:
  assumes "list_all2 (rel_prod (=) (alike \<phi>)) fs gs"
  shows "rel_option (alike \<phi>) (map_of fs k) (map_of gs k)"
    "rel_option (alike \<phi>) (map_of (map (\<lambda>(n, f). (h n, f)) fs) k) (map_of (map (\<lambda>(n, f). (h n, f)) gs) k)"
  using assms by (induction rule: list_all2_induct) auto

lemma alike_fieldFor:
  assumes "list_all2 (rel_prod (=) (alike \<phi>)) fs gs"
  shows "rel_option (alike \<phi>) (fieldFor fs k) (fieldFor gs k)"
  using alike_member(1) [OF assms, of k] alike_member(2) [OF assms, of foldName "foldName k"]
  by (auto simp: fieldFor_def elim!: option.rel_cases)

lemma alike_decStruct:
  assumes "list_all2 (rel_prod (=) (alike \<phi>)) fs gs"
  shows "alike \<phi> (decStruct fs) (decStruct gs)"
proof -
  have "decMembers fs ms (\<phi> r) = map_prod \<phi> id (decMembers gs ms r)" for ms r
  proof (induction ms arbitrary: r)
    case Nil
    show ?case by simp
  next
    case (Cons m ms)
    obtain k j where m: "m = (k, j)" by force
    from alike_fieldFor [OF assms, of k] show ?case
      by (cases rule: option.rel_cases) (auto simp: m Cons.IH alike_def split: prod.splits)
  qed
  then show ?thesis by (auto simp: alike_def decStruct_def split: json.splits)
qed

lemma alike_onField:
  assumes "\<And>r. get' (\<phi> r) = get r" and "\<And>v r. put' v (\<phi> r) = \<phi> (put v r)"
  shows "alike \<phi> (onField get' put' dec) (onField get put dec)"
  using assms by (auto simp: alike_def onField_def split: prod.splits)

lemma alike_decodeBody:
  assumes "alike \<phi> f g"
  shows "decodeBody f (\<phi> new) data = map_option \<phi> (decodeBody g new data)"
  using assms by (auto simp: decodeBody_def alike_def split: option.splits prod.splits)

lemma same_structs:
  "decodeBody decSubmit \<lparr>sbOrigin = zeroLocation, sbDestination = zeroLocation\<rparr> data =
     map_option (\<lambda>q. \<lparr>sbOrigin = gsOrigin q, sbDestination = gsDestination q\<rparr>)
       (decodeBody decSubmitOrderRequest zeroSubmitOrderRequest data)"
  "decodeBody decLocation zeroLocation data =
     map_option (\<lambda>q. \<lparr>tLat = ghLat q, tLng = ghLng q\<rparr>)
       (decodeBody decHeartbeatRequest zeroHeartbeatRequest data)"
proof -
  have "alike (\<lambda>q. \<lparr>sbOrigin = gsOrigin q, sbDestination = gsDestination q\<rparr>) decSubmit decSubmitOrderRequest"
    unfolding decSubmit_def decSubmitOrderRequest_def
    by (intro alike_decStruct) (auto intro!: alike_onField)
  from alike_decodeBody [OF this, of zeroSubmitOrderRequest data]
  show "decodeBody decSubmit \<lparr>sbOrigin = zeroLocation, sbDestination = zeroLocation\<rparr> data =
     map_option (\<lambda>q. \<lparr>sbOrigin = gsOrigin q, sbDestination = gsDestination q\<rparr>)
       (decodeBody decSubmitOrderRequest zeroSubmitOrderRequest data)" by (simp add: zeroSubmitOrderRequest_def)
  have "alike (\<lambda>q. \<lparr>tLat = ghLat q, tLng = ghLng q\<rparr>) decLocation decHeartbeatRequest"
    unfolding decLocation_def decHeartbeatRequest_def
    by (intro alike_decStruct) (auto intro!: alike_onField)
  from alike_decodeBody [OF this, of zeroHeartbeatRequest data]
  show "decodeBody decLocation zeroLocation data =
     map_option (\<lambda>q. \<lparr>tLat = ghLat q, tLng = ghLng q\<rparr>)
       (decodeBody decHeartbeatRequest zeroHeartbeatRequest data)" by (simp add: zero_defs)
qed

lemma unmarshal_message:
  "jsonUnmarshal decEmpty (Some (emptyJSON ())) new = Inr ()"
  "jsonUnmarshal decOrderIDRequest (Some (orderIDRequestJSON oi)) zeroOrderIDRequest = Inr oi"
  "jsonUnmarshal decDroneIDRequest (Some (droneIDRequestJSON di)) zeroDroneIDRequest = Inr di"
  "jsonUnmarshal decFailOrderRequest (Some (failOrderRequestJSON fo)) zeroFailOrderRequest = Inr fo"
  "jsonUnmarshal decUpdateOrderRequest (Some (updateOrderRequestJSON uo)) zeroUpdateOrderRequest = Inr uo"
  by (simp_all add: jsonUnmarshal_def decodeBody_def decEmpty_def emptyJSON_def decStruct_def order_id_request.read_back drone_id_request.read_back
      fail_order_request.read_back update_order_request.read_back)

lemma Atoi_fits: "fst (Atoi t) \<in> {- (2 ^ 63) ..< 2 ^ 63}"
  by (simp add: Atoi_def clampInt_def minInt_def maxInt_def split: list.splits option.splits)

lemma unmarshal_list:
  "jsonUnmarshal decListOrdersRequest (Some (listOrdersRequestJSON
     \<lparr>glStatus = st, glLimit = fst (Atoi a), glOffset = fst (Atoi b)\<rparr>)) zeroListOrdersRequest =
   Inr \<lparr>glStatus = st, glLimit = fst (Atoi a), glOffset = fst (Atoi b)\<rparr>"
  using Atoi_fits [of a] Atoi_fits [of b]
  by (simp add: jsonUnmarshal_def decodeBody_def list_orders_request.read_back)

lemma bodies_alike:
  "rt \<noteq> RtListOrders \<Longrightarrow> rt \<noteq> RtListDrones \<Longrightarrow> httpBody rt j = j"
  "httpBody RtListOrders (JObject [(k, j)]) = j" "httpBody RtListDrones (JObject [(k, j)]) = j"
  by (simp_all add: httpBody_def)

lemmas answers_alike = ansOrder_def ansView_def ansViews_def ansDrone_def ansDrones_def ansStatus_def
  listOrdersResponseJSON_def listDronesResponseJSON_def bodies_alike comp_def

lemma methods_found:
  assumes "jsonUnmarshal dec data new = Inr q"
    and "map_of (grpcMethods lib srv) full = Some (unary lib srv h dec new render)"
  shows "serveGrpc lib srv full ctx data = marshalled lib render (h ctx (Inr q) (Some (authInterceptor srv)))"
  using assms by (simp add: serveGrpc_def unary_decoded)


lemmas handlers_alike = order_handlers_serve drone_handlers_serve admin_handlers_serve

lemma method_entries:
  "map_of (grpcMethods lib srv) (grpcMethod RtReserve) = Some (unary lib srv (reserveJobHandler srv) decEmpty () orderJSON)"
  "map_of (grpcMethods lib srv) (grpcMethod RtPickup) =
     Some (unary lib srv (pickupOrderHandler srv) decOrderIDRequest zeroOrderIDRequest orderJSON)"
  "map_of (grpcMethods lib srv) (grpcMethod RtDeliver) =
     Some (unary lib srv (deliverOrderHandler srv) decOrderIDRequest zeroOrderIDRequest orderJSON)"
  "map_of (grpcMethods lib srv) (grpcMethod RtFail) =
     Some (unary lib srv (failOrderHandler srv) decFailOrderRequest zeroFailOrderRequest orderJSON)"
  "map_of (grpcMethods lib srv) (grpcMethod RtBroken) = Some (unary lib srv (markBrokenHandler srv) decEmpty () droneJSON)"
  "map_of (grpcMethods lib srv) (grpcMethod RtHeartbeat) =
     Some (unary lib srv (heartbeatHandler srv) decHeartbeatRequest zeroHeartbeatRequest droneStatusJSON)"
  "map_of (grpcMethods lib srv) (grpcMethod RtCurrent) = Some (unary lib srv (currentOrderHandler srv) decEmpty () orderViewJSON)"
  "map_of (grpcMethods lib srv) (grpcMethod RtSubmit) =
     Some (unary lib srv (submitOrderHandler srv) decSubmitOrderRequest zeroSubmitOrderRequest orderJSON)"
  "map_of (grpcMethods lib srv) (grpcMethod RtWithdraw) =
     Some (unary lib srv (withdrawOrderHandler srv) decOrderIDRequest zeroOrderIDRequest orderJSON)"
  "map_of (grpcMethods lib srv) (grpcMethod RtListOrders) =
     Some (unary lib srv (adminListOrdersHandler srv) decListOrdersRequest zeroListOrdersRequest listOrdersResponseJSON)"
  "map_of (grpcMethods lib srv) (grpcMethod RtUpdate) =
     Some (unary lib srv (adminUpdateOrderHandler srv) decUpdateOrderRequest zeroUpdateOrderRequest orderJSON)"
  "map_of (grpcMethods lib srv) (grpcMethod RtListDrones) =
     Some (unary lib srv (adminListDronesHandler srv) decEmpty () listDronesResponseJSON)"
  "map_of (grpcMethods lib srv) (grpcMethod RtDroneBroken) =
     Some (unary lib srv (adminMarkDroneBrokenHandler srv) decDroneIDRequest zeroDroneIDRequest droneJSON)"
  "map_of (grpcMethods lib srv) (grpcMethod RtDroneFixed) =
     Some (unary lib srv (adminMarkDroneFixedHandler srv) decDroneIDRequest zeroDroneIDRequest droneJSON)"
  by (simp_all add: grpcMethods_def)

lemma route_alike:
  assumes auth: "ctxMetadata ctx ''authorization'' = [hAuthorization req]"
    and "map_of (grpcMethods lib srv) (grpcMethod rt) = Some (unary lib srv h dec new render)"
    and "jsonUnmarshal dec (Some msg) new = Inr q"
    and "h ctx (Inr q) (Some (authInterceptor srv)) =
        withRole srv ctx role (\<lambda>claims. respond f (serve (srvSvc srv) (r claims)))"
    and "\<And>claims. serve (srvSvc srv) (r claims) = answerM K (m claims)"
    and "routeRole rt = role" and "rt \<noteq> RtToken" and "\<And>claims. httpRequest rt claims req = Some (r claims)"
    and "\<And>x. httpBody rt (render (f (K x))) = answerJSON (K x)"
    and "\<And>x. encodable (render (f (K x))) = encodable (answerJSON (K x))"
  shows "sameReply rt (ServeHTTP srv rt req E s) (serveGrpc lib srv (grpcMethod rt) ctx (Some msg) E s)"
  using role_alike [where rt = rt and r = r and K = K and m = m and render = render and f = f and srv = srv,
      OF auth assms(8,5,9,10)] methods_found [OF assms(3,2)] assms(4,6,7)
  by (simp add: ServeHTTP_serves del: serve.simps)

lemma body_sent:
  assumes "decodeBody dec new (Some msg) = Some q"
  shows "jsonUnmarshal dec (Some msg) new = Inr q"
  using assms by (simp add: jsonUnmarshal_def)

text \<open>Where the message comes from the body, and where it is made of the path and the query.\<close>

lemma body_faces_agree:
  assumes auth: "ctxMetadata ctx ''authorization'' = [hAuthorization req]"
    and msg: "grpcMessage rt req = Some msg" and rt: "rt \<in> {RtSubmit, RtHeartbeat, RtFail, RtUpdate}"
  shows "sameReply rt (ServeHTTP srv rt req E s) (serveGrpc lib srv (grpcMethod rt) ctx (Some msg) E s)"
  using rt
proof (elim insertE emptyE)
  assume rt: "rt = RtSubmit"
  with msg obtain q where "hBody req = Some msg" and
    q: "decodeBody decSubmitOrderRequest zeroSubmitOrderRequest (Some msg) = Some q"
    by (auto simp: same_structs split: option.splits)
  then show ?thesis unfolding rt
    by - (rule route_alike [OF auth method_entries(8) body_sent [OF q]], rule handlers_alike, rule serve.simps,
      simp_all add: answers_alike bodyRequest_def same_structs del: serve.simps)
next
  assume rt: "rt = RtHeartbeat"
  with msg obtain q where "hBody req = Some msg" and
    q: "decodeBody decHeartbeatRequest zeroHeartbeatRequest (Some msg) = Some q"
    by (auto simp: same_structs split: option.splits)
  then show ?thesis unfolding rt
    by - (rule route_alike [OF auth method_entries(6) body_sent [OF q]], rule handlers_alike, rule serve.simps,
      simp_all add: answers_alike bodyRequest_def same_structs fromT_def del: serve.simps)
next
  assume rt: "rt = RtFail"
  with msg obtain reason where "decodeBody decReason '''' (hBody req) = Some reason"
    and "msg = failOrderRequestJSON \<lparr>gfOrderID = hParamID req, gfReason = reason\<rparr>" by auto
  then show ?thesis unfolding rt
    by - (hypsubst, rule route_alike [OF auth method_entries(4) unmarshal_message(4)], rule handlers_alike,
      rule serve.simps, simp_all add: answers_alike bodyRequest_def del: serve.simps)
next
  assume rt: "rt = RtUpdate"
  with msg obtain b where "decodeBody decUpdate \<lparr>ubOrigin = None, ubDestination = None\<rparr> (hBody req) = Some b"
    and "msg = updateOrderRequestJSON
      \<lparr>guOrderID = hParamID req, guOrigin = ubOrigin b, guDestination = ubDestination b\<rparr>" by auto
  then show ?thesis unfolding rt
    by - (hypsubst, rule route_alike [OF auth method_entries(11) unmarshal_message(5)], rule handlers_alike,
      rule serve.simps, simp_all add: answers_alike bodyRequest_def del: serve.simps)
qed

lemma path_faces_agree:
  assumes auth: "ctxMetadata ctx ''authorization'' = [hAuthorization req]"
    and msg: "grpcMessage rt req = Some msg" and rt: "rt \<notin> {RtSubmit, RtHeartbeat, RtFail, RtUpdate}"
  shows "sameReply rt (ServeHTTP srv rt req E s) (serveGrpc lib srv (grpcMethod rt) ctx (Some msg) E s)"
proof -
  have "rt \<in> {RtReserve, RtPickup, RtDeliver, RtBroken, RtCurrent, RtWithdraw, RtListOrders, RtListDrones,
      RtDroneBroken, RtDroneFixed}"
    using msg rt by (cases rt) simp_all
  from this msg show ?thesis
    by - (elim insertE emptyE; hypsubst; simp only: grpcMessage.simps option.inject; hypsubst;
      (rule route_alike [OF auth], rule method_entries, rule unmarshal_message unmarshal_list, rule handlers_alike,
       rule serve.simps, (simp add: answers_alike del: serve.simps)+))
qed

lemma faces_agree:
  assumes "ctxMetadata ctx ''authorization'' = [hAuthorization req]" and "grpcMessage rt req = Some msg"
  shows "sameReply rt (ServeHTTP srv rt req E s) (serveGrpc lib srv (grpcMethod rt) ctx (Some msg) E s)"
  using body_faces_agree [OF assms] path_faces_agree [OF assms] by blast

end
