(* ===== verification/GrpcClient.thy ===== *)
theory GrpcClient
  imports Agreement
begin

text \<open>
  The command line client \<open>tmp_grpc_client.go\<close>: it gets two tokens, submits an order as an end
  user, reserves a job as a drone and sends a heartbeat. The connection is an argument, what
  \<open>grpc.Dial\<close> returns: a call takes the outgoing metadata, the full method name and the bytes of
  the request. An error makes the program end with a message: the error is that message's label
  and the status. The result is what the program prints.
\<close>

section \<open>The program\<close>

type_synonym metadata = "string \<Rightarrow> string list"
type_synonym grpcConn = "metadata \<Rightarrow> string \<Rightarrow> json option \<Rightarrow> json G"
type_synonym 'a script = "(env, st, string \<times> status, 'a) prog"

text \<open>\<open>conn.Invoke\<close> with the codec forced on the connection.\<close>

definition Invoke ::
  "grpclib \<Rightarrow> grpcConn \<Rightarrow> metadata \<Rightarrow> string \<Rightarrow> ('q \<Rightarrow> json) \<Rightarrow> 'q \<Rightarrow> 'r decoder \<Rightarrow> 'r \<Rightarrow> 'r G" where
  "Invoke lib conn ctx full render args dec out =
     (case jsonMarshal render args of
        Inl e \<Rightarrow> throwM (encodeStatus lib e)
      | Inr data \<Rightarrow>
          bindM (conn ctx full (Some data)) (\<lambda>data'.
          case jsonUnmarshal dec (Some data') out of
            Inl e \<Rightarrow> throwM (decodeStatus lib e)
          | Inr r \<Rightarrow> returnM r))"

definition withBearer :: "metadata \<Rightarrow> string \<Rightarrow> metadata" where
  "withBearer ctx token = (\<lambda>k. if k = ''authorization'' then [''Bearer '' @ token] else [])"

text \<open>\<open>if err != nil { log.Fatalf("...: %v", err) }\<close>\<close>

definition orFatal :: "string \<Rightarrow> 'a G \<Rightarrow> 'a script" where
  "orFatal what m = mapErrM (Pair what) m"

definition issueToken :: "grpclib \<Rightarrow> grpcConn \<Rightarrow> metadata \<Rightarrow> string \<Rightarrow> string \<Rightarrow> string script" where
  "issueToken lib conn ctx name role =
     bindM (orFatal ''issue token'' (Invoke lib conn ctx ''/drone.AuthService/IssueToken''
         tokenRequestJSON \<lparr>gtName = name, gtRole = role\<rparr> decTokenResponse zeroTokenResponse))
       (\<lambda>resp. returnM (gtToken resp))"

text \<open>The coordinates in the source: the doubles nearest to the decimals.\<close>

definition submitOrigin :: TLocation where
  "submitOrigin = \<lparr>tLat = Fin (1739064996109117 / 70368744177664), tLng = Fin (6568964490231441 / 140737488355328)\<rparr>"

definition submitDestination :: TLocation where
  "submitDestination =
     \<lparr>tLat = Fin (6973345515522805 / 281474976710656), tLng = Fin (6577873173244333 / 140737488355328)\<rparr>"

definition heartbeatAt :: HeartbeatRequest where
  "heartbeatAt = \<lparr>ghLat = Fin (869757678035927 / 35184372088832), ghLng = Fin (6569625956426711 / 140737488355328)\<rparr>"

definition background :: metadata where
  "background = (\<lambda>_. [])"

definition grpcClientMain :: "grpclib \<Rightarrow> grpcConn \<Rightarrow> string list script" where
  "grpcClientMain lib conn =
     bindM (issueToken lib conn background ''alice'' ''enduser'') (\<lambda>endTok.
     bindM (issueToken lib conn background ''dr-1'' ''drone'') (\<lambda>droneTok.
     let ctxEnd = withBearer background endTok in
     bindM (orFatal ''submit'' (Invoke lib conn ctxEnd ''/drone.OrderService/SubmitOrder''
         submitOrderRequestJSON \<lparr>gsOrigin = submitOrigin, gsDestination = submitDestination\<rparr>
         decOrderResponse zeroOrderResponse)) (\<lambda>order.
     let ctxDrone = withBearer background droneTok in
     bindM (orFatal ''reserve'' (Invoke lib conn ctxDrone ''/drone.DroneService/ReserveJob''
         emptyJSON () decOrderResponse zeroOrderResponse)) (\<lambda>reserved.
     bindM (orFatal ''heartbeat'' (Invoke lib conn ctxDrone ''/drone.DroneService/Heartbeat''
         heartbeatRequestJSON heartbeatAt decDroneStatusResponse zeroDroneStatusResponse)) (\<lambda>st.
     returnM [''order id: '' @ rID order, ''reserved status: '' @ rStatus reserved,
       ''heartbeat ok: drone= '' @ rdID (rsDrone st), ''gRPC JSON client OK''])))))"

section \<open>The calls that reach the service\<close>

text \<open>The connection carries the metadata and the message to the server, and its answer back.\<close>

definition delivers :: "grpclib \<Rightarrow> Server \<Rightarrow> grpcConn \<Rightarrow> bool" where
  "delivers lib srv conn \<longleftrightarrow> (\<forall>md full data. \<exists>ctx.
     ctxMetadata ctx ''authorization'' = md ''authorization'' \<and>
     conn md full data = serveGrpc lib srv full ctx data)"

text \<open>A token as the library writes it: not empty, without white space at its ends.\<close>

definition plainToken :: "string \<Rightarrow> bool" where
  "plainToken t \<longleftrightarrow> t \<noteq> '''' \<and> TrimSpace t = t"

text \<open>
  What a call of the script amounts to: the clock reading that checks the token, one request
  of the service, and its response, if it has a JSON rendering.
\<close>

definition servedCall ::
  "grpclib \<Rightarrow> Server \<Rightarrow> string \<Rightarrow> ('r \<Rightarrow> json) \<Rightarrow> (answer \<Rightarrow> 'r) \<Rightarrow> request \<Rightarrow> 'r script" where
  "servedCall lib srv what render f req = orFatal what
     (bindM (mapErrM mapServiceError nowM) (\<lambda>_.
      bindM (respond f (serve (srvSvc srv) req)) (\<lambda>r.
      if encodable (render r) then returnM r else throwM (encodeStatus lib ''json: unsupported value''))))"

definition scenario :: "grpclib \<Rightarrow> Server \<Rightarrow> string list script" where
  "scenario lib srv =
     bindM (servedCall lib srv ''submit'' orderJSON ansOrder
        (ReqSubmit ''alice'' (fromT submitOrigin) (fromT submitDestination))) (\<lambda>order.
     bindM (servedCall lib srv ''reserve'' orderJSON ansOrder (ReqReserve ''dr-1'')) (\<lambda>reserved.
     bindM (servedCall lib srv ''heartbeat'' droneStatusJSON ansStatus
        (ReqHeartbeat ''dr-1'' \<lparr>Lat = ghLat heartbeatAt, Lng = ghLng heartbeatAt\<rparr>)) (\<lambda>st.
     returnM [''order id: '' @ rID order, ''reserved status: '' @ rStatus reserved,
       ''heartbeat ok: drone= '' @ rdID (rsDrone st), ''gRPC JSON client OK''])))"

lemma bearer_read:
  assumes "ctxMetadata ctx ''authorization'' = withBearer md tok ''authorization''" and "plainToken tok"
  shows "authenticated srv ctx k E s =
     (case ParseToken (srvJWT srv) (srvAuth srv) tok (clock E (nclock s)) of
        Inl e \<Rightarrow> (Inl (Status Unauthenticated ''invalid token''), s\<lparr>nclock := Suc (nclock s)\<rparr>)
      | Inr claims \<Rightarrow> k claims E (s\<lparr>nclock := Suc (nclock s)\<rparr>))"
proof -
  have "ExtractBearerToken (''Bearer'' @ CHR '' '' # tok) = tok"
    using assms(2) by (subst ExtractBearerToken_def, subst SplitN2_word)
      (simp_all add: EqualFold_def plainToken_def SplitN2_word)
  then show ?thesis using assms
    by (simp add: authenticated_def withBearer_def plainToken_def run_rules nowM_def split: sum.splits)
qed

lemma authorised_call:
  assumes conn: "delivers lib srv conn" and tok: "plainToken tok"
    and parse: "ParseToken (srvJWT srv) (srvAuth srv) tok (clock E (nclock s)) = Inr claims" "Role claims = role"
    and entry: "map_of (grpcMethods lib srv) full = Some (unary lib srv h dec new render)"
    and args: "jsonMarshal rq args = Inr data" "jsonUnmarshal dec (Some data) new = Inr args"
    and handler: "\<And>ctx. h ctx (Inr args) (Some (authInterceptor srv)) =
        withRole srv ctx role (\<lambda>claims. respond f (serve (srvSvc srv) (r claims)))"
    and reply: "\<And>a s'. serve (srvSvc srv) (r claims) E (s\<lparr>nclock := Suc (nclock s)\<rparr>) = (Inr a, s') \<Longrightarrow>
        rdec (render (f a)) zero = (f a, True)"
  shows "orFatal what (Invoke lib conn (withBearer md tok) full rq args rdec zero) E s =
    servedCall lib srv what render f (r claims) E s"
proof -
  obtain ctx where ctx: "ctxMetadata ctx ''authorization'' = withBearer md tok ''authorization''"
    "conn (withBearer md tok) full (Some data) = serveGrpc lib srv full ctx (Some data)"
    using conn unfolding delivers_def by metis
  let ?s = "s\<lparr>nclock := Suc (nclock s)\<rparr>"
  have "serveGrpc lib srv full ctx (Some data) E s =
      marshalled lib render (respond f (serve (srvSvc srv) (r claims))) E ?s"
    using methods_found [OF args(2) entry] handler [of ctx] parse
    by (simp add: marshalled_def withRole_def run_bindM bearer_read [OF ctx(1) tok])
  moreover have "Invoke lib conn (withBearer md tok) full rq args rdec zero E s =
      (case serveGrpc lib srv full ctx (Some data) E s of
         (Inl e, s') \<Rightarrow> (Inl e, s')
       | (Inr data', s') \<Rightarrow> (case jsonUnmarshal rdec (Some data') zero of
            Inl e \<Rightarrow> (Inl (decodeStatus lib e), s') | Inr x \<Rightarrow> (Inr x, s')))"
    using ctx(2) by (simp add: Invoke_def args run_rules split: prod.splits sum.splits)
  ultimately show ?thesis using reply
    by (cases "serve (srvSvc srv) (r claims) E ?s"; cases "fst (serve (srvSvc srv) (r claims) E ?s)")
      (auto simp: orFatal_def servedCall_def marshalled_def respond_def run_rules nowM_def
        jsonMarshal_def jsonUnmarshal_def decodeBody_def)
qed

text \<open>The token call needs no token.\<close>

lemma token_call:
  assumes conn: "delivers lib srv conn" and name: "name \<noteq> ''''" "ValidateRole role"
    and run: "IssueToken (srvJWT srv) (srvAuth srv) name role E s = (Inr (tok, expiry), s')"
  shows "issueToken lib conn md name role E s = (Inr tok, s')"
proof -
  let ?q = "\<lparr>gtName = name, gtRole = role\<rparr>"
  have enc: "jsonMarshal tokenRequestJSON ?q = Inr (tokenRequestJSON ?q)"
    by (simp add: jsonMarshal_def tokenRequestJSON_def)
  obtain ctx where ctx: "conn md ''/drone.AuthService/IssueToken'' (Some (tokenRequestJSON ?q)) =
      serveGrpc lib srv ''/drone.AuthService/IssueToken'' ctx (Some (tokenRequestJSON ?q))"
    using conn unfolding delivers_def by metis
  have "map_of (grpcMethods lib srv) ''/drone.AuthService/IssueToken'' =
      Some (unary lib srv (issueTokenHandler srv) decTokenRequest zeroTokenRequest tokenResponseJSON)"
    by (simp add: grpcMethods_def)
  note served = methods_found [OF token_request.unmarshal_marshal [OF TrueI enc] this, of ctx]
  have "serveGrpc lib srv ''/drone.AuthService/IssueToken'' ctx (Some (tokenRequestJSON ?q)) E s =
      (Inr (tokenResponseJSON \<lparr>gtToken = tok, gtExpiresAt = formatRFC3339 expiry\<rparr>), s')"
    unfolding served using name run
    by (simp add: marshalled_def issueTokenHandler_def unaryHandler_def authInterceptor_def grpcIssueToken_def
        run_rules jsonMarshal_def tokenResponseJSON_def)
  then show ?thesis
    by (simp add: issueToken_def orFatal_def Invoke_def enc ctx run_rules jsonUnmarshal_def decodeBody_def
        token_response.read_back)
qed

section \<open>How often an operation reads the clock\<close>

definition reads :: "nat \<Rightarrow> 'a M \<Rightarrow> bool" where
  "reads k m \<longleftrightarrow> (\<forall>E s. nclock s \<le> nclock (snd (m E s)) \<and> nclock (snd (m E s)) \<le> nclock s + k)"

lemma readsD: "reads k m \<Longrightarrow> m E s = (r, s') \<Longrightarrow> nclock s \<le> nclock s' \<and> nclock s' \<le> nclock s + k"
  unfolding reads_def by (metis snd_conv)

lemma reads_bindM:
  assumes "reads k m" and "\<And>x. reads l (f x)"
  shows "reads (k + l) (bindM m f)"
  unfolding reads_def
proof (intro allI)
  fix E s
  obtain r s1 where m: "m E s = (r, s1)" by force
  show "nclock s \<le> nclock (snd (bindM m f E s)) \<and> nclock (snd (bindM m f E s)) \<le> nclock s + (k + l)"
  proof (cases r)
    case (Inl e)
    then show ?thesis using readsD [OF assms(1) m] by (simp add: run_bindM m)
  next
    case (Inr x)
    obtain r2 s2 where f: "f x E s1 = (r2, s2)" by force
    show ?thesis using readsD [OF assms(1) m] readsD [OF assms(2) f] by (simp add: run_bindM m Inr f)
  qed
qed

lemma reads_mono: "reads k m \<Longrightarrow> k \<le> l \<Longrightarrow> reads l m"
  unfolding reads_def by (meson add_le_cancel_left le_trans)

lemma reads_seqM: "reads k m \<Longrightarrow> reads l n \<Longrightarrow> reads (k + l) (seqM m n)"
  unfolding seqM_def by (rule reads_bindM)

lemma reads_attemptM: "reads k m \<Longrightarrow> reads k (attemptM m)"
  unfolding reads_def run_attemptM by (simp add: case_prod_beta)

lemma reads_max: "reads k m \<Longrightarrow> reads (max k l) m" "reads l m \<Longrightarrow> reads (max k l) m"
  by (erule reads_mono, simp)+

lemma reads_branches:
  "reads k m \<Longrightarrow> reads l n \<Longrightarrow> reads (max k l) (if b then m else n)"
  "reads k m \<Longrightarrow> (\<And>x. reads l (f x)) \<Longrightarrow> reads (max k l) (case v of None \<Rightarrow> m | Some x \<Rightarrow> f x)"
  "(\<And>e. reads k (g e)) \<Longrightarrow> (\<And>y. reads l (h y)) \<Longrightarrow> reads (max k l) (case r of Inl e \<Rightarrow> g e | Inr y \<Rightarrow> h y)"
  "(\<And>x. reads k (f x)) \<Longrightarrow> reads k (Let z f)"
  by (simp_all add: reads_max split: option.split sum.split)

lemma wp_reads:
  assumes "\<And>E s. wp m (\<lambda>_ s'. nclock s \<le> nclock s' \<and> nclock s' \<le> nclock s + k)
      (\<lambda>_ s'. nclock s \<le> nclock s' \<and> nclock s' \<le> nclock s + k) E s"
  shows "reads k m"
  unfolding reads_def
proof (intro allI)
  fix E s
  from assms [of s E] show "nclock s \<le> nclock (snd (m E s)) \<and> nclock (snd (m E s)) \<le> nclock s + k"
    by (auto simp: wp_def split: prod.splits sum.splits)
qed

lemma reads_statements:
  "reads 0 (returnM x)" "reads 0 (throwM e)" "reads 1 nowM" "reads 0 newUUID"
  "reads 0 (GetDroneForUpdate i)" "reads 0 (CreateDrone dr)" "reads 0 (CreateOrder ord)"
  "reads 0 (UpdateOrder ord)" "reads 0 (UpdateDrone dr)" "reads 0 (EnqueueEvent ev)" "reads 0 Commit"
  by (rule wp_reads, simp add: wp_rules)+

lemma reads_ReserveNextOrder: "reads 0 (ReserveNextOrder allowed)"
  by (rule wp_reads) (simp add: wp_rules split: list.split)

lemma reads_withTx:
  assumes "reads k m"
  shows "reads k (withTx m)"
proof (rule wp_reads)
  fix E s
  let ?s = "(called s)\<lparr>work := db s\<rparr>"
  obtain r s' where "m E ?s = (r, s')" by force
  with readsD [OF assms this] show "wp (withTx m) (\<lambda>_ s'. nclock s \<le> nclock s' \<and> nclock s' \<le> nclock s + k)
      (\<lambda>_ s'. nclock s \<le> nclock s' \<and> nclock s' \<le> nclock s + k) E s"
    unfolding wp_withTx by (auto simp: wp_def split: prod.splits sum.splits)
qed

lemmas reads_rules = reads_withTx reads_bindM reads_seqM reads_attemptM reads_branches reads_statements reads_ReserveNextOrder

lemma submit_reads: "reads 1 (SubmitOrder user origin dest)"
  unfolding SubmitOrder_def enqueueOrderEvent_def commitReturn_def
  by (rule reads_mono, (rule reads_rules)+, simp)

lemma reserve_reads: "reads 2 (DroneReserveJob i)"
  unfolding DroneReserveJob_def getOrCreateDrone_def enqueueOrderEvent_def commitReturn_def
  by (rule reads_mono, (rule reads_rules)+, simp)

text \<open>The estimate in a status fits the 64 bits of its field.\<close>

lemma view_fits: "wp (buildOrderView S ord) (\<lambda>v s'. etaFits (FromOrderView v)) (\<lambda>_ _. True) E s"
proof -
  have "etaFits (FromOrderView \<lparr>vOrder = ord, vCurrentLocation = l, vETASeconds = ComputeETA F ord d v\<rparr>)" for l F d v
    using ComputeETA_range [of F ord d v]
    by (auto simp: etaFits_def FromOrderView_def int64_max_def Let_def split: option.splits)
  then show ?thesis by (simp add: buildOrderView_def wp_rules)
qed

lemma heartbeat_fits:
  "wp (DroneHeartbeat S i loc)
     (\<lambda>x s'. \<forall>v. rsCurrentOrder (FromDroneStatus x) = Some v \<longrightarrow> etaFits v) (\<lambda>_ _. True) E s"
  by (simp add: DroneHeartbeat_def getOrCreateDrone_def wp_rules FromDroneStatus_def Let_def view_fits)

section \<open>The script as a whole\<close>

text \<open>
  The tokens are valid for the eight clock readings the script can cause: two for the tokens,
  three for the checks of the tokens, three inside the first two requests.
\<close>

definition validWhile :: "Server \<Rightarrow> env \<Rightarrow> nat \<Rightarrow> nat \<Rightarrow> bool" where
  "validWhile srv E n k \<longleftrightarrow> (\<forall>i j. n \<le> i \<longrightarrow> i \<le> j \<longrightarrow> j < n + k \<longrightarrow>
     numericDate (srvJWT srv) (clock E i) \<le> clock E j \<and>
     clock E j < numericDate (srvJWT srv) (clock E i + ttl (srvAuth srv)))"

lemma issued_parsed:
  assumes "jwt_ok (srvJWT srv) signed" and "validWhile srv E n k"
    and run: "IssueToken (srvJWT srv) (srvAuth srv) name role E s = (Inr (tok, expiry), s')"
    and "n \<le> nclock s" and "nclock s \<le> j" and "j < n + k"
  shows "\<exists>claims. ParseToken (srvJWT srv) (srvAuth srv) tok (clock E j) = Inr claims \<and> Role claims = role \<and> Subject claims = name"
proof -
  let ?J = "srvJWT srv" and ?a = "srvAuth srv"
  let ?c = "\<lparr>Role = role, Subject = name, IssuedAt = Some (numericDate ?J (clock E (nclock s))),
     ExpiresAt = Some (numericDate ?J (clock E (nclock s) + ttl ?a))\<rparr>"
  have "jwtSign ?J SigningMethodHS256 ?c (secret ?a) = Inr tok"
    using run by (auto simp: IssueToken_def run_rules nowM_def Let_def split: sum.splits)
  moreover have law: "jwtSign ?J m c k = Inr tok \<Longrightarrow> f m = Inr k \<Longrightarrow> \<forall>x. ExpiresAt c = Some x \<longrightarrow> now < x \<Longrightarrow>
      \<forall>x. IssuedAt c = Some x \<longrightarrow> x \<le> now \<Longrightarrow> jwtParse ?J tok f now = Inr (Some c, True)" for m c k tok f now
    using assms(1) unfolding jwt_ok_def by blast
  moreover have "numericDate ?J (clock E (nclock s)) \<le> clock E j"
    "clock E j < numericDate ?J (clock E (nclock s) + ttl ?a)"
    using assms(2,4-6) unfolding validWhile_def by blast+
  moreover have "keyFunc ?a SigningMethodHS256 = Inr (secret ?a)" by (simp add: keyFunc_def)
  ultimately have "jwtParse ?J tok (keyFunc ?a) (clock E j) = Inr (Some ?c, True)"
    using law [of SigningMethodHS256 ?c "secret ?a" tok "keyFunc ?a" "clock E j"] by simp
  then show ?thesis by (simp add: ParseToken_def)
qed

lemma nclock_IssueToken:
  "IssueToken J a name role E s = (r, s') \<Longrightarrow> nclock s' = Suc (nclock s)"
  by (auto simp: IssueToken_def run_rules nowM_def Let_def split: sum.splits)

lemma servedCall_clock:
  "nclock (snd (servedCall lib srv what render f req E s)) =
     nclock (snd (serve (srvSvc srv) req E (s\<lparr>nclock := Suc (nclock s)\<rparr>)))"
  by (simp add: servedCall_def orFatal_def respond_def run_rules nowM_def split: prod.splits sum.splits)

lemma script_reads:
  assumes "reads k (serve (srvSvc srv) req)"
    and "servedCall lib srv what render f req E s = (r, s')"
  shows "nclock s < nclock s' \<and> nclock s' \<le> nclock s + Suc k"
proof -
  let ?s = "s\<lparr>nclock := Suc (nclock s)\<rparr>"
  obtain r0 s0 where run: "serve (srvSvc srv) req E ?s = (r0, s0)" by force
  have "nclock s' = nclock s0" using servedCall_clock [of lib srv what render f req E s] assms(2) run by simp
  with readsD [OF assms(1) run] show ?thesis by simp
qed

lemma serve_reads:
  "reads 1 (serve S (ReqSubmit user origin dest))" "reads 2 (serve S (ReqReserve i))"
  unfolding serve.simps answerM_def
  by (rule reads_mono, rule reads_bindM, rule submit_reads, rule reads_statements, simp)
    (rule reads_mono, rule reads_bindM, rule reserve_reads, rule reads_statements, simp)

lemma submit_call:
  assumes "delivers lib srv conn" and "plainToken tok"
    and parse: "ParseToken (srvJWT srv) (srvAuth srv) tok (clock E (nclock s)) = Inr claims"
      "Role claims = RoleEndUser" "Subject claims = user"
    and fin: "encodable (submitOrderRequestJSON q)"
  shows "orFatal what (Invoke lib conn (withBearer md tok) ''/drone.OrderService/SubmitOrder''
      submitOrderRequestJSON q decOrderResponse zeroOrderResponse) E s =
    servedCall lib srv what orderJSON ansOrder (ReqSubmit user (fromT (gsOrigin q)) (fromT (gsDestination q))) E s"
  using authorised_call [OF assms(1,2) parse(1,2) method_entries(8) [unfolded grpcMethod.simps],
      where rq = submitOrderRequestJSON and args = q and data = "submitOrderRequestJSON q" and f = ansOrder
        and r = "\<lambda>c. ReqSubmit (Subject c) (fromT (gsOrigin q)) (fromT (gsDestination q))"
        and rdec = decOrderResponse and zero = zeroOrderResponse]
    fin parse(3)
  by (simp add: jsonMarshal_def jsonUnmarshal_def decodeBody_def submit_order_request.read_back
      order_handlers_serve order_response.read_back del: serve.simps)

lemma reserve_call:
  assumes "delivers lib srv conn" and "plainToken tok"
    and parse: "ParseToken (srvJWT srv) (srvAuth srv) tok (clock E (nclock s)) = Inr claims"
      "Role claims = RoleDrone" "Subject claims = i"
  shows "orFatal what (Invoke lib conn (withBearer md tok) ''/drone.DroneService/ReserveJob''
      emptyJSON () decOrderResponse zeroOrderResponse) E s =
    servedCall lib srv what orderJSON ansOrder (ReqReserve i) E s"
  using authorised_call [OF assms(1,2) parse(1,2) method_entries(1) [unfolded grpcMethod.simps],
      where rq = emptyJSON and args = "()" and data = "emptyJSON ()" and f = ansOrder
        and r = "\<lambda>c. ReqReserve (Subject c)" and rdec = decOrderResponse and zero = zeroOrderResponse]
    parse(3)
  by (simp add: jsonMarshal_def emptyJSON_def unmarshal_message [unfolded emptyJSON_def]
      drone_handlers_serve order_response.read_back del: serve.simps)

lemma heartbeat_call:
  assumes "delivers lib srv conn" and "plainToken tok"
    and parse: "ParseToken (srvJWT srv) (srvAuth srv) tok (clock E (nclock s)) = Inr claims"
      "Role claims = RoleDrone" "Subject claims = i"
    and fin: "encodable (heartbeatRequestJSON q)"
  shows "orFatal what (Invoke lib conn (withBearer md tok) ''/drone.DroneService/Heartbeat''
      heartbeatRequestJSON q decDroneStatusResponse zeroDroneStatusResponse) E s =
    servedCall lib srv what droneStatusJSON ansStatus (ReqHeartbeat i \<lparr>Lat = ghLat q, Lng = ghLng q\<rparr>) E s"
proof -
  have "decDroneStatusResponse (droneStatusJSON (ansStatus a)) zeroDroneStatusResponse = (ansStatus a, True)"
    if run: "serve (srvSvc srv) (ReqHeartbeat i loc) E s1 = (Inr a, s')" for a s' s1 loc
  proof -
    obtain x where "a = AnsStatus x" "DroneHeartbeat (srvSvc srv) i loc E s1 = (Inr x, s')"
      using run by (auto simp: answerM_def run_rules split: prod.splits sum.splits)
    with wp_okD [OF heartbeat_fits] show ?thesis
      by (intro drone_status_response.read_back) (simp add: ansStatus_def)
  qed
  then show ?thesis
    using authorised_call [OF assms(1,2) parse(1,2) method_entries(6) [unfolded grpcMethod.simps],
      where rq = heartbeatRequestJSON and args = q and data = "heartbeatRequestJSON q" and f = ansStatus
        and r = "\<lambda>c. ReqHeartbeat (Subject c) \<lparr>Lat = ghLat q, Lng = ghLng q\<rparr>"
        and rdec = decDroneStatusResponse and zero = zeroDroneStatusResponse]
      fin parse(3)
    by (simp add: jsonMarshal_def jsonUnmarshal_def decodeBody_def heartbeat_request.read_back
        drone_handlers_serve del: serve.simps)
qed

lemma script_runs:
  assumes conn: "delivers lib srv conn" and jwt: "jwt_ok (srvJWT srv) signed"
    and end_user: "IssueToken (srvJWT srv) (srvAuth srv) ''alice'' RoleEndUser E s = (Inr (t1, x1), s1)"
    and drone: "IssueToken (srvJWT srv) (srvAuth srv) ''dr-1'' RoleDrone E s1 = (Inr (t2, x2), s2)"
    and plain: "plainToken t1" "plainToken t2" and valid: "validWhile srv E (nclock s) 8"
  shows "grpcClientMain lib conn E s = scenario lib srv E s2"
proof -
  have clocks: "nclock s1 = Suc (nclock s)" "nclock s2 = Suc (Suc (nclock s))"
    using nclock_IssueToken [OF end_user] nclock_IssueToken [OF drone] by simp_all
  note parse1 = issued_parsed [OF jwt valid end_user order_refl]
  note parse2 = issued_parsed [OF jwt valid drone]
  have submit: "orFatal ''submit'' (Invoke lib conn (withBearer background t1) ''/drone.OrderService/SubmitOrder''
      submitOrderRequestJSON \<lparr>gsOrigin = submitOrigin, gsDestination = submitDestination\<rparr>
      decOrderResponse zeroOrderResponse) E s2 =
    servedCall lib srv ''submit'' orderJSON ansOrder
      (ReqSubmit ''alice'' (fromT submitOrigin) (fromT submitDestination)) E s2"
    using parse1 [of "nclock s2"] clocks submit_call [OF conn plain(1)]
    by (fastforce simp: submitOrderRequestJSON_def locationJSON_def submitOrigin_def submitDestination_def)
  have reserve: "orFatal ''reserve'' (Invoke lib conn (withBearer background t2) ''/drone.DroneService/ReserveJob''
      emptyJSON () decOrderResponse zeroOrderResponse) E s3 =
    servedCall lib srv ''reserve'' orderJSON ansOrder (ReqReserve ''dr-1'') E s3"
    if "nclock s2 \<le> nclock s3" "nclock s3 < nclock s + 8" for s3
    using parse2 [of "nclock s3"] clocks that reserve_call [OF conn plain(2)] by fastforce
  have beat: "orFatal ''heartbeat'' (Invoke lib conn (withBearer background t2) ''/drone.DroneService/Heartbeat''
      heartbeatRequestJSON heartbeatAt decDroneStatusResponse zeroDroneStatusResponse) E s4 =
    servedCall lib srv ''heartbeat'' droneStatusJSON ansStatus
      (ReqHeartbeat ''dr-1'' \<lparr>Lat = ghLat heartbeatAt, Lng = ghLng heartbeatAt\<rparr>) E s4"
    if "nclock s2 \<le> nclock s4" "nclock s4 < nclock s + 8" for s4
    using parse2 [of "nclock s4"] clocks that heartbeat_call [OF conn plain(2)]
    by (fastforce simp: heartbeatRequestJSON_def heartbeatAt_def)
  let ?r1 = "ReqSubmit ''alice'' (fromT submitOrigin) (fromT submitDestination)" and ?r2 = "ReqReserve ''dr-1''"
  have tokens: "issueToken lib conn background ''alice'' ''enduser'' E s = (Inr t1, s1)"
    "issueToken lib conn background ''dr-1'' ''drone'' E s1 = (Inr t2, s2)"
    using token_call [OF conn _ _ end_user] token_call [OF conn _ _ drone]
    by (simp_all add: ValidateRole_def role_defs)
  obtain r3 s3 where c1: "servedCall lib srv ''submit'' orderJSON ansOrder ?r1 E s2 = (r3, s3)" by force
  obtain r4 s4 where c2: "servedCall lib srv ''reserve'' orderJSON ansOrder ?r2 E s3 = (r4, s4)" by force
  have b3: "nclock s2 \<le> nclock s3" "nclock s3 < nclock s + 8"
    using script_reads [OF serve_reads(1) c1] clocks by simp_all
  moreover have "nclock s2 \<le> nclock s4" "nclock s4 < nclock s + 8"
    using script_reads [OF serve_reads(1) c1] script_reads [OF serve_reads(2) c2] clocks by simp_all
  ultimately show ?thesis
    using reserve [of s3] beat [of s4] c1 c2
    by (cases r3; cases r4)
      (simp_all add: grpcClientMain_def scenario_def run_bindM tokens submit run_returnM Let_def)
qed

end
