(* ===== verification/ThriftGen.thy ===== *)
theory ThriftGen
  imports ThriftWire
begin

text \<open>
  Directory \<open>tmp_thrift_gen\<close>: the structs of the interface \<open>thrift/drone_delivery.thrift\<close> as the
  Thrift compiler renders them in Go, with their \<open>Write\<close> and \<open>Read\<close> methods (and the \<open>writeField\<close>
  and \<open>ReadField\<close> methods these call). They are what a Go client of the Thrift interface links.

  A pointer is an option. \<open>Write\<close> may be called on a nil pointer and writes an empty struct for it.
  \<open>Read\<close> fills the struct it is called on. The texts that \<open>thrift.PrependError\<close> puts before the
  text of an error are left out. The bound \<open>n\<close> on the fields of a struct is that of theory ThriftIO.
\<close>

section \<open>What the methods have in common\<close>

definition writeStruct :: "string \<Rightarrow> ('r \<Rightarrow> ('p, unit) T list) \<Rightarrow> 'r option \<Rightarrow> ('p, unit) T" where
  "writeStruct name writeFields p = seqAll
     [WriteStructBegin name,
      (case p of None \<Rightarrow> returnM () | Some r \<Rightarrow> seqAll (writeFields r)),
      WriteFieldStop,
      WriteStructEnd]"

text \<open>
  The switch over the identifier of a field: a field of the declared type is read into the struct,
  any other one is skipped.
\<close>

definition switchField ::
  "(int \<times> ttype \<times> ('r \<Rightarrow> ('p, 'r) T)) list \<Rightarrow> ttype \<Rightarrow> int \<Rightarrow> 'r \<Rightarrow> ('p, 'r) T" where
  "switchField cases fieldTypeId fieldId p =
     (case map_of cases fieldId of
        Some (t, readField) \<Rightarrow>
          if fieldTypeId = t then readField p else seqM (Skip fieldTypeId) (returnM p)
      | None \<Rightarrow> seqM (Skip fieldTypeId) (returnM p))"

text \<open>The kinds of \<open>ReadField\<close> methods, by the type of the field they set.\<close>

definition readString :: "(string \<Rightarrow> 'r \<Rightarrow> 'r) \<Rightarrow> 'r \<Rightarrow> ('p, 'r) T" where
  "readString put_f p = bindM ReadString (\<lambda>v. returnM (put_f v p))"
definition readDouble :: "(float64 \<Rightarrow> 'r \<Rightarrow> 'r) \<Rightarrow> 'r \<Rightarrow> ('p, 'r) T" where
  "readDouble put_f p = bindM ReadDouble (\<lambda>v. returnM (put_f v p))"
definition readI64 :: "(int \<Rightarrow> 'r \<Rightarrow> 'r) \<Rightarrow> 'r \<Rightarrow> ('p, 'r) T" where
  "readI64 put_f p = bindM ReadI64 (\<lambda>v. returnM (put_f v p))"
definition readStringPtr :: "(string option \<Rightarrow> 'r \<Rightarrow> 'r) \<Rightarrow> 'r \<Rightarrow> ('p, 'r) T" where
  "readStringPtr put_f p = bindM ReadString (\<lambda>v. returnM (put_f (Some v) p))"
definition readI64Ptr :: "(int option \<Rightarrow> 'r \<Rightarrow> 'r) \<Rightarrow> 'r \<Rightarrow> ('p, 'r) T" where
  "readI64Ptr put_f p = bindM ReadI64 (\<lambda>v. returnM (put_f (Some v) p))"
definition readI32Ptr :: "(int option \<Rightarrow> 'r \<Rightarrow> 'r) \<Rightarrow> 'r \<Rightarrow> ('p, 'r) T" where
  "readI32Ptr put_f p = bindM ReadI32 (\<lambda>v. returnM (put_f (Some v) p))"
definition readStructPtr ::
  "('f \<Rightarrow> ('p, 'f) T) \<Rightarrow> 'f \<Rightarrow> ('f option \<Rightarrow> 'r \<Rightarrow> 'r) \<Rightarrow> 'r \<Rightarrow> ('p, 'r) T" where
  "readStructPtr read zero put_f p = bindM (read zero) (\<lambda>v. returnM (put_f (Some v) p))"

section \<open>Entities\<close>

record WLocation =
  wlLat :: float64
  wlLng :: float64

definition NewLocation :: WLocation where
  "NewLocation =
     \<lparr>wlLat = Fin 0, wlLng = Fin 0\<rparr>"

definition Location_Write :: "WLocation option \<Rightarrow> ('p, unit) T" where
  "Location_Write = writeStruct ''Location'' (\<lambda>p.
     [writeField ''lat'' DOUBLE 1 (WriteDouble (wlLat p)),
      writeField ''lng'' DOUBLE 2 (WriteDouble (wlLng p))])"

definition Location_Read :: "nat \<Rightarrow> WLocation \<Rightarrow> ('p, WLocation) T" where
  "Location_Read n = readStruct n (switchField
     [(1, DOUBLE, readDouble (\<lambda>v p. p\<lparr>wlLat := v\<rparr>)),
      (2, DOUBLE, readDouble (\<lambda>v p. p\<lparr>wlLng := v\<rparr>))])"

record WOrder =
  woID :: string
  woUserId :: string
  woOrigin :: "WLocation option"
  woDestination :: "WLocation option"
  woStatus :: string
  woAssignedDroneId :: "string option"
  woHandoffOrigin :: "WLocation option"
  woCreatedAt :: int
  woUpdatedAt :: int
  woReservedAt :: "int option"
  woPickedUpAt :: "int option"
  woDeliveredAt :: "int option"
  woFailedAt :: "int option"
  woFailureReason :: "string option"

definition NewOrder :: WOrder where
  "NewOrder =
     \<lparr>woID = '''', woUserId = '''', woOrigin = None, woDestination = None,
      woStatus = '''', woAssignedDroneId = None, woHandoffOrigin = None, woCreatedAt = 0,
      woUpdatedAt = 0, woReservedAt = None, woPickedUpAt = None, woDeliveredAt = None,
      woFailedAt = None, woFailureReason = None\<rparr>"

definition Order_Write :: "WOrder option \<Rightarrow> ('p, unit) T" where
  "Order_Write = writeStruct ''Order'' (\<lambda>p.
     [writeField ''id'' STRING 1 (WriteString (woID p)),
      writeField ''userId'' STRING 2 (WriteString (woUserId p)),
      writeField ''origin'' STRUCT 3 (Location_Write (woOrigin p)),
      writeField ''destination'' STRUCT 4 (Location_Write (woDestination p)),
      writeField ''status'' STRING 5 (WriteString (woStatus p)),
      writeOpt (woAssignedDroneId p) (\<lambda>v. writeField ''assignedDroneId'' STRING 6 (WriteString v)),
      writeOpt (woHandoffOrigin p) (\<lambda>v. writeField ''handoffOrigin'' STRUCT 7 (Location_Write (Some v))),
      writeField ''createdAt'' I64 8 (WriteI64 (woCreatedAt p)),
      writeField ''updatedAt'' I64 9 (WriteI64 (woUpdatedAt p)),
      writeOpt (woReservedAt p) (\<lambda>v. writeField ''reservedAt'' I64 10 (WriteI64 v)),
      writeOpt (woPickedUpAt p) (\<lambda>v. writeField ''pickedUpAt'' I64 11 (WriteI64 v)),
      writeOpt (woDeliveredAt p) (\<lambda>v. writeField ''deliveredAt'' I64 12 (WriteI64 v)),
      writeOpt (woFailedAt p) (\<lambda>v. writeField ''failedAt'' I64 13 (WriteI64 v)),
      writeOpt (woFailureReason p) (\<lambda>v. writeField ''failureReason'' STRING 14 (WriteString v))])"

definition Order_Read :: "nat \<Rightarrow> WOrder \<Rightarrow> ('p, WOrder) T" where
  "Order_Read n = readStruct n (switchField
     [(1, STRING, readString (\<lambda>v p. p\<lparr>woID := v\<rparr>)),
      (2, STRING, readString (\<lambda>v p. p\<lparr>woUserId := v\<rparr>)),
      (3, STRUCT, readStructPtr (Location_Read n) NewLocation (\<lambda>v p. p\<lparr>woOrigin := v\<rparr>)),
      (4, STRUCT, readStructPtr (Location_Read n) NewLocation (\<lambda>v p. p\<lparr>woDestination := v\<rparr>)),
      (5, STRING, readString (\<lambda>v p. p\<lparr>woStatus := v\<rparr>)),
      (6, STRING, readStringPtr (\<lambda>v p. p\<lparr>woAssignedDroneId := v\<rparr>)),
      (7, STRUCT, readStructPtr (Location_Read n) NewLocation (\<lambda>v p. p\<lparr>woHandoffOrigin := v\<rparr>)),
      (8, I64, readI64 (\<lambda>v p. p\<lparr>woCreatedAt := v\<rparr>)),
      (9, I64, readI64 (\<lambda>v p. p\<lparr>woUpdatedAt := v\<rparr>)),
      (10, I64, readI64Ptr (\<lambda>v p. p\<lparr>woReservedAt := v\<rparr>)),
      (11, I64, readI64Ptr (\<lambda>v p. p\<lparr>woPickedUpAt := v\<rparr>)),
      (12, I64, readI64Ptr (\<lambda>v p. p\<lparr>woDeliveredAt := v\<rparr>)),
      (13, I64, readI64Ptr (\<lambda>v p. p\<lparr>woFailedAt := v\<rparr>)),
      (14, STRING, readStringPtr (\<lambda>v p. p\<lparr>woFailureReason := v\<rparr>))])"

record WOrderView =
  wvOrder :: "WOrder option"
  wvCurrentLocation :: "WLocation option"
  wvEtaSeconds :: "int option"

definition NewOrderView :: WOrderView where
  "NewOrderView =
     \<lparr>wvOrder = None, wvCurrentLocation = None, wvEtaSeconds = None\<rparr>"

definition OrderView_Write :: "WOrderView option \<Rightarrow> ('p, unit) T" where
  "OrderView_Write = writeStruct ''OrderView'' (\<lambda>p.
     [writeField ''order'' STRUCT 1 (Order_Write (wvOrder p)),
      writeOpt (wvCurrentLocation p) (\<lambda>v. writeField ''currentLocation'' STRUCT 2 (Location_Write (Some v))),
      writeOpt (wvEtaSeconds p) (\<lambda>v. writeField ''etaSeconds'' I64 3 (WriteI64 v))])"

definition OrderView_Read :: "nat \<Rightarrow> WOrderView \<Rightarrow> ('p, WOrderView) T" where
  "OrderView_Read n = readStruct n (switchField
     [(1, STRUCT, readStructPtr (Order_Read n) NewOrder (\<lambda>v p. p\<lparr>wvOrder := v\<rparr>)),
      (2, STRUCT, readStructPtr (Location_Read n) NewLocation (\<lambda>v p. p\<lparr>wvCurrentLocation := v\<rparr>)),
      (3, I64, readI64Ptr (\<lambda>v p. p\<lparr>wvEtaSeconds := v\<rparr>))])"

record WDrone =
  wdID :: string
  wdStatus :: string
  wdLastLocation :: "WLocation option"
  wdLastHeartbeatAt :: "int option"
  wdCurrentOrderId :: "string option"
  wdCreatedAt :: int
  wdUpdatedAt :: int

definition NewDrone :: WDrone where
  "NewDrone =
     \<lparr>wdID = '''', wdStatus = '''', wdLastLocation = None, wdLastHeartbeatAt = None,
      wdCurrentOrderId = None, wdCreatedAt = 0, wdUpdatedAt = 0\<rparr>"

definition Drone_Write :: "WDrone option \<Rightarrow> ('p, unit) T" where
  "Drone_Write = writeStruct ''Drone'' (\<lambda>p.
     [writeField ''id'' STRING 1 (WriteString (wdID p)),
      writeField ''status'' STRING 2 (WriteString (wdStatus p)),
      writeOpt (wdLastLocation p) (\<lambda>v. writeField ''lastLocation'' STRUCT 3 (Location_Write (Some v))),
      writeOpt (wdLastHeartbeatAt p) (\<lambda>v. writeField ''lastHeartbeatAt'' I64 4 (WriteI64 v)),
      writeOpt (wdCurrentOrderId p) (\<lambda>v. writeField ''currentOrderId'' STRING 5 (WriteString v)),
      writeField ''createdAt'' I64 6 (WriteI64 (wdCreatedAt p)),
      writeField ''updatedAt'' I64 7 (WriteI64 (wdUpdatedAt p))])"

definition Drone_Read :: "nat \<Rightarrow> WDrone \<Rightarrow> ('p, WDrone) T" where
  "Drone_Read n = readStruct n (switchField
     [(1, STRING, readString (\<lambda>v p. p\<lparr>wdID := v\<rparr>)),
      (2, STRING, readString (\<lambda>v p. p\<lparr>wdStatus := v\<rparr>)),
      (3, STRUCT, readStructPtr (Location_Read n) NewLocation (\<lambda>v p. p\<lparr>wdLastLocation := v\<rparr>)),
      (4, I64, readI64Ptr (\<lambda>v p. p\<lparr>wdLastHeartbeatAt := v\<rparr>)),
      (5, STRING, readStringPtr (\<lambda>v p. p\<lparr>wdCurrentOrderId := v\<rparr>)),
      (6, I64, readI64 (\<lambda>v p. p\<lparr>wdCreatedAt := v\<rparr>)),
      (7, I64, readI64 (\<lambda>v p. p\<lparr>wdUpdatedAt := v\<rparr>))])"

record WDroneStatus =
  wsDrone :: "WDrone option"
  wsCurrentOrder :: "WOrderView option"

definition NewDroneStatus :: WDroneStatus where
  "NewDroneStatus =
     \<lparr>wsDrone = None, wsCurrentOrder = None\<rparr>"

definition DroneStatus_Write :: "WDroneStatus option \<Rightarrow> ('p, unit) T" where
  "DroneStatus_Write = writeStruct ''DroneStatus'' (\<lambda>p.
     [writeField ''drone'' STRUCT 1 (Drone_Write (wsDrone p)),
      writeOpt (wsCurrentOrder p) (\<lambda>v. writeField ''currentOrder'' STRUCT 2 (OrderView_Write (Some v)))])"

definition DroneStatus_Read :: "nat \<Rightarrow> WDroneStatus \<Rightarrow> ('p, WDroneStatus) T" where
  "DroneStatus_Read n = readStruct n (switchField
     [(1, STRUCT, readStructPtr (Drone_Read n) NewDrone (\<lambda>v p. p\<lparr>wsDrone := v\<rparr>)),
      (2, STRUCT, readStructPtr (OrderView_Read n) NewOrderView (\<lambda>v p. p\<lparr>wsCurrentOrder := v\<rparr>))])"

section \<open>Requests and the response of the token service\<close>

record WTokenRequest =
  wtName :: string
  wtRole :: string

definition NewTokenRequest :: WTokenRequest where
  "NewTokenRequest =
     \<lparr>wtName = '''', wtRole = ''''\<rparr>"

definition TokenRequest_Write :: "WTokenRequest option \<Rightarrow> ('p, unit) T" where
  "TokenRequest_Write = writeStruct ''TokenRequest'' (\<lambda>p.
     [writeField ''name'' STRING 1 (WriteString (wtName p)),
      writeField ''role'' STRING 2 (WriteString (wtRole p))])"

definition TokenRequest_Read :: "nat \<Rightarrow> WTokenRequest \<Rightarrow> ('p, WTokenRequest) T" where
  "TokenRequest_Read n = readStruct n (switchField
     [(1, STRING, readString (\<lambda>v p. p\<lparr>wtName := v\<rparr>)),
      (2, STRING, readString (\<lambda>v p. p\<lparr>wtRole := v\<rparr>))])"

record WTokenResponse =
  wrToken :: string
  wrExpiresAt :: int

definition NewTokenResponse :: WTokenResponse where
  "NewTokenResponse =
     \<lparr>wrToken = '''', wrExpiresAt = 0\<rparr>"

definition TokenResponse_Write :: "WTokenResponse option \<Rightarrow> ('p, unit) T" where
  "TokenResponse_Write = writeStruct ''TokenResponse'' (\<lambda>p.
     [writeField ''token'' STRING 1 (WriteString (wrToken p)),
      writeField ''expiresAt'' I64 2 (WriteI64 (wrExpiresAt p))])"

definition TokenResponse_Read :: "nat \<Rightarrow> WTokenResponse \<Rightarrow> ('p, WTokenResponse) T" where
  "TokenResponse_Read n = readStruct n (switchField
     [(1, STRING, readString (\<lambda>v p. p\<lparr>wrToken := v\<rparr>)),
      (2, I64, readI64 (\<lambda>v p. p\<lparr>wrExpiresAt := v\<rparr>))])"

record WSubmitOrderRequest =
  wbAuthToken :: string
  wbOrigin :: "WLocation option"
  wbDestination :: "WLocation option"

definition NewSubmitOrderRequest :: WSubmitOrderRequest where
  "NewSubmitOrderRequest =
     \<lparr>wbAuthToken = '''', wbOrigin = None, wbDestination = None\<rparr>"

definition SubmitOrderRequest_Write :: "WSubmitOrderRequest option \<Rightarrow> ('p, unit) T" where
  "SubmitOrderRequest_Write = writeStruct ''SubmitOrderRequest'' (\<lambda>p.
     [writeField ''authToken'' STRING 1 (WriteString (wbAuthToken p)),
      writeField ''origin'' STRUCT 2 (Location_Write (wbOrigin p)),
      writeField ''destination'' STRUCT 3 (Location_Write (wbDestination p))])"

definition SubmitOrderRequest_Read :: "nat \<Rightarrow> WSubmitOrderRequest \<Rightarrow> ('p, WSubmitOrderRequest) T" where
  "SubmitOrderRequest_Read n = readStruct n (switchField
     [(1, STRING, readString (\<lambda>v p. p\<lparr>wbAuthToken := v\<rparr>)),
      (2, STRUCT, readStructPtr (Location_Read n) NewLocation (\<lambda>v p. p\<lparr>wbOrigin := v\<rparr>)),
      (3, STRUCT, readStructPtr (Location_Read n) NewLocation (\<lambda>v p. p\<lparr>wbDestination := v\<rparr>))])"

record WOrderIDRequest =
  wiAuthToken :: string
  wiOrderId :: string

definition NewOrderIDRequest :: WOrderIDRequest where
  "NewOrderIDRequest =
     \<lparr>wiAuthToken = '''', wiOrderId = ''''\<rparr>"

definition OrderIDRequest_Write :: "WOrderIDRequest option \<Rightarrow> ('p, unit) T" where
  "OrderIDRequest_Write = writeStruct ''OrderIDRequest'' (\<lambda>p.
     [writeField ''authToken'' STRING 1 (WriteString (wiAuthToken p)),
      writeField ''orderId'' STRING 2 (WriteString (wiOrderId p))])"

definition OrderIDRequest_Read :: "nat \<Rightarrow> WOrderIDRequest \<Rightarrow> ('p, WOrderIDRequest) T" where
  "OrderIDRequest_Read n = readStruct n (switchField
     [(1, STRING, readString (\<lambda>v p. p\<lparr>wiAuthToken := v\<rparr>)),
      (2, STRING, readString (\<lambda>v p. p\<lparr>wiOrderId := v\<rparr>))])"

record WAuthRequest =
  waAuthToken :: string

definition NewAuthRequest :: WAuthRequest where
  "NewAuthRequest =
     \<lparr>waAuthToken = ''''\<rparr>"

definition AuthRequest_Write :: "WAuthRequest option \<Rightarrow> ('p, unit) T" where
  "AuthRequest_Write = writeStruct ''AuthRequest'' (\<lambda>p.
     [writeField ''authToken'' STRING 1 (WriteString (waAuthToken p))])"

definition AuthRequest_Read :: "nat \<Rightarrow> WAuthRequest \<Rightarrow> ('p, WAuthRequest) T" where
  "AuthRequest_Read n = readStruct n (switchField
     [(1, STRING, readString (\<lambda>v p. p\<lparr>waAuthToken := v\<rparr>))])"

record WFailOrderRequest =
  wfAuthToken :: string
  wfOrderId :: string
  wfReason :: string

definition NewFailOrderRequest :: WFailOrderRequest where
  "NewFailOrderRequest =
     \<lparr>wfAuthToken = '''', wfOrderId = '''', wfReason = ''''\<rparr>"

definition FailOrderRequest_Write :: "WFailOrderRequest option \<Rightarrow> ('p, unit) T" where
  "FailOrderRequest_Write = writeStruct ''FailOrderRequest'' (\<lambda>p.
     [writeField ''authToken'' STRING 1 (WriteString (wfAuthToken p)),
      writeField ''orderId'' STRING 2 (WriteString (wfOrderId p)),
      writeField ''reason'' STRING 3 (WriteString (wfReason p))])"

definition FailOrderRequest_Read :: "nat \<Rightarrow> WFailOrderRequest \<Rightarrow> ('p, WFailOrderRequest) T" where
  "FailOrderRequest_Read n = readStruct n (switchField
     [(1, STRING, readString (\<lambda>v p. p\<lparr>wfAuthToken := v\<rparr>)),
      (2, STRING, readString (\<lambda>v p. p\<lparr>wfOrderId := v\<rparr>)),
      (3, STRING, readString (\<lambda>v p. p\<lparr>wfReason := v\<rparr>))])"

record WHeartbeatRequest =
  whAuthToken :: string
  whLocation :: "WLocation option"

definition NewHeartbeatRequest :: WHeartbeatRequest where
  "NewHeartbeatRequest =
     \<lparr>whAuthToken = '''', whLocation = None\<rparr>"

definition HeartbeatRequest_Write :: "WHeartbeatRequest option \<Rightarrow> ('p, unit) T" where
  "HeartbeatRequest_Write = writeStruct ''HeartbeatRequest'' (\<lambda>p.
     [writeField ''authToken'' STRING 1 (WriteString (whAuthToken p)),
      writeField ''location'' STRUCT 2 (Location_Write (whLocation p))])"

definition HeartbeatRequest_Read :: "nat \<Rightarrow> WHeartbeatRequest \<Rightarrow> ('p, WHeartbeatRequest) T" where
  "HeartbeatRequest_Read n = readStruct n (switchField
     [(1, STRING, readString (\<lambda>v p. p\<lparr>whAuthToken := v\<rparr>)),
      (2, STRUCT, readStructPtr (Location_Read n) NewLocation (\<lambda>v p. p\<lparr>whLocation := v\<rparr>))])"

record WListOrdersRequest =
  wqAuthToken :: string
  wqStatus :: "string option"
  wqLimit :: "int option"
  wqOffset :: "int option"

definition NewListOrdersRequest :: WListOrdersRequest where
  "NewListOrdersRequest =
     \<lparr>wqAuthToken = '''', wqStatus = None, wqLimit = None, wqOffset = None\<rparr>"

definition ListOrdersRequest_Write :: "WListOrdersRequest option \<Rightarrow> ('p, unit) T" where
  "ListOrdersRequest_Write = writeStruct ''ListOrdersRequest'' (\<lambda>p.
     [writeField ''authToken'' STRING 1 (WriteString (wqAuthToken p)),
      writeOpt (wqStatus p) (\<lambda>v. writeField ''status'' STRING 2 (WriteString v)),
      writeOpt (wqLimit p) (\<lambda>v. writeField ''limit'' I32 3 (WriteI32 v)),
      writeOpt (wqOffset p) (\<lambda>v. writeField ''offset'' I32 4 (WriteI32 v))])"

definition ListOrdersRequest_Read :: "nat \<Rightarrow> WListOrdersRequest \<Rightarrow> ('p, WListOrdersRequest) T" where
  "ListOrdersRequest_Read n = readStruct n (switchField
     [(1, STRING, readString (\<lambda>v p. p\<lparr>wqAuthToken := v\<rparr>)),
      (2, STRING, readStringPtr (\<lambda>v p. p\<lparr>wqStatus := v\<rparr>)),
      (3, I32, readI32Ptr (\<lambda>v p. p\<lparr>wqLimit := v\<rparr>)),
      (4, I32, readI32Ptr (\<lambda>v p. p\<lparr>wqOffset := v\<rparr>))])"

record WUpdateOrderRequest =
  wuAuthToken :: string
  wuOrderId :: string
  wuOrigin :: "WLocation option"
  wuDestination :: "WLocation option"

definition NewUpdateOrderRequest :: WUpdateOrderRequest where
  "NewUpdateOrderRequest =
     \<lparr>wuAuthToken = '''', wuOrderId = '''', wuOrigin = None, wuDestination = None\<rparr>"

definition UpdateOrderRequest_Write :: "WUpdateOrderRequest option \<Rightarrow> ('p, unit) T" where
  "UpdateOrderRequest_Write = writeStruct ''UpdateOrderRequest'' (\<lambda>p.
     [writeField ''authToken'' STRING 1 (WriteString (wuAuthToken p)),
      writeField ''orderId'' STRING 2 (WriteString (wuOrderId p)),
      writeOpt (wuOrigin p) (\<lambda>v. writeField ''origin'' STRUCT 3 (Location_Write (Some v))),
      writeOpt (wuDestination p) (\<lambda>v. writeField ''destination'' STRUCT 4 (Location_Write (Some v)))])"

definition UpdateOrderRequest_Read :: "nat \<Rightarrow> WUpdateOrderRequest \<Rightarrow> ('p, WUpdateOrderRequest) T" where
  "UpdateOrderRequest_Read n = readStruct n (switchField
     [(1, STRING, readString (\<lambda>v p. p\<lparr>wuAuthToken := v\<rparr>)),
      (2, STRING, readString (\<lambda>v p. p\<lparr>wuOrderId := v\<rparr>)),
      (3, STRUCT, readStructPtr (Location_Read n) NewLocation (\<lambda>v p. p\<lparr>wuOrigin := v\<rparr>)),
      (4, STRUCT, readStructPtr (Location_Read n) NewLocation (\<lambda>v p. p\<lparr>wuDestination := v\<rparr>))])"

record WDroneIDRequest =
  weAuthToken :: string
  weDroneId :: string

definition NewDroneIDRequest :: WDroneIDRequest where
  "NewDroneIDRequest =
     \<lparr>weAuthToken = '''', weDroneId = ''''\<rparr>"

definition DroneIDRequest_Write :: "WDroneIDRequest option \<Rightarrow> ('p, unit) T" where
  "DroneIDRequest_Write = writeStruct ''DroneIDRequest'' (\<lambda>p.
     [writeField ''authToken'' STRING 1 (WriteString (weAuthToken p)),
      writeField ''droneId'' STRING 2 (WriteString (weDroneId p))])"

definition DroneIDRequest_Read :: "nat \<Rightarrow> WDroneIDRequest \<Rightarrow> ('p, WDroneIDRequest) T" where
  "DroneIDRequest_Read n = readStruct n (switchField
     [(1, STRING, readString (\<lambda>v p. p\<lparr>weAuthToken := v\<rparr>)),
      (2, STRING, readString (\<lambda>v p. p\<lparr>weDroneId := v\<rparr>))])"

end
