(* ===== verification/ThriftGenWire.thy ===== *)
theory ThriftGenWire
  imports ThriftGen
begin

text \<open>
  The generated structs on the wire. The contract of a generated struct is the locale
  \<open>wire_struct\<close>: \<open>Write\<close> produces the tokens of its fields, and \<open>Read\<close> takes them back, into a
  new struct, where a pointer that the interface requires is set even if it was nil. Every
  struct of the interface is an instance.
\<close>

section \<open>Fields on the wire\<close>

definition fieldToks :: "(int \<times> tval) list \<Rightarrow> tok list" where
  "fieldToks fs = concat (map (\<lambda>(i, v). KField (typeOf v) i # encode v) fs)"

definition optField :: "int \<Rightarrow> ('f \<Rightarrow> tval) \<Rightarrow> 'f option \<Rightarrow> (int \<times> tval) list" where
  "optField i f v = (case v of None \<Rightarrow> [] | Some x \<Rightarrow> [(i, f x)])"

definition ptrFields :: "('f \<Rightarrow> (int \<times> tval) list) \<Rightarrow> 'f option \<Rightarrow> (int \<times> tval) list" where
  "ptrFields f v = (case v of None \<Rightarrow> [] | Some x \<Rightarrow> f x)"

definition setPtr :: "'f \<Rightarrow> ('f \<Rightarrow> 'f) \<Rightarrow> 'f option \<Rightarrow> 'f" where
  "setPtr new f v = (case v of None \<Rightarrow> new | Some x \<Rightarrow> f x)"

lemma fieldToks_simps [simp]:
  "fieldToks [] = []" "fieldToks ((i, v) # fs) = KField (typeOf v) i # encode v @ fieldToks fs"
  "fieldToks (fs @ gs) = fieldToks fs @ fieldToks gs" "encode (VStruct fs) = fieldToks fs @ [KStop]"
  by (simp_all add: fieldToks_def)

declare encode.simps(5) [simp del]

lemma fieldToks_concat: "fieldToks (concat fss) = concat (map fieldToks fss)"
  by (induction fss) simp_all

lemma length_optField [simp]: "length (optField i f v) = (if v = None then 0 else 1)"
  by (cases v) (simp_all add: optField_def)

text \<open>Reading fields one after the other takes a struct from \<open>r\<close> to \<open>r'\<close>.\<close>

inductive absorbs ::
  "'p TProtocol \<Rightarrow> ('p \<Rightarrow> tok list) \<Rightarrow> (ttype \<Rightarrow> int \<Rightarrow> 'r \<Rightarrow> ('p, 'r) T) \<Rightarrow> 'r \<Rightarrow> (int \<times> tval) list \<Rightarrow> 'r \<Rightarrow> bool"
  for P :: "'p TProtocol" and view :: "'p \<Rightarrow> tok list" and body :: "ttype \<Rightarrow> int \<Rightarrow> 'r \<Rightarrow> ('p, 'r) T" where
  absorbs_none: "absorbs P view body r [] r"
| absorbs_some: "(\<And>ts. yields P view (body (typeOf v) i r) (encode v @ ts) r1 ts) \<Longrightarrow> absorbs P view body r1 fs r2 \<Longrightarrow>
    absorbs P view body r ((i, v) # fs) r2"

lemma absorbs_append:
  "absorbs P view body r fs r1 \<Longrightarrow> absorbs P view body r1 gs r2 \<Longrightarrow> absorbs P view body r (fs @ gs) r2"
  by (induction rule: absorbs.induct) (auto intro: absorbs.intros)

lemma absorbs_Cons:
  assumes "absorbs P view body r fs r1" and "absorbs P view body r1 (concat fss) r2"
  shows "absorbs P view body r (concat (fs # fss)) r2"
  using absorbs_append [OF assms] by simp

lemma absorbs_Nil: "r = r' \<Longrightarrow> absorbs P view body r (concat []) r'"
  by (simp add: absorbs_none)

lemma yields_absorbs_loop:
  assumes P: "stream_ok P view" and "absorbs P view body r fs r'" and "length fs < n"
  shows "yields P view (fieldLoop n body r) (fieldToks fs @ KStop # ts) r' ts"
  using assms(2,3)
proof (induction arbitrary: n rule: absorbs.induct)
  case (absorbs_none r)
  then obtain m where n: "n = Suc m" by (cases n) auto
  show ?case unfolding yields_def
  proof (intro allI impI)
    fix p assume "view p = fieldToks [] @ KStop # ts"
    then obtain p' i where "ReadFieldBegin P p = (Inr (STOP, i), p')" "view p' = ts"
      using stream_stop [OF P, of p ts] by auto
    then show "\<exists>p'. fieldLoop n body r P p = (Inr r, p') \<and> view p' = ts" by (simp add: n run_rules)
  qed
next
  case (absorbs_some v i r r1 fs r2)
  obtain m where n: "n = Suc m" "length fs < m" using absorbs_some.prems by (cases n) auto
  let ?rest = "fieldToks fs @ KStop # ts"
  have "yields P view (bindM (body (typeOf v) i r) (\<lambda>r'. seqM ReadFieldEnd (fieldLoop m body r')))
      (encode v @ ?rest) r2 ts"
    by (rule yields_bindM [OF absorbs_some.hyps(1)])
      (rule yields_seqM [OF yields_ops(3) [OF P] absorbs_some.IH [OF n(2)]])
  then have "yields P view (fieldLoop (Suc m) body r) (KField (typeOf v) i # encode v @ ?rest) r2 ts"
    unfolding fieldLoop.simps by (intro yields_bindM [OF yields_ops(5) [OF P]]) simp
  then show ?case unfolding n by simp
qed

lemma yields_absorbs:
  assumes P: "stream_ok P view" and "absorbs P view body r fs r'" and "length fs < n"
  shows "yields P view (readStruct n body r) (encode (VStruct fs) @ ts) r' ts"
proof -
  have "yields P view (fieldLoop n body r) (encode (VStruct fs) @ ts) r' ts"
    using yields_absorbs_loop [OF assms] by simp
  then show ?thesis unfolding readStruct_def
    by (intro yields_seqM [OF yields_ops(1) [OF P]] yields_bindM)
      (auto intro: yields_seqM yields_ops [OF P] yields_returnM)
qed

section \<open>The kinds of fields\<close>

text \<open>The widest struct of the interface has 14 fields.\<close>

definition maxFields :: nat where "maxFields = 14"

lemma absorbs_one:
  assumes "map_of cs i = Some (typeOf v, rd)" and "\<And>ts. yields P view (rd r) (encode v @ ts) r1 ts"
  shows "absorbs P view (switchField cs) r [(i, v)] r1"
  by (rule absorbs_some [OF _ absorbs_none]) (simp add: switchField_def assms)

lemma yields_mapped:
  assumes "yields P view m ts x ts'"
  shows "yields P view (bindM m (\<lambda>v. returnM (f v))) ts (f x) ts'"
  using assms by (rule yields_bindM) (rule yields_returnM)

lemma yields_readers:
  assumes "stream_ok P view"
  shows "yields P view (readString set_s r) (encode (VStr s) @ ts) (set_s s r) ts"
    "yields P view (readDouble set_d r) (encode (VDbl x) @ ts) (set_d x r) ts"
    "yields P view (readI64 set_i r) (encode (VI64 k) @ ts) (set_i k r) ts"
    "yields P view (readStringPtr set_s' r) (encode (VStr s) @ ts) (set_s' (Some s) r) ts"
    "yields P view (readI64Ptr set_i' r) (encode (VI64 k) @ ts) (set_i' (Some k) r) ts"
    "yields P view (readI32Ptr set_i' r) (encode (VI32 k) @ ts) (set_i' (Some k) r) ts"
  unfolding readString_def readDouble_def readI64_def readStringPtr_def readI64Ptr_def readI32Ptr_def encode.simps append.simps
  by (rule yields_mapped yields_ops [OF assms])+

lemma absorbs_scalars:
  assumes "stream_ok P view"
  shows "map_of cs i = Some (STRING, readString set_f) \<Longrightarrow> absorbs P view (switchField cs) r [(i, VStr s)] (set_f s r)"
    "map_of cs i = Some (DOUBLE, readDouble set_d) \<Longrightarrow> absorbs P view (switchField cs) r [(i, VDbl x)] (set_d x r)"
    "map_of cs i = Some (I64, readI64 set_i) \<Longrightarrow> absorbs P view (switchField cs) r [(i, VI64 k)] (set_i k r)"
  by (rule absorbs_one, simp, rule yields_readers [OF assms])+

lemma absorbs_opt:
  assumes "\<And>x. absorbs P view body r [(i, f x)] (set_f (Some (g x)) r)" and "set_f None r = r"
  shows "absorbs P view body r (optField i f v) (set_f (map_option g v) r)"
  using assms by (cases v) (simp_all add: optField_def absorbs_none)

lemma absorbs_pointers:
  assumes P: "stream_ok P view"
  shows "set_s None r = r \<Longrightarrow> map_of cs i = Some (STRING, readStringPtr set_s) \<Longrightarrow>
      absorbs P view (switchField cs) r (optField i VStr s) (set_s s r)"
    "set_i None r = r \<Longrightarrow> map_of cs i = Some (I64, readI64Ptr set_i) \<Longrightarrow>
      absorbs P view (switchField cs) r (optField i VI64 k) (set_i k r)"
    "set_i None r = r \<Longrightarrow> map_of cs i = Some (I32, readI32Ptr set_i) \<Longrightarrow>
      absorbs P view (switchField cs) r (optField i VI32 k) (set_i k r)"
proof -
  have one: "absorbs P view (switchField cs) r (optField i f v) (set_f v r)"
    if "set_f None r = r" "map_of cs i = Some (t, rd)" "\<And>x. typeOf (f x) = t"
      "\<And>x ts. yields P view (rd r) (encode (f x) @ ts) (set_f (Some x) r) ts"
    for v and f :: "'f \<Rightarrow> tval" and set_f t rd
    using absorbs_opt [of P view "switchField cs" r i f set_f "\<lambda>x. x" v] that
    by (simp add: absorbs_one option.map_ident)
  show "set_s None r = r \<Longrightarrow> map_of cs i = Some (STRING, readStringPtr set_s) \<Longrightarrow>
      absorbs P view (switchField cs) r (optField i VStr s) (set_s s r)"
    by (rule one [OF _ _ _ yields_readers(4) [OF P]]) simp_all
  show "set_i None r = r \<Longrightarrow> map_of cs i = Some (I64, readI64Ptr set_i) \<Longrightarrow>
      absorbs P view (switchField cs) r (optField i VI64 k) (set_i k r)"
    by (rule one [OF _ _ _ yields_readers(5) [OF P]]) simp_all
  show "set_i None r = r \<Longrightarrow> map_of cs i = Some (I32, readI32Ptr set_i) \<Longrightarrow>
      absorbs P view (switchField cs) r (optField i VI32 k) (set_i k r)"
    by (rule one [OF _ _ _ yields_readers(6) [OF P]]) simp_all
qed

lemma absorbs_struct:
  assumes "\<And>ts. yields P view (rd new) (encode (VStruct fs) @ ts) x ts"
    and "map_of cs i = Some (STRUCT, readStructPtr rd new set_f)"
  shows "absorbs P view (switchField cs) r [(i, VStruct fs)] (set_f (Some x) r)"
proof (rule absorbs_one)
  show "yields P view (readStructPtr rd new set_f r) (encode (VStruct fs) @ ts) (set_f (Some x) r) ts" for ts
    unfolding readStructPtr_def using assms(1) by (rule yields_mapped)
qed (simp add: assms)

lemma absorbs_opt_struct:
  assumes "set_f None r = r" and "\<And>x ts. yields P view (rd new) (encode (VStruct (f x)) @ ts) (g x) ts"
    and "map_of cs i = Some (STRUCT, readStructPtr rd new set_f)"
  shows "absorbs P view (switchField cs) r (optField i (\<lambda>x. VStruct (f x)) v) (set_f (map_option g v) r)"
  using absorbs_struct [OF assms(2,3)] assms(1) by (intro absorbs_opt) simp_all

lemma yields_empty:
  assumes "stream_ok P view" and "maxFields < n"
  shows "yields P view (readStruct n body r) (encode (VStruct []) @ ts) r ts"
  using assms by (intro yields_absorbs absorbs_none) simp_all

lemma emits_scalars:
  assumes "sink_ok P sink"
  shows "emits P sink (writeField name STRING i (WriteString s)) (fieldToks [(i, VStr s)])"
    "emits P sink (writeField name DOUBLE i (WriteDouble x)) (fieldToks [(i, VDbl x)])"
    "emits P sink (writeField name I64 i (WriteI64 k)) (fieldToks [(i, VI64 k)])"
    "emits P sink (writeField name I32 i (WriteI32 k)) (fieldToks [(i, VI32 k)])"
  by (simp_all add: emits_writeField [OF assms] emits_ops [OF assms])

lemma emits_struct:
  assumes "sink_ok P sink" and "emits P sink m (encode (VStruct fs))"
  shows "emits P sink (writeField name STRUCT i m) (fieldToks [(i, VStruct fs)])"
  using emits_writeField [OF assms] by simp

lemma emits_opt:
  assumes "\<And>x. emits P sink (w x) (fieldToks [(i, f x)])"
  shows "emits P sink (writeOpt v w) (fieldToks (optField i f v))"
  using assms emits_returnM by (cases v) (simp_all add: writeOpt_def optField_def)

lemma emits_writeStruct:
  assumes P: "sink_ok P sink" and "\<And>r. list_all2 (emits P sink) (w r) (map fieldToks (fss r))"
  shows "emits P sink (writeStruct name w v) (encode (VStruct (ptrFields (\<lambda>r. concat (fss r)) v)))"
proof -
  have "emits P sink (case v of None \<Rightarrow> returnM () | Some r \<Rightarrow> seqAll (w r))
      (fieldToks (ptrFields (\<lambda>r. concat (fss r)) v))"
    using emits_seqAll [OF assms(2)] emits_returnM
    by (cases v) (simp_all add: ptrFields_def fieldToks_concat)
  then have "emits P sink (writeStruct name w v)
      (concat [[], fieldToks (ptrFields (\<lambda>r. concat (fss r)) v), [KStop], []])"
    unfolding writeStruct_def by (intro emits_seqAll) (simp add: emits_ops [OF P])
  then show ?thesis by simp
qed

section \<open>The contract\<close>

text \<open>What one program writes to \<open>Q\<close>, another reads from \<open>P\<close> as \<open>x\<close>, whatever follows.\<close>

definition survives ::
  "'q TProtocol \<Rightarrow> ('q \<Rightarrow> tok list) \<Rightarrow> 'p TProtocol \<Rightarrow> ('p \<Rightarrow> tok list) \<Rightarrow> ('q, unit) T \<Rightarrow> ('p, 'r) T \<Rightarrow> 'r \<Rightarrow> bool" where
  "survives Q sink P view write read x \<longleftrightarrow>
     (\<exists>ks. emits Q sink write ks \<and> (\<forall>ts. yields P view read (ks @ ts) x ts))"

locale wire_struct =
  fixes Write_m :: "'r option \<Rightarrow> ('q, unit) T"
    and Read_m :: "nat \<Rightarrow> 'r \<Rightarrow> ('p, 'r) T"
    and New_m :: 'r
    and fieldsOf :: "'r \<Rightarrow> (int \<times> tval) list"
    and filled :: "'r \<Rightarrow> 'r"
  assumes writes: "sink_ok Q sink \<Longrightarrow> emits Q sink (Write_m v) (encode (VStruct (ptrFields fieldsOf v)))"
    and reads_filled: "stream_ok P view \<Longrightarrow> maxFields < n \<Longrightarrow>
      yields P view (Read_m n New_m) (encode (VStruct (fieldsOf x)) @ ts) (filled x) ts"
    and reads_nil: "stream_ok P view \<Longrightarrow> maxFields < n \<Longrightarrow>
      yields P view (Read_m n New_m) (encode (VStruct []) @ ts) New_m ts"
begin

lemma reads:
  assumes "stream_ok P view" and "maxFields < n"
  shows "yields P view (Read_m n New_m) (encode (VStruct (ptrFields fieldsOf v)) @ ts) (setPtr New_m filled v) ts"
  using reads_filled [OF assms] reads_nil [OF assms] by (cases v) (simp_all only: ptrFields_def setPtr_def option.case)

lemma writes_some:
  assumes "sink_ok Q sink"
  shows "emits Q sink (Write_m (Some x)) (encode (VStruct (fieldsOf x)))"
  using writes [OF assms, of "Some x"] by (simp only: ptrFields_def option.case)

text \<open>What one side wrote, the other side reads.\<close>

lemma roundtrip:
  assumes "sink_ok Q sink" and "stream_ok P view" and "maxFields < n"
  shows "survives Q sink P view (Write_m (Some x)) (Read_m n New_m) (filled x)"
  unfolding survives_def using writes_some [OF assms(1)] reads_filled [OF assms(2,3)] by blast

end

section \<open>The structs of the interface\<close>

definition locationFields :: "WLocation \<Rightarrow> (int \<times> tval) list" where
  "locationFields p = concat
     [[(1, VDbl (wlLat p))],
      [(2, VDbl (wlLng p))]]"

definition filledLocation :: "WLocation \<Rightarrow> WLocation" where
  "filledLocation p = p"

lemma location_writes:
  assumes P: "sink_ok P sink"
  shows "emits P sink (Location_Write v) (encode (VStruct (ptrFields locationFields v)))"
  unfolding Location_Write_def locationFields_def
  by (rule emits_writeStruct [OF P]) (simp only: list.map, (rule emits_all emits_scalars [OF P] emits_opt emits_struct [OF P])+)

lemma location_reads:
  assumes P: "stream_ok P view" and n: "maxFields < n"
  shows "yields P view (Location_Read n NewLocation) (encode (VStruct (locationFields x)) @ ts) (filledLocation x) ts"
  unfolding Location_Read_def
proof (rule yields_absorbs [OF P])
  show "length (locationFields x) < n" using n by (simp add: locationFields_def maxFields_def)
qed (unfold locationFields_def, 
    ((rule absorbs_Cons absorbs_scalars [OF P] absorbs_pointers [OF P];
      (simp add: NewLocation_def; fail)?)+)?, rule absorbs_Nil,
    simp add: NewLocation_def filledLocation_def)

interpretation gen_location: wire_struct Location_Write Location_Read NewLocation locationFields filledLocation
  by unfold_locales (simp_all only: location_writes location_reads,
    simp_all only: Location_Read_def yields_empty)

definition orderFields :: "WOrder \<Rightarrow> (int \<times> tval) list" where
  "orderFields p = concat
     [[(1, VStr (woID p))],
      [(2, VStr (woUserId p))],
      [(3, VStruct (ptrFields locationFields (woOrigin p)))],
      [(4, VStruct (ptrFields locationFields (woDestination p)))],
      [(5, VStr (woStatus p))],
      optField 6 VStr (woAssignedDroneId p),
      optField 7 (\<lambda>x. VStruct (locationFields x)) (woHandoffOrigin p),
      [(8, VI64 (woCreatedAt p))],
      [(9, VI64 (woUpdatedAt p))],
      optField 10 VI64 (woReservedAt p),
      optField 11 VI64 (woPickedUpAt p),
      optField 12 VI64 (woDeliveredAt p),
      optField 13 VI64 (woFailedAt p),
      optField 14 VStr (woFailureReason p)]"

definition filledOrder :: "WOrder \<Rightarrow> WOrder" where
  "filledOrder p = p\<lparr>woOrigin := Some (setPtr NewLocation filledLocation (woOrigin p)),
       woDestination := Some (setPtr NewLocation filledLocation (woDestination p)),
       woHandoffOrigin := map_option filledLocation (woHandoffOrigin p)\<rparr>"

lemma order_writes:
  assumes P: "sink_ok P sink"
  shows "emits P sink (Order_Write v) (encode (VStruct (ptrFields orderFields v)))"
  unfolding Order_Write_def orderFields_def
  by (rule emits_writeStruct [OF P]) (simp only: list.map, (rule emits_all emits_scalars [OF P] emits_opt emits_struct [OF P] gen_location.writes [OF P] gen_location.writes_some [OF P])+)

lemma order_reads:
  assumes P: "stream_ok P view" and n: "maxFields < n"
  shows "yields P view (Order_Read n NewOrder) (encode (VStruct (orderFields x)) @ ts) (filledOrder x) ts"
  unfolding Order_Read_def
proof (rule yields_absorbs [OF P])
  show "length (orderFields x) < n" using n by (simp add: orderFields_def maxFields_def)
qed (unfold orderFields_def, 
    ((rule absorbs_Cons absorbs_scalars [OF P] absorbs_pointers [OF P] absorbs_struct absorbs_opt_struct gen_location.reads [OF P n] gen_location.reads_filled [OF P n];
      (simp add: NewOrder_def; fail)?)+)?, rule absorbs_Nil,
    simp add: NewOrder_def filledOrder_def)

interpretation gen_order: wire_struct Order_Write Order_Read NewOrder orderFields filledOrder
  by unfold_locales (simp_all only: order_writes order_reads,
    simp_all only: Order_Read_def yields_empty)

definition orderViewFields :: "WOrderView \<Rightarrow> (int \<times> tval) list" where
  "orderViewFields p = concat
     [[(1, VStruct (ptrFields orderFields (wvOrder p)))],
      optField 2 (\<lambda>x. VStruct (locationFields x)) (wvCurrentLocation p),
      optField 3 VI64 (wvEtaSeconds p)]"

definition filledOrderView :: "WOrderView \<Rightarrow> WOrderView" where
  "filledOrderView p = p\<lparr>wvOrder := Some (setPtr NewOrder filledOrder (wvOrder p)),
       wvCurrentLocation := map_option filledLocation (wvCurrentLocation p)\<rparr>"

lemma orderView_writes:
  assumes P: "sink_ok P sink"
  shows "emits P sink (OrderView_Write v) (encode (VStruct (ptrFields orderViewFields v)))"
  unfolding OrderView_Write_def orderViewFields_def
  by (rule emits_writeStruct [OF P]) (simp only: list.map, (rule emits_all emits_scalars [OF P] emits_opt emits_struct [OF P] gen_location.writes [OF P] gen_order.writes [OF P] gen_location.writes_some [OF P] gen_order.writes_some [OF P])+)

lemma orderView_reads:
  assumes P: "stream_ok P view" and n: "maxFields < n"
  shows "yields P view (OrderView_Read n NewOrderView) (encode (VStruct (orderViewFields x)) @ ts) (filledOrderView x) ts"
  unfolding OrderView_Read_def
proof (rule yields_absorbs [OF P])
  show "length (orderViewFields x) < n" using n by (simp add: orderViewFields_def maxFields_def)
qed (unfold orderViewFields_def, 
    ((rule absorbs_Cons absorbs_scalars [OF P] absorbs_pointers [OF P] absorbs_struct absorbs_opt_struct gen_location.reads [OF P n] gen_location.reads_filled [OF P n] gen_order.reads [OF P n] gen_order.reads_filled [OF P n];
      (simp add: NewOrderView_def; fail)?)+)?, rule absorbs_Nil,
    simp add: NewOrderView_def filledOrderView_def)

interpretation gen_orderView: wire_struct OrderView_Write OrderView_Read NewOrderView orderViewFields filledOrderView
  by unfold_locales (simp_all only: orderView_writes orderView_reads,
    simp_all only: OrderView_Read_def yields_empty)

definition droneFields :: "WDrone \<Rightarrow> (int \<times> tval) list" where
  "droneFields p = concat
     [[(1, VStr (wdID p))],
      [(2, VStr (wdStatus p))],
      optField 3 (\<lambda>x. VStruct (locationFields x)) (wdLastLocation p),
      optField 4 VI64 (wdLastHeartbeatAt p),
      optField 5 VStr (wdCurrentOrderId p),
      [(6, VI64 (wdCreatedAt p))],
      [(7, VI64 (wdUpdatedAt p))]]"

definition filledDrone :: "WDrone \<Rightarrow> WDrone" where
  "filledDrone p = p\<lparr>wdLastLocation := map_option filledLocation (wdLastLocation p)\<rparr>"

lemma drone_writes:
  assumes P: "sink_ok P sink"
  shows "emits P sink (Drone_Write v) (encode (VStruct (ptrFields droneFields v)))"
  unfolding Drone_Write_def droneFields_def
  by (rule emits_writeStruct [OF P]) (simp only: list.map, (rule emits_all emits_scalars [OF P] emits_opt emits_struct [OF P] gen_location.writes [OF P] gen_location.writes_some [OF P])+)

lemma drone_reads:
  assumes P: "stream_ok P view" and n: "maxFields < n"
  shows "yields P view (Drone_Read n NewDrone) (encode (VStruct (droneFields x)) @ ts) (filledDrone x) ts"
  unfolding Drone_Read_def
proof (rule yields_absorbs [OF P])
  show "length (droneFields x) < n" using n by (simp add: droneFields_def maxFields_def)
qed (unfold droneFields_def, 
    ((rule absorbs_Cons absorbs_scalars [OF P] absorbs_pointers [OF P] absorbs_struct absorbs_opt_struct gen_location.reads [OF P n] gen_location.reads_filled [OF P n];
      (simp add: NewDrone_def; fail)?)+)?, rule absorbs_Nil,
    simp add: NewDrone_def filledDrone_def)

interpretation gen_drone: wire_struct Drone_Write Drone_Read NewDrone droneFields filledDrone
  by unfold_locales (simp_all only: drone_writes drone_reads,
    simp_all only: Drone_Read_def yields_empty)

definition droneStatusFields :: "WDroneStatus \<Rightarrow> (int \<times> tval) list" where
  "droneStatusFields p = concat
     [[(1, VStruct (ptrFields droneFields (wsDrone p)))],
      optField 2 (\<lambda>x. VStruct (orderViewFields x)) (wsCurrentOrder p)]"

definition filledDroneStatus :: "WDroneStatus \<Rightarrow> WDroneStatus" where
  "filledDroneStatus p = p\<lparr>wsDrone := Some (setPtr NewDrone filledDrone (wsDrone p)),
       wsCurrentOrder := map_option filledOrderView (wsCurrentOrder p)\<rparr>"

lemma droneStatus_writes:
  assumes P: "sink_ok P sink"
  shows "emits P sink (DroneStatus_Write v) (encode (VStruct (ptrFields droneStatusFields v)))"
  unfolding DroneStatus_Write_def droneStatusFields_def
  by (rule emits_writeStruct [OF P]) (simp only: list.map, (rule emits_all emits_scalars [OF P] emits_opt emits_struct [OF P] gen_drone.writes [OF P] gen_orderView.writes [OF P] gen_drone.writes_some [OF P] gen_orderView.writes_some [OF P])+)

lemma droneStatus_reads:
  assumes P: "stream_ok P view" and n: "maxFields < n"
  shows "yields P view (DroneStatus_Read n NewDroneStatus) (encode (VStruct (droneStatusFields x)) @ ts) (filledDroneStatus x) ts"
  unfolding DroneStatus_Read_def
proof (rule yields_absorbs [OF P])
  show "length (droneStatusFields x) < n" using n by (simp add: droneStatusFields_def maxFields_def)
qed (unfold droneStatusFields_def, 
    ((rule absorbs_Cons absorbs_scalars [OF P] absorbs_pointers [OF P] absorbs_struct absorbs_opt_struct gen_drone.reads [OF P n] gen_drone.reads_filled [OF P n] gen_orderView.reads [OF P n] gen_orderView.reads_filled [OF P n];
      (simp add: NewDroneStatus_def; fail)?)+)?, rule absorbs_Nil,
    simp add: NewDroneStatus_def filledDroneStatus_def)

interpretation gen_droneStatus: wire_struct DroneStatus_Write DroneStatus_Read NewDroneStatus droneStatusFields filledDroneStatus
  by unfold_locales (simp_all only: droneStatus_writes droneStatus_reads,
    simp_all only: DroneStatus_Read_def yields_empty)

definition tokenRequestFields :: "WTokenRequest \<Rightarrow> (int \<times> tval) list" where
  "tokenRequestFields p = concat
     [[(1, VStr (wtName p))],
      [(2, VStr (wtRole p))]]"

definition filledTokenRequest :: "WTokenRequest \<Rightarrow> WTokenRequest" where
  "filledTokenRequest p = p"

lemma tokenRequest_writes:
  assumes P: "sink_ok P sink"
  shows "emits P sink (TokenRequest_Write v) (encode (VStruct (ptrFields tokenRequestFields v)))"
  unfolding TokenRequest_Write_def tokenRequestFields_def
  by (rule emits_writeStruct [OF P]) (simp only: list.map, (rule emits_all emits_scalars [OF P] emits_opt emits_struct [OF P])+)

lemma tokenRequest_reads:
  assumes P: "stream_ok P view" and n: "maxFields < n"
  shows "yields P view (TokenRequest_Read n NewTokenRequest) (encode (VStruct (tokenRequestFields x)) @ ts) (filledTokenRequest x) ts"
  unfolding TokenRequest_Read_def
proof (rule yields_absorbs [OF P])
  show "length (tokenRequestFields x) < n" using n by (simp add: tokenRequestFields_def maxFields_def)
qed (unfold tokenRequestFields_def, 
    ((rule absorbs_Cons absorbs_scalars [OF P] absorbs_pointers [OF P];
      (simp add: NewTokenRequest_def; fail)?)+)?, rule absorbs_Nil,
    simp add: NewTokenRequest_def filledTokenRequest_def)

interpretation gen_tokenRequest: wire_struct TokenRequest_Write TokenRequest_Read NewTokenRequest tokenRequestFields filledTokenRequest
  by unfold_locales (simp_all only: tokenRequest_writes tokenRequest_reads,
    simp_all only: TokenRequest_Read_def yields_empty)

definition tokenResponseFields :: "WTokenResponse \<Rightarrow> (int \<times> tval) list" where
  "tokenResponseFields p = concat
     [[(1, VStr (wrToken p))],
      [(2, VI64 (wrExpiresAt p))]]"

definition filledTokenResponse :: "WTokenResponse \<Rightarrow> WTokenResponse" where
  "filledTokenResponse p = p"

lemma tokenResponse_writes:
  assumes P: "sink_ok P sink"
  shows "emits P sink (TokenResponse_Write v) (encode (VStruct (ptrFields tokenResponseFields v)))"
  unfolding TokenResponse_Write_def tokenResponseFields_def
  by (rule emits_writeStruct [OF P]) (simp only: list.map, (rule emits_all emits_scalars [OF P] emits_opt emits_struct [OF P])+)

lemma tokenResponse_reads:
  assumes P: "stream_ok P view" and n: "maxFields < n"
  shows "yields P view (TokenResponse_Read n NewTokenResponse) (encode (VStruct (tokenResponseFields x)) @ ts) (filledTokenResponse x) ts"
  unfolding TokenResponse_Read_def
proof (rule yields_absorbs [OF P])
  show "length (tokenResponseFields x) < n" using n by (simp add: tokenResponseFields_def maxFields_def)
qed (unfold tokenResponseFields_def, 
    ((rule absorbs_Cons absorbs_scalars [OF P] absorbs_pointers [OF P];
      (simp add: NewTokenResponse_def; fail)?)+)?, rule absorbs_Nil,
    simp add: NewTokenResponse_def filledTokenResponse_def)

interpretation gen_tokenResponse: wire_struct TokenResponse_Write TokenResponse_Read NewTokenResponse tokenResponseFields filledTokenResponse
  by unfold_locales (simp_all only: tokenResponse_writes tokenResponse_reads,
    simp_all only: TokenResponse_Read_def yields_empty)

definition submitOrderRequestFields :: "WSubmitOrderRequest \<Rightarrow> (int \<times> tval) list" where
  "submitOrderRequestFields p = concat
     [[(1, VStr (wbAuthToken p))],
      [(2, VStruct (ptrFields locationFields (wbOrigin p)))],
      [(3, VStruct (ptrFields locationFields (wbDestination p)))]]"

definition filledSubmitOrderRequest :: "WSubmitOrderRequest \<Rightarrow> WSubmitOrderRequest" where
  "filledSubmitOrderRequest p = p\<lparr>wbOrigin := Some (setPtr NewLocation filledLocation (wbOrigin p)),
       wbDestination := Some (setPtr NewLocation filledLocation (wbDestination p))\<rparr>"

lemma submitOrderRequest_writes:
  assumes P: "sink_ok P sink"
  shows "emits P sink (SubmitOrderRequest_Write v) (encode (VStruct (ptrFields submitOrderRequestFields v)))"
  unfolding SubmitOrderRequest_Write_def submitOrderRequestFields_def
  by (rule emits_writeStruct [OF P]) (simp only: list.map, (rule emits_all emits_scalars [OF P] emits_opt emits_struct [OF P] gen_location.writes [OF P])+)

lemma submitOrderRequest_reads:
  assumes P: "stream_ok P view" and n: "maxFields < n"
  shows "yields P view (SubmitOrderRequest_Read n NewSubmitOrderRequest) (encode (VStruct (submitOrderRequestFields x)) @ ts) (filledSubmitOrderRequest x) ts"
  unfolding SubmitOrderRequest_Read_def
proof (rule yields_absorbs [OF P])
  show "length (submitOrderRequestFields x) < n" using n by (simp add: submitOrderRequestFields_def maxFields_def)
qed (unfold submitOrderRequestFields_def, 
    ((rule absorbs_Cons absorbs_scalars [OF P] absorbs_pointers [OF P] absorbs_struct absorbs_opt_struct gen_location.reads [OF P n] gen_location.reads_filled [OF P n];
      (simp add: NewSubmitOrderRequest_def; fail)?)+)?, rule absorbs_Nil,
    simp add: NewSubmitOrderRequest_def filledSubmitOrderRequest_def)

interpretation gen_submitOrderRequest: wire_struct SubmitOrderRequest_Write SubmitOrderRequest_Read NewSubmitOrderRequest submitOrderRequestFields filledSubmitOrderRequest
  by unfold_locales (simp_all only: submitOrderRequest_writes submitOrderRequest_reads,
    simp_all only: SubmitOrderRequest_Read_def yields_empty)

definition orderIDRequestFields :: "WOrderIDRequest \<Rightarrow> (int \<times> tval) list" where
  "orderIDRequestFields p = concat
     [[(1, VStr (wiAuthToken p))],
      [(2, VStr (wiOrderId p))]]"

definition filledOrderIDRequest :: "WOrderIDRequest \<Rightarrow> WOrderIDRequest" where
  "filledOrderIDRequest p = p"

lemma orderIDRequest_writes:
  assumes P: "sink_ok P sink"
  shows "emits P sink (OrderIDRequest_Write v) (encode (VStruct (ptrFields orderIDRequestFields v)))"
  unfolding OrderIDRequest_Write_def orderIDRequestFields_def
  by (rule emits_writeStruct [OF P]) (simp only: list.map, (rule emits_all emits_scalars [OF P] emits_opt emits_struct [OF P])+)

lemma orderIDRequest_reads:
  assumes P: "stream_ok P view" and n: "maxFields < n"
  shows "yields P view (OrderIDRequest_Read n NewOrderIDRequest) (encode (VStruct (orderIDRequestFields x)) @ ts) (filledOrderIDRequest x) ts"
  unfolding OrderIDRequest_Read_def
proof (rule yields_absorbs [OF P])
  show "length (orderIDRequestFields x) < n" using n by (simp add: orderIDRequestFields_def maxFields_def)
qed (unfold orderIDRequestFields_def, 
    ((rule absorbs_Cons absorbs_scalars [OF P] absorbs_pointers [OF P];
      (simp add: NewOrderIDRequest_def; fail)?)+)?, rule absorbs_Nil,
    simp add: NewOrderIDRequest_def filledOrderIDRequest_def)

interpretation gen_orderIDRequest: wire_struct OrderIDRequest_Write OrderIDRequest_Read NewOrderIDRequest orderIDRequestFields filledOrderIDRequest
  by unfold_locales (simp_all only: orderIDRequest_writes orderIDRequest_reads,
    simp_all only: OrderIDRequest_Read_def yields_empty)

definition authRequestFields :: "WAuthRequest \<Rightarrow> (int \<times> tval) list" where
  "authRequestFields p = concat
     [[(1, VStr (waAuthToken p))]]"

definition filledAuthRequest :: "WAuthRequest \<Rightarrow> WAuthRequest" where
  "filledAuthRequest p = p"

lemma authRequest_writes:
  assumes P: "sink_ok P sink"
  shows "emits P sink (AuthRequest_Write v) (encode (VStruct (ptrFields authRequestFields v)))"
  unfolding AuthRequest_Write_def authRequestFields_def
  by (rule emits_writeStruct [OF P]) (simp only: list.map, (rule emits_all emits_scalars [OF P] emits_opt emits_struct [OF P])+)

lemma authRequest_reads:
  assumes P: "stream_ok P view" and n: "maxFields < n"
  shows "yields P view (AuthRequest_Read n NewAuthRequest) (encode (VStruct (authRequestFields x)) @ ts) (filledAuthRequest x) ts"
  unfolding AuthRequest_Read_def
proof (rule yields_absorbs [OF P])
  show "length (authRequestFields x) < n" using n by (simp add: authRequestFields_def maxFields_def)
qed (unfold authRequestFields_def, 
    ((rule absorbs_Cons absorbs_scalars [OF P] absorbs_pointers [OF P];
      (simp add: NewAuthRequest_def; fail)?)+)?, rule absorbs_Nil,
    simp add: NewAuthRequest_def filledAuthRequest_def)

interpretation gen_authRequest: wire_struct AuthRequest_Write AuthRequest_Read NewAuthRequest authRequestFields filledAuthRequest
  by unfold_locales (simp_all only: authRequest_writes authRequest_reads,
    simp_all only: AuthRequest_Read_def yields_empty)

definition failOrderRequestFields :: "WFailOrderRequest \<Rightarrow> (int \<times> tval) list" where
  "failOrderRequestFields p = concat
     [[(1, VStr (wfAuthToken p))],
      [(2, VStr (wfOrderId p))],
      [(3, VStr (wfReason p))]]"

definition filledFailOrderRequest :: "WFailOrderRequest \<Rightarrow> WFailOrderRequest" where
  "filledFailOrderRequest p = p"

lemma failOrderRequest_writes:
  assumes P: "sink_ok P sink"
  shows "emits P sink (FailOrderRequest_Write v) (encode (VStruct (ptrFields failOrderRequestFields v)))"
  unfolding FailOrderRequest_Write_def failOrderRequestFields_def
  by (rule emits_writeStruct [OF P]) (simp only: list.map, (rule emits_all emits_scalars [OF P] emits_opt emits_struct [OF P])+)

lemma failOrderRequest_reads:
  assumes P: "stream_ok P view" and n: "maxFields < n"
  shows "yields P view (FailOrderRequest_Read n NewFailOrderRequest) (encode (VStruct (failOrderRequestFields x)) @ ts) (filledFailOrderRequest x) ts"
  unfolding FailOrderRequest_Read_def
proof (rule yields_absorbs [OF P])
  show "length (failOrderRequestFields x) < n" using n by (simp add: failOrderRequestFields_def maxFields_def)
qed (unfold failOrderRequestFields_def, 
    ((rule absorbs_Cons absorbs_scalars [OF P] absorbs_pointers [OF P];
      (simp add: NewFailOrderRequest_def; fail)?)+)?, rule absorbs_Nil,
    simp add: NewFailOrderRequest_def filledFailOrderRequest_def)

interpretation gen_failOrderRequest: wire_struct FailOrderRequest_Write FailOrderRequest_Read NewFailOrderRequest failOrderRequestFields filledFailOrderRequest
  by unfold_locales (simp_all only: failOrderRequest_writes failOrderRequest_reads,
    simp_all only: FailOrderRequest_Read_def yields_empty)

definition heartbeatRequestFields :: "WHeartbeatRequest \<Rightarrow> (int \<times> tval) list" where
  "heartbeatRequestFields p = concat
     [[(1, VStr (whAuthToken p))],
      [(2, VStruct (ptrFields locationFields (whLocation p)))]]"

definition filledHeartbeatRequest :: "WHeartbeatRequest \<Rightarrow> WHeartbeatRequest" where
  "filledHeartbeatRequest p = p\<lparr>whLocation := Some (setPtr NewLocation filledLocation (whLocation p))\<rparr>"

lemma heartbeatRequest_writes:
  assumes P: "sink_ok P sink"
  shows "emits P sink (HeartbeatRequest_Write v) (encode (VStruct (ptrFields heartbeatRequestFields v)))"
  unfolding HeartbeatRequest_Write_def heartbeatRequestFields_def
  by (rule emits_writeStruct [OF P]) (simp only: list.map, (rule emits_all emits_scalars [OF P] emits_opt emits_struct [OF P] gen_location.writes [OF P])+)

lemma heartbeatRequest_reads:
  assumes P: "stream_ok P view" and n: "maxFields < n"
  shows "yields P view (HeartbeatRequest_Read n NewHeartbeatRequest) (encode (VStruct (heartbeatRequestFields x)) @ ts) (filledHeartbeatRequest x) ts"
  unfolding HeartbeatRequest_Read_def
proof (rule yields_absorbs [OF P])
  show "length (heartbeatRequestFields x) < n" using n by (simp add: heartbeatRequestFields_def maxFields_def)
qed (unfold heartbeatRequestFields_def, 
    ((rule absorbs_Cons absorbs_scalars [OF P] absorbs_pointers [OF P] absorbs_struct absorbs_opt_struct gen_location.reads [OF P n] gen_location.reads_filled [OF P n];
      (simp add: NewHeartbeatRequest_def; fail)?)+)?, rule absorbs_Nil,
    simp add: NewHeartbeatRequest_def filledHeartbeatRequest_def)

interpretation gen_heartbeatRequest: wire_struct HeartbeatRequest_Write HeartbeatRequest_Read NewHeartbeatRequest heartbeatRequestFields filledHeartbeatRequest
  by unfold_locales (simp_all only: heartbeatRequest_writes heartbeatRequest_reads,
    simp_all only: HeartbeatRequest_Read_def yields_empty)

definition listOrdersRequestFields :: "WListOrdersRequest \<Rightarrow> (int \<times> tval) list" where
  "listOrdersRequestFields p = concat
     [[(1, VStr (wqAuthToken p))],
      optField 2 VStr (wqStatus p),
      optField 3 VI32 (wqLimit p),
      optField 4 VI32 (wqOffset p)]"

definition filledListOrdersRequest :: "WListOrdersRequest \<Rightarrow> WListOrdersRequest" where
  "filledListOrdersRequest p = p"

lemma listOrdersRequest_writes:
  assumes P: "sink_ok P sink"
  shows "emits P sink (ListOrdersRequest_Write v) (encode (VStruct (ptrFields listOrdersRequestFields v)))"
  unfolding ListOrdersRequest_Write_def listOrdersRequestFields_def
  by (rule emits_writeStruct [OF P]) (simp only: list.map, (rule emits_all emits_scalars [OF P] emits_opt emits_struct [OF P])+)

lemma listOrdersRequest_reads:
  assumes P: "stream_ok P view" and n: "maxFields < n"
  shows "yields P view (ListOrdersRequest_Read n NewListOrdersRequest) (encode (VStruct (listOrdersRequestFields x)) @ ts) (filledListOrdersRequest x) ts"
  unfolding ListOrdersRequest_Read_def
proof (rule yields_absorbs [OF P])
  show "length (listOrdersRequestFields x) < n" using n by (simp add: listOrdersRequestFields_def maxFields_def)
qed (unfold listOrdersRequestFields_def, 
    ((rule absorbs_Cons absorbs_scalars [OF P] absorbs_pointers [OF P];
      (simp add: NewListOrdersRequest_def; fail)?)+)?, rule absorbs_Nil,
    simp add: NewListOrdersRequest_def filledListOrdersRequest_def)

interpretation gen_listOrdersRequest: wire_struct ListOrdersRequest_Write ListOrdersRequest_Read NewListOrdersRequest listOrdersRequestFields filledListOrdersRequest
  by unfold_locales (simp_all only: listOrdersRequest_writes listOrdersRequest_reads,
    simp_all only: ListOrdersRequest_Read_def yields_empty)

definition updateOrderRequestFields :: "WUpdateOrderRequest \<Rightarrow> (int \<times> tval) list" where
  "updateOrderRequestFields p = concat
     [[(1, VStr (wuAuthToken p))],
      [(2, VStr (wuOrderId p))],
      optField 3 (\<lambda>x. VStruct (locationFields x)) (wuOrigin p),
      optField 4 (\<lambda>x. VStruct (locationFields x)) (wuDestination p)]"

definition filledUpdateOrderRequest :: "WUpdateOrderRequest \<Rightarrow> WUpdateOrderRequest" where
  "filledUpdateOrderRequest p = p\<lparr>wuOrigin := map_option filledLocation (wuOrigin p),
       wuDestination := map_option filledLocation (wuDestination p)\<rparr>"

lemma updateOrderRequest_writes:
  assumes P: "sink_ok P sink"
  shows "emits P sink (UpdateOrderRequest_Write v) (encode (VStruct (ptrFields updateOrderRequestFields v)))"
  unfolding UpdateOrderRequest_Write_def updateOrderRequestFields_def
  by (rule emits_writeStruct [OF P]) (simp only: list.map, (rule emits_all emits_scalars [OF P] emits_opt emits_struct [OF P] gen_location.writes [OF P] gen_location.writes_some [OF P])+)

lemma updateOrderRequest_reads:
  assumes P: "stream_ok P view" and n: "maxFields < n"
  shows "yields P view (UpdateOrderRequest_Read n NewUpdateOrderRequest) (encode (VStruct (updateOrderRequestFields x)) @ ts) (filledUpdateOrderRequest x) ts"
  unfolding UpdateOrderRequest_Read_def
proof (rule yields_absorbs [OF P])
  show "length (updateOrderRequestFields x) < n" using n by (simp add: updateOrderRequestFields_def maxFields_def)
qed (unfold updateOrderRequestFields_def, 
    ((rule absorbs_Cons absorbs_scalars [OF P] absorbs_pointers [OF P] absorbs_struct absorbs_opt_struct gen_location.reads [OF P n] gen_location.reads_filled [OF P n];
      (simp add: NewUpdateOrderRequest_def; fail)?)+)?, rule absorbs_Nil,
    simp add: NewUpdateOrderRequest_def filledUpdateOrderRequest_def)

interpretation gen_updateOrderRequest: wire_struct UpdateOrderRequest_Write UpdateOrderRequest_Read NewUpdateOrderRequest updateOrderRequestFields filledUpdateOrderRequest
  by unfold_locales (simp_all only: updateOrderRequest_writes updateOrderRequest_reads,
    simp_all only: UpdateOrderRequest_Read_def yields_empty)

definition droneIDRequestFields :: "WDroneIDRequest \<Rightarrow> (int \<times> tval) list" where
  "droneIDRequestFields p = concat
     [[(1, VStr (weAuthToken p))],
      [(2, VStr (weDroneId p))]]"

definition filledDroneIDRequest :: "WDroneIDRequest \<Rightarrow> WDroneIDRequest" where
  "filledDroneIDRequest p = p"

lemma droneIDRequest_writes:
  assumes P: "sink_ok P sink"
  shows "emits P sink (DroneIDRequest_Write v) (encode (VStruct (ptrFields droneIDRequestFields v)))"
  unfolding DroneIDRequest_Write_def droneIDRequestFields_def
  by (rule emits_writeStruct [OF P]) (simp only: list.map, (rule emits_all emits_scalars [OF P] emits_opt emits_struct [OF P])+)

lemma droneIDRequest_reads:
  assumes P: "stream_ok P view" and n: "maxFields < n"
  shows "yields P view (DroneIDRequest_Read n NewDroneIDRequest) (encode (VStruct (droneIDRequestFields x)) @ ts) (filledDroneIDRequest x) ts"
  unfolding DroneIDRequest_Read_def
proof (rule yields_absorbs [OF P])
  show "length (droneIDRequestFields x) < n" using n by (simp add: droneIDRequestFields_def maxFields_def)
qed (unfold droneIDRequestFields_def, 
    ((rule absorbs_Cons absorbs_scalars [OF P] absorbs_pointers [OF P];
      (simp add: NewDroneIDRequest_def; fail)?)+)?, rule absorbs_Nil,
    simp add: NewDroneIDRequest_def filledDroneIDRequest_def)

interpretation gen_droneIDRequest: wire_struct DroneIDRequest_Write DroneIDRequest_Read NewDroneIDRequest droneIDRequestFields filledDroneIDRequest
  by unfold_locales (simp_all only: droneIDRequest_writes droneIDRequest_reads,
    simp_all only: DroneIDRequest_Read_def yields_empty)

text \<open>Nothing is filled in where the pointers that the interface requires are set.\<close>

lemma filledLocation_ptr:
  "map_option filledLocation v = v" "v \<noteq> None \<Longrightarrow> Some (setPtr NewLocation filledLocation v) = v"
  by (cases v; simp add: filledLocation_def setPtr_def)+

lemma filled_complete:
  "woOrigin o' \<noteq> None \<Longrightarrow> woDestination o' \<noteq> None \<Longrightarrow> filledOrder o' = o'" "filledDrone d = d"
  "wbOrigin b \<noteq> None \<Longrightarrow> wbDestination b \<noteq> None \<Longrightarrow> filledSubmitOrderRequest b = b"
  "whLocation h \<noteq> None \<Longrightarrow> filledHeartbeatRequest h = h" "filledUpdateOrderRequest u = u"
  by (simp_all add: filledOrder_def filledDrone_def filledSubmitOrderRequest_def filledHeartbeatRequest_def
      filledUpdateOrderRequest_def filledLocation_ptr)

text \<open>Outside of this theory a struct is unfolded into its tokens as before.\<close>

declare encode.simps(5) [simp] fieldToks_simps(4) [simp del]

end
