(* ===== verification/ThriftClient.thy ===== *)
theory ThriftClient
  imports ThriftGenWire ThriftProc
begin

text \<open>
  The client side of the generated code in \<open>tmp_thrift_gen\<close>: the struct of the arguments of every
  method with its \<open>Write\<close>, and the struct of its result with its \<open>Read\<close>; what a client sends when
  it calls a method; and what the server of theory ThriftProc makes of it.

  The struct of the arguments of a method has one field, the request, and the struct of a result
  one field, the answer (\<open>Success\<close>); both are pointers or, for a list, a slice that may be nil.
  The exchange itself, \<open>TClient.Call\<close>, is part of the Thrift library.
\<close>

section \<open>Arguments and results\<close>

definition writeArgs :: "string \<Rightarrow> ('r option \<Rightarrow> ('p, unit) T) \<Rightarrow> 'r option \<Rightarrow> ('p, unit) T" where
  "writeArgs name write request =
     writeStruct name (\<lambda>p. [writeField ''request'' STRUCT 1 (write p)]) (Some request)"

definition readResult :: "nat \<Rightarrow> ('r \<Rightarrow> ('p, 'r) T) \<Rightarrow> 'r \<Rightarrow> 'r option \<Rightarrow> ('p, 'r option) T" where
  "readResult n read new = readStruct n (switchField [(0, STRUCT, readStructPtr read new (\<lambda>v p. v))])"

fun readElems :: "nat \<Rightarrow> ('p, 'r) T \<Rightarrow> ('p, 'r list) T" where
  "readElems 0 read = returnM []"
| "readElems (Suc k) read = bindM read (\<lambda>x. bindM (readElems k read) (\<lambda>xs. returnM (x # xs)))"

definition readList :: "('r \<Rightarrow> ('p, 'r) T) \<Rightarrow> 'r \<Rightarrow> 'r list option \<Rightarrow> ('p, 'r list option) T" where
  "readList read new p =
     bindM ReadListBegin (\<lambda>(_, k).
     bindM (readElems k (read new)) (\<lambda>xs. seqM ReadListEnd (returnM (Some xs))))"

definition readListResult ::
  "nat \<Rightarrow> ('r \<Rightarrow> ('p, 'r) T) \<Rightarrow> 'r \<Rightarrow> 'r list option \<Rightarrow> ('p, 'r list option) T" where
  "readListResult n read new = readStruct n (switchField [(0, LIST, readList read new)])"

definition AuthServiceIssueTokenArgs_Write :: "WTokenRequest option \<Rightarrow> ('p, unit) T" where
  "AuthServiceIssueTokenArgs_Write = writeArgs ''IssueToken_args'' TokenRequest_Write"
definition AuthServiceIssueTokenResult_Read :: "nat \<Rightarrow> WTokenResponse option \<Rightarrow> ('p, WTokenResponse option) T" where
  "AuthServiceIssueTokenResult_Read n = readResult n (TokenResponse_Read n) NewTokenResponse"

definition OrderServiceSubmitOrderArgs_Write :: "WSubmitOrderRequest option \<Rightarrow> ('p, unit) T" where
  "OrderServiceSubmitOrderArgs_Write = writeArgs ''SubmitOrder_args'' SubmitOrderRequest_Write"
definition OrderServiceSubmitOrderResult_Read :: "nat \<Rightarrow> WOrder option \<Rightarrow> ('p, WOrder option) T" where
  "OrderServiceSubmitOrderResult_Read n = readResult n (Order_Read n) NewOrder"

definition OrderServiceWithdrawOrderArgs_Write :: "WOrderIDRequest option \<Rightarrow> ('p, unit) T" where
  "OrderServiceWithdrawOrderArgs_Write = writeArgs ''WithdrawOrder_args'' OrderIDRequest_Write"
definition OrderServiceWithdrawOrderResult_Read :: "nat \<Rightarrow> WOrder option \<Rightarrow> ('p, WOrder option) T" where
  "OrderServiceWithdrawOrderResult_Read n = readResult n (Order_Read n) NewOrder"

definition OrderServiceGetOrderArgs_Write :: "WOrderIDRequest option \<Rightarrow> ('p, unit) T" where
  "OrderServiceGetOrderArgs_Write = writeArgs ''GetOrder_args'' OrderIDRequest_Write"
definition OrderServiceGetOrderResult_Read :: "nat \<Rightarrow> WOrderView option \<Rightarrow> ('p, WOrderView option) T" where
  "OrderServiceGetOrderResult_Read n = readResult n (OrderView_Read n) NewOrderView"

definition DroneServiceReserveJobArgs_Write :: "WAuthRequest option \<Rightarrow> ('p, unit) T" where
  "DroneServiceReserveJobArgs_Write = writeArgs ''ReserveJob_args'' AuthRequest_Write"
definition DroneServiceReserveJobResult_Read :: "nat \<Rightarrow> WOrder option \<Rightarrow> ('p, WOrder option) T" where
  "DroneServiceReserveJobResult_Read n = readResult n (Order_Read n) NewOrder"

definition DroneServicePickupOrderArgs_Write :: "WOrderIDRequest option \<Rightarrow> ('p, unit) T" where
  "DroneServicePickupOrderArgs_Write = writeArgs ''PickupOrder_args'' OrderIDRequest_Write"
definition DroneServicePickupOrderResult_Read :: "nat \<Rightarrow> WOrder option \<Rightarrow> ('p, WOrder option) T" where
  "DroneServicePickupOrderResult_Read n = readResult n (Order_Read n) NewOrder"

definition DroneServiceDeliverOrderArgs_Write :: "WOrderIDRequest option \<Rightarrow> ('p, unit) T" where
  "DroneServiceDeliverOrderArgs_Write = writeArgs ''DeliverOrder_args'' OrderIDRequest_Write"
definition DroneServiceDeliverOrderResult_Read :: "nat \<Rightarrow> WOrder option \<Rightarrow> ('p, WOrder option) T" where
  "DroneServiceDeliverOrderResult_Read n = readResult n (Order_Read n) NewOrder"

definition DroneServiceFailOrderArgs_Write :: "WFailOrderRequest option \<Rightarrow> ('p, unit) T" where
  "DroneServiceFailOrderArgs_Write = writeArgs ''FailOrder_args'' FailOrderRequest_Write"
definition DroneServiceFailOrderResult_Read :: "nat \<Rightarrow> WOrder option \<Rightarrow> ('p, WOrder option) T" where
  "DroneServiceFailOrderResult_Read n = readResult n (Order_Read n) NewOrder"

definition DroneServiceMarkBrokenArgs_Write :: "WAuthRequest option \<Rightarrow> ('p, unit) T" where
  "DroneServiceMarkBrokenArgs_Write = writeArgs ''MarkBroken_args'' AuthRequest_Write"
definition DroneServiceMarkBrokenResult_Read :: "nat \<Rightarrow> WDrone option \<Rightarrow> ('p, WDrone option) T" where
  "DroneServiceMarkBrokenResult_Read n = readResult n (Drone_Read n) NewDrone"

definition DroneServiceHeartbeatArgs_Write :: "WHeartbeatRequest option \<Rightarrow> ('p, unit) T" where
  "DroneServiceHeartbeatArgs_Write = writeArgs ''Heartbeat_args'' HeartbeatRequest_Write"
definition DroneServiceHeartbeatResult_Read :: "nat \<Rightarrow> WDroneStatus option \<Rightarrow> ('p, WDroneStatus option) T" where
  "DroneServiceHeartbeatResult_Read n = readResult n (DroneStatus_Read n) NewDroneStatus"

definition DroneServiceCurrentOrderArgs_Write :: "WAuthRequest option \<Rightarrow> ('p, unit) T" where
  "DroneServiceCurrentOrderArgs_Write = writeArgs ''CurrentOrder_args'' AuthRequest_Write"
definition DroneServiceCurrentOrderResult_Read :: "nat \<Rightarrow> WOrderView option \<Rightarrow> ('p, WOrderView option) T" where
  "DroneServiceCurrentOrderResult_Read n = readResult n (OrderView_Read n) NewOrderView"

definition AdminServiceListOrdersArgs_Write :: "WListOrdersRequest option \<Rightarrow> ('p, unit) T" where
  "AdminServiceListOrdersArgs_Write = writeArgs ''ListOrders_args'' ListOrdersRequest_Write"
definition AdminServiceListOrdersResult_Read :: "nat \<Rightarrow> WOrderView list option \<Rightarrow> ('p, WOrderView list option) T" where
  "AdminServiceListOrdersResult_Read n = readListResult n (OrderView_Read n) NewOrderView"

definition AdminServiceUpdateOrderArgs_Write :: "WUpdateOrderRequest option \<Rightarrow> ('p, unit) T" where
  "AdminServiceUpdateOrderArgs_Write = writeArgs ''UpdateOrder_args'' UpdateOrderRequest_Write"
definition AdminServiceUpdateOrderResult_Read :: "nat \<Rightarrow> WOrder option \<Rightarrow> ('p, WOrder option) T" where
  "AdminServiceUpdateOrderResult_Read n = readResult n (Order_Read n) NewOrder"

definition AdminServiceListDronesArgs_Write :: "WAuthRequest option \<Rightarrow> ('p, unit) T" where
  "AdminServiceListDronesArgs_Write = writeArgs ''ListDrones_args'' AuthRequest_Write"
definition AdminServiceListDronesResult_Read :: "nat \<Rightarrow> WDrone list option \<Rightarrow> ('p, WDrone list option) T" where
  "AdminServiceListDronesResult_Read n = readListResult n (Drone_Read n) NewDrone"

definition AdminServiceMarkDroneBrokenArgs_Write :: "WDroneIDRequest option \<Rightarrow> ('p, unit) T" where
  "AdminServiceMarkDroneBrokenArgs_Write = writeArgs ''MarkDroneBroken_args'' DroneIDRequest_Write"
definition AdminServiceMarkDroneBrokenResult_Read :: "nat \<Rightarrow> WDrone option \<Rightarrow> ('p, WDrone option) T" where
  "AdminServiceMarkDroneBrokenResult_Read n = readResult n (Drone_Read n) NewDrone"

definition AdminServiceMarkDroneFixedArgs_Write :: "WDroneIDRequest option \<Rightarrow> ('p, unit) T" where
  "AdminServiceMarkDroneFixedArgs_Write = writeArgs ''MarkDroneFixed_args'' DroneIDRequest_Write"
definition AdminServiceMarkDroneFixedResult_Read :: "nat \<Rightarrow> WDrone option \<Rightarrow> ('p, WDrone option) T" where
  "AdminServiceMarkDroneFixedResult_Read n = readResult n (Drone_Read n) NewDrone"

lemmas args_defs = AuthServiceIssueTokenArgs_Write_def
  OrderServiceSubmitOrderArgs_Write_def
  OrderServiceWithdrawOrderArgs_Write_def
  OrderServiceGetOrderArgs_Write_def
  DroneServiceReserveJobArgs_Write_def
  DroneServicePickupOrderArgs_Write_def
  DroneServiceDeliverOrderArgs_Write_def
  DroneServiceFailOrderArgs_Write_def
  DroneServiceMarkBrokenArgs_Write_def
  DroneServiceHeartbeatArgs_Write_def
  DroneServiceCurrentOrderArgs_Write_def
  AdminServiceListOrdersArgs_Write_def
  AdminServiceUpdateOrderArgs_Write_def
  AdminServiceListDronesArgs_Write_def
  AdminServiceMarkDroneBrokenArgs_Write_def
  AdminServiceMarkDroneFixedArgs_Write_def

lemmas result_defs = AuthServiceIssueTokenResult_Read_def
  OrderServiceSubmitOrderResult_Read_def
  OrderServiceWithdrawOrderResult_Read_def
  OrderServiceGetOrderResult_Read_def
  DroneServiceReserveJobResult_Read_def
  DroneServicePickupOrderResult_Read_def
  DroneServiceDeliverOrderResult_Read_def
  DroneServiceFailOrderResult_Read_def
  DroneServiceMarkBrokenResult_Read_def
  DroneServiceHeartbeatResult_Read_def
  DroneServiceCurrentOrderResult_Read_def
  AdminServiceListOrdersResult_Read_def
  AdminServiceUpdateOrderResult_Read_def
  AdminServiceListDronesResult_Read_def
  AdminServiceMarkDroneBrokenResult_Read_def
  AdminServiceMarkDroneFixedResult_Read_def

section \<open>What a client sends\<close>

text \<open>
  A call of a method of the clients with a request that is not nil, other than \<open>IssueToken\<close>: the
  name of the message and the arguments it carries.
\<close>

datatype gcall =
    CallSubmitOrder WSubmitOrderRequest
  | CallWithdrawOrder WOrderIDRequest
  | CallGetOrder WOrderIDRequest
  | CallReserveJob WAuthRequest
  | CallPickupOrder WOrderIDRequest
  | CallDeliverOrder WOrderIDRequest
  | CallFailOrder WFailOrderRequest
  | CallMarkBroken WAuthRequest
  | CallHeartbeat WHeartbeatRequest
  | CallCurrentOrder WAuthRequest
  | CallListOrders WListOrdersRequest
  | CallUpdateOrder WUpdateOrderRequest
  | CallListDrones WAuthRequest
  | CallMarkDroneBroken WDroneIDRequest
  | CallMarkDroneFixed WDroneIDRequest

fun callName :: "gcall \<Rightarrow> string" where
  "callName (CallSubmitOrder r) = ''SubmitOrder''"
| "callName (CallWithdrawOrder r) = ''WithdrawOrder''"
| "callName (CallGetOrder r) = ''GetOrder''"
| "callName (CallReserveJob r) = ''ReserveJob''"
| "callName (CallPickupOrder r) = ''PickupOrder''"
| "callName (CallDeliverOrder r) = ''DeliverOrder''"
| "callName (CallFailOrder r) = ''FailOrder''"
| "callName (CallMarkBroken r) = ''MarkBroken''"
| "callName (CallHeartbeat r) = ''Heartbeat''"
| "callName (CallCurrentOrder r) = ''CurrentOrder''"
| "callName (CallListOrders r) = ''ListOrders''"
| "callName (CallUpdateOrder r) = ''UpdateOrder''"
| "callName (CallListDrones r) = ''ListDrones''"
| "callName (CallMarkDroneBroken r) = ''MarkDroneBroken''"
| "callName (CallMarkDroneFixed r) = ''MarkDroneFixed''"

fun callArgs :: "gcall \<Rightarrow> ('p, unit) T" where
  "callArgs (CallSubmitOrder r) = OrderServiceSubmitOrderArgs_Write (Some r)"
| "callArgs (CallWithdrawOrder r) = OrderServiceWithdrawOrderArgs_Write (Some r)"
| "callArgs (CallGetOrder r) = OrderServiceGetOrderArgs_Write (Some r)"
| "callArgs (CallReserveJob r) = DroneServiceReserveJobArgs_Write (Some r)"
| "callArgs (CallPickupOrder r) = DroneServicePickupOrderArgs_Write (Some r)"
| "callArgs (CallDeliverOrder r) = DroneServiceDeliverOrderArgs_Write (Some r)"
| "callArgs (CallFailOrder r) = DroneServiceFailOrderArgs_Write (Some r)"
| "callArgs (CallMarkBroken r) = DroneServiceMarkBrokenArgs_Write (Some r)"
| "callArgs (CallHeartbeat r) = DroneServiceHeartbeatArgs_Write (Some r)"
| "callArgs (CallCurrentOrder r) = DroneServiceCurrentOrderArgs_Write (Some r)"
| "callArgs (CallListOrders r) = AdminServiceListOrdersArgs_Write (Some r)"
| "callArgs (CallUpdateOrder r) = AdminServiceUpdateOrderArgs_Write (Some r)"
| "callArgs (CallListDrones r) = AdminServiceListDronesArgs_Write (Some r)"
| "callArgs (CallMarkDroneBroken r) = AdminServiceMarkDroneBrokenArgs_Write (Some r)"
| "callArgs (CallMarkDroneFixed r) = AdminServiceMarkDroneFixedArgs_Write (Some r)"

text \<open>What the caller means: a token and, for the claims in it, a request of the service.\<close>

definition locOf :: "WLocation option \<Rightarrow> Location" where
  "locOf v = (case v of None \<Rightarrow> \<lparr>Lat = Fin 0, Lng = Fin 0\<rparr> | Some l \<Rightarrow> \<lparr>Lat = wlLat l, Lng = wlLng l\<rparr>)"

fun meant :: "gcall \<Rightarrow> string \<times> (Claims \<Rightarrow> request)" where
  "meant (CallWithdrawOrder r) = (wiAuthToken r, \<lambda>c. ReqWithdraw (Subject c) (wiOrderId r))"
| "meant (CallGetOrder r) = (wiAuthToken r, \<lambda>c. ReqView (Subject c) (Role c) (wiOrderId r))"
| "meant (CallReserveJob r) = (waAuthToken r, \<lambda>c. ReqReserve (Subject c))"
| "meant (CallPickupOrder r) = (wiAuthToken r, \<lambda>c. ReqPickup (Subject c) (wiOrderId r))"
| "meant (CallDeliverOrder r) = (wiAuthToken r, \<lambda>c. ReqDeliver (Subject c) (wiOrderId r))"
| "meant (CallFailOrder r) = (wfAuthToken r, \<lambda>c. ReqFail (Subject c) (wfOrderId r) (wfReason r))"
| "meant (CallMarkBroken r) = (waAuthToken r, \<lambda>c. ReqBroken (Subject c))"
| "meant (CallHeartbeat r) = (whAuthToken r, \<lambda>c. ReqHeartbeat (Subject c) (locOf (whLocation r)))"
| "meant (CallCurrentOrder r) = (waAuthToken r, \<lambda>c. ReqCurrent (Subject c))"
| "meant (CallListDrones r) = (waAuthToken r, \<lambda>c. ReqListDrones)"
| "meant (CallMarkDroneBroken r) = (weAuthToken r, \<lambda>c. ReqAdminBroken (weDroneId r))"
| "meant (CallMarkDroneFixed r) = (weAuthToken r, \<lambda>c. ReqAdminFixed (weDroneId r))"
| "meant (CallSubmitOrder r) = (wbAuthToken r, \<lambda>c. ReqSubmit (Subject c) (locOf (wbOrigin r)) (locOf (wbDestination r)))"
| "meant (CallListOrders r) = (wqAuthToken r, \<lambda>c. ReqListOrders
     \<lparr>fStatus = (if wqStatus r = Some '''' then None else wqStatus r),
      fLimit = (case wqLimit r of None \<Rightarrow> 0 | Some k \<Rightarrow> k), fOffset = (case wqOffset r of None \<Rightarrow> 0 | Some k \<Rightarrow> k)\<rparr>)"
| "meant (CallUpdateOrder r) = (wuAuthToken r, \<lambda>c. ReqUpdate (wuOrderId r)
     (map_option (\<lambda>l. locOf (Some l)) (wuOrigin r)) (map_option (\<lambda>l. locOf (Some l)) (wuDestination r)))"

text \<open>The methods whose arguments the server reads without the enclosing field.\<close>

definition flatMethods :: "string list" where
  "flatMethods = [''SubmitOrder'', ''ListOrders'', ''UpdateOrder'']"

fun callFields :: "gcall \<Rightarrow> (int \<times> tval) list" where
  "callFields (CallSubmitOrder r) = submitOrderRequestFields r"
| "callFields (CallWithdrawOrder r) = orderIDRequestFields r"
| "callFields (CallGetOrder r) = orderIDRequestFields r"
| "callFields (CallReserveJob r) = authRequestFields r"
| "callFields (CallPickupOrder r) = orderIDRequestFields r"
| "callFields (CallDeliverOrder r) = orderIDRequestFields r"
| "callFields (CallFailOrder r) = failOrderRequestFields r"
| "callFields (CallMarkBroken r) = authRequestFields r"
| "callFields (CallHeartbeat r) = heartbeatRequestFields r"
| "callFields (CallCurrentOrder r) = authRequestFields r"
| "callFields (CallListOrders r) = listOrdersRequestFields r"
| "callFields (CallUpdateOrder r) = updateOrderRequestFields r"
| "callFields (CallListDrones r) = authRequestFields r"
| "callFields (CallMarkDroneBroken r) = droneIDRequestFields r"
| "callFields (CallMarkDroneFixed r) = droneIDRequestFields r"

lemma emits_writeArgs:
  assumes P: "sink_ok P sink" and "emits P sink (write (Some r)) (encode (VStruct fs))"
  shows "emits P sink (writeArgs name write (Some r)) (wrapped fs)"
proof -
  have "emits P sink (writeArgs name write (Some r))
      (encode (VStruct (ptrFields (\<lambda>p. concat [[(1, VStruct fs)]]) (Some (Some r)))))"
  proof -
    have "emits P sink (writeField ''request'' STRUCT 1 (write (Some r))) (fieldToks [(1, VStruct fs)])"
      by (rule emits_struct [OF assms])
    then have "emits P sink (seqAll [WriteStructBegin name, seqAll [writeField ''request'' STRUCT 1 (write (Some r))],
        WriteFieldStop, WriteStructEnd]) (concat [[], concat [fieldToks [(1, VStruct fs)]], [KStop], []])"
      by (intro emits_seqAll list_all2_Cons [THEN iffD2, OF conjI] list_all2_Nil [THEN iffD2, OF refl] emits_ops [OF P])
    then show ?thesis by (simp add: writeArgs_def writeStruct_def ptrFields_def)
  qed
  then show ?thesis by (simp add: ptrFields_def wrapped_def)
qed

lemma emits_callArgs:
  assumes P: "sink_ok P sink"
  shows "emits P sink (callArgs g) (wrapped (callFields g))"
  by (cases g) (simp_all only: callArgs.simps callFields.simps args_defs,
    (rule emits_writeArgs [OF P] gen_authRequest.writes_some [OF P] gen_droneIDRequest.writes_some [OF P] gen_failOrderRequest.writes_some [OF P] gen_heartbeatRequest.writes_some [OF P] gen_listOrdersRequest.writes_some [OF P] gen_orderIDRequest.writes_some [OF P] gen_submitOrderRequest.writes_some [OF P] gen_updateOrderRequest.writes_some [OF P])+)

section \<open>What the server makes of it\<close>

text \<open>The role a method asks for.\<close>

definition callRole :: "gcall \<Rightarrow> string option" where
  "callRole g =
     (if callName g = ''GetOrder'' then None
      else if callName g \<in> set [''SubmitOrder'', ''WithdrawOrder''] then Some RoleEndUser
      else if callName g \<in> set [''ListOrders'', ''UpdateOrder'', ''ListDrones'', ''MarkDroneBroken'', ''MarkDroneFixed'']
      then Some RoleAdmin
      else Some RoleDrone)"

lemma request_conforms:
  assumes "maxFields < n"
  shows "conforms n [1 \<mapsto> StrField, 2 \<mapsto> StrField] (orderIDRequestFields i)"
    "conforms n [1 \<mapsto> StrField, 2 \<mapsto> StrField] (droneIDRequestFields d)"
    "conforms n [1 \<mapsto> StrField, 2 \<mapsto> StrField] (tokenRequestFields t)"
    "conforms n [1 \<mapsto> StrField] (authRequestFields a)"
    "conforms n [1 \<mapsto> StrField, 2 \<mapsto> StrField, 3 \<mapsto> StrField] (failOrderRequestFields f)"
    "conforms n [1 \<mapsto> StrField, 2 \<mapsto> LocField] (heartbeatRequestFields h)"
  using assms
  by (auto simp: conforms_def hasKind_def maxFields_def orderIDRequestFields_def droneIDRequestFields_def
      tokenRequestFields_def authRequestFields_def failOrderRequestFields_def heartbeatRequestFields_def
      ptrFields_def locationFields_def split: option.splits)

lemma request_fields:
  "lastStr (orderIDRequestFields i) 1 = wiAuthToken i" "lastStr (orderIDRequestFields i) 2 = wiOrderId i"
  "lastStr (droneIDRequestFields d) 1 = weAuthToken d" "lastStr (droneIDRequestFields d) 2 = weDroneId d"
  "lastStr (tokenRequestFields t) 1 = wtName t" "lastStr (tokenRequestFields t) 2 = wtRole t"
  "lastStr (authRequestFields a) 1 = waAuthToken a"
  "lastStr (failOrderRequestFields f) 1 = wfAuthToken f" "lastStr (failOrderRequestFields f) 2 = wfOrderId f"
  "lastStr (failOrderRequestFields f) 3 = wfReason f"
  "lastStr (heartbeatRequestFields h) 1 = whAuthToken h" "lastLoc (heartbeatRequestFields h) 2 = locOf (whLocation h)"
  by (auto simp: last_defs upd_defs wireLocation_def orderIDRequestFields_def droneIDRequestFields_def
      tokenRequestFields_def authRequestFields_def failOrderRequestFields_def heartbeatRequestFields_def
      ptrFields_def locationFields_def locOf_def split: option.splits)

text \<open>The server reads what was sent, for every method but three.\<close>

lemma call_read:
  assumes P: "stream_ok P view" and n: "maxFields < n" and "callName g \<notin> set flatMethods"
  shows "\<exists>args. map_of (thriftTable n) (callName g) = Some (callRole g, args) \<and>
    (\<forall>ts. yields P view args (wrapped (callFields g) @ ts) (meant g) ts)"
proof -
  note rd = yields_argsM [OF yields_readOrderIDRequest [OF P request_conforms(1) [OF n]]]
    yields_argsM [OF yields_readOrderIDRequest [OF P request_conforms(2) [OF n]]]
    yields_argsM [OF yields_readAuthRequest [OF P request_conforms(4) [OF n]]]
    yields_argsM [OF yields_readFailOrderRequest [OF P request_conforms(5) [OF n]]]
    yields_argsM [OF yields_readHeartbeatRequest [OF P request_conforms(6) [OF n]]]
  have rd': "yields P view (argsM reader f) ks y ts"
    if "yields P view (argsM reader f) ks x ts" and "x = y" for reader :: "('a, 'z) T" and f ks x y ts
    using that by simp
  show ?thesis using assms(3)
    by (cases g) (simp_all add: flatMethods_def thriftTable_def callRole_def readDroneIDRequest_def
        rd' [OF rd(1)] rd' [OF rd(2)] rd' [OF rd(3)] rd' [OF rd(4)] rd' [OF rd(5)] request_fields)
qed

text \<open>The other three meet a struct where they expect the token.\<close>

lemma flat_call_refused:
  assumes I: "stream_ok (inProto W) view" "strict_strings (inProto W) view" and O: "sink_ok (outProto W) sink"
    and msg: "view (inSt c) = KMsg name CALL seqID # wrapped ((1, VStr token) # fs) @ ts" and n: "0 < n"
    and name: "name \<in> set flatMethods"
  shows "\<exists>e c'. Process (NewProcessor n p) W c = (Inr (False, Some (AppExc PROTOCOL_ERROR e)), c') \<and>
    svcSt c' = svcSt c \<and> sink (outSt c') = sink (outSt c) @ [KMsg name EXCEPTION seqID, KExc (AppExc PROTOCOL_ERROR e)]"
proof -
  obtain i where i: "ReadMessageBegin (inProto W) (inSt c) = (Inr (name, CALL, seqID), i)"
      "view i = wrapped ((1, VStr token) # fs) @ ts"
    using yields_ops(9) [OF I(1)] msg unfolding yields_def by blast
  note flat = flat_reader_refuses [OF I n _ i(2)]
  have readers: "\<exists>e i'. readSubmitOrderRequest n (inProto W) i = (Inl (TErr e), i')"
    "\<exists>e i'. readListOrdersRequest n (inProto W) i = (Inl (TErr e), i')"
    "\<exists>e i'. readUpdateOrderRequest n (inProto W) i = (Inl (TErr e), i')"
    unfolding readSubmitOrderRequest_def readListOrdersRequest_def readUpdateOrderRequest_def
    by - (rule flat, auto split: prod.splits)+
  have "\<exists>role args. map_of (thriftTable n) name = Some (role, args) \<and>
      (\<exists>e i'. args (inProto W) i = (Inl (TErr e), i'))"
  proof -
    note refuses = argsM_refuses [where P = "inProto W" and i = i]
    have "name = ''SubmitOrder'' \<or> name = ''ListOrders'' \<or> name = ''UpdateOrder''"
      using name by (simp add: flatMethods_def)
    then show ?thesis
    proof (elim disjE)
      assume "name = ''SubmitOrder''"
      then show ?thesis using refuses [where reader = "readSubmitOrderRequest n", OF readers(1)] by (simp add: thriftTable_def)
    next
      assume "name = ''ListOrders''"
      then show ?thesis using refuses [where reader = "readListOrdersRequest n", OF readers(2)] by (simp add: thriftTable_def)
    next
      assume "name = ''UpdateOrder''"
      then show ?thesis using refuses [where reader = "readUpdateOrderRequest n", OF readers(3)] by (simp add: thriftTable_def)
    qed
  qed
  then obtain role args e i' where entry: "map_of (thriftTable n) name = Some (role, args)"
    and e: "args (inProto W) i = (Inl (TErr e), i')" by blast
  have "name \<noteq> ''IssueToken''" using name by (auto simp: flatMethods_def)
  then have "Process (NewProcessor n p) W c = thriftCall p name (role, args) seqID W (c\<lparr>inSt := i\<rparr>)"
    using Process_read(1) [OF i(1)] entry by (simp add: thrift_handlers_call)
  also have "\<dots> = writeException name seqID (AppExc PROTOCOL_ERROR e) W (c\<lparr>inSt := i'\<rparr>)"
    by (simp add: thriftCall_def tryIn_def outcome_def run_rules e)
  finally have run: "Process (NewProcessor n p) W c =
      writeException name seqID (AppExc PROTOCOL_ERROR e) W (c\<lparr>inSt := i'\<rparr>)" .
  from responds_writeException [OF O, of name seqID "AppExc PROTOCOL_ERROR e"] obtain o' where
    "writeException name seqID (AppExc PROTOCOL_ERROR e) W (c\<lparr>inSt := i'\<rparr>) =
       (Inr (False, Some (AppExc PROTOCOL_ERROR e)), c\<lparr>inSt := i', outSt := o'\<rparr>)"
    "sink o' = sink (outSt c) @ [KMsg name EXCEPTION seqID, KExc (AppExc PROTOCOL_ERROR e)]"
    unfolding responds_def by (drule_tac x = "c\<lparr>inSt := i'\<rparr>" in spec) auto
  then show ?thesis unfolding run by auto
qed

lemma call_refused:
  assumes "stream_ok (inProto W) view" and "strict_strings (inProto W) view" and "sink_ok (outProto W) sink"
    and "view (inSt c) = KMsg (callName g) CALL seqID # wrapped (callFields g) @ ts" and "0 < n"
    and "callName g \<in> set flatMethods"
  shows "\<exists>e c'. Process (NewProcessor n p) W c = (Inr (False, Some (AppExc PROTOCOL_ERROR e)), c') \<and>
    svcSt c' = svcSt c \<and>
    sink (outSt c') = sink (outSt c) @ [KMsg (callName g) EXCEPTION seqID, KExc (AppExc PROTOCOL_ERROR e)]"
proof -
  have "\<exists>token fs. callFields g = (1, VStr token) # fs"
    using assms(6) by (cases g) (simp_all add: flatMethods_def submitOrderRequestFields_def
        listOrdersRequestFields_def updateOrderRequestFields_def)
  then obtain token fs where "callFields g = (1, VStr token) # fs" by blast
  with flat_call_refused [OF assms(1-3) _ assms(5,6)] assms(4) show ?thesis by simp
qed

text \<open>The answer to a token request is the one reply that is a closed struct.\<close>

lemma token_response_read:
  assumes "sink_ok Q snk" and "stream_ok P view" and "maxFields < n"
  shows "survives Q snk P view (writeTokenResponse token t) (TokenResponse_Read n NewTokenResponse)
    \<lparr>wrToken = token, wrExpiresAt = Unix t\<rparr>"
  unfolding survives_def
  using emits_writeTokenResponse [OF assms(1)]
    gen_tokenResponse.reads_filled [OF assms(2,3), of "\<lparr>wrToken = token, wrExpiresAt = Unix t\<rparr>"]
  by (fastforce simp: tokenResponseFields_def filledTokenResponse_def)

text \<open>Every struct of the interface survives the wire.\<close>

lemma generated_roundtrip:
  assumes "sink_ok Q sink" and "stream_ok P view" and "maxFields < n"
  shows "survives Q sink P view (Location_Write (Some l)) (Location_Read n NewLocation) l \<and>
    survives Q sink P view (Order_Write (Some ord)) (Order_Read n NewOrder) (filledOrder ord) \<and>
    survives Q sink P view (OrderView_Write (Some v)) (OrderView_Read n NewOrderView) (filledOrderView v) \<and>
    survives Q sink P view (Drone_Write (Some d)) (Drone_Read n NewDrone) d \<and>
    survives Q sink P view (DroneStatus_Write (Some st)) (DroneStatus_Read n NewDroneStatus) (filledDroneStatus st) \<and>
    survives Q sink P view (SubmitOrderRequest_Write (Some b)) (SubmitOrderRequest_Read n NewSubmitOrderRequest)
      (filledSubmitOrderRequest b) \<and>
    survives Q sink P view (ListOrdersRequest_Write (Some q)) (ListOrdersRequest_Read n NewListOrdersRequest) q \<and>
    survives Q sink P view (UpdateOrderRequest_Write (Some u)) (UpdateOrderRequest_Read n NewUpdateOrderRequest) u \<and>
    survives Q sink P view (writeTokenResponse token t) (TokenResponse_Read n NewTokenResponse)
      \<lparr>wrToken = token, wrExpiresAt = Unix t\<rparr> \<and>
    (woOrigin ord \<noteq> None \<and> woDestination ord \<noteq> None \<longrightarrow> filledOrder ord = ord)"
  using gen_location.roundtrip [OF assms, of l] gen_order.roundtrip [OF assms, of ord] gen_orderView.roundtrip [OF assms, of v]
    gen_drone.roundtrip [OF assms, of d] gen_droneStatus.roundtrip [OF assms, of st]
    gen_submitOrderRequest.roundtrip [OF assms, of b] gen_listOrdersRequest.roundtrip [OF assms, of q]
    gen_updateOrderRequest.roundtrip [OF assms, of u] token_response_read [OF assms, of token t]
  by (simp add: filled_complete filledLocation_def filledListOrdersRequest_def)

end
