(* ===== verification/ThriftGenProc.thy ===== *)
theory ThriftGenProc
  imports ThriftClient
begin

text \<open>
  The server side of the generated code in \<open>drone_delivery.go\<close>: for every method the \<open>Read\<close> of its
  arguments and the \<open>Write\<close> of its result, the interfaces a server implements, and the four
  processors. The repository's server does not use them, it has the processor of theory
  ThriftProc; they are what a client of the interface expects to talk to.

  An implementation of an interface runs on the state of the service. While it runs, a
  goroutine watches the connection and cancels the context of the call when the client is gone;
  what the code makes of that is part of the error of the implementation, \<open>herr\<close>.
\<close>

section \<open>Arguments and results\<close>

definition readRequest :: "nat \<Rightarrow> ('q \<Rightarrow> ('p, 'q) T) \<Rightarrow> 'q \<Rightarrow> 'q option \<Rightarrow> ('p, 'q option) T" where
  "readRequest n read new = readStruct n (switchField [(1, STRUCT, readStructPtr read new (\<lambda>v p. v))])"

definition writeResult :: "string \<Rightarrow> ('r option \<Rightarrow> ('p, unit) T) \<Rightarrow> 'r option \<Rightarrow> ('p, unit) T" where
  "writeResult name write success =
     writeStruct name (\<lambda>success. [writeOpt success (\<lambda>x. writeField ''success'' STRUCT 0 (write (Some x)))]) (Some success)"

text \<open>A slice of pointers, which may be nil, or have pointers in it that are.\<close>

definition writeList :: "('r option \<Rightarrow> ('p, unit) T) \<Rightarrow> 'r option list \<Rightarrow> ('p, unit) T" where
  "writeList write xs = seqAll [WriteListBegin STRUCT (length xs), seqAll (map write xs), WriteListEnd]"

definition writeListResult :: "string \<Rightarrow> ('r option \<Rightarrow> ('p, unit) T) \<Rightarrow> 'r option list option \<Rightarrow> ('p, unit) T" where
  "writeListResult name write success =
     writeStruct name (\<lambda>success. [writeOpt success (\<lambda>xs. writeField ''success'' LIST 0 (writeList write xs))]) (Some success)"

definition AuthServiceIssueTokenArgs_Read :: "nat \<Rightarrow> WTokenRequest option \<Rightarrow> ('p, WTokenRequest option) T" where
  "AuthServiceIssueTokenArgs_Read n = readRequest n (TokenRequest_Read n) NewTokenRequest"
definition AuthServiceIssueTokenResult_Write :: "WTokenResponse option \<Rightarrow> ('p, unit) T" where
  "AuthServiceIssueTokenResult_Write = writeResult ''IssueToken_result'' TokenResponse_Write"

definition OrderServiceSubmitOrderArgs_Read :: "nat \<Rightarrow> WSubmitOrderRequest option \<Rightarrow> ('p, WSubmitOrderRequest option) T" where
  "OrderServiceSubmitOrderArgs_Read n = readRequest n (SubmitOrderRequest_Read n) NewSubmitOrderRequest"
definition OrderServiceSubmitOrderResult_Write :: "WOrder option \<Rightarrow> ('p, unit) T" where
  "OrderServiceSubmitOrderResult_Write = writeResult ''SubmitOrder_result'' Order_Write"

definition OrderServiceWithdrawOrderArgs_Read :: "nat \<Rightarrow> WOrderIDRequest option \<Rightarrow> ('p, WOrderIDRequest option) T" where
  "OrderServiceWithdrawOrderArgs_Read n = readRequest n (OrderIDRequest_Read n) NewOrderIDRequest"
definition OrderServiceWithdrawOrderResult_Write :: "WOrder option \<Rightarrow> ('p, unit) T" where
  "OrderServiceWithdrawOrderResult_Write = writeResult ''WithdrawOrder_result'' Order_Write"

definition OrderServiceGetOrderArgs_Read :: "nat \<Rightarrow> WOrderIDRequest option \<Rightarrow> ('p, WOrderIDRequest option) T" where
  "OrderServiceGetOrderArgs_Read n = readRequest n (OrderIDRequest_Read n) NewOrderIDRequest"
definition OrderServiceGetOrderResult_Write :: "WOrderView option \<Rightarrow> ('p, unit) T" where
  "OrderServiceGetOrderResult_Write = writeResult ''GetOrder_result'' OrderView_Write"

definition DroneServiceReserveJobArgs_Read :: "nat \<Rightarrow> WAuthRequest option \<Rightarrow> ('p, WAuthRequest option) T" where
  "DroneServiceReserveJobArgs_Read n = readRequest n (AuthRequest_Read n) NewAuthRequest"
definition DroneServiceReserveJobResult_Write :: "WOrder option \<Rightarrow> ('p, unit) T" where
  "DroneServiceReserveJobResult_Write = writeResult ''ReserveJob_result'' Order_Write"

definition DroneServicePickupOrderArgs_Read :: "nat \<Rightarrow> WOrderIDRequest option \<Rightarrow> ('p, WOrderIDRequest option) T" where
  "DroneServicePickupOrderArgs_Read n = readRequest n (OrderIDRequest_Read n) NewOrderIDRequest"
definition DroneServicePickupOrderResult_Write :: "WOrder option \<Rightarrow> ('p, unit) T" where
  "DroneServicePickupOrderResult_Write = writeResult ''PickupOrder_result'' Order_Write"

definition DroneServiceDeliverOrderArgs_Read :: "nat \<Rightarrow> WOrderIDRequest option \<Rightarrow> ('p, WOrderIDRequest option) T" where
  "DroneServiceDeliverOrderArgs_Read n = readRequest n (OrderIDRequest_Read n) NewOrderIDRequest"
definition DroneServiceDeliverOrderResult_Write :: "WOrder option \<Rightarrow> ('p, unit) T" where
  "DroneServiceDeliverOrderResult_Write = writeResult ''DeliverOrder_result'' Order_Write"

definition DroneServiceFailOrderArgs_Read :: "nat \<Rightarrow> WFailOrderRequest option \<Rightarrow> ('p, WFailOrderRequest option) T" where
  "DroneServiceFailOrderArgs_Read n = readRequest n (FailOrderRequest_Read n) NewFailOrderRequest"
definition DroneServiceFailOrderResult_Write :: "WOrder option \<Rightarrow> ('p, unit) T" where
  "DroneServiceFailOrderResult_Write = writeResult ''FailOrder_result'' Order_Write"

definition DroneServiceMarkBrokenArgs_Read :: "nat \<Rightarrow> WAuthRequest option \<Rightarrow> ('p, WAuthRequest option) T" where
  "DroneServiceMarkBrokenArgs_Read n = readRequest n (AuthRequest_Read n) NewAuthRequest"
definition DroneServiceMarkBrokenResult_Write :: "WDrone option \<Rightarrow> ('p, unit) T" where
  "DroneServiceMarkBrokenResult_Write = writeResult ''MarkBroken_result'' Drone_Write"

definition DroneServiceHeartbeatArgs_Read :: "nat \<Rightarrow> WHeartbeatRequest option \<Rightarrow> ('p, WHeartbeatRequest option) T" where
  "DroneServiceHeartbeatArgs_Read n = readRequest n (HeartbeatRequest_Read n) NewHeartbeatRequest"
definition DroneServiceHeartbeatResult_Write :: "WDroneStatus option \<Rightarrow> ('p, unit) T" where
  "DroneServiceHeartbeatResult_Write = writeResult ''Heartbeat_result'' DroneStatus_Write"

definition DroneServiceCurrentOrderArgs_Read :: "nat \<Rightarrow> WAuthRequest option \<Rightarrow> ('p, WAuthRequest option) T" where
  "DroneServiceCurrentOrderArgs_Read n = readRequest n (AuthRequest_Read n) NewAuthRequest"
definition DroneServiceCurrentOrderResult_Write :: "WOrderView option \<Rightarrow> ('p, unit) T" where
  "DroneServiceCurrentOrderResult_Write = writeResult ''CurrentOrder_result'' OrderView_Write"

definition AdminServiceListOrdersArgs_Read :: "nat \<Rightarrow> WListOrdersRequest option \<Rightarrow> ('p, WListOrdersRequest option) T" where
  "AdminServiceListOrdersArgs_Read n = readRequest n (ListOrdersRequest_Read n) NewListOrdersRequest"
definition AdminServiceListOrdersResult_Write :: "WOrderView option list option \<Rightarrow> ('p, unit) T" where
  "AdminServiceListOrdersResult_Write = writeListResult ''ListOrders_result'' OrderView_Write"

definition AdminServiceUpdateOrderArgs_Read :: "nat \<Rightarrow> WUpdateOrderRequest option \<Rightarrow> ('p, WUpdateOrderRequest option) T" where
  "AdminServiceUpdateOrderArgs_Read n = readRequest n (UpdateOrderRequest_Read n) NewUpdateOrderRequest"
definition AdminServiceUpdateOrderResult_Write :: "WOrder option \<Rightarrow> ('p, unit) T" where
  "AdminServiceUpdateOrderResult_Write = writeResult ''UpdateOrder_result'' Order_Write"

definition AdminServiceListDronesArgs_Read :: "nat \<Rightarrow> WAuthRequest option \<Rightarrow> ('p, WAuthRequest option) T" where
  "AdminServiceListDronesArgs_Read n = readRequest n (AuthRequest_Read n) NewAuthRequest"
definition AdminServiceListDronesResult_Write :: "WDrone option list option \<Rightarrow> ('p, unit) T" where
  "AdminServiceListDronesResult_Write = writeListResult ''ListDrones_result'' Drone_Write"

definition AdminServiceMarkDroneBrokenArgs_Read :: "nat \<Rightarrow> WDroneIDRequest option \<Rightarrow> ('p, WDroneIDRequest option) T" where
  "AdminServiceMarkDroneBrokenArgs_Read n = readRequest n (DroneIDRequest_Read n) NewDroneIDRequest"
definition AdminServiceMarkDroneBrokenResult_Write :: "WDrone option \<Rightarrow> ('p, unit) T" where
  "AdminServiceMarkDroneBrokenResult_Write = writeResult ''MarkDroneBroken_result'' Drone_Write"

definition AdminServiceMarkDroneFixedArgs_Read :: "nat \<Rightarrow> WDroneIDRequest option \<Rightarrow> ('p, WDroneIDRequest option) T" where
  "AdminServiceMarkDroneFixedArgs_Read n = readRequest n (DroneIDRequest_Read n) NewDroneIDRequest"
definition AdminServiceMarkDroneFixedResult_Write :: "WDrone option \<Rightarrow> ('p, unit) T" where
  "AdminServiceMarkDroneFixedResult_Write = writeResult ''MarkDroneFixed_result'' Drone_Write"

lemmas server_defs = AuthServiceIssueTokenArgs_Read_def AuthServiceIssueTokenResult_Write_def
  OrderServiceSubmitOrderArgs_Read_def OrderServiceSubmitOrderResult_Write_def
  OrderServiceWithdrawOrderArgs_Read_def OrderServiceWithdrawOrderResult_Write_def
  OrderServiceGetOrderArgs_Read_def OrderServiceGetOrderResult_Write_def
  DroneServiceReserveJobArgs_Read_def DroneServiceReserveJobResult_Write_def
  DroneServicePickupOrderArgs_Read_def DroneServicePickupOrderResult_Write_def
  DroneServiceDeliverOrderArgs_Read_def DroneServiceDeliverOrderResult_Write_def
  DroneServiceFailOrderArgs_Read_def DroneServiceFailOrderResult_Write_def
  DroneServiceMarkBrokenArgs_Read_def DroneServiceMarkBrokenResult_Write_def
  DroneServiceHeartbeatArgs_Read_def DroneServiceHeartbeatResult_Write_def
  DroneServiceCurrentOrderArgs_Read_def DroneServiceCurrentOrderResult_Write_def
  AdminServiceListOrdersArgs_Read_def AdminServiceListOrdersResult_Write_def
  AdminServiceUpdateOrderArgs_Read_def AdminServiceUpdateOrderResult_Write_def
  AdminServiceListDronesArgs_Read_def AdminServiceListDronesResult_Write_def
  AdminServiceMarkDroneBrokenArgs_Read_def AdminServiceMarkDroneBrokenResult_Write_def
  AdminServiceMarkDroneFixedArgs_Read_def AdminServiceMarkDroneFixedResult_Write_def

section \<open>The interfaces\<close>

text \<open>
  The errors of an implementation: any other one, one that wraps \<open>thrift.ErrAbandonRequest\<close>, and
  one that wraps \<open>context.Canceled\<close>, with the text of the cause of the context if that is
  \<open>thrift.ErrAbandonRequest\<close>.
\<close>

datatype herr = HandlerErr string | Abandoned string | Canceled string "string option"

fun herrText :: "herr \<Rightarrow> string" where
  "herrText (HandlerErr e) = e"
| "herrText (Abandoned e) = e"
| "herrText (Canceled e gone) = e"

type_synonym ('q, 'r) implementation = "'q option \<Rightarrow> (env, st, herr, 'r) prog"

record AuthService =
  authIssueToken :: "(WTokenRequest, WTokenResponse option) implementation"

record OrderService =
  orderSubmitOrder :: "(WSubmitOrderRequest, WOrder option) implementation"
  orderWithdrawOrder :: "(WOrderIDRequest, WOrder option) implementation"
  orderGetOrder :: "(WOrderIDRequest, WOrderView option) implementation"

record DroneService =
  droneReserveJob :: "(WAuthRequest, WOrder option) implementation"
  dronePickupOrder :: "(WOrderIDRequest, WOrder option) implementation"
  droneDeliverOrder :: "(WOrderIDRequest, WOrder option) implementation"
  droneFailOrder :: "(WFailOrderRequest, WOrder option) implementation"
  droneMarkBroken :: "(WAuthRequest, WDrone option) implementation"
  droneHeartbeat :: "(WHeartbeatRequest, WDroneStatus option) implementation"
  droneCurrentOrder :: "(WAuthRequest, WOrderView option) implementation"

record AdminService =
  adminListOrders :: "(WListOrdersRequest, WOrderView option list option) implementation"
  adminUpdateOrder :: "(WUpdateOrderRequest, WOrder option) implementation"
  adminListDrones :: "(WAuthRequest, WDrone option list option) implementation"
  adminMarkDroneBroken :: "(WDroneIDRequest, WDrone option) implementation"
  adminMarkDroneFixed :: "(WDroneIDRequest, WDrone option) implementation"

section \<open>The processors\<close>

text \<open>An exception of the library, an error it wraps, and a failed answer: the error of writing it and that of the method.\<close>

datatype gexc = AppException texc | WrappedExc string | ProcessorError string "string option"

type_synonym gverdict = "bool \<times> gexc option"

text \<open>The writes of an answer all happen; the first error of them is kept.\<close>

fun writeAll :: "('o, unit) T list \<Rightarrow> string option \<Rightarrow> ('i, 'o, string option) H" where
  "writeAll [] writeErr = returnM writeErr"
| "writeAll (m # ms) writeErr = bindM (tryOut m) (\<lambda>r. writeAll ms
     (case r of Inl err2 \<Rightarrow> (if writeErr = None then Some err2 else writeErr) | Inr _ \<Rightarrow> writeErr))"

definition answered :: "('o, unit) T list \<Rightarrow> string option \<Rightarrow> ('i, 'o, gverdict) H" where
  "answered writes err = bindM (writeAll writes None) (\<lambda>writeErr. case writeErr of
      Some e \<Rightarrow> returnM (False, Some (ProcessorError e err))
    | None \<Rightarrow> returnM (True, map_option WrappedExc err))"

definition callHandler :: "(env, st, herr, 'r) prog \<Rightarrow> ('i, 'o, herr + 'r) H" where
  "callHandler m = (\<lambda>W c. case m (world W) (svcSt c) of (r, s) \<Rightarrow> (Inr r, c\<lparr>svcSt := s\<rparr>))"

definition internalText :: "string \<Rightarrow> string \<Rightarrow> string" where
  "internalText name e = ''Internal error processing '' @ name @ '': '' @ e"

definition processMethod ::
  "string \<Rightarrow> ('q option \<Rightarrow> ('i, 'q option) T) \<Rightarrow> ('r \<Rightarrow> ('o, unit) T) \<Rightarrow> ('q, 'r) implementation \<Rightarrow> int \<Rightarrow> ('i, 'o, gverdict) H" where
  "processMethod name readA writeRes handler seqId =
     bindM (tryIn (readA None)) (\<lambda>args. case args of
        Inl err2 \<Rightarrow>
          seqM (tryIn ReadMessageEnd)
         (seqM (tryOut (WriteMessageBegin name EXCEPTION seqId))
         (seqM (tryOut (WriteException (AppExc PROTOCOL_ERROR err2)))
         (seqM (tryOut WriteMessageEnd)
         (seqM (tryOut FlushOf)
         (returnM (False, Some (WrappedExc err2)))))))
      | Inr request \<Rightarrow>
          seqM (tryIn ReadMessageEnd)
         (bindM (callHandler (handler request)) (\<lambda>r. case r of
             Inr retval \<Rightarrow>
               answered [WriteMessageBegin name REPLY seqId, writeRes retval, WriteMessageEnd, FlushOf] None
           | Inl err2 \<Rightarrow>
              (case err2 of
                 Abandoned e \<Rightarrow> returnM (False, Some (ProcessorError e (Some e)))
               | Canceled e (Some gone) \<Rightarrow> returnM (False, Some (ProcessorError gone (Some e)))
               | _ \<Rightarrow> answered
                   [WriteMessageBegin name EXCEPTION seqId,
                    WriteException (AppExc INTERNAL_ERROR (internalText name (herrText err2))),
                    WriteMessageEnd, FlushOf] (Some (herrText err2))))))"

type_synonym ('i, 'o) TProcessorFunction = "int \<Rightarrow> ('i, 'o, gverdict) H"

record ('i, 'o) TProcessor =
  genProcessorMap :: "string \<rightharpoonup> ('i, 'o) TProcessorFunction"

definition GenAddToProcessorMap ::
  "string \<Rightarrow> ('i, 'o) TProcessorFunction \<Rightarrow> ('i, 'o) TProcessor \<Rightarrow> ('i, 'o) TProcessor" where
  "GenAddToProcessorMap key processor p = p\<lparr>genProcessorMap := (genProcessorMap p)(key \<mapsto> processor)\<rparr>"

definition GetProcessorFunction :: "('i, 'o) TProcessor \<Rightarrow> string \<rightharpoonup> ('i, 'o) TProcessorFunction" where
  "GetProcessorFunction p key = genProcessorMap p key"

definition processMessage :: "('i, 'o) TProcessor \<Rightarrow> ('i, 'o, gverdict) H" where
  "processMessage p =
     bindM (tryIn ReadMessageBegin) (\<lambda>r. case r of
        Inl err2 \<Rightarrow> returnM (False, Some (WrappedExc err2))
      | Inr (name, _, seqId) \<Rightarrow>
          (case GetProcessorFunction p name of
             Some processor \<Rightarrow> processor seqId
           | None \<Rightarrow>
               let x = AppExc UNKNOWN_METHOD (''Unknown function '' @ name) in
               seqM (tryIn (Skip STRUCT))
              (seqM (tryIn ReadMessageEnd)
              (seqM (tryOut (WriteMessageBegin name EXCEPTION seqId))
              (seqM (tryOut (WriteException x))
              (seqM (tryOut WriteMessageEnd)
              (seqM (tryOut FlushOf)
              (returnM (False, Some (AppException x))))))))))"

definition authServiceProcessorIssueToken_Process ::
  "AuthService \<Rightarrow> nat \<Rightarrow> ('i, 'o) TProcessorFunction" where
  "authServiceProcessorIssueToken_Process handler n = processMethod ''IssueToken''
     (AuthServiceIssueTokenArgs_Read n) AuthServiceIssueTokenResult_Write (authIssueToken handler)"

definition orderServiceProcessorSubmitOrder_Process ::
  "OrderService \<Rightarrow> nat \<Rightarrow> ('i, 'o) TProcessorFunction" where
  "orderServiceProcessorSubmitOrder_Process handler n = processMethod ''SubmitOrder''
     (OrderServiceSubmitOrderArgs_Read n) OrderServiceSubmitOrderResult_Write (orderSubmitOrder handler)"

definition orderServiceProcessorWithdrawOrder_Process ::
  "OrderService \<Rightarrow> nat \<Rightarrow> ('i, 'o) TProcessorFunction" where
  "orderServiceProcessorWithdrawOrder_Process handler n = processMethod ''WithdrawOrder''
     (OrderServiceWithdrawOrderArgs_Read n) OrderServiceWithdrawOrderResult_Write (orderWithdrawOrder handler)"

definition orderServiceProcessorGetOrder_Process ::
  "OrderService \<Rightarrow> nat \<Rightarrow> ('i, 'o) TProcessorFunction" where
  "orderServiceProcessorGetOrder_Process handler n = processMethod ''GetOrder''
     (OrderServiceGetOrderArgs_Read n) OrderServiceGetOrderResult_Write (orderGetOrder handler)"

definition droneServiceProcessorReserveJob_Process ::
  "DroneService \<Rightarrow> nat \<Rightarrow> ('i, 'o) TProcessorFunction" where
  "droneServiceProcessorReserveJob_Process handler n = processMethod ''ReserveJob''
     (DroneServiceReserveJobArgs_Read n) DroneServiceReserveJobResult_Write (droneReserveJob handler)"

definition droneServiceProcessorPickupOrder_Process ::
  "DroneService \<Rightarrow> nat \<Rightarrow> ('i, 'o) TProcessorFunction" where
  "droneServiceProcessorPickupOrder_Process handler n = processMethod ''PickupOrder''
     (DroneServicePickupOrderArgs_Read n) DroneServicePickupOrderResult_Write (dronePickupOrder handler)"

definition droneServiceProcessorDeliverOrder_Process ::
  "DroneService \<Rightarrow> nat \<Rightarrow> ('i, 'o) TProcessorFunction" where
  "droneServiceProcessorDeliverOrder_Process handler n = processMethod ''DeliverOrder''
     (DroneServiceDeliverOrderArgs_Read n) DroneServiceDeliverOrderResult_Write (droneDeliverOrder handler)"

definition droneServiceProcessorFailOrder_Process ::
  "DroneService \<Rightarrow> nat \<Rightarrow> ('i, 'o) TProcessorFunction" where
  "droneServiceProcessorFailOrder_Process handler n = processMethod ''FailOrder''
     (DroneServiceFailOrderArgs_Read n) DroneServiceFailOrderResult_Write (droneFailOrder handler)"

definition droneServiceProcessorMarkBroken_Process ::
  "DroneService \<Rightarrow> nat \<Rightarrow> ('i, 'o) TProcessorFunction" where
  "droneServiceProcessorMarkBroken_Process handler n = processMethod ''MarkBroken''
     (DroneServiceMarkBrokenArgs_Read n) DroneServiceMarkBrokenResult_Write (droneMarkBroken handler)"

definition droneServiceProcessorHeartbeat_Process ::
  "DroneService \<Rightarrow> nat \<Rightarrow> ('i, 'o) TProcessorFunction" where
  "droneServiceProcessorHeartbeat_Process handler n = processMethod ''Heartbeat''
     (DroneServiceHeartbeatArgs_Read n) DroneServiceHeartbeatResult_Write (droneHeartbeat handler)"

definition droneServiceProcessorCurrentOrder_Process ::
  "DroneService \<Rightarrow> nat \<Rightarrow> ('i, 'o) TProcessorFunction" where
  "droneServiceProcessorCurrentOrder_Process handler n = processMethod ''CurrentOrder''
     (DroneServiceCurrentOrderArgs_Read n) DroneServiceCurrentOrderResult_Write (droneCurrentOrder handler)"

definition adminServiceProcessorListOrders_Process ::
  "AdminService \<Rightarrow> nat \<Rightarrow> ('i, 'o) TProcessorFunction" where
  "adminServiceProcessorListOrders_Process handler n = processMethod ''ListOrders''
     (AdminServiceListOrdersArgs_Read n) AdminServiceListOrdersResult_Write (adminListOrders handler)"

definition adminServiceProcessorUpdateOrder_Process ::
  "AdminService \<Rightarrow> nat \<Rightarrow> ('i, 'o) TProcessorFunction" where
  "adminServiceProcessorUpdateOrder_Process handler n = processMethod ''UpdateOrder''
     (AdminServiceUpdateOrderArgs_Read n) AdminServiceUpdateOrderResult_Write (adminUpdateOrder handler)"

definition adminServiceProcessorListDrones_Process ::
  "AdminService \<Rightarrow> nat \<Rightarrow> ('i, 'o) TProcessorFunction" where
  "adminServiceProcessorListDrones_Process handler n = processMethod ''ListDrones''
     (AdminServiceListDronesArgs_Read n) AdminServiceListDronesResult_Write (adminListDrones handler)"

definition adminServiceProcessorMarkDroneBroken_Process ::
  "AdminService \<Rightarrow> nat \<Rightarrow> ('i, 'o) TProcessorFunction" where
  "adminServiceProcessorMarkDroneBroken_Process handler n = processMethod ''MarkDroneBroken''
     (AdminServiceMarkDroneBrokenArgs_Read n) AdminServiceMarkDroneBrokenResult_Write (adminMarkDroneBroken handler)"

definition adminServiceProcessorMarkDroneFixed_Process ::
  "AdminService \<Rightarrow> nat \<Rightarrow> ('i, 'o) TProcessorFunction" where
  "adminServiceProcessorMarkDroneFixed_Process handler n = processMethod ''MarkDroneFixed''
     (AdminServiceMarkDroneFixedArgs_Read n) AdminServiceMarkDroneFixedResult_Write (adminMarkDroneFixed handler)"

definition NewAuthServiceProcessor :: "AuthService \<Rightarrow> nat \<Rightarrow> ('i, 'o) TProcessor" where
  "NewAuthServiceProcessor handler n = \<lparr>genProcessorMap =
     [''IssueToken'' \<mapsto> authServiceProcessorIssueToken_Process handler n]\<rparr>"

definition AuthServiceProcessor_Process :: "('i, 'o) TProcessor \<Rightarrow> ('i, 'o, gverdict) H" where
  "AuthServiceProcessor_Process = processMessage"

definition NewOrderServiceProcessor :: "OrderService \<Rightarrow> nat \<Rightarrow> ('i, 'o) TProcessor" where
  "NewOrderServiceProcessor handler n = \<lparr>genProcessorMap =
     [''SubmitOrder'' \<mapsto> orderServiceProcessorSubmitOrder_Process handler n,
      ''WithdrawOrder'' \<mapsto> orderServiceProcessorWithdrawOrder_Process handler n,
      ''GetOrder'' \<mapsto> orderServiceProcessorGetOrder_Process handler n]\<rparr>"

definition OrderServiceProcessor_Process :: "('i, 'o) TProcessor \<Rightarrow> ('i, 'o, gverdict) H" where
  "OrderServiceProcessor_Process = processMessage"

definition NewDroneServiceProcessor :: "DroneService \<Rightarrow> nat \<Rightarrow> ('i, 'o) TProcessor" where
  "NewDroneServiceProcessor handler n = \<lparr>genProcessorMap =
     [''ReserveJob'' \<mapsto> droneServiceProcessorReserveJob_Process handler n,
      ''PickupOrder'' \<mapsto> droneServiceProcessorPickupOrder_Process handler n,
      ''DeliverOrder'' \<mapsto> droneServiceProcessorDeliverOrder_Process handler n,
      ''FailOrder'' \<mapsto> droneServiceProcessorFailOrder_Process handler n,
      ''MarkBroken'' \<mapsto> droneServiceProcessorMarkBroken_Process handler n,
      ''Heartbeat'' \<mapsto> droneServiceProcessorHeartbeat_Process handler n,
      ''CurrentOrder'' \<mapsto> droneServiceProcessorCurrentOrder_Process handler n]\<rparr>"

definition DroneServiceProcessor_Process :: "('i, 'o) TProcessor \<Rightarrow> ('i, 'o, gverdict) H" where
  "DroneServiceProcessor_Process = processMessage"

definition NewAdminServiceProcessor :: "AdminService \<Rightarrow> nat \<Rightarrow> ('i, 'o) TProcessor" where
  "NewAdminServiceProcessor handler n = \<lparr>genProcessorMap =
     [''ListOrders'' \<mapsto> adminServiceProcessorListOrders_Process handler n,
      ''UpdateOrder'' \<mapsto> adminServiceProcessorUpdateOrder_Process handler n,
      ''ListDrones'' \<mapsto> adminServiceProcessorListDrones_Process handler n,
      ''MarkDroneBroken'' \<mapsto> adminServiceProcessorMarkDroneBroken_Process handler n,
      ''MarkDroneFixed'' \<mapsto> adminServiceProcessorMarkDroneFixed_Process handler n]\<rparr>"

definition AdminServiceProcessor_Process :: "('i, 'o) TProcessor \<Rightarrow> ('i, 'o, gverdict) H" where
  "AdminServiceProcessor_Process = processMessage"

lemmas processor_defs = GetProcessorFunction_def
  NewAuthServiceProcessor_def AuthServiceProcessor_Process_def
  NewOrderServiceProcessor_def OrderServiceProcessor_Process_def
  NewDroneServiceProcessor_def DroneServiceProcessor_Process_def
  NewAdminServiceProcessor_def AdminServiceProcessor_Process_def
  authServiceProcessorIssueToken_Process_def
  orderServiceProcessorSubmitOrder_Process_def
  orderServiceProcessorWithdrawOrder_Process_def
  orderServiceProcessorGetOrder_Process_def
  droneServiceProcessorReserveJob_Process_def
  droneServiceProcessorPickupOrder_Process_def
  droneServiceProcessorDeliverOrder_Process_def
  droneServiceProcessorFailOrder_Process_def
  droneServiceProcessorMarkBroken_Process_def
  droneServiceProcessorHeartbeat_Process_def
  droneServiceProcessorCurrentOrder_Process_def
  adminServiceProcessorListOrders_Process_def
  adminServiceProcessorUpdateOrder_Process_def
  adminServiceProcessorListDrones_Process_def
  adminServiceProcessorMarkDroneBroken_Process_def
  adminServiceProcessorMarkDroneFixed_Process_def

end
