(* ===== verification/ThriftReplies.thy ===== *)
theory ThriftReplies
  imports ThriftClient
begin

text \<open>
  The replies of the server and the generated readers of results, over the protocol of lists of
  tokens. A reader of a struct that returns has consumed a stop for the struct and one for each
  struct inside it (\<open>consumes\<close>); the replies of the server have only one stop at their end.
\<close>

section \<open>Structs that begin and end\<close>

declare One_nat_def [simp del]

text \<open>A value of type struct has an end of its own.\<close>

definition ends :: "ttype \<Rightarrow> nat" where
  "ends t = (if t = STRUCT then 1 else 0)"

lemma ends_simps [simp]: "ends STRUCT = 1" "t \<noteq> STRUCT \<Longrightarrow> ends t = 0"
  by (simp_all add: ends_def)

definition closes :: "tok list \<Rightarrow> nat" where
  "closes ks = length (filter (\<lambda>k. k = KStop \<or> (\<exists>i. k = KField STOP i)) ks)"

fun begun :: "tok \<Rightarrow> nat" where
  "begun (KField t i) = ends t"
| "begun (KListHead t n) = (if t = STRUCT then n else 0)"
| "begun _ = 0"

definition begins :: "tok list \<Rightarrow> nat" where
  "begins ks = sum_list (map begun ks)"

lemma closes_simps [simp]:
  "closes [] = 0" "closes (ks @ ks') = closes ks + closes ks'"
  "closes (k # ks) = (if k = KStop \<or> (\<exists>i. k = KField STOP i) then Suc (closes ks) else closes ks)"
  by (simp_all add: closes_def)

lemma begins_simps [simp]:
  "begins [] = 0" "begins (k # ks) = begun k + begins ks" "begins (ks @ ks') = begins ks + begins ks'"
  by (simp_all add: begins_def)

text \<open>If the program returns, it has consumed the ends of what it began and of \<open>m\<close> structs more.\<close>

definition spent :: "nat \<Rightarrow> tok list \<Rightarrow> tok list \<Rightarrow> bool" where
  "spent m ks ks' \<longleftrightarrow> (\<exists>c. ks = c @ ks' \<and> begins c + m \<le> closes c)"

definition consumes :: "nat \<Rightarrow> (tok list, 'a) T \<Rightarrow> bool" where
  "consumes m p \<longleftrightarrow> (\<forall>ks x ks'. p tokProto ks = (Inr x, ks') \<longrightarrow> spent m ks ks')"

lemma spent_trans:
  assumes "spent k ks ks1" and "spent l ks1 ks2"
  shows "spent (k + l) ks ks2"
proof -
  obtain c d where "ks = c @ ks1" "begins c + k \<le> closes c" "ks1 = d @ ks2" "begins d + l \<le> closes d"
    using assms by (auto simp: spent_def)
  then have "ks = (c @ d) @ ks2" "begins (c @ d) + (k + l) \<le> closes (c @ d)" by simp_all
  then show ?thesis unfolding spent_def by blast
qed

lemma spent_one: "spent m (k # ks) ks \<longleftrightarrow> begun k + m \<le> closes [k]"
  unfolding spent_def by (metis append_Cons append_Nil append_same_eq begins_simps(1,2) add.right_neutral)

lemma spent_refl [simp]: "spent 0 ks ks"
  by (auto simp: spent_def intro: exI [of _ "[]"])

lemma consumes_returnM: "consumes 0 (returnM x)"
  by (simp add: consumes_def returnM_def)

lemma consumes_bindM:
  assumes "consumes k p" and "\<And>x. consumes l (f x)"
  shows "consumes (k + l) (bindM p f)"
  unfolding consumes_def
proof (intro allI impI)
  fix ks y ks' assume "bindM p f tokProto ks = (Inr y, ks')"
  then obtain x ks1 where "p tokProto ks = (Inr x, ks1)" "f x tokProto ks1 = (Inr y, ks')"
    by (auto simp: run_bindM split: prod.splits sum.splits)
  then show "spent (k + l) ks ks'" using assms spent_trans unfolding consumes_def by blast
qed

lemma consumes_seqM: "consumes k p \<Longrightarrow> consumes l q \<Longrightarrow> consumes (k + l) (seqM p q)"
  unfolding seqM_def by (rule consumes_bindM)

lemma consumes_map: "consumes k p \<Longrightarrow> consumes k (bindM p (\<lambda>x. returnM (f x)))"
  using consumes_bindM [OF _ consumes_returnM, of k p f] by simp

lemma expect_spent:
  assumes "expect what f ks = (Inr x, ks')"
  obtains k where "ks = k # ks'" "f k = Some x"
  using assms by (auto simp: expect_def split: list.splits option.splits)

lemma consumes_ops:
  "consumes 0 ReadStructBegin" "consumes 0 ReadStructEnd" "consumes 0 ReadFieldEnd" "consumes 0 ReadListEnd"
  "consumes 0 ReadString" "consumes 0 ReadDouble" "consumes 0 ReadI32" "consumes 0 ReadI64"
  by (auto simp: consumes_def tokProto_def put_def spent_one split: tok.splits elim!: expect_spent)

section \<open>Skipping\<close>

lemma skip_spent:
  "skipVal n t ks = Some ks' \<Longrightarrow> spent (ends t) ks ks'"
  "skipFields n ks = Some ks' \<Longrightarrow> spent 1 ks ks'"
  "skipElems n t m ks = Some ks' \<Longrightarrow> spent (if t = STRUCT then m else 0) ks ks'"
proof (induction n t ks and n ks and n t m ks arbitrary: ks' and ks' and ks' rule: skipVal_skipFields_skipElems.induct)
  case (2 n t ks)
  have list: "spent 0 (KListHead u m # ks1) ks'" if s: "spent (if u = STRUCT then m else 0) ks1 ks'" for u m ks1
  proof -
    obtain c where "ks1 = c @ ks'" "begins c + (if u = STRUCT then m else 0) \<le> closes c"
      using s unfolding spent_def by blast
    then show ?thesis unfolding spent_def by (intro exI [of _ "KListHead u m # c"]) auto
  qed
  show ?case
  proof (cases "t = STRUCT")
    case False
    then show ?thesis using 2 list
      by (auto split: list.splits tok.splits if_splits simp: spent_one)
  qed (use 2 in simp)
next
  case (4 n ks)
  show ?case
  proof (cases ks)
    case (Cons k ks1)
    show ?thesis
    proof (cases "k = KStop")
      case False
      then obtain t i r where k: "k = KField t i" and r: "skipVal n t ks1 = Some r" "skipFields n r = Some ks'"
        using 4 Cons by (auto split: tok.splits option.splits)
      have "spent (ends t) ks1 r" "spent 1 r ks'" using 4 Cons k r by auto
      then have "spent (ends t + 1) ks1 ks'" by (rule spent_trans)
      then obtain c where "ks1 = c @ ks'" "begins c + (ends t + 1) \<le> closes c"
        unfolding spent_def by blast
      then show ?thesis unfolding Cons k spent_def by (intro exI [of _ "KField t i # c"]) auto
    qed (use 4 Cons in \<open>simp add: spent_one\<close>)
  qed (use 4 in simp)
next
  case (6 n t m ks)
  show ?case
  proof (cases m)
    case (Suc l)
    then obtain r where r: "skipVal n t ks = Some r" "skipElems n t l r = Some ks'"
      using 6 by (auto split: option.splits)
    have "spent (ends t) ks r" "spent (if t = STRUCT then l else 0) r ks'" using 6 Suc r by auto
    then have "spent (ends t + (if t = STRUCT then l else 0)) ks ks'" by (rule spent_trans)
    then show ?thesis unfolding Suc by (cases "t = STRUCT") (simp_all add: One_nat_def)
  qed (use 6 in simp)
qed simp_all

lemma consumes_Skip: "consumes (ends t) (Skip t)"
  by (auto simp: consumes_def Skip_def tokProto_def split: option.splits dest: skip_spent(1))

section \<open>The generated readers\<close>

definition closedBody :: "(ttype \<Rightarrow> int \<Rightarrow> 'r \<Rightarrow> (tok list, 'r) T) \<Rightarrow> bool" where
  "closedBody body \<longleftrightarrow> (\<forall>t i r. consumes (ends t) (body t i r))"

lemma fieldLoop_consumes: "closedBody body \<Longrightarrow> consumes 1 (fieldLoop n body r)"
proof (induction n arbitrary: r)
  case 0
  then show ?case by (simp add: consumes_def run_throwM)
next
  case (Suc n)
  show ?case unfolding consumes_def
  proof (intro allI impI)
    fix ks x ks' assume run: "fieldLoop (Suc n) body r tokProto ks = (Inr x, ks')"
    then obtain ft fid ks1 where f: "ReadFieldBegin tokProto ks = (Inr (ft, fid), ks1)"
      by (auto simp: run_bindM split: prod.splits sum.splits)
    then obtain k where k: "ks = k # ks1" "(case k of KField t i \<Rightarrow> Some (t, i) | KStop \<Rightarrow> Some (STOP, 0) | _ \<Rightarrow> None) = Some (ft, fid)"
      by (auto simp: tokProto_def elim: expect_spent)
    show "spent 1 ks ks'"
    proof (cases "ft = STOP")
      case True
      then show ?thesis using run f k by (auto simp: run_rules spent_one split: tok.splits)
    next
      case False
      have "consumes (ends ft + (0 + 1))
          (bindM (body ft fid r) (\<lambda>r'. seqM ReadFieldEnd (fieldLoop n body r')))"
        using Suc by (intro consumes_bindM consumes_seqM consumes_ops) (simp_all add: closedBody_def)
      then have "spent (ends ft + 1) ks1 ks'"
        using run f False by (simp add: run_bindM consumes_def)
      then obtain c where "ks1 = c @ ks'" "begins c + (ends ft + 1) \<le> closes c"
        unfolding spent_def by blast
      then show ?thesis using k False unfolding spent_def
        by (intro exI [of _ "k # c"]) (auto split: tok.splits)
    qed
  qed
qed

lemma readStruct_consumes:
  assumes "closedBody body"
  shows "consumes 1 (readStruct n body r)"
proof -
  have "consumes (0 + (1 + (0 + 0))) (readStruct n body r)"
    unfolding readStruct_def
    by (intro consumes_seqM consumes_bindM consumes_ops consumes_returnM fieldLoop_consumes assms)
  then show ?thesis by simp
qed

lemma switchField_closed:
  assumes "\<And>i t rd r. (i, t, rd) \<in> set cs \<Longrightarrow> consumes (ends t) (rd r)"
  shows "closedBody (switchField cs)"
proof -
  have skip: "consumes (ends t) (seqM (Skip t) (returnM r))" for t r
    using consumes_seqM [OF consumes_Skip consumes_returnM, of t r] by simp
  show ?thesis
    by (auto simp: closedBody_def switchField_def split: option.splits dest!: map_of_SomeD intro: assms skip)
qed

lemma consumes_fields:
  "consumes 0 (readString f r)" "consumes 0 (readDouble g r)" "consumes 0 (readI64 h r)"
  "consumes 0 (readStringPtr f' r)" "consumes 0 (readI64Ptr h' r)" "consumes 0 (readI32Ptr h' r)"
  unfolding readString_def readDouble_def readI64_def readStringPtr_def readI64Ptr_def readI32Ptr_def
  by (rule consumes_map consumes_ops)+

lemma consumes_structPtr: "(\<And>r. consumes 1 (rd r)) \<Longrightarrow> consumes 1 (readStructPtr rd new f r)"
  unfolding readStructPtr_def by (rule consumes_map)

lemma Location_consumes: "consumes 1 (Location_Read n r)"
  unfolding Location_Read_def
  by (rule readStruct_consumes, rule switchField_closed) (auto simp: consumes_fields)

lemma Order_consumes: "consumes 1 (Order_Read n r)"
  unfolding Order_Read_def
  by (rule readStruct_consumes, rule switchField_closed)
    (auto simp: consumes_fields consumes_structPtr [OF Location_consumes])

lemma OrderView_consumes: "consumes 1 (OrderView_Read n r)"
  unfolding OrderView_Read_def
  by (rule readStruct_consumes, rule switchField_closed)
    (auto simp: consumes_fields consumes_structPtr [OF Location_consumes] consumes_structPtr [OF Order_consumes])

lemma Drone_consumes: "consumes 1 (Drone_Read n r)"
  unfolding Drone_Read_def
  by (rule readStruct_consumes, rule switchField_closed)
    (auto simp: consumes_fields consumes_structPtr [OF Location_consumes])

lemma DroneStatus_consumes: "consumes 1 (DroneStatus_Read n r)"
  unfolding DroneStatus_Read_def
  by (rule readStruct_consumes, rule switchField_closed)
    (auto simp: consumes_structPtr [OF Drone_consumes] consumes_structPtr [OF OrderView_consumes])

lemma readResult_consumes: "(\<And>r. consumes 1 (rd r)) \<Longrightarrow> consumes 1 (readResult n rd new p)"
  unfolding readResult_def
  by (rule readStruct_consumes, rule switchField_closed) (auto intro: consumes_structPtr)

lemma readElems_consumes: "consumes 1 rd \<Longrightarrow> consumes k (readElems k rd)"
proof (induction k)
  case (Suc k)
  then have "consumes (1 + (k + 0)) (readElems (Suc k) rd)"
    unfolding readElems.simps by (intro consumes_bindM consumes_returnM) simp_all
  then show ?case by (simp only: Suc_eq_plus1_left add_0_right)
qed (simp add: consumes_returnM)

text \<open>The list announces as many structs as the reader reads only if it is a list of structs.\<close>

lemma readList_spent:
  assumes "\<And>r. consumes 1 (rd r)" and "readList rd new p tokProto ks = (Inr x, ks')"
  obtains t k ks1 where "ks = KListHead t k # ks1" "spent k ks1 ks'"
proof -
  obtain t k ks1 where l: "ReadListBegin tokProto ks = (Inr (t, k), ks1)"
    using assms(2) by (auto simp: readList_def run_bindM split: prod.splits sum.splits)
  have "ks = KListHead t k # ks1"
    using l by (auto simp: tokProto_def split: tok.splits elim!: expect_spent)
  moreover have "consumes (k + (0 + 0)) (bindM (readElems k (rd new)) (\<lambda>xs. seqM ReadListEnd (returnM (Some xs))))"
    by (intro consumes_bindM consumes_seqM consumes_ops consumes_returnM readElems_consumes assms(1))
  then have "spent k ks1 ks'"
    using assms(2) l by (simp add: readList_def run_bindM consumes_def)
  ultimately show thesis by (rule that)
qed

lemma readList_consumes:
  assumes "\<And>r. consumes 1 (rd r)"
  shows "consumes 0 (readList rd new p)"
  unfolding consumes_def
proof (intro allI impI)
  fix ks x ks' assume "readList rd new p tokProto ks = (Inr x, ks')"
  then obtain t k ks1 where "ks = KListHead t k # ks1" "spent k ks1 ks'"
    by (rule readList_spent [OF assms])
  then obtain c where "ks = (KListHead t k # c) @ ks'" "begins c + k \<le> closes c" by (auto simp: spent_def)
  then show "spent 0 ks ks'" unfolding spent_def by (intro exI [of _ "KListHead t k # c"]) auto
qed

lemma readListResult_consumes: "(\<And>r. consumes 1 (rd r)) \<Longrightarrow> consumes 1 (readListResult n rd new p)"
  unfolding readListResult_def
  by (rule readStruct_consumes, rule switchField_closed) (auto intro: readList_consumes)

section \<open>The replies\<close>

definition unreadable :: "tok list \<Rightarrow> (tok list, 'r) T list \<Rightarrow> bool" where
  "unreadable ks ms \<longleftrightarrow> (\<forall>m\<in>set ms. \<forall>x ks'. m tokProto ks \<noteq> (Inr x, ks'))"

lemma unclosed_unreadable:
  assumes "consumes 1 m" and "closes ks = 0" and "0 < begins ks"
  shows "m tokProto (ks @ [KStop]) \<noteq> (Inr x, ks')"
proof
  assume "m tokProto (ks @ [KStop]) = (Inr x, ks')"
  then obtain c where c: "ks @ [KStop] = c @ ks'" "begins c + 1 \<le> closes c"
    using assms(1) unfolding consumes_def spent_def by blast
  show False
  proof (cases ks' rule: rev_cases)
    case Nil
    then have "c = ks @ [KStop]" using c(1) by simp
    then have "closes c = 1" "0 < begins c" using assms(2,3) by simp_all
    then show ?thesis using c(2) by simp
  next
    case (snoc xs k)
    then have "ks = c @ xs" using c(1) by simp
    then have "closes c = 0" using assms(2) by simp
    then show ?thesis using c(2) by simp
  qed
qed

lemma optToks_closes [simp]: "(\<And>x. closes (f x) = 0) \<Longrightarrow> closes (optToks f v) = 0"
  by (cases v) (simp_all add: optToks_def)

lemma writers_never_close [simp]:
  "closes (strToks i s) = 0" "closes (timeToks i t) = 0" "closes (locToks i l) = 0"
  "closes (orderToks ord) = 0" "closes (viewToks w) = 0" "closes (droneToks dr) = 0"
  "closes (statusToks u) = 0"
  by (simp_all add: strToks_def timeToks_def locToks_def orderToks_def viewToks_def droneToks_def
      statusToks_def)

lemma lists_never_close [simp]:
  "closes (concat (map viewToks vs)) = 0" "closes (concat (map droneToks ds)) = 0"
  by (induction vs, simp_all) (induction ds, simp_all)

text \<open>An answer that has a struct in it.\<close>

fun carriesStruct :: "answer \<Rightarrow> bool" where
  "carriesStruct (AnsViews vs) = (vs \<noteq> [])"
| "carriesStruct (AnsDrones ds) = (ds \<noteq> [])"
| "carriesStruct _ = True"

lemma reply_unreadable:
  assumes "carriesStruct a" and "\<And>m. m \<in> set ms \<Longrightarrow> consumes 1 m"
  shows "unreadable (resultToks a) ms"
proof -
  have "closes (KField (answerType a) 0 # answerToks a) = 0 \<and> 0 < begins (KField (answerType a) 0 # answerToks a)"
    using assms(1) by (cases a) simp_all
  then show ?thesis
    using unclosed_unreadable [OF assms(2), of _ "KField (answerType a) 0 # answerToks a"]
    by (simp add: unreadable_def resultToks_def)
qed

text \<open>
  What the server writes for a value, as the answer in a result struct: the head of field 0, the
  value and the stop of the result (\<open>writeReply\<close>).
\<close>

definition garbled :: "ttype \<Rightarrow> (tok list, unit) T \<Rightarrow> (tok list, 'r) T list \<Rightarrow> bool" where
  "garbled t write ms \<longleftrightarrow>
     (\<exists>ks. emits tokProto (\<lambda>ks. ks) write ks \<and> unreadable (KField t 0 # ks @ [KStop]) ms)"

lemma answer_garbled:
  assumes "carriesStruct a" and "\<And>m. m \<in> set ms \<Longrightarrow> consumes 1 m" and "writeAnswer a = write" and "answerType a = t"
  shows "garbled t write ms"
  using emits_writeAnswer [OF tokProto_ok(2), of a] reply_unreadable [OF assms(1,2)] assms(3,4)
  unfolding garbled_def resultToks_def by blast

declare One_nat_def [simp]

end
