(* ===== verification/ThriftScripts.thy ===== *)
theory ThriftScripts
  imports ThriftReplies
begin

text \<open>
  The Thrift clients of the repository: the command line client \<open>tmp_thrift_raw_client.go\<close>, which
  writes a call and reads its reply by hand, the methods of the generated clients in
  \<open>drone_delivery.go\<close>, and the command line client \<open>tmp_thrift_client.go\<close> that uses two of them.
  Then what becomes of their calls at the server.
\<close>

section \<open>The client without generated code\<close>

definition rawCall :: "('p, unit) T" where
  "rawCall = seqAll
     [WriteMessageBegin ''IssueToken'' CALL 1,
      WriteStructBegin ''IssueToken_args'',
      WriteFieldBegin ''request'' STRUCT 1,
      WriteStructBegin ''TokenRequest'',
      WriteFieldBegin ''name'' STRING 1, WriteString ''alice'', WriteFieldEnd,
      WriteFieldBegin ''role'' STRING 2, WriteString ''enduser'', WriteFieldEnd,
      WriteFieldStop, WriteStructEnd, WriteFieldEnd, WriteFieldStop, WriteStructEnd,
      WriteMessageEnd, FlushOf]"

text \<open>A loop over fields that drops the error of \<open>ReadFieldEnd\<close>.\<close>

fun looseLoop :: "nat \<Rightarrow> (ttype \<Rightarrow> int \<Rightarrow> 'r \<Rightarrow> ('p, 'r) T) \<Rightarrow> 'r \<Rightarrow> ('p, 'r) T" where
  "looseLoop 0 body r = throwM OutOfFuel"
| "looseLoop (Suc n) body r =
     bindM ReadFieldBegin (\<lambda>(ft, fid).
     if ft = STOP then returnM r
     else bindM (body ft fid r) (\<lambda>r'. seqM (attemptM ReadFieldEnd) (looseLoop n body r')))"

definition rawToken :: "nat \<Rightarrow> string \<times> int \<Rightarrow> ('p, string \<times> int) T" where
  "rawToken n = looseLoop n (\<lambda>nft nfid (token, expires).
     if nfid = 1 then bindM ReadString (\<lambda>v. returnM (v, expires))
     else if nfid = 2 then bindM ReadI64 (\<lambda>v. returnM (token, v))
     else seqM (Skip nft) (returnM (token, expires)))"

definition rawReply :: "nat \<Rightarrow> ('p, string \<times> int) T" where
  "rawReply n =
     bindM ReadMessageBegin (\<lambda>(name, mtype, rseq).
     if mtype = EXCEPTION then throwM (TErr ''thrift exception'')
     else seqM ReadStructBegin
      (bindM (looseLoop n (\<lambda>ft fid r.
           if fid = 0 \<and> ft = STRUCT
           then seqM ReadStructBegin (bindM (rawToken n r) (\<lambda>r'. seqM (attemptM ReadStructEnd) (returnM r')))
           else seqM (attemptM (Skip ft)) (returnM r)) ('''', 0)) (\<lambda>r.
       seqM (attemptM ReadStructEnd) (seqM (attemptM ReadMessageEnd) (returnM r)))))"

section \<open>The methods of the generated clients\<close>

text \<open>
  \<open>TStandardClient.Call\<close> of the Thrift library is the argument of a program of calls: it takes
  the name of the method and the content of the arguments, and returns the content of the
  result or an error. The content is the token list of theory ThriftWire.
\<close>

type_synonym 'w tcall = "string \<Rightarrow> tok list \<Rightarrow> 'w \<Rightarrow> (string + tok list) \<times> 'w"
type_synonym ('w, 'a) rpc = "('w tcall, 'w, string, 'a) prog"

definition Call :: "string \<Rightarrow> (tok list, unit) T \<Rightarrow> (tok list, 'r) T \<Rightarrow> ('w, 'r) rpc" where
  "Call name write read = (\<lambda>call w.
     case write tokProto [] of
       (Inl e, _) \<Rightarrow> (Inl ''write'', w)
     | (Inr _, ks) \<Rightarrow>
         (case call name ks w of
            (Inl e, w') \<Rightarrow> (Inl e, w')
          | (Inr rs, w') \<Rightarrow>
              (case read tokProto rs of
                 (Inl e, _) \<Rightarrow> (Inl ''read'', w')
               | (Inr r, _) \<Rightarrow> (Inr r, w'))))"

definition structCall :: "string \<Rightarrow> (tok list, unit) T \<Rightarrow> (tok list, 'r option) T \<Rightarrow> ('w, 'r) rpc" where
  "structCall name write read =
     bindM (Call name write read) (\<lambda>success. case success of
        Some r \<Rightarrow> returnM r
      | None \<Rightarrow> throwM (name @ '' failed: unknown result''))"

definition listCall :: "string \<Rightarrow> (tok list, unit) T \<Rightarrow> (tok list, 'r list option) T \<Rightarrow> ('w, 'r list option) rpc" where
  "listCall name write read = Call name write read"

definition AuthServiceClient_IssueToken :: "nat \<Rightarrow> WTokenRequest option \<Rightarrow> ('w, WTokenResponse) rpc" where
  "AuthServiceClient_IssueToken n request =
     structCall ''IssueToken'' (AuthServiceIssueTokenArgs_Write request) (AuthServiceIssueTokenResult_Read n None)"

definition OrderServiceClient_SubmitOrder :: "nat \<Rightarrow> WSubmitOrderRequest option \<Rightarrow> ('w, WOrder) rpc" where
  "OrderServiceClient_SubmitOrder n request =
     structCall ''SubmitOrder'' (OrderServiceSubmitOrderArgs_Write request) (OrderServiceSubmitOrderResult_Read n None)"

definition OrderServiceClient_WithdrawOrder :: "nat \<Rightarrow> WOrderIDRequest option \<Rightarrow> ('w, WOrder) rpc" where
  "OrderServiceClient_WithdrawOrder n request =
     structCall ''WithdrawOrder'' (OrderServiceWithdrawOrderArgs_Write request) (OrderServiceWithdrawOrderResult_Read n None)"

definition OrderServiceClient_GetOrder :: "nat \<Rightarrow> WOrderIDRequest option \<Rightarrow> ('w, WOrderView) rpc" where
  "OrderServiceClient_GetOrder n request =
     structCall ''GetOrder'' (OrderServiceGetOrderArgs_Write request) (OrderServiceGetOrderResult_Read n None)"

definition DroneServiceClient_ReserveJob :: "nat \<Rightarrow> WAuthRequest option \<Rightarrow> ('w, WOrder) rpc" where
  "DroneServiceClient_ReserveJob n request =
     structCall ''ReserveJob'' (DroneServiceReserveJobArgs_Write request) (DroneServiceReserveJobResult_Read n None)"

definition DroneServiceClient_PickupOrder :: "nat \<Rightarrow> WOrderIDRequest option \<Rightarrow> ('w, WOrder) rpc" where
  "DroneServiceClient_PickupOrder n request =
     structCall ''PickupOrder'' (DroneServicePickupOrderArgs_Write request) (DroneServicePickupOrderResult_Read n None)"

definition DroneServiceClient_DeliverOrder :: "nat \<Rightarrow> WOrderIDRequest option \<Rightarrow> ('w, WOrder) rpc" where
  "DroneServiceClient_DeliverOrder n request =
     structCall ''DeliverOrder'' (DroneServiceDeliverOrderArgs_Write request) (DroneServiceDeliverOrderResult_Read n None)"

definition DroneServiceClient_FailOrder :: "nat \<Rightarrow> WFailOrderRequest option \<Rightarrow> ('w, WOrder) rpc" where
  "DroneServiceClient_FailOrder n request =
     structCall ''FailOrder'' (DroneServiceFailOrderArgs_Write request) (DroneServiceFailOrderResult_Read n None)"

definition DroneServiceClient_MarkBroken :: "nat \<Rightarrow> WAuthRequest option \<Rightarrow> ('w, WDrone) rpc" where
  "DroneServiceClient_MarkBroken n request =
     structCall ''MarkBroken'' (DroneServiceMarkBrokenArgs_Write request) (DroneServiceMarkBrokenResult_Read n None)"

definition DroneServiceClient_Heartbeat :: "nat \<Rightarrow> WHeartbeatRequest option \<Rightarrow> ('w, WDroneStatus) rpc" where
  "DroneServiceClient_Heartbeat n request =
     structCall ''Heartbeat'' (DroneServiceHeartbeatArgs_Write request) (DroneServiceHeartbeatResult_Read n None)"

definition DroneServiceClient_CurrentOrder :: "nat \<Rightarrow> WAuthRequest option \<Rightarrow> ('w, WOrderView) rpc" where
  "DroneServiceClient_CurrentOrder n request =
     structCall ''CurrentOrder'' (DroneServiceCurrentOrderArgs_Write request) (DroneServiceCurrentOrderResult_Read n None)"

definition AdminServiceClient_ListOrders :: "nat \<Rightarrow> WListOrdersRequest option \<Rightarrow> ('w, WOrderView list option) rpc" where
  "AdminServiceClient_ListOrders n request =
     listCall ''ListOrders'' (AdminServiceListOrdersArgs_Write request) (AdminServiceListOrdersResult_Read n None)"

definition AdminServiceClient_UpdateOrder :: "nat \<Rightarrow> WUpdateOrderRequest option \<Rightarrow> ('w, WOrder) rpc" where
  "AdminServiceClient_UpdateOrder n request =
     structCall ''UpdateOrder'' (AdminServiceUpdateOrderArgs_Write request) (AdminServiceUpdateOrderResult_Read n None)"

definition AdminServiceClient_ListDrones :: "nat \<Rightarrow> WAuthRequest option \<Rightarrow> ('w, WDrone list option) rpc" where
  "AdminServiceClient_ListDrones n request =
     listCall ''ListDrones'' (AdminServiceListDronesArgs_Write request) (AdminServiceListDronesResult_Read n None)"

definition AdminServiceClient_MarkDroneBroken :: "nat \<Rightarrow> WDroneIDRequest option \<Rightarrow> ('w, WDrone) rpc" where
  "AdminServiceClient_MarkDroneBroken n request =
     structCall ''MarkDroneBroken'' (AdminServiceMarkDroneBrokenArgs_Write request) (AdminServiceMarkDroneBrokenResult_Read n None)"

definition AdminServiceClient_MarkDroneFixed :: "nat \<Rightarrow> WDroneIDRequest option \<Rightarrow> ('w, WDrone) rpc" where
  "AdminServiceClient_MarkDroneFixed n request =
     structCall ''MarkDroneFixed'' (AdminServiceMarkDroneFixedArgs_Write request) (AdminServiceMarkDroneFixedResult_Read n None)"

lemmas method_defs = OrderServiceClient_SubmitOrder_def OrderServiceClient_WithdrawOrder_def OrderServiceClient_GetOrder_def
  DroneServiceClient_ReserveJob_def DroneServiceClient_PickupOrder_def DroneServiceClient_DeliverOrder_def
  DroneServiceClient_FailOrder_def DroneServiceClient_MarkBroken_def DroneServiceClient_Heartbeat_def
  DroneServiceClient_CurrentOrder_def AdminServiceClient_ListOrders_def AdminServiceClient_UpdateOrder_def
  AdminServiceClient_ListDrones_def AdminServiceClient_MarkDroneBroken_def AdminServiceClient_MarkDroneFixed_def

section \<open>The client with generated code\<close>

text \<open>The coordinates in the source: the doubles nearest to the decimals.\<close>

definition scriptOrigin :: WLocation where
  "scriptOrigin = \<lparr>wlLat = Fin (1739064996109117 / 70368744177664), wlLng = Fin (6568964490231441 / 140737488355328)\<rparr>"

definition scriptDestination :: WLocation where
  "scriptDestination =
     \<lparr>wlLat = Fin (6973345515522805 / 281474976710656), wlLng = Fin (6577873173244333 / 140737488355328)\<rparr>"

text \<open>An error ends the program with a label; the result is what it prints.\<close>

definition thriftClientMain :: "nat \<Rightarrow> ('w tcall, 'w, string \<times> string, string list) prog" where
  "thriftClientMain n =
     bindM (mapErrM (Pair ''issue token'')
         (AuthServiceClient_IssueToken n (Some \<lparr>wtName = ''alice'', wtRole = ''enduser''\<rparr>))) (\<lambda>tr.
     bindM (mapErrM (Pair ''submit'')
         (OrderServiceClient_SubmitOrder n (Some \<lparr>wbAuthToken = wrToken tr, wbOrigin = Some scriptOrigin,
            wbDestination = Some scriptDestination\<rparr>))) (\<lambda>resp.
     returnM [''token issued'', ''order id: '' @ woID resp @ '' status: '' @ woStatus resp, ''Thrift client OK'']))"

section \<open>The token call\<close>

lemma emits_rawCall:
  assumes P: "sink_ok P sink"
  shows "emits P sink rawCall (KMsg ''IssueToken'' CALL 1 # wrapped [(1, VStr ''alice''), (2, VStr ''enduser'')])"
  unfolding rawCall_def
  by (rule emits_seqAllI, (rule emits_all emits_ops [OF P])+) (simp add: wrapped_def)

lemma steady_dropped:
  assumes "steady view (m P)"
  shows "seqM (attemptM m) k P p = seqM m k P p"
proof -
  obtain p' where "m P p = (Inr (), p')" using assms unfolding steady_def by blast
  then show ?thesis by (simp add: run_rules)
qed

lemma dropped_errors:
  assumes "stream_ok P view"
  shows "seqM (attemptM ReadFieldEnd) k P p = seqM ReadFieldEnd k P p"
    "seqM (attemptM ReadStructEnd) k' P p = seqM ReadStructEnd k' P p"
    "seqM (attemptM ReadMessageEnd) k'' P p = seqM ReadMessageEnd k'' P p"
  by (rule steady_dropped [of view], use assms in \<open>simp add: stream_ok_def\<close>)+

lemma loose_strict:
  assumes "stream_ok P view"
  shows "looseLoop n body r P p = fieldLoop n body r P p"
proof (induction n arbitrary: r p)
  case (Suc n)
  then have "seqM (attemptM ReadFieldEnd) (looseLoop n body r') P q = seqM ReadFieldEnd (fieldLoop n body r') P q" for r' q
    unfolding dropped_errors [OF assms] by (simp add: run_seqM split: prod.splits sum.splits)
  then show ?case by (simp add: run_bindM split: prod.splits sum.splits)
qed simp

definition tokenFields :: "string \<Rightarrow> int \<Rightarrow> (int \<times> tval) list" where
  "tokenFields token expires = [(1, VStr token), (2, VI64 expires)]"

lemma yields_rawToken:
  assumes P: "stream_ok P view" and n: "2 < n"
  shows "yields P view (seqM ReadStructBegin (bindM (rawToken n r) (\<lambda>r'. seqM (attemptM ReadStructEnd) (returnM r'))))
    (encode (VStruct (tokenFields token expires)) @ ts) (token, expires) ts"
proof -
  let ?body = "\<lambda>nft nfid (token, expires).
     if nfid = 1 then bindM ReadString (\<lambda>v. returnM (v, expires))
     else if nfid = 2 then bindM ReadI64 (\<lambda>v. returnM (token, v))
     else seqM (Skip nft) (returnM (token, expires))"
  have "yields P view (readStruct n ?body r) (encode (VStruct (tokenFields token expires)) @ ts)
      (fold (\<lambda>(i, v) (a, b). (updStr 1 i v a, case v of VI64 x \<Rightarrow> x | _ \<Rightarrow> b)) (tokenFields token expires) r) ts"
    using n by (intro yields_readStruct [OF P])
      (auto simp: tokenFields_def updStr_def intro!: yields_bindM [OF yields_ops(6) [OF P] yields_returnM]
        yields_bindM [OF yields_ops(10) [OF P] yields_returnM])
  then have "yields P view (readStruct n ?body r) (encode (VStruct (tokenFields token expires)) @ ts) (token, expires) ts"
    by (simp add: tokenFields_def updStr_def case_prod_beta)
  moreover have "seqM ReadStructBegin (bindM (rawToken n r) (\<lambda>r'. seqM (attemptM ReadStructEnd) (returnM r'))) P p =
      readStruct n ?body r P p" for p
    unfolding readStruct_def rawToken_def
    by (simp add: run_seqM [of ReadStructBegin] run_bindM loose_strict [OF P] dropped_errors [OF P] split: prod.splits sum.splits)
  ultimately show ?thesis unfolding yields_def by simp
qed

lemma yields_rawReply:
  assumes P: "stream_ok P view" and n: "2 < n"
  shows "yields P view (rawReply n)
    (KMsg name REPLY seqID # KField STRUCT 0 # encode (VStruct (tokenFields token expires)) @ KStop # ts) (token, expires) ts"
proof -
  let ?body = "\<lambda>ft fid r. if fid = 0 \<and> ft = STRUCT
      then seqM ReadStructBegin (bindM (rawToken n r) (\<lambda>r'. seqM (attemptM ReadStructEnd) (returnM r')))
      else seqM (attemptM (Skip ft)) (returnM r)"
  let ?fs = "[(0, VStruct (tokenFields token expires))]"
  have "yields P view (?body (typeOf v) i r) (encode v @ ts') (token, expires) ts'" if "(i, v) \<in> set ?fs" for i v r ts'
    using that yields_rawToken [OF P n] by (simp del: encode.simps)
  from yields_readStruct [where body = ?body and upd = "\<lambda>i v r. (token, expires)" and fs = ?fs and r = "('''', 0)"
      and n = n and ts = ts, OF P this] n
  have fields: "yields P view (readStruct n ?body ('''', 0)) (encode (VStruct ?fs) @ ts) (token, expires) ts" by simp
  have "rawReply n P p = bindM ReadMessageBegin (\<lambda>(name, mtype, rseq).
      if mtype = EXCEPTION then throwM (TErr ''thrift exception'')
      else bindM (readStruct n ?body ('''', 0)) (\<lambda>r. seqM ReadMessageEnd (returnM r))) P p" for p
    by (simp add: rawReply_def readStruct_def run_bindM run_seqM [of ReadStructBegin] loose_strict [OF P] dropped_errors [OF P]
        run_seqM [of ReadStructEnd] run_returnM split: prod.splits sum.splits)
  moreover have "yields P view (bindM ReadMessageBegin (\<lambda>(name, mtype, rseq).
      if mtype = EXCEPTION then throwM (TErr ''thrift exception'')
      else bindM (readStruct n ?body ('''', 0)) (\<lambda>r. seqM ReadMessageEnd (returnM r))))
      (KMsg name REPLY seqID # encode (VStruct ?fs) @ ts) (token, expires) ts"
    by (rule yields_bindM [OF yields_ops(9) [OF P]])
      (simp only: prod.case mtype.distinct if_False, rule yields_bindM [OF fields],
       rule yields_seqM [OF yields_ops(4) [OF P] yields_returnM])
  ultimately show ?thesis unfolding yields_def by simp
qed

lemma rawReply_exception:
  assumes "stream_ok P view" and "view p = KMsg name EXCEPTION seqID # ts"
  shows "\<exists>p'. rawReply n P p = (Inl (TErr ''thrift exception''), p')"
  using yields_ops(9) [OF assms(1), of name EXCEPTION seqID ts] assms(2)
  unfolding yields_def rawReply_def by (fastforce simp: run_rules)

text \<open>The server's side of it.\<close>

definition tokenReply :: "string \<Rightarrow> int \<Rightarrow> gerror + string \<times> time \<Rightarrow> tok list" where
  "tokenReply name seqID r = (case r of
     Inl e \<Rightarrow> [KMsg name EXCEPTION seqID, KExc (AppExc INTERNAL_ERROR ''token error'')]
   | Inr (token, expiry) \<Rightarrow> KMsg name REPLY seqID # KField STRUCT 0 #
       encode (VStruct (tokenFields token (Unix expiry))) @ [KStop])"

definition tokenVerdict :: "gerror + string \<times> time \<Rightarrow> verdict" where
  "tokenVerdict r = (case r of Inl e \<Rightarrow> (False, Some (AppExc INTERNAL_ERROR ''token error'')) | Inr x \<Rightarrow> (True, None))"

lemma token_served:
  assumes I: "stream_ok (inProto W) view" and O: "sink_ok (outProto W) sink" and n: "2 < n"
    and msg: "view (inSt c) = KMsg ''IssueToken'' CALL seqID # wrapped [(1, VStr name), (2, VStr role)] @ ts"
    and ok: "name \<noteq> ''''" "ValidateRole role"
    and run: "IssueToken (srvJWT p) (srvAuth p) name role (world W) (svcSt c) = (r, s')"
  shows "\<exists>c'. Process (NewProcessor n p) W c = (Inr (tokenVerdict r), c') \<and> svcSt c' = s' \<and>
    view (inSt c') = ts \<and> sink (outSt c') = sink (outSt c) @ tokenReply ''IssueToken'' seqID r"
proof -
  let ?fs = "[(1, VStr name), (2, VStr role)] :: (int \<times> tval) list"
  obtain i where i: "ReadMessageBegin (inProto W) (inSt c) = (Inr (''IssueToken'', CALL, seqID), i)"
      "view i = wrapped ?fs @ ts"
    using yields_ops(9) [OF I] msg unfolding yields_def by blast
  have "conforms n [1 \<mapsto> StrField, 2 \<mapsto> StrField] ?fs" using n by (auto simp: conforms_def hasKind_def)
  from yields_readTokenRequest [OF I this, of ts] obtain i' where
    i': "readTokenRequest n (inProto W) i = (Inr (name, role), i')" "view i' = ts"
    using i(2) unfolding yields_def by (auto simp: last_defs upd_defs)
  have "Process (NewProcessor n p) W c = thriftIssueToken p n seqID W (c\<lparr>inSt := i\<rparr>)"
    by (rule Process_read(1) [OF i(1)]) (simp_all add: NewProcessor_def)
  also have "\<dots> = (case r of
        Inl e \<Rightarrow> writeException ''IssueToken'' seqID (AppExc INTERNAL_ERROR ''token error'')
      | Inr (jwt, expiry) \<Rightarrow> writeReply ''IssueToken'' seqID
          (seqM (WriteFieldBegin ''success'' STRUCT 0) (writeTokenResponse jwt expiry))) W (c\<lparr>inSt := i', svcSt := s'\<rparr>)"
    using ok run i'(1) by (auto simp: thriftIssueToken_def run_bindM tryIn_ok trySvc_def split: sum.splits)
  finally have p: "Process (NewProcessor n p) W c = \<dots>" .
  show ?thesis
  proof (cases r)
    case (Inl e)
    from responds_writeException [OF O, of "''IssueToken''" seqID "AppExc INTERNAL_ERROR ''token error''"]
    show ?thesis unfolding p responds_def Inl tokenReply_def tokenVerdict_def using i'(2)
      by (fastforce dest!: spec [of _ "c\<lparr>inSt := i', svcSt := s'\<rparr>"])
  next
    case (Inr x)
    obtain token expiry where x: "x = (token, expiry)" by fastforce
    have "emits (outProto W) sink (seqM (WriteFieldBegin ''success'' STRUCT 0) (writeTokenResponse token expiry))
        (KField STRUCT 0 # encode (VStruct (tokenFields token (Unix expiry))))"
      using emits_seqM [OF emits_ops(6) [OF O] emits_writeTokenResponse [OF O]] by (simp add: tokenFields_def)
    from responds_writeReply [OF O this, of "''IssueToken''" seqID]
    show ?thesis unfolding p responds_def Inr x tokenReply_def tokenVerdict_def using i'(2)
      by (fastforce dest!: spec [of _ "c\<lparr>inSt := i', svcSt := s'\<rparr>"])
  qed
qed

section \<open>What becomes of a call\<close>

text \<open>
  What the library documents of \<open>Call\<close>, over the token lists: it sends the message with a
  sequence number of its own, the server processes it, and the content of a reply with the
  name and the number of the call is returned; an exception is returned as an error.
\<close>

fun replyOf :: "string \<Rightarrow> int \<Rightarrow> tok list \<Rightarrow> string + tok list" where
  "replyOf name seqID (KMsg m REPLY i # rs) = (if m = name \<and> i = seqID then Inr rs else Inl ''wrong reply'')"
| "replyOf name seqID (KMsg m EXCEPTION i # KExc (AppExc k msg) # rs) = Inl msg"
| "replyOf name seqID ks = Inl ''invalid message''"

definition reaches ::
  "(tok list, tok list) wiring \<Rightarrow> (tok list, tok list, 'v) H \<Rightarrow> st tcall \<Rightarrow> bool" where
  "reaches W process call \<longleftrightarrow> inProto W = tokProto \<and> outProto W = tokProto \<and>
     (\<forall>name ks s. \<exists>seqID. \<forall>r c.
        process W \<lparr>inSt = KMsg name CALL seqID # ks, outSt = [], svcSt = s\<rparr> = (r, c) \<longrightarrow>
        call name ks s = (replyOf name seqID (outSt c), svcSt c))"

lemma reached:
  assumes "reaches W process call"
  obtains seqID where "\<And>v c. process W \<lparr>inSt = KMsg name CALL seqID # ks, outSt = [], svcSt = s\<rparr> = (v, c) \<Longrightarrow>
      call name ks s = (replyOf name seqID (outSt c), svcSt c)"
  using assms unfolding reaches_def by meson

lemma reaches_protos: "reaches W process call \<Longrightarrow> inProto W = tokProto \<and> outProto W = tokProto"
  by (simp add: reaches_def)

lemma emits_tok:
  assumes "emits tokProto (\<lambda>ks. ks) m ks"
  shows "m tokProto [] = (Inr (), ks)"
  using assms unfolding emits_def appends_def by (metis append_Nil)

lemma Call_sent:
  assumes "emits tokProto (\<lambda>ks. ks) write ks"
  shows "Call name write read call w = (case call name ks w of
      (Inl e, w') \<Rightarrow> (Inl e, w')
    | (Inr rs, w') \<Rightarrow> (case read tokProto rs of (Inl e, _) \<Rightarrow> (Inl ''read'', w') | (Inr r, _) \<Rightarrow> (Inr r, w')))"
  by (simp add: Call_def emits_tok [OF assms])

lemma emits_tokenArgs:
  assumes "sink_ok P sink"
  shows "emits P sink (AuthServiceIssueTokenArgs_Write (Some r)) (wrapped [(1, VStr (wtName r)), (2, VStr (wtRole r))])"
  using emits_writeArgs [OF assms, of TokenRequest_Write r "tokenRequestFields r"] gen_tokenRequest.writes_some [OF assms, of r]
  by (simp add: AuthServiceIssueTokenArgs_Write_def tokenRequestFields_def)

lemma yields_tokenResult:
  assumes P: "stream_ok P view" and n: "maxFields < n"
  shows "yields P view (AuthServiceIssueTokenResult_Read n None)
    (KField STRUCT 0 # encode (VStruct (tokenFields token expires)) @ KStop # ts)
    (Some \<lparr>wrToken = token, wrExpiresAt = expires\<rparr>) ts"
proof -
  let ?x = "\<lparr>wrToken = token, wrExpiresAt = expires\<rparr>"
  let ?fs = "[(0, VStruct (tokenFields token expires))]"
  let ?body = "switchField [(0, STRUCT, readStructPtr (TokenResponse_Read n) NewTokenResponse (\<lambda>v p. v))]"
  have "tokenResponseFields ?x = tokenFields token expires" "filledTokenResponse ?x = ?x"
    by (simp_all add: tokenResponseFields_def tokenFields_def filledTokenResponse_def)
  then have read: "yields P view (TokenResponse_Read n NewTokenResponse) (encode (VStruct (tokenFields token expires)) @ ts') ?x ts'" for ts'
    using gen_tokenResponse.reads_filled [OF P n, of ?x ts'] by simp
  have "yields P view (?body (typeOf v) i r) (encode v @ ts') (Some ?x) ts'" if "(i, v) \<in> set ?fs" for i v r ts'
    using that yields_bindM [OF read yields_returnM] by (simp add: switchField_def readStructPtr_def del: encode.simps)
  from yields_readStruct [where body = ?body and upd = "\<lambda>i v r. Some ?x" and fs = ?fs and r = None and n = n and ts = ts, OF P this] n
  show ?thesis by (simp add: AuthServiceIssueTokenResult_Read_def readResult_def maxFields_def)
qed

lemma token_method:
  assumes call: "reaches W (Process (NewProcessor n p)) call" and n: "maxFields < n"
    and ok: "wtName q \<noteq> ''''" "ValidateRole (wtRole q)"
    and run: "IssueToken (srvJWT p) (srvAuth p) (wtName q) (wtRole q) (world W) s = (r, s')"
  shows "AuthServiceClient_IssueToken n (Some q) call s =
    (case r of Inl e \<Rightarrow> (Inl ''token error'', s')
     | Inr (token, expiry) \<Rightarrow> (Inr \<lparr>wrToken = token, wrExpiresAt = Unix expiry\<rparr>, s'))"
proof -
  let ?ks = "wrapped [(1, VStr (wtName q)), (2, VStr (wtRole q))]"
  obtain seqID where answer: "\<And>v c. Process (NewProcessor n p) W \<lparr>inSt = KMsg ''IssueToken'' CALL seqID # ?ks, outSt = [], svcSt = s\<rparr> = (v, c) \<Longrightarrow>
      call ''IssueToken'' ?ks s = (replyOf ''IssueToken'' seqID (outSt c), svcSt c)"
    by (rule reached [OF call, of "''IssueToken''" ?ks s]) blast
  let ?c = "\<lparr>inSt = KMsg ''IssueToken'' CALL seqID # ?ks, outSt = [], svcSt = s\<rparr>"
  have "2 < n" using n by (simp add: maxFields_def)
  have "\<exists>c'. Process (NewProcessor n p) W ?c = (Inr (tokenVerdict r), c') \<and> svcSt c' = s' \<and>
      inSt c' = [] \<and> outSt c' = outSt ?c @ tokenReply ''IssueToken'' seqID r"
    by (rule token_served [where W = W and view = "\<lambda>ks. ks" and sink = "\<lambda>ks. ks" and c = ?c, OF _ _ \<open>2 < n\<close> _ ok])
      (use reaches_protos [OF call] run tokProto_ok in simp_all)
  then obtain c' where "Process (NewProcessor n p) W ?c = (Inr (tokenVerdict r), c')" "svcSt c' = s'"
    "outSt c' = tokenReply ''IssueToken'' seqID r" by auto
  with answer have called: "call ''IssueToken'' ?ks s = (replyOf ''IssueToken'' seqID (tokenReply ''IssueToken'' seqID r), s')" by metis
  note sent = Call_sent [OF emits_tokenArgs [OF tokProto_ok(2), of q]]
  show ?thesis
  proof (cases r)
    case (Inl e)
    then show ?thesis using called
      by (simp add: AuthServiceClient_IssueToken_def structCall_def run_bindM sent tokenReply_def)
  next
    case (Inr x)
    obtain token expiry where x: "x = (token, expiry)" by fastforce
    obtain rest where "AuthServiceIssueTokenResult_Read n None tokProto
        (KField STRUCT 0 # encode (VStruct (tokenFields token (Unix expiry))) @ [KStop]) =
        (Inr (Some \<lparr>wrToken = token, wrExpiresAt = Unix expiry\<rparr>), rest)"
      using yields_tokenResult [OF tokProto_ok(1) n, of token "Unix expiry" "[]"] unfolding yields_def by auto
    then show ?thesis using called Inr x
      by (simp add: AuthServiceClient_IssueToken_def structCall_def run_bindM run_returnM sent tokenReply_def del: encode.simps)
  qed
qed

text \<open>The other methods: the call of a client, its result dropped.\<close>

fun runMethod :: "nat \<Rightarrow> gcall \<Rightarrow> ('w, unit) rpc" where
  "runMethod n (CallSubmitOrder r) = seqM (OrderServiceClient_SubmitOrder n (Some r)) (returnM ())"
| "runMethod n (CallWithdrawOrder r) = seqM (OrderServiceClient_WithdrawOrder n (Some r)) (returnM ())"
| "runMethod n (CallGetOrder r) = seqM (OrderServiceClient_GetOrder n (Some r)) (returnM ())"
| "runMethod n (CallReserveJob r) = seqM (DroneServiceClient_ReserveJob n (Some r)) (returnM ())"
| "runMethod n (CallPickupOrder r) = seqM (DroneServiceClient_PickupOrder n (Some r)) (returnM ())"
| "runMethod n (CallDeliverOrder r) = seqM (DroneServiceClient_DeliverOrder n (Some r)) (returnM ())"
| "runMethod n (CallFailOrder r) = seqM (DroneServiceClient_FailOrder n (Some r)) (returnM ())"
| "runMethod n (CallMarkBroken r) = seqM (DroneServiceClient_MarkBroken n (Some r)) (returnM ())"
| "runMethod n (CallHeartbeat r) = seqM (DroneServiceClient_Heartbeat n (Some r)) (returnM ())"
| "runMethod n (CallCurrentOrder r) = seqM (DroneServiceClient_CurrentOrder n (Some r)) (returnM ())"
| "runMethod n (CallListOrders r) = seqM (AdminServiceClient_ListOrders n (Some r)) (returnM ())"
| "runMethod n (CallUpdateOrder r) = seqM (AdminServiceClient_UpdateOrder n (Some r)) (returnM ())"
| "runMethod n (CallListDrones r) = seqM (AdminServiceClient_ListDrones n (Some r)) (returnM ())"
| "runMethod n (CallMarkDroneBroken r) = seqM (AdminServiceClient_MarkDroneBroken n (Some r)) (returnM ())"
| "runMethod n (CallMarkDroneFixed r) = seqM (AdminServiceClient_MarkDroneFixed n (Some r)) (returnM ())"

text \<open>A reply that is an error or cannot be read makes the call fail.\<close>

definition hopeless :: "string + tok list \<Rightarrow> bool" where
  "hopeless r \<longleftrightarrow> (\<forall>rs. r = Inr rs \<longrightarrow> (\<exists>a. rs = resultToks a \<and> carriesStruct a))"

lemma Call_fails:
  assumes "emits tokProto (\<lambda>ks. ks) args ks" and "call name ks w = (r, w')" and "hopeless r" and "consumes 1 rd"
  shows "\<exists>e. Call name args rd call w = (Inl e, w')"
proof (cases r)
  case (Inl e)
  then show ?thesis using assms(2) by (simp add: Call_sent [OF assms(1)])
next
  case (Inr rs)
  then obtain a where "rs = resultToks a" "carriesStruct a" using assms(3) by (auto simp: hopeless_def)
  then have "rd tokProto rs \<noteq> (Inr x, ks')" for x ks'
    using reply_unreadable [of a "[rd]"] assms(4) by (simp add: unreadable_def)
  then obtain e ks' where "rd tokProto rs = (Inl e, ks')" by (metis old.sum.exhaust surj_pair)
  then show ?thesis using assms(2) Inr by (simp add: Call_sent [OF assms(1)])
qed

lemma call_fails:
  assumes "emits tokProto (\<lambda>ks. ks) args ks" and "call name ks w = (r, w')" and "hopeless r"
  shows "consumes 1 rd \<Longrightarrow> \<exists>e. seqM (structCall name args rd) (returnM ()) call w = (Inl e, w')"
    and "consumes 1 rd' \<Longrightarrow> \<exists>e. seqM (listCall name args rd') (returnM ()) call w = (Inl e, w')"
  using Call_fails [where call = call, OF assms] by (fastforce simp: structCall_def listCall_def run_seqM run_bindM)+

lemma method_fails:
  assumes "call (callName g) (wrapped (callFields g)) w = (r, w')" and "hopeless r"
  shows "\<exists>e. runMethod n g call w = (Inl e, w')"
proof -
  have "emits tokProto (\<lambda>ks. ks) (callArgs g) (wrapped (callFields g))" by (rule emits_callArgs [OF tokProto_ok(2)])
  with assms(1) show ?thesis
    by - (cases g; hypsubst; simp only: runMethod.simps method_defs result_defs callName.simps callArgs.simps;
      (rule call_fails, assumption, assumption, rule assms(2), rule readResult_consumes readListResult_consumes,
       rule Order_consumes OrderView_consumes Drone_consumes DroneStatus_consumes))
qed

text \<open>With the server behind it: the database is as the outcome says, the client knows nothing of it.\<close>

lemma flat_method_fails:
  assumes call: "reaches W (Process (NewProcessor n p)) call" and n: "0 < n" and flat: "callName g \<in> set flatMethods"
  shows "\<exists>e. runMethod m g call s = (Inl e, s)"
proof -
  let ?ks = "wrapped (callFields g)"
  obtain seqID where answer: "\<And>v c. Process (NewProcessor n p) W
      \<lparr>inSt = KMsg (callName g) CALL seqID # ?ks, outSt = [], svcSt = s\<rparr> = (v, c) \<Longrightarrow>
      call (callName g) ?ks s = (replyOf (callName g) seqID (outSt c), svcSt c)"
    by (rule reached [OF call, of "callName g" ?ks s]) blast
  let ?c = "\<lparr>inSt = KMsg (callName g) CALL seqID # ?ks, outSt = [], svcSt = s\<rparr>"
  obtain e c' where "Process (NewProcessor n p) W ?c = (Inr (False, Some (AppExc PROTOCOL_ERROR e)), c')" "svcSt c' = s"
    "outSt c' = [KMsg (callName g) EXCEPTION seqID, KExc (AppExc PROTOCOL_ERROR e)]"
    using call_refused [where W = W and view = "\<lambda>ks. ks" and sink = "\<lambda>ks. ks" and c = ?c and g = g and seqID = seqID
        and ts = "[]" and n = n and p = p] flat tokProto_ok reaches_protos [OF call] n by fastforce
  with answer have "call (callName g) ?ks s = (Inl e, s)" by force
  from method_fails [where call = call, OF this] show ?thesis by (simp add: hopeless_def)
qed

lemma served_method_fails:
  assumes call: "reaches W (Process (NewProcessor n p)) call" and n: "maxFields < n" and served: "callName g \<notin> set flatMethods"
    and out: "thriftOutcome p (callRole g) (fst (meant g)) (snd (meant g)) (world W) s = (r, s')"
    and struct: "\<And>a. r = Inr a \<Longrightarrow> carriesStruct a"
  shows "\<exists>e. runMethod m g call s = (Inl e, s')"
proof -
  let ?ks = "wrapped (callFields g)"
  obtain seqID where answer: "\<And>v c. Process (NewProcessor n p) W
      \<lparr>inSt = KMsg (callName g) CALL seqID # ?ks, outSt = [], svcSt = s\<rparr> = (v, c) \<Longrightarrow>
      call (callName g) ?ks s = (replyOf (callName g) seqID (outSt c), svcSt c)"
    by (rule reached [OF call, of "callName g" ?ks s]) blast
  let ?c = "\<lparr>inSt = KMsg (callName g) CALL seqID # ?ks, outSt = [], svcSt = s\<rparr>"
  obtain args where spec: "map_of (thriftTable n) (callName g) = Some (callRole g, args)"
    and args: "\<And>ts. yields tokProto (\<lambda>ks. ks) args (?ks @ ts) (fst (meant g), snd (meant g)) ts"
    using call_read [OF tokProto_ok(1) n served] by auto
  have "\<exists>i' o'. Process (NewProcessor n p) W ?c = (Inr (verdictOf r), \<lparr>inSt = i', outSt = o', svcSt = s'\<rparr>) \<and>
      i' = [] \<and> o' = outSt ?c @ responseToks (callName g) seqID r"
    by (rule Process_call [where view = "\<lambda>ks. ks" and sink = "\<lambda>ks. ks" and mt = CALL, OF _ _ _ _ spec])
      (use args [of "[]"] out reaches_protos [OF call] tokProto_ok in simp_all)
  with answer have called: "call (callName g) ?ks s = (replyOf (callName g) seqID (responseToks (callName g) seqID r), s')"
    by fastforce
  have "hopeless (replyOf (callName g) seqID (responseToks (callName g) seqID r))"
  proof (cases r)
    case (Inl x)
    then show ?thesis by (cases x) (simp add: responseToks_def hopeless_def)
  next
    case (Inr a)
    then show ?thesis using struct by (auto simp: responseToks_def hopeless_def)
  qed
  from method_fails [where call = call, OF called this] show ?thesis .
qed

text \<open>Only an empty list of drones is a reply without a struct in it.\<close>

lemma served_struct:
  assumes "serve S q E s = (Inr a, s')" and "\<And>f. q \<noteq> ReqListOrders f"
  shows "carriesStruct a \<or> a = AnsDrones []"
  using assms by (cases q) (auto simp: answerM_def run_rules split: prod.splits sum.splits)

lemma outcome_struct:
  assumes "thriftOutcome p (callRole g) (fst (meant g)) (snd (meant g)) E s = (Inr a, s')"
    and "callName g \<notin> set flatMethods"
  shows "carriesStruct a \<or> a = AnsDrones []"
proof -
  obtain claims s1 where "serve (srvSvc p) (snd (meant g) claims) E s1 = (Inr a, s')"
    using assms(1) by (auto simp: thriftOutcome_def split: sum.splits if_splits prod.splits)
  moreover have "snd (meant g) claims \<noteq> ReqListOrders f" for f
    using assms(2) by (cases g) (simp_all add: flatMethods_def)
  ultimately show ?thesis by (rule served_struct)
qed

text \<open>The program \<open>tmp_thrift_client.go\<close> never gets past its second call.\<close>

lemma script_stops:
  assumes call: "reaches W (Process (NewProcessor n p)) call" and n: "maxFields < n"
    and run: "IssueToken (srvJWT p) (srvAuth p) ''alice'' RoleEndUser (world W) s = (r, s')"
  shows "\<exists>what e. thriftClientMain n call s = (Inl (what, e), s') \<and> (what = ''submit'' \<longleftrightarrow> (\<exists>x. r = Inr x))"
proof -
  let ?q = "\<lparr>wtName = ''alice'', wtRole = ''enduser''\<rparr>"
  have issued: "AuthServiceClient_IssueToken n (Some ?q) call s =
      (case r of Inl e \<Rightarrow> (Inl ''token error'', s')
       | Inr (token, expiry) \<Rightarrow> (Inr \<lparr>wrToken = token, wrExpiresAt = Unix expiry\<rparr>, s'))"
    using token_method [OF call n, of ?q] run by (simp add: ValidateRole_def role_defs)
  show ?thesis
  proof (cases r)
    case (Inl e)
    then show ?thesis using issued by (simp add: thriftClientMain_def run_bindM run_mapErrM)
  next
    case (Inr x)
    obtain token expiry where x: "x = (token, expiry)" by fastforce
    let ?o = "\<lparr>wbAuthToken = token, wbOrigin = Some scriptOrigin, wbDestination = Some scriptDestination\<rparr>"
    have "0 < n" using n by simp
    from flat_method_fails [OF call this, of "CallSubmitOrder ?o" n s'] obtain e where
      "runMethod n (CallSubmitOrder ?o) call s' = (Inl e, s')" by (auto simp: flatMethods_def)
    then have "OrderServiceClient_SubmitOrder n (Some ?o) call s' = (Inl e, s')"
      by (auto simp: run_seqM run_returnM split: prod.splits sum.splits)
    then show ?thesis using issued Inr x by (simp add: thriftClientMain_def run_bindM run_mapErrM)
  qed
qed

end
