(* ===== verification/ThriftGenCalls.thy ===== *)
theory ThriftGenCalls
  imports ThriftGenProc ThriftScripts
begin

text \<open>
  A generated client that talks to a generated processor: what the one writes, the other reads,
  so a call over the wire is a call of the implementation, with a nil pointer replaced by the
  zero struct where the interface requires one (\<open>filled\<close>).
\<close>

section \<open>Structs of one field on the wire\<close>

lemma yields_loop_stop:
  assumes P: "stream_ok P view"
  shows "yields P view (fieldLoop (Suc m) body r) (KStop # ts) r ts"
  unfolding yields_def using stream_stop [OF P] by (fastforce simp: run_rules)

lemma yields_stop:
  assumes P: "stream_ok P view" and "0 < n"
  shows "yields P view (readStruct n body r) (KStop # ts) r ts"
proof -
  obtain m where m: "n = Suc m" using assms(2) by (cases n) auto
  show ?thesis unfolding readStruct_def m
    by (rule yields_seqM [OF yields_ops(1) [OF P]], rule yields_bindM [OF yields_loop_stop [OF P]],
        rule yields_seqM [OF yields_ops(2) [OF P] yields_returnM])
qed

lemma yields_one_field:
  assumes P: "stream_ok P view" and n: "1 < n" and t: "t \<noteq> STOP"
    and body: "yields P view (body t i r) (ks @ KStop # ts) r' (KStop # ts)"
  shows "yields P view (readStruct n body r) (KField t i # ks @ KStop # ts) r' ts"
proof -
  obtain m where m: "n = Suc (Suc m)" using less_imp_Suc_add [OF n] by auto
  have loop: "yields P view (fieldLoop n body r) (KField t i # ks @ KStop # ts) r' ts"
    unfolding m fieldLoop.simps(2) [of "Suc m"]
    by (rule yields_bindM [OF yields_ops(5) [OF P]])
      (simp only: prod.case t if_False, rule yields_bindM [OF body], rule yields_seqM [OF yields_ops(3) [OF P] yields_loop_stop [OF P]])
  show ?thesis unfolding readStruct_def
    by (rule yields_seqM [OF yields_ops(1) [OF P]], rule yields_bindM [OF loop],
        rule yields_seqM [OF yields_ops(2) [OF P] yields_returnM])
qed

lemma yields_request:
  assumes P: "stream_ok P view" and n: "1 < n" and rd: "\<And>ts. yields P view (rd new) (ks @ ts) x ts"
  shows "yields P view (readRequest n rd new p) (KField STRUCT 1 # ks @ KStop # ts) (Some x) ts"
  unfolding readRequest_def
  by (rule yields_one_field [OF P n])
    (simp_all add: switchField_def readStructPtr_def yields_bindM [OF rd yields_returnM])

lemma yields_result:
  assumes P: "stream_ok P view" and n: "1 < n" and rd: "\<And>ts. yields P view (rd new) (ks @ ts) x ts"
  shows "yields P view (readResult n rd new p) (KField STRUCT 0 # ks @ KStop # ts) (Some x) ts"
  unfolding readResult_def
  by (rule yields_one_field [OF P n])
    (simp_all add: switchField_def readStructPtr_def yields_bindM [OF rd yields_returnM])

lemma yields_readElems:
  assumes "list_all2 (\<lambda>ks x. \<forall>ts. yields P view rd (ks @ ts) x ts) kss xs"
  shows "yields P view (readElems (length kss) rd) (concat kss @ ts) xs ts"
  using assms
proof (induction rule: list_all2_induct)
  case Nil
  show ?case by (simp add: yields_returnM)
next
  case (Cons ks kss x xs)
  have "yields P view rd (ks @ concat kss @ ts) x (concat kss @ ts)" using Cons.hyps by blast
  then show ?case using Cons.IH by (auto intro!: yields_bindM yields_returnM)
qed

lemma yields_listResult:
  assumes P: "stream_ok P view" and n: "1 < n"
    and rd: "list_all2 (\<lambda>ks x. \<forall>ts. yields P view (rd new) (ks @ ts) x ts) kss xs"
  shows "yields P view (readListResult n rd new p)
    (KField LIST 0 # (KListHead STRUCT (length kss) # concat kss) @ KStop # ts) (Some xs) ts"
proof -
  have "yields P view (readList rd new p) ((KListHead STRUCT (length kss) # concat kss) @ KStop # ts) (Some xs) (KStop # ts)"
    unfolding readList_def append_Cons
    by (rule yields_bindM [OF yields_ops(11) [OF P]])
      (simp, rule yields_bindM [OF yields_readElems [OF rd]], rule yields_seqM [OF yields_ops(12) [OF P] yields_returnM])
  then show ?thesis unfolding readListResult_def
    by (intro yields_one_field [OF P n]) (simp_all add: switchField_def)
qed

lemma emits_struct_with:
  assumes P: "sink_ok P sink" and "emits P sink (f r) ks"
  shows "emits P sink (writeStruct name (\<lambda>p. [f p]) (Some r)) (ks @ [KStop])"
proof -
  have "emits P sink (seqAll [WriteStructBegin name, seqAll [f r], WriteFieldStop, WriteStructEnd])
      (concat [[], concat [ks], [KStop], []])"
    by (intro emits_seqAll list_all2_Cons [THEN iffD2, OF conjI] list_all2_Nil [THEN iffD2, OF refl] emits_ops [OF P] assms(2))
  then show ?thesis by (simp add: writeStruct_def)
qed

lemma emits_request:
  assumes P: "sink_ok P sink" and "emits P sink (w q) ks"
  shows "emits P sink (writeArgs name w q) (KField STRUCT 1 # ks @ [KStop])"
  unfolding writeArgs_def append_Cons [symmetric]
  by (rule emits_struct_with [OF P]) (rule emits_writeField [OF assms])

lemma emits_optional:
  assumes P: "sink_ok P sink" and "\<And>x. r = Some x \<Longrightarrow> emits P sink (w x) (ks x)"
  shows "emits P sink (writeStruct name (\<lambda>success. [writeOpt success (\<lambda>x. writeField ''success'' t 0 (w x))]) (Some r))
    (case r of None \<Rightarrow> [KStop] | Some x \<Rightarrow> KField t 0 # ks x @ [KStop])"
proof (cases r)
  case None
  have "emits P sink (writeOpt r (\<lambda>x. writeField ''success'' t 0 (w x))) []"
    by (simp add: None writeOpt_def emits_returnM)
  from emits_struct_with [where f = "\<lambda>success. writeOpt success (\<lambda>x. writeField ''success'' t 0 (w x))", OF P this]
  show ?thesis by (simp add: None)
next
  case (Some x)
  have "emits P sink (writeOpt r (\<lambda>x. writeField ''success'' t 0 (w x))) (KField t 0 # ks x)"
    using emits_writeField [OF P assms(2) [OF Some]] by (simp add: Some writeOpt_def)
  from emits_struct_with [where f = "\<lambda>success. writeOpt success (\<lambda>x. writeField ''success'' t 0 (w x))", OF P this]
  show ?thesis by (simp add: Some)
qed

lemma emits_listed:
  assumes P: "sink_ok P sink" and "\<And>x. emits P sink (w x) (ks x)"
  shows "emits P sink (writeList w xs) (KListHead STRUCT (length xs) # concat (map ks xs))"
proof -
  have "emits P sink (seqAll (map w xs)) (concat (map ks xs))"
    by (rule emits_seqAll) (simp add: list_all2_conv_all_nth assms(2))
  then show ?thesis unfolding writeList_def
    by - (rule emits_seqAllI [where kss = "[[KListHead STRUCT (length xs)], concat (map ks xs), []]"],
      (rule emits_all emits_ops [OF P] | assumption)+, simp)
qed

section \<open>Requests and results survive the wire\<close>

context wire_struct begin

lemma request_survives:
  assumes "sink_ok Q sink" and "stream_ok P view" and n: "maxFields < n"
  shows "survives Q sink P view (writeArgs name Write_m q) (readRequest n (Read_m n) New_m p) (Some (setPtr New_m filled q))"
proof -
  let ?ks = "KField STRUCT 1 # encode (VStruct (ptrFields fieldsOf q)) @ [KStop]"
  have "1 < n" using n by (simp add: maxFields_def)
  from yields_request [where rd = "Read_m n" and new = New_m, OF assms(2) this reads [OF assms(2) n]]
  have "yields P view (readRequest n (Read_m n) New_m p) (?ks @ ts) (Some (setPtr New_m filled q)) ts" for ts
    by (simp del: encode.simps)
  with emits_request [where w = Write_m and q = q and name = name, OF assms(1) writes [OF assms(1)]]
  show ?thesis unfolding survives_def by blast
qed

lemma result_survives:
  assumes "sink_ok Q sink" and "stream_ok P view" and n: "maxFields < n"
  shows "survives Q sink P view (writeResult name Write_m r) (readResult n (Read_m n) New_m None) (map_option filled r)"
proof -
  let ?ks = "case r of None \<Rightarrow> [KStop] | Some x \<Rightarrow> KField STRUCT 0 # encode (VStruct (fieldsOf x)) @ [KStop]"
  have n1: "1 < n" using n by (simp add: maxFields_def)
  have "yields P view (readResult n (Read_m n) New_m None) (?ks @ ts) (map_option filled r) ts" for ts
  proof (cases r)
    case None
    have "0 < n" using n1 by simp
    then show ?thesis unfolding readResult_def None by (simp add: yields_stop [OF assms(2)])
  next
    case (Some x)
    from yields_result [where rd = "Read_m n" and new = New_m, OF assms(2) n1 reads_filled [OF assms(2) n]] show ?thesis by (simp add: Some del: encode.simps)
  qed
  moreover have "emits Q sink (writeResult name Write_m r) ?ks"
    unfolding writeResult_def by (rule emits_optional [OF assms(1) writes_some [OF assms(1)]])
  ultimately show ?thesis unfolding survives_def by blast
qed

lemma list_survives:
  assumes "sink_ok Q sink" and "stream_ok P view" and n: "maxFields < n"
  shows "survives Q sink P view (writeListResult name Write_m r) (readListResult n (Read_m n) New_m None)
    (map_option (map (setPtr New_m filled)) r)"
proof -
  let ?enc = "\<lambda>x. encode (VStruct (ptrFields fieldsOf x))"
  let ?ks = "case r of None \<Rightarrow> [KStop]
    | Some xs \<Rightarrow> KField LIST 0 # (KListHead STRUCT (length xs) # concat (map ?enc xs)) @ [KStop]"
  have n1: "1 < n" using n by (simp add: maxFields_def)
  have "yields P view (readListResult n (Read_m n) New_m None) (?ks @ ts) (map_option (map (setPtr New_m filled)) r) ts" for ts
  proof (cases r)
    case None
    have "0 < n" using n1 by simp
    then show ?thesis unfolding readListResult_def None by (simp add: yields_stop [OF assms(2)])
  next
    case (Some xs)
    have "list_all2 (\<lambda>ks x. \<forall>ts. yields P view (Read_m n New_m) (ks @ ts) x ts) (map ?enc xs) (map (setPtr New_m filled) xs)"
      using reads [OF assms(2) n] by (simp add: list_all2_conv_all_nth)
    from yields_listResult [where rd = "Read_m n" and new = New_m, OF assms(2) n1 this] show ?thesis by (simp add: Some del: encode.simps)
  qed
  moreover have "emits Q sink (writeListResult name Write_m r) ?ks"
    unfolding writeListResult_def
    by (rule emits_optional [OF assms(1)]) (rule emits_listed [OF assms(1) writes [OF assms(1)]])
  ultimately show ?thesis unfolding survives_def by blast
qed

end

section \<open>A call and its answer\<close>

text \<open>
  The call of an implementation from the other end of the wire: the errors that reach the caller
  are those of the implementation, under the text of the processor; no answer comes when the
  client is taken to be gone.
\<close>

definition remote ::
  "string \<Rightarrow> ('q, 'r) implementation \<Rightarrow> ('q option \<Rightarrow> 'q) \<Rightarrow> ('r \<Rightarrow> 's) \<Rightarrow> 'q option \<Rightarrow> env \<Rightarrow> st \<Rightarrow> (string + 's) \<times> st" where
  "remote name handler fillQ fillR q E s =
     (case handler (Some (fillQ q)) E s of
        (Inr r, s') \<Rightarrow> (Inr (fillR r), s')
      | (Inl (Abandoned e), s') \<Rightarrow> (Inl ''invalid message'', s')
      | (Inl (Canceled e (Some gone)), s') \<Rightarrow> (Inl ''invalid message'', s')
      | (Inl err, s') \<Rightarrow> (Inl (internalText name (herrText err)), s'))"

text \<open>A struct that did not come is an error at the client.\<close>

definition required :: "string \<Rightarrow> (string + 's option) \<times> st \<Rightarrow> (string + 's) \<times> st" where
  "required name r =
     (case r of
        (Inl e, s') \<Rightarrow> (Inl e, s')
      | (Inr None, s') \<Rightarrow> (Inl (name @ '' failed: unknown result''), s')
      | (Inr (Some x), s') \<Rightarrow> (Inr x, s'))"

lemma writeAll_responds:
  assumes "list_all2 (emits (outProto W) sink) ms kss"
  shows "responds W sink (writeAll ms None) None (concat kss)"
  using assms
proof (induction rule: list_all2_induct)
  case Nil
  show ?case by (simp add: responds_returnM)
next
  case (Cons m ms ks kss)
  show ?case unfolding responds_def
  proof
    fix c
    obtain o1 where "tryOut m W c = (Inr (Inr ()), c\<lparr>outSt := o1\<rparr>)" "sink o1 = sink (outSt c) @ ks"
      using tryOut_emits [OF Cons.hyps(1)] by blast
    moreover obtain o2 where "writeAll ms None W (c\<lparr>outSt := o1\<rparr>) = (Inr None, c\<lparr>outSt := o2\<rparr>)" "sink o2 = sink o1 @ concat kss"
      using Cons.IH [unfolded responds_def, rule_format, of "c\<lparr>outSt := o1\<rparr>"] by auto
    ultimately show "\<exists>o'. writeAll (m # ms) None W c = (Inr None, c\<lparr>outSt := o'\<rparr>) \<and> sink o' = sink (outSt c) @ concat (ks # kss)"
      by (intro exI [of _ o2]) (simp add: run_rules)
  qed
qed

lemma answered_run:
  assumes "list_all2 (emits tokProto (\<lambda>ks. ks)) ms kss" and "outProto W = tokProto"
  shows "answered ms err W c = (Inr (True, map_option WrappedExc err), c\<lparr>outSt := outSt c @ concat kss\<rparr>)"
proof -
  obtain o' where "writeAll ms None W c = (Inr None, c\<lparr>outSt := o'\<rparr>)" "o' = outSt c @ concat kss"
    using writeAll_responds [where W = W and sink = "\<lambda>ks. ks", unfolded assms(2), OF assms(1)] unfolding responds_def by blast
  then show ?thesis by (simp add: answered_def run_rules)
qed

locale remote_method =
  fixes name :: string
    and argsW :: "'q option \<Rightarrow> (tok list, unit) T"
    and argsR :: "nat \<Rightarrow> 'q option \<Rightarrow> (tok list, 'q option) T"
    and resW :: "'r \<Rightarrow> (tok list, unit) T"
    and resR :: "nat \<Rightarrow> 's option \<Rightarrow> (tok list, 's option) T"
    and fillQ :: "'q option \<Rightarrow> 'q"
    and fillR :: "'r \<Rightarrow> 's option"
  assumes sent: "maxFields < n \<Longrightarrow>
      survives tokProto (\<lambda>ks. ks) tokProto (\<lambda>ks. ks) (argsW q) (argsR n None) (Some (fillQ q))"
    and returned: "maxFields < n \<Longrightarrow>
      survives tokProto (\<lambda>ks. ks) tokProto (\<lambda>ks. ks) (resW r) (resR n None) (fillR r)"
begin

lemma method_served:
  assumes n: "maxFields < n" and P: "outProto W = tokProto" "inProto W = tokProto"
    and ks: "emits tokProto (\<lambda>ks. ks) (argsW q) ks"
    and run: "handler (Some (fillQ q)) (world W) (svcSt c) = (r, s')" and c: "inSt c = ks" "outSt c = []"
  shows "\<exists>v c'. processMethod name (argsR n) resW handler seqId W c = (Inr v, c') \<and> svcSt c' = s' \<and>
     (case r of
        Inr x \<Rightarrow> \<exists>rs. emits tokProto (\<lambda>ks. ks) (resW x) rs \<and> outSt c' = KMsg name REPLY seqId # rs
      | Inl (Abandoned e) \<Rightarrow> outSt c' = []
      | Inl (Canceled e (Some gone)) \<Rightarrow> outSt c' = []
      | Inl err \<Rightarrow> outSt c' = [KMsg name EXCEPTION seqId,
          KExc (AppExc INTERNAL_ERROR (internalText name (herrText err)))])"
proof -
  obtain ks' where "emits tokProto (\<lambda>ks. ks) (argsW q) ks'"
    and rd: "\<And>ts. yields tokProto (\<lambda>ks. ks) (argsR n None) (ks' @ ts) (Some (fillQ q)) ts"
    using sent [OF n] unfolding survives_def by blast
  then have "ks' = ks" using emits_tok [OF ks] emits_tok by fastforce
  with rd [of "[]"] c obtain i where "argsR n None tokProto (inSt c) = (Inr (Some (fillQ q)), i)" "i = []"
    unfolding yields_def by auto
  then have read: "tryIn (argsR n None) W c = (Inr (Inr (Some (fillQ q))), c\<lparr>inSt := []\<rparr>)"
    by (simp add: tryIn_def outcome_def P)
  obtain e where ended: "tryIn ReadMessageEnd W (c\<lparr>inSt := []\<rparr>) = (Inr e, c\<lparr>inSt := []\<rparr>)"
    using yields_ops(4) [OF tokProto_ok(1), of "[]"] unfolding yields_def by (auto simp: tryIn_def outcome_def P)
  note step = processMethod_def run_bindM run_seqM read ended callHandler_def run c
  show ?thesis
  proof (cases r)
    case (Inr x)
    obtain rs where rs: "emits tokProto (\<lambda>ks. ks) (resW x) rs"
      using returned [OF n, of x] unfolding survives_def by blast
    have "list_all2 (emits tokProto (\<lambda>ks. ks)) [WriteMessageBegin name REPLY seqId, resW x, WriteMessageEnd, FlushOf]
        [[KMsg name REPLY seqId], rs, [], []]"
      by (rule emits_all emits_ops [OF tokProto_ok(2)] rs)+
    from answered_run [OF this P(1)] rs show ?thesis by (auto simp: step Inr)
  next
    case (Inl err)
    let ?x = "AppExc INTERNAL_ERROR (internalText name (herrText err))"
    have "list_all2 (emits tokProto (\<lambda>ks. ks)) [WriteMessageBegin name EXCEPTION seqId, WriteException ?x, WriteMessageEnd, FlushOf]
        [[KMsg name EXCEPTION seqId], [KExc ?x], [], []]"
      by (rule emits_all emits_ops [OF tokProto_ok(2)])+
    note answer = answered_run [OF this P(1)]
    show ?thesis
    proof (cases err)
      case (Canceled e cause)
      then show ?thesis using answer by (cases cause) (auto simp: step Inl run_returnM)
    qed (use answer in \<open>auto simp: step Inl run_returnM\<close>)
  qed
qed

lemma call_remote:
  assumes call: "reaches W (processMessage p) call" and n: "maxFields < n"
    and entry: "GetProcessorFunction p name = Some (processMethod name (argsR n) resW handler)"
  shows "Call name (argsW q) (resR n None) call s = remote name handler fillQ fillR q (world W) s"
proof -
  obtain ks where ks: "emits tokProto (\<lambda>ks. ks) (argsW q) ks" using sent [OF n] unfolding survives_def by blast
  obtain r s' where run: "handler (Some (fillQ q)) (world W) s = (r, s')" by force
  obtain seqID where answer: "\<And>v c. processMessage p W \<lparr>inSt = KMsg name CALL seqID # ks, outSt = [], svcSt = s\<rparr> = (v, c) \<Longrightarrow>
      call name ks s = (replyOf name seqID (outSt c), svcSt c)"
    by (rule reached [OF call, of name ks s]) blast
  note protos = reaches_protos [OF call]
  let ?c = "\<lparr>inSt = ks, outSt = [], svcSt = s\<rparr>"
  have "\<exists>v c'. processMethod name (argsR n) resW handler seqID W ?c = (Inr v, c') \<and> svcSt c' = s' \<and>
     (case r of
        Inr x \<Rightarrow> \<exists>rs. emits tokProto (\<lambda>ks. ks) (resW x) rs \<and> outSt c' = KMsg name REPLY seqID # rs
      | Inl (Abandoned e) \<Rightarrow> outSt c' = []
      | Inl (Canceled e (Some gone)) \<Rightarrow> outSt c' = []
      | Inl err \<Rightarrow> outSt c' = [KMsg name EXCEPTION seqID, KExc (AppExc INTERNAL_ERROR (internalText name (herrText err)))])"
    by (rule method_served [OF n _ _ ks]) (use protos run in simp_all)
  then obtain v c' where m: "processMethod name (argsR n) resW handler seqID W ?c = (Inr v, c')" "svcSt c' = s'"
    and out: "case r of
        Inr x \<Rightarrow> \<exists>rs. emits tokProto (\<lambda>ks. ks) (resW x) rs \<and> outSt c' = KMsg name REPLY seqID # rs
      | Inl (Abandoned e) \<Rightarrow> outSt c' = []
      | Inl (Canceled e (Some gone)) \<Rightarrow> outSt c' = []
      | Inl err \<Rightarrow> outSt c' = [KMsg name EXCEPTION seqID, KExc (AppExc INTERNAL_ERROR (internalText name (herrText err)))]"
    by blast
  obtain i where "ReadMessageBegin tokProto (KMsg name CALL seqID # ks) = (Inr (name, CALL, seqID), i)" "i = ks"
    using yields_ops(9) [OF tokProto_ok(1)] unfolding yields_def by blast
  then have "processMessage p W \<lparr>inSt = KMsg name CALL seqID # ks, outSt = [], svcSt = s\<rparr> = (Inr v, c')"
    using m(1) entry protos by (simp add: processMessage_def run_bindM tryIn_def outcome_def)
  with answer m(2) have called: "call name ks s = (replyOf name seqID (outSt c'), s')" by blast
  note sent = Call_sent [OF ks] called run
  show ?thesis
  proof (cases r)
    case (Inr x)
    with out obtain rs where rs: "emits tokProto (\<lambda>ks. ks) (resW x) rs" "outSt c' = KMsg name REPLY seqID # rs" by auto
    obtain rs' where "emits tokProto (\<lambda>ks. ks) (resW x) rs'"
      and rd: "\<And>ts. yields tokProto (\<lambda>ks. ks) (resR n None) (rs' @ ts) (fillR x) ts"
      using returned [OF n] unfolding survives_def by blast
    then have "rs' = rs" using emits_tok [OF rs(1)] emits_tok by fastforce
    with rd [of "[]"] obtain i where "resR n None tokProto rs = (Inr (fillR x), i)" unfolding yields_def by auto
    then show ?thesis by (simp add: sent rs(2) Inr remote_def)
  next
    case (Inl err)
    show ?thesis
    proof (cases err)
      case (Canceled e cause)
      then show ?thesis using out by (cases cause) (simp_all add: sent Inl remote_def)
    qed (use out in \<open>simp_all add: sent Inl remote_def\<close>)
  qed
qed

lemma struct_call_remote:
  assumes "reaches W (processMessage p) call" and "maxFields < n"
    and "GetProcessorFunction p name = Some (processMethod name (argsR n) resW handler)"
  shows "structCall name (argsW q) (resR n None) call s =
    required name (remote name handler fillQ fillR q (world W) s)"
  by (auto simp: structCall_def run_bindM call_remote [OF assms] required_def run_rules
      split: prod.split sum.split option.split)

end

interpretation rpc_IssueToken: remote_method "''IssueToken''" AuthServiceIssueTokenArgs_Write AuthServiceIssueTokenArgs_Read AuthServiceIssueTokenResult_Write AuthServiceIssueTokenResult_Read
  "setPtr NewTokenRequest filledTokenRequest" "map_option filledTokenResponse"
  by unfold_locales (simp_all only: server_defs args_defs result_defs gen_tokenRequest.request_survives [OF tokProto_ok(2,1)]
    gen_tokenResponse.result_survives [OF tokProto_ok(2,1)])

interpretation rpc_SubmitOrder: remote_method "''SubmitOrder''" OrderServiceSubmitOrderArgs_Write OrderServiceSubmitOrderArgs_Read OrderServiceSubmitOrderResult_Write OrderServiceSubmitOrderResult_Read
  "setPtr NewSubmitOrderRequest filledSubmitOrderRequest" "map_option filledOrder"
  by unfold_locales (simp_all only: server_defs args_defs result_defs gen_submitOrderRequest.request_survives [OF tokProto_ok(2,1)]
    gen_order.result_survives [OF tokProto_ok(2,1)])

interpretation rpc_WithdrawOrder: remote_method "''WithdrawOrder''" OrderServiceWithdrawOrderArgs_Write OrderServiceWithdrawOrderArgs_Read OrderServiceWithdrawOrderResult_Write OrderServiceWithdrawOrderResult_Read
  "setPtr NewOrderIDRequest filledOrderIDRequest" "map_option filledOrder"
  by unfold_locales (simp_all only: server_defs args_defs result_defs gen_orderIDRequest.request_survives [OF tokProto_ok(2,1)]
    gen_order.result_survives [OF tokProto_ok(2,1)])

interpretation rpc_GetOrder: remote_method "''GetOrder''" OrderServiceGetOrderArgs_Write OrderServiceGetOrderArgs_Read OrderServiceGetOrderResult_Write OrderServiceGetOrderResult_Read
  "setPtr NewOrderIDRequest filledOrderIDRequest" "map_option filledOrderView"
  by unfold_locales (simp_all only: server_defs args_defs result_defs gen_orderIDRequest.request_survives [OF tokProto_ok(2,1)]
    gen_orderView.result_survives [OF tokProto_ok(2,1)])

interpretation rpc_ReserveJob: remote_method "''ReserveJob''" DroneServiceReserveJobArgs_Write DroneServiceReserveJobArgs_Read DroneServiceReserveJobResult_Write DroneServiceReserveJobResult_Read
  "setPtr NewAuthRequest filledAuthRequest" "map_option filledOrder"
  by unfold_locales (simp_all only: server_defs args_defs result_defs gen_authRequest.request_survives [OF tokProto_ok(2,1)]
    gen_order.result_survives [OF tokProto_ok(2,1)])

interpretation rpc_PickupOrder: remote_method "''PickupOrder''" DroneServicePickupOrderArgs_Write DroneServicePickupOrderArgs_Read DroneServicePickupOrderResult_Write DroneServicePickupOrderResult_Read
  "setPtr NewOrderIDRequest filledOrderIDRequest" "map_option filledOrder"
  by unfold_locales (simp_all only: server_defs args_defs result_defs gen_orderIDRequest.request_survives [OF tokProto_ok(2,1)]
    gen_order.result_survives [OF tokProto_ok(2,1)])

interpretation rpc_DeliverOrder: remote_method "''DeliverOrder''" DroneServiceDeliverOrderArgs_Write DroneServiceDeliverOrderArgs_Read DroneServiceDeliverOrderResult_Write DroneServiceDeliverOrderResult_Read
  "setPtr NewOrderIDRequest filledOrderIDRequest" "map_option filledOrder"
  by unfold_locales (simp_all only: server_defs args_defs result_defs gen_orderIDRequest.request_survives [OF tokProto_ok(2,1)]
    gen_order.result_survives [OF tokProto_ok(2,1)])

interpretation rpc_FailOrder: remote_method "''FailOrder''" DroneServiceFailOrderArgs_Write DroneServiceFailOrderArgs_Read DroneServiceFailOrderResult_Write DroneServiceFailOrderResult_Read
  "setPtr NewFailOrderRequest filledFailOrderRequest" "map_option filledOrder"
  by unfold_locales (simp_all only: server_defs args_defs result_defs gen_failOrderRequest.request_survives [OF tokProto_ok(2,1)]
    gen_order.result_survives [OF tokProto_ok(2,1)])

interpretation rpc_MarkBroken: remote_method "''MarkBroken''" DroneServiceMarkBrokenArgs_Write DroneServiceMarkBrokenArgs_Read DroneServiceMarkBrokenResult_Write DroneServiceMarkBrokenResult_Read
  "setPtr NewAuthRequest filledAuthRequest" "map_option filledDrone"
  by unfold_locales (simp_all only: server_defs args_defs result_defs gen_authRequest.request_survives [OF tokProto_ok(2,1)]
    gen_drone.result_survives [OF tokProto_ok(2,1)])

interpretation rpc_Heartbeat: remote_method "''Heartbeat''" DroneServiceHeartbeatArgs_Write DroneServiceHeartbeatArgs_Read DroneServiceHeartbeatResult_Write DroneServiceHeartbeatResult_Read
  "setPtr NewHeartbeatRequest filledHeartbeatRequest" "map_option filledDroneStatus"
  by unfold_locales (simp_all only: server_defs args_defs result_defs gen_heartbeatRequest.request_survives [OF tokProto_ok(2,1)]
    gen_droneStatus.result_survives [OF tokProto_ok(2,1)])

interpretation rpc_CurrentOrder: remote_method "''CurrentOrder''" DroneServiceCurrentOrderArgs_Write DroneServiceCurrentOrderArgs_Read DroneServiceCurrentOrderResult_Write DroneServiceCurrentOrderResult_Read
  "setPtr NewAuthRequest filledAuthRequest" "map_option filledOrderView"
  by unfold_locales (simp_all only: server_defs args_defs result_defs gen_authRequest.request_survives [OF tokProto_ok(2,1)]
    gen_orderView.result_survives [OF tokProto_ok(2,1)])

interpretation rpc_ListOrders: remote_method "''ListOrders''" AdminServiceListOrdersArgs_Write AdminServiceListOrdersArgs_Read AdminServiceListOrdersResult_Write AdminServiceListOrdersResult_Read
  "setPtr NewListOrdersRequest filledListOrdersRequest" "map_option (map (setPtr NewOrderView filledOrderView))"
  by unfold_locales (simp_all only: server_defs args_defs result_defs gen_listOrdersRequest.request_survives [OF tokProto_ok(2,1)]
    gen_orderView.list_survives [OF tokProto_ok(2,1)])

interpretation rpc_UpdateOrder: remote_method "''UpdateOrder''" AdminServiceUpdateOrderArgs_Write AdminServiceUpdateOrderArgs_Read AdminServiceUpdateOrderResult_Write AdminServiceUpdateOrderResult_Read
  "setPtr NewUpdateOrderRequest filledUpdateOrderRequest" "map_option filledOrder"
  by unfold_locales (simp_all only: server_defs args_defs result_defs gen_updateOrderRequest.request_survives [OF tokProto_ok(2,1)]
    gen_order.result_survives [OF tokProto_ok(2,1)])

interpretation rpc_ListDrones: remote_method "''ListDrones''" AdminServiceListDronesArgs_Write AdminServiceListDronesArgs_Read AdminServiceListDronesResult_Write AdminServiceListDronesResult_Read
  "setPtr NewAuthRequest filledAuthRequest" "map_option (map (setPtr NewDrone filledDrone))"
  by unfold_locales (simp_all only: server_defs args_defs result_defs gen_authRequest.request_survives [OF tokProto_ok(2,1)]
    gen_drone.list_survives [OF tokProto_ok(2,1)])

interpretation rpc_MarkDroneBroken: remote_method "''MarkDroneBroken''" AdminServiceMarkDroneBrokenArgs_Write AdminServiceMarkDroneBrokenArgs_Read AdminServiceMarkDroneBrokenResult_Write AdminServiceMarkDroneBrokenResult_Read
  "setPtr NewDroneIDRequest filledDroneIDRequest" "map_option filledDrone"
  by unfold_locales (simp_all only: server_defs args_defs result_defs gen_droneIDRequest.request_survives [OF tokProto_ok(2,1)]
    gen_drone.result_survives [OF tokProto_ok(2,1)])

interpretation rpc_MarkDroneFixed: remote_method "''MarkDroneFixed''" AdminServiceMarkDroneFixedArgs_Write AdminServiceMarkDroneFixedArgs_Read AdminServiceMarkDroneFixedResult_Write AdminServiceMarkDroneFixedResult_Read
  "setPtr NewDroneIDRequest filledDroneIDRequest" "map_option filledDrone"
  by unfold_locales (simp_all only: server_defs args_defs result_defs gen_droneIDRequest.request_survives [OF tokProto_ok(2,1)]
    gen_drone.result_survives [OF tokProto_ok(2,1)])

section \<open>Every method of every service\<close>

lemma auth_calls:
  assumes "reaches W (AuthServiceProcessor_Process (NewAuthServiceProcessor h n)) call" and "maxFields < n"
  shows "AuthServiceClient_IssueToken n q1 call s =
       required ''IssueToken'' (remote ''IssueToken'' (authIssueToken h) (setPtr NewTokenRequest filledTokenRequest) (map_option filledTokenResponse) q1 (world W) s)"
  by (simp_all only: AuthServiceClient_IssueToken_def listCall_def)
    (rule rpc_IssueToken.struct_call_remote [OF assms [unfolded AuthServiceProcessor_Process_def]], simp add: processor_defs)

lemma order_calls:
  assumes "reaches W (OrderServiceProcessor_Process (NewOrderServiceProcessor h n)) call" and "maxFields < n"
  shows "OrderServiceClient_SubmitOrder n q1 call s =
       required ''SubmitOrder'' (remote ''SubmitOrder'' (orderSubmitOrder h) (setPtr NewSubmitOrderRequest filledSubmitOrderRequest) (map_option filledOrder) q1 (world W) s)"
    "OrderServiceClient_WithdrawOrder n q2 call s =
       required ''WithdrawOrder'' (remote ''WithdrawOrder'' (orderWithdrawOrder h) (setPtr NewOrderIDRequest filledOrderIDRequest) (map_option filledOrder) q2 (world W) s)"
    "OrderServiceClient_GetOrder n q3 call s =
       required ''GetOrder'' (remote ''GetOrder'' (orderGetOrder h) (setPtr NewOrderIDRequest filledOrderIDRequest) (map_option filledOrderView) q3 (world W) s)"
  by (simp_all only: OrderServiceClient_SubmitOrder_def OrderServiceClient_WithdrawOrder_def OrderServiceClient_GetOrder_def listCall_def)
    (rule rpc_SubmitOrder.struct_call_remote [OF assms [unfolded OrderServiceProcessor_Process_def]], simp add: processor_defs,
     rule rpc_WithdrawOrder.struct_call_remote [OF assms [unfolded OrderServiceProcessor_Process_def]], simp add: processor_defs,
     rule rpc_GetOrder.struct_call_remote [OF assms [unfolded OrderServiceProcessor_Process_def]], simp add: processor_defs)

lemma drone_calls:
  assumes "reaches W (DroneServiceProcessor_Process (NewDroneServiceProcessor h n)) call" and "maxFields < n"
  shows "DroneServiceClient_ReserveJob n q1 call s =
       required ''ReserveJob'' (remote ''ReserveJob'' (droneReserveJob h) (setPtr NewAuthRequest filledAuthRequest) (map_option filledOrder) q1 (world W) s)"
    "DroneServiceClient_PickupOrder n q2 call s =
       required ''PickupOrder'' (remote ''PickupOrder'' (dronePickupOrder h) (setPtr NewOrderIDRequest filledOrderIDRequest) (map_option filledOrder) q2 (world W) s)"
    "DroneServiceClient_DeliverOrder n q3 call s =
       required ''DeliverOrder'' (remote ''DeliverOrder'' (droneDeliverOrder h) (setPtr NewOrderIDRequest filledOrderIDRequest) (map_option filledOrder) q3 (world W) s)"
    "DroneServiceClient_FailOrder n q4 call s =
       required ''FailOrder'' (remote ''FailOrder'' (droneFailOrder h) (setPtr NewFailOrderRequest filledFailOrderRequest) (map_option filledOrder) q4 (world W) s)"
    "DroneServiceClient_MarkBroken n q5 call s =
       required ''MarkBroken'' (remote ''MarkBroken'' (droneMarkBroken h) (setPtr NewAuthRequest filledAuthRequest) (map_option filledDrone) q5 (world W) s)"
    "DroneServiceClient_Heartbeat n q6 call s =
       required ''Heartbeat'' (remote ''Heartbeat'' (droneHeartbeat h) (setPtr NewHeartbeatRequest filledHeartbeatRequest) (map_option filledDroneStatus) q6 (world W) s)"
    "DroneServiceClient_CurrentOrder n q7 call s =
       required ''CurrentOrder'' (remote ''CurrentOrder'' (droneCurrentOrder h) (setPtr NewAuthRequest filledAuthRequest) (map_option filledOrderView) q7 (world W) s)"
  by (simp_all only: DroneServiceClient_ReserveJob_def DroneServiceClient_PickupOrder_def DroneServiceClient_DeliverOrder_def DroneServiceClient_FailOrder_def DroneServiceClient_MarkBroken_def DroneServiceClient_Heartbeat_def DroneServiceClient_CurrentOrder_def listCall_def)
    (rule rpc_ReserveJob.struct_call_remote [OF assms [unfolded DroneServiceProcessor_Process_def]], simp add: processor_defs,
     rule rpc_PickupOrder.struct_call_remote [OF assms [unfolded DroneServiceProcessor_Process_def]], simp add: processor_defs,
     rule rpc_DeliverOrder.struct_call_remote [OF assms [unfolded DroneServiceProcessor_Process_def]], simp add: processor_defs,
     rule rpc_FailOrder.struct_call_remote [OF assms [unfolded DroneServiceProcessor_Process_def]], simp add: processor_defs,
     rule rpc_MarkBroken.struct_call_remote [OF assms [unfolded DroneServiceProcessor_Process_def]], simp add: processor_defs,
     rule rpc_Heartbeat.struct_call_remote [OF assms [unfolded DroneServiceProcessor_Process_def]], simp add: processor_defs,
     rule rpc_CurrentOrder.struct_call_remote [OF assms [unfolded DroneServiceProcessor_Process_def]], simp add: processor_defs)

lemma admin_calls:
  assumes "reaches W (AdminServiceProcessor_Process (NewAdminServiceProcessor h n)) call" and "maxFields < n"
  shows "AdminServiceClient_ListOrders n q1 call s =
       remote ''ListOrders'' (adminListOrders h) (setPtr NewListOrdersRequest filledListOrdersRequest) (map_option (map (setPtr NewOrderView filledOrderView))) q1 (world W) s"
    "AdminServiceClient_UpdateOrder n q2 call s =
       required ''UpdateOrder'' (remote ''UpdateOrder'' (adminUpdateOrder h) (setPtr NewUpdateOrderRequest filledUpdateOrderRequest) (map_option filledOrder) q2 (world W) s)"
    "AdminServiceClient_ListDrones n q3 call s =
       remote ''ListDrones'' (adminListDrones h) (setPtr NewAuthRequest filledAuthRequest) (map_option (map (setPtr NewDrone filledDrone))) q3 (world W) s"
    "AdminServiceClient_MarkDroneBroken n q4 call s =
       required ''MarkDroneBroken'' (remote ''MarkDroneBroken'' (adminMarkDroneBroken h) (setPtr NewDroneIDRequest filledDroneIDRequest) (map_option filledDrone) q4 (world W) s)"
    "AdminServiceClient_MarkDroneFixed n q5 call s =
       required ''MarkDroneFixed'' (remote ''MarkDroneFixed'' (adminMarkDroneFixed h) (setPtr NewDroneIDRequest filledDroneIDRequest) (map_option filledDrone) q5 (world W) s)"
  by (simp_all only: AdminServiceClient_ListOrders_def AdminServiceClient_UpdateOrder_def AdminServiceClient_ListDrones_def AdminServiceClient_MarkDroneBroken_def AdminServiceClient_MarkDroneFixed_def listCall_def)
    (rule rpc_ListOrders.call_remote [OF assms [unfolded AdminServiceProcessor_Process_def]], simp add: processor_defs,
     rule rpc_UpdateOrder.struct_call_remote [OF assms [unfolded AdminServiceProcessor_Process_def]], simp add: processor_defs,
     rule rpc_ListDrones.call_remote [OF assms [unfolded AdminServiceProcessor_Process_def]], simp add: processor_defs,
     rule rpc_MarkDroneBroken.struct_call_remote [OF assms [unfolded AdminServiceProcessor_Process_def]], simp add: processor_defs,
     rule rpc_MarkDroneFixed.struct_call_remote [OF assms [unfolded AdminServiceProcessor_Process_def]], simp add: processor_defs)

end
