(* ===== verification/Demo.thy ===== *)
theory Demo
  imports Shutdown Outcomes GrpcClient ThriftGenCalls
begin

text \<open>
  Concrete instances of what the transports and the worker rely on, for checking statements on
  evaluated data: a token library that knows three tokens, a server over the service of theory
  Scenario, a broker that keeps what it is sent, and Thrift connections over lists of tokens.
\<close>

section \<open>Tokens\<close>

definition hour :: int where "hour = 3600000000000"

definition demoClaimsAt :: "time \<Rightarrow> string \<Rightarrow> string \<Rightarrow> Claims" where
  "demoClaimsAt t role name =
     \<lparr>Role = role, Subject = name, IssuedAt = Some t, ExpiresAt = Some (t + hour)\<rparr>"

definition demoClaims :: "string \<Rightarrow> string \<Rightarrow> Claims" where
  "demoClaims = demoClaimsAt 0"

definition demoTokens :: "(string \<times> Claims) list" where
  "demoTokens = [(''t-ann'', demoClaims RoleEndUser ''ann''), (''t-d1'', demoClaims RoleDrone ''d1''),
     (''t-root'', demoClaims RoleAdmin ''root''), (''t-alice'', demoClaims RoleEndUser ''alice''),
     (''t-dr-1'', demoClaimsAt 1 RoleDrone ''dr-1'')]"

definition current :: "Claims \<Rightarrow> time \<Rightarrow> bool" where
  "current c now =
     ((case IssuedAt c of None \<Rightarrow> True | Some x \<Rightarrow> x \<le> now) \<and>
      (case ExpiresAt c of None \<Rightarrow> True | Some x \<Rightarrow> now < x))"

definition demoJWT :: jwtlib where
  "demoJWT =
     \<lparr>numericDate = (\<lambda>t. t),
      jwtSign = (\<lambda>m c k.
        if m = SigningMethodHS256 \<and> k = ''key'' then
          (case List.find (\<lambda>p. snd p = c) demoTokens of
             None \<Rightarrow> Inl (OtherErr ''cannot sign'') | Some p \<Rightarrow> Inr (fst p))
        else Inl (OtherErr ''cannot sign'')),
      jwtParse = (\<lambda>t f now.
        case map_of demoTokens t of
          None \<Rightarrow> Inl (OtherErr ''malformed'')
        | Some c \<Rightarrow>
            (if f SigningMethodHS256 \<noteq> Inr ''key'' then Inl (OtherErr ''signature is invalid'')
             else if current c now then Inr (Some c, True)
             else Inl (OtherErr ''token is not current'')))\<rparr>"

definition demoSigned :: "string \<Rightarrow> string \<Rightarrow> string \<Rightarrow> Claims \<Rightarrow> bool" where
  "demoSigned t m k c \<longleftrightarrow> m = SigningMethodHS256 \<and> k = ''key'' \<and> map_of demoTokens t = Some c"

lemma demo_find:
  assumes "List.find (\<lambda>p. snd p = c) demoTokens = Some p"
  shows "map_of demoTokens (fst p) = Some c"
  using assms by (auto simp: demoTokens_def split: if_splits)

lemma demoJWT_ok: "jwt_ok demoJWT demoSigned"
  unfolding jwt_ok_def
proof (intro conjI allI impI)
  fix tok now c and f :: "string \<Rightarrow> gerror + string"
  assume "jwtParse demoJWT tok f now = Inr (Some c, True)"
  then have "f SigningMethodHS256 = Inr ''key''" "map_of demoTokens tok = Some c"
    by (auto simp: demoJWT_def split: option.splits if_splits)
  then show "\<exists>m k. f m = Inr k \<and> demoSigned tok m k c" by (auto simp: demoSigned_def)
next
  fix m c k tok now and f :: "string \<Rightarrow> gerror + string"
  assume a: "jwtSign demoJWT m c k = Inr tok \<and> f m = Inr k \<and> (\<forall>x. ExpiresAt c = Some x \<longrightarrow> now < x) \<and>
    (\<forall>x. IssuedAt c = Some x \<longrightarrow> x \<le> now)"
  then obtain p where p: "List.find (\<lambda>p. snd p = c) demoTokens = Some p" "tok = fst p"
      "m = SigningMethodHS256" "k = ''key''"
    by (auto simp: demoJWT_def split: if_splits option.splits)
  then show "jwtParse demoJWT tok f now = Inr (Some c, True)"
    using a demo_find [OF p(1)] by (auto simp: demoJWT_def current_def split: option.splits)
qed

definition demoAuth :: Authenticator where
  "demoAuth = \<lparr>secret = ''key'', ttl = hour\<rparr>"

definition demoServer :: Server where
  "demoServer = \<lparr>srvSvc = demoService, srvAuth = demoAuth, srvJWT = demoJWT\<rparr>"

lemma demoServer_sel [simp]:
  "srvSvc demoServer = demoService" "srvAuth demoServer = demoAuth" "srvJWT demoServer = demoJWT"
  "secret demoAuth = ''key''"
  by (simp_all add: demoServer_def demoAuth_def)

lemma demo_parse:
  assumes "0 \<le> now" "now < hour"
  shows "ParseToken demoJWT demoAuth ''t-ann'' now = Inr (demoClaims RoleEndUser ''ann'')"
    "ParseToken demoJWT demoAuth ''t-d1'' now = Inr (demoClaims RoleDrone ''d1'')"
    "ParseToken demoJWT demoAuth ''t-root'' now = Inr (demoClaims RoleAdmin ''root'')"
  using assms by (simp_all add: ParseToken_def demoJWT_def demoTokens_def keyFunc_def current_def demoClaims_def demoClaimsAt_def)

section \<open>The HTTP and gRPC side\<close>

definition demoHeader :: "string \<Rightarrow> string" where
  "demoHeader t = ''Bearer '' @ t"

definition demoHttp :: "string \<Rightarrow> string \<Rightarrow> json option \<Rightarrow> httpReq" where
  "demoHttp token i body =
     \<lparr>hAuthorization = demoHeader token, hParamID = i, hQuery = (\<lambda>_. ''''), hBody = body\<rparr>"

definition demoListReq :: httpReq where
  "demoListReq = (demoHttp ''t-root'' '''' None)
     \<lparr>hQuery := (\<lambda>k. if k = ''limit'' then Itoa 7 else if k = ''offset'' then Itoa (- 42) else '''')\<rparr>"

definition demoCtx :: "string \<Rightarrow> goctx" where
  "demoCtx token = \<lparr>ctxClaims = None, ctxMetadata = (\<lambda>k. if k = ''authorization'' then [demoHeader token] else [])\<rparr>"

lemma demo_trimmed:
  "stripAny spaceRunes ''t-ann'' = None" "stripAny (map rev spaceRunes) ''nna-t'' = None"
  "stripAny spaceRunes ''t-d1'' = None" "stripAny (map rev spaceRunes) ''1d-t'' = None"
  "stripAny spaceRunes ''t-root'' = None" "stripAny (map rev spaceRunes) ''toor-t'' = None"
  by (simp_all add: spaceRunes_def char_of_def)

lemma demo_bearer:
  "ExtractBearerToken (demoHeader ''t-ann'') = ''t-ann''"
  "ExtractBearerToken (demoHeader ''t-d1'') = ''t-d1''"
  "ExtractBearerToken (demoHeader ''t-root'') = ''t-root''"
  using SplitN2_word [of "''Bearer''"] demo_trimmed
  by (simp_all add: demoHeader_def ExtractBearerToken_def EqualFold_def TrimSpace_id)

lemma foldName_ascii:
  "foldName [] = []"
  "c \<noteq> char_of (197 :: nat) \<Longrightarrow> c \<noteq> char_of (226 :: nat) \<Longrightarrow> foldName (c # cs) = asciiUpper c # foldName cs"
  by (simp_all add: foldName.simps [of "[]"] foldName.simps [of "c # cs"])

section \<open>The worker\<close>

definition demoBroker :: "Event list Publisher" where
  "demoBroker = \<lparr>Publish = (\<lambda>ev b. (Inr (), b @ [ev])), Close = (\<lambda>b. (Inr (), b))\<rparr>"

definition demoWorker :: "Event list OutboxWorker" where
  "demoWorker = \<lparr>wRepo = pgOutbox, wPublisher = demoBroker, wPollInterval = second, wBatchSize = 2\<rparr>"

lemma demoBroker_ok: "broker_ok (wPublisher demoWorker) set"
  by (auto simp: broker_ok_def demoWorker_def demoBroker_def)

lemma demoWorker_sel [simp]: "wRepo demoWorker = pgOutbox" "wBatchSize demoWorker = 2"
  "Publish (wPublisher demoWorker) ev b = (Inr (), b @ [ev])"
  by (simp_all add: demoWorker_def demoBroker_def)

section \<open>Thrift\<close>

definition demoWire :: "(tok list, tok list) wiring" where
  "demoWire = \<lparr>inProto = tokProto, outProto = tokProto, world = demoEnv\<rparr>"

lemma demoWire_sel [simp]: "inProto demoWire = tokProto" "outProto demoWire = tokProto" "world demoWire = demoEnv"
  by (simp_all add: demoWire_def)

lemma demo_quiet:
  "quiet demoEnv demoStart" "quiet demoEnv (demoRun [demoSubmit])"
  "quiet demoEnv (demoRun [demoSubmit, ReqReserve ''d1''])"
  "quiet demoEnv (demoRun [demoSubmit, ReqReserve ''d1'', ReqPickup ''d1'' ''a''])"
  by (simp_all add: quiet_def inj_def eval_defs) (auto dest!: arg_cong [where f = length])

section \<open>A drone reports over HTTP, and the worker publishes the event\<close>

definition demoBrokenReq :: httpReq where
  "demoBrokenReq = demoHttp ''t-d1'' '''' None"

definition demoBroken :: st where
  "demoBroken = snd (ServeHTTP demoServer RtBroken demoBrokenReq demoEnv demoStart)"

definition demoPublished :: "st \<times> Event list" where
  "demoPublished = snd (tick demoWorker demoEnv (demoBroken, []))"

lemma demoBroken_eq: "demoBroken = snd (serve demoService (ReqBroken ''d1'') demoEnv (ticked demoStart))"
  using demo_parse(2) [of 0]
  by (simp add: demoBroken_def demoBrokenReq_def handlers_serve requireRole_def demoHttp_def demo_bearer
      run_bindM nowM_def ticked_def demoClaims_def demoClaimsAt_def serveRoute_def hour_def Let_def del: serve.simps)

lemma demo_platform:
  "platform demoServer 5 demoWorker demoWire (demoBroken, [])"
  "platform demoServer 5 demoWorker demoWire demoPublished"
proof -
  have "platform demoServer 5 demoWorker demoWire (demoStart, [])" by (rule platform.boot) simp
  from platform.http [OF this] show h: "platform demoServer 5 demoWorker demoWire (demoBroken, [])"
    unfolding demoBroken_def demoWire_sel .
  from platform.turn [OF h] show "platform demoServer 5 demoWorker demoWire demoPublished"
    unfolding demoPublished_def demoWire_sel .
qed

lemma demo_outbox:
  "length (outbox_events (db demoBroken)) = 1" "pendingRows (db demoBroken) \<noteq> []"
  "ob_published_at (outbox_events (db (fst demoPublished)) ! 0) \<noteq> None"
  "length (outbox_events (db (fst demoPublished))) = 1"
  unfolding demoPublished_def demoBroken_eq
  by (simp_all add: eval_defs ticked_def tick_def pgOutbox_def repoM_def publishM_def FetchPending_def
      mapM_scan MarkPublished_def execPool_def outboxFetchPendingSQL_def outboxMarkPublishedSQL_def
      eventOfRow_def pendingRows_def)

section \<open>A drone picks up an order over Thrift\<close>

definition demoFields :: "(int \<times> tval) list" where
  "demoFields = [(1, VStr ''t-d1''), (2, VStr ''a'')]"

definition demoConn :: "(tok list, tok list) conn" where
  "demoConn = \<lparr>inSt = KMsg ''PickupOrder'' CALL 7 # wrapped demoFields, outSt = [],
     svcSt = demoRun [demoSubmit, ReqReserve ''d1'']\<rparr>"

lemma demo_conforms: "conforms 5 [1 \<mapsto> StrField, 2 \<mapsto> StrField] demoFields"
  by (simp add: conforms_def demoFields_def hasKind_def)

lemma demo_pickup_args:
  "yields tokProto (\<lambda>ks. ks) (argsM (readOrderIDRequest 5) (\<lambda>(t, i). (t, \<lambda>c. ReqPickup (Subject c) i)))
     (wrapped demoFields) (''t-d1'', \<lambda>c. ReqPickup (Subject c) ''a'') []"
  using yields_argsM [OF yields_readOrderIDRequest [OF tokProto_ok(1) demo_conforms, of "[]"],
      of "\<lambda>(t, i). (t, \<lambda>c. ReqPickup (Subject c) i)"]
  by (simp add: demoFields_def lastStr_def updStr_def)

section \<open>A drone reports over gRPC\<close>

lemma demo_grpc_call:
  "grpcCall demoServer demoEnv (demoCtx ''t-d1'') demoStart
     (snd (markBrokenHandler demoServer (demoCtx ''t-d1'') (Inr ()) (Some (authInterceptor demoServer)) demoEnv demoStart))"
  by (rule grpcCall.intros)

lemma demo_grpcToken: "grpcToken (demoCtx ''t-d1'') = ''t-d1''" "grpcToken (demoCtx ''t-ann'') = ''t-ann''"
  by (simp_all add: grpcToken_def demoCtx_def demo_bearer)

lemma demo_grpc_broken:
  "snd (markBrokenHandler demoServer (demoCtx ''t-d1'') (Inr ()) (Some (authInterceptor demoServer)) demoEnv demoStart) =
     demoBroken"
  using demo_parse(2) [of 0] demo_bearer(2)
  by (simp add: demoBroken_eq drone_handlers_serve withRole_def authenticated_def demoCtx_def Let_def
      run_bindM run_mapErrM nowM_def ticked_def demoClaims_def demoClaimsAt_def hour_def del: serve.simps)

lemma demo_pickup_entry:
  "map_of (thriftTable 5) ''PickupOrder'' = Some (Some RoleDrone,
     argsM (readOrderIDRequest 5) (\<lambda>(t, i). (t, \<lambda>c. ReqPickup (Subject c) i)))"
  by (simp add: thriftTable_def)

lemma demo_ticked_outcome:
  "snd (thriftOutcome demoServer (Some RoleDrone) ''t-d1'' (\<lambda>c. ReqPickup (Subject c) ''a'') demoEnv (svcSt demoConn)) =
     snd (serve demoService (ReqPickup ''d1'' ''a'') demoEnv (ticked (svcSt demoConn)))"
proof -
  have "0 \<le> clock demoEnv (nclock (svcSt demoConn))" "clock demoEnv (nclock (svcSt demoConn)) < hour"
    by (simp_all add: demoConn_def eval_defs hour_def)
  from demo_parse(2) [OF this] show ?thesis
    by (simp add: thriftOutcome_def demoClaims_def demoClaimsAt_def split_def split: sum.splits prod.splits del: serve.simps)
qed

lemma demo_thrift_pickup:
  "svcSt (snd (Process (NewProcessor 5 demoServer) demoWire demoConn)) =
     snd (serve demoService (ReqPickup ''d1'' ''a'') demoEnv (ticked (svcSt demoConn)))"
proof -
  let ?out = "thriftOutcome demoServer (Some RoleDrone) ''t-d1'' (\<lambda>c. ReqPickup (Subject c) ''a'') demoEnv (svcSt demoConn)"
  have "?out = (fst ?out, snd ?out)" by simp
  with Process_call [where W = demoWire and view = "\<lambda>ks. ks" and sink = "\<lambda>ks. ks" and c = demoConn
      and mt = CALL and seqID = 7 and p = demoServer, OF _ _ _ _ demo_pickup_entry, unfolded demoWire_sel,
      OF tokProto_ok(1,2) _ _ demo_pickup_args, of "fst ?out" "snd ?out"]
  have "svcSt (snd (Process (NewProcessor 5 demoServer) demoWire demoConn)) = snd ?out"
    by (auto simp: demoConn_def)
  then show ?thesis by (simp only: demo_ticked_outcome)
qed

lemma demo_thrift_changes:
  "db (svcSt (snd (Process (NewProcessor 5 demoServer) demoWire demoConn))) \<noteq> db (svcSt demoConn)"
  unfolding demo_thrift_pickup by (simp add: demoConn_def eval_defs ticked_def)

lemma demo_listed:
  "\<exists>views s'. AdminListOrders demoService \<lparr>fStatus = None, fLimit = 0, fOffset = 0\<rparr> demoEnv (demoRun [demoSubmit]) =
     (Inr views, s')"
  by (simp add: AdminListOrders_def ListOrders_def orderListSQL_def mapM_scan eval_defs)

section \<open>A host for the programs\<close>

definition demoNats :: "(string \<times> json) list natsConn" where
  "demoNats = \<lparr>ncPublish = (\<lambda>subject data b. (Inr (), b @ [(subject, data)])), ncClose = (\<lambda>b. b)\<rparr>"

definition demoHost :: "(string list, (string \<times> json) list) host" where
  "demoHost =
     \<lparr>getenv = (\<lambda>k. if k = ''DATABASE_URL'' then ''db'' else if k = ''JWT_SECRET'' then ''key'' else ''''),
      poolNew = (\<lambda>_. Inr ()), natsConnect = (\<lambda>_. Inr demoNats), netListen = (\<lambda>_. Inr ()),
      serverSocket = (\<lambda>_. Inr ()), hostFiles = demoDir, hostFPU = exact_fpu, hostJWT = demoJWT\<rparr>"

definition onSubject :: "(string \<times> json) list \<Rightarrow> Event set" where
  "onSubject b = {ev. \<exists>subject. (subject, eventJSON ev) \<in> set b}"

lemma demoHost_nats: "nats_ok demoHost onSubject"
  by (auto simp: nats_ok_def demoHost_def demoNats_def broker_ok_def natsPublisher_def onSubject_def)

definition demoNatsWorker :: "(string \<times> json) list OutboxWorker" where
  "demoNatsWorker = \<lparr>wRepo = pgOutbox, 
     wPublisher = natsPublisher (ncPublish demoNats) (ncClose demoNats) ''drone.events'',
     wPollInterval = nanoseconds, wBatchSize = 50\<rparr>"

definition demoRunning :: "((string \<times> json) list, tok list, tok list) running" where
  "demoRunning = \<lparr>runServer = demoServer, runHTTP = '':8080'', runGRPC = '':9090'',
     runThrift = NewProcessor 5 demoServer,
     runWorker = Some demoNatsWorker\<rparr>"

lemma demo_migrations_run:
  "ApplyMigrations ''migrations'' demoDir demoEmpty =
     (Inr (), \<lparr>mData = [''migrations/001.sql'', ''migrations/002.sql''],
       schema_migrations = Some [''001.sql'', ''002.sql''], mCalls = 7\<rparr>)"
  by (simp add: ApplyMigrations_def demoDir_def demoEmpty_def ensureMigrationsTable_def poolExec_def
      HasSuffix_def Join_def applyFiles.simps(2) isMigrationApplied_def poolQuery_def readFileM_def
      execScript_def markMigrationApplied_def Base_def Let_def run_rules)

lemma demoHost_sel [simp]:
  "getenv demoHost k = (if k = ''DATABASE_URL'' then ''db'' else if k = ''JWT_SECRET'' then ''key'' else '''')"
  "poolNew demoHost url = Inr ()" "natsConnect demoHost url = Inr demoNats" "netListen demoHost addr = Inr ()"
  "serverSocket demoHost addr = Inr ()" "hostFiles demoHost = demoDir" "hostFPU demoHost = exact_fpu"
  "hostJWT demoHost = demoJWT"
  by (simp_all add: demoHost_def)

lemma demo_serverMain: "\<exists>s. serverMain 5 demoHost demoEmpty = (Inr demoRunning, s)"
  by (simp add: serverMain_def run_rules Load_def load_def get_default migrateOnStart_def demo_migrations_run
      nats_New_def thrift_NewServer_def service_New_def auth_New_def newWorker_def demoRunning_def demoNatsWorker_def
      demoServer_def demoService_def demoAuth_def hour_def nanoseconds_def)

lemma demo_workerMain: "\<exists>s. workerMain demoHost demoEmpty = (Inr (Some demoNatsWorker), s)"
  by (simp add: workerMain_def run_rules LoadWorker_def load_def get_default migrateOnStart_def demo_migrations_run
      nats_New_def newWorker_def demoNatsWorker_def nanoseconds_def)

text \<open>The server with its own worker and another one, after a drone has reported over HTTP.\<close>

lemma demo_cluster:
  "cluster demoServer 5 (workersOf demoRunning @ [demoNatsWorker]) demoWire (demoBroken, [], [Waiting, Waiting])"
proof -
  have "cluster demoServer 5 (workersOf demoRunning @ [demoNatsWorker]) demoWire (demoStart, [], [Waiting, Waiting])"
    using cluster.boot [of demoStart demoServer 5 "workersOf demoRunning @ [demoNatsWorker]" demoWire "[]"]
    by (simp add: workersOf_def demoRunning_def)
  from cluster.http [OF this] show ?thesis unfolding demoBroken_def demoWire_sel .
qed

text \<open>The server after a signal, with every server stopped and the worker cancelled.\<close>

definition demoStopped :: group where
  "demoStopped = \<lparr>live = {}, ended = [(TaskWorker, None), (TaskHTTP, None), (TaskGRPC, None), (TaskThrift, None),
     (TaskStop, None)], ctxDone = True, stopStage = AllStopped\<rparr>"

abbreviation demoGroup :: "task set \<Rightarrow> task list \<Rightarrow> stage \<Rightarrow> group" where
  "demoGroup l e st \<equiv> \<lparr>live = l, ended = map (\<lambda>t. (t, None)) e, ctxDone = True, stopStage = st\<rparr>"

lemmas serve_defs = httpServe_def httpTask_def grpcServe_def grpcTask_def thriftServe_def finish_def

lemma demo_draining:
  "serving demoRunning (\<lambda>_. True) (demoGroup {TaskGRPC, TaskThrift, TaskStop} [TaskWorker, TaskHTTP] InShutdown)"
proof -
  have "turn demoRunning (\<lambda>_. True) (startGroup demoRunning) (demoGroup {TaskWorker, TaskHTTP, TaskGRPC, TaskThrift, TaskStop} [] AwaitDone)"
    using turn.signal [of "startGroup demoRunning" demoRunning "\<lambda>_. True"]
    by (simp add: startGroup_def demoRunning_def)
  then have "serving demoRunning (\<lambda>_. True) (demoGroup {TaskWorker, TaskHTTP, TaskGRPC, TaskThrift, TaskStop} [] AwaitDone)"
    by (rule serving.step [OF serving.start])
  moreover have "turn demoRunning (\<lambda>_. True) (demoGroup {TaskWorker, TaskHTTP, TaskGRPC, TaskThrift, TaskStop} [] AwaitDone)
      (demoGroup {TaskHTTP, TaskGRPC, TaskThrift, TaskStop} [TaskWorker] AwaitDone)"
    using turn.worker [of "demoGroup {TaskWorker, TaskHTTP, TaskGRPC, TaskThrift, TaskStop} [] AwaitDone" demoRunning
        demoNatsWorker "[Cancelled]" demoEnv "(demoBroken, [])" errCancelled "\<lambda>_. True"]
    by (simp add: demoRunning_def Start_ends workerTask_def serve_defs)
  moreover have "turn demoRunning (\<lambda>_. True) (demoGroup {TaskHTTP, TaskGRPC, TaskThrift, TaskStop} [TaskWorker] AwaitDone)
      (demoGroup {TaskHTTP, TaskGRPC, TaskThrift, TaskStop} [TaskWorker] InShutdown)"
    using turn.shutdown [of "demoGroup {TaskHTTP, TaskGRPC, TaskThrift, TaskStop} [TaskWorker] AwaitDone"]
    by (simp add: serve_defs)
  ultimately have "serving demoRunning (\<lambda>_. True) (demoGroup {TaskHTTP, TaskGRPC, TaskThrift, TaskStop} [TaskWorker] InShutdown)"
    by (blast intro: serving.step)
  moreover have "turn demoRunning (\<lambda>_. True) (demoGroup {TaskHTTP, TaskGRPC, TaskThrift, TaskStop} [TaskWorker] InShutdown)
      (demoGroup {TaskGRPC, TaskThrift, TaskStop} [TaskWorker, TaskHTTP] InShutdown)"
    using turn.http [of "demoGroup {TaskHTTP, TaskGRPC, TaskThrift, TaskStop} [TaskWorker] InShutdown" "Some errServerClosed"]
    by (simp add: serve_defs)
  ultimately show ?thesis by (blast intro: serving.step)
qed

lemma demo_serving: "serving demoRunning (\<lambda>_. True) demoStopped"
proof -
  note demo_draining
  moreover have "turn demoRunning (\<lambda>_. True) (demoGroup {TaskGRPC, TaskThrift, TaskStop} [TaskWorker, TaskHTTP] InShutdown)
      (demoGroup {TaskGRPC, TaskThrift, TaskStop} [TaskWorker, TaskHTTP] InGracefulStop)"
    using turn.graceful [where calls = "\<lambda>_. True"
        and G = "demoGroup {TaskGRPC, TaskThrift, TaskStop} [TaskWorker, TaskHTTP] InShutdown"]
    by (simp add: serve_defs)
  moreover have "turn demoRunning (\<lambda>_. True) (demoGroup {TaskGRPC, TaskThrift, TaskStop} [TaskWorker, TaskHTTP] InGracefulStop)
      (demoGroup {TaskThrift, TaskStop} [TaskWorker, TaskHTTP, TaskGRPC] InGracefulStop)"
    using turn.grpc [of "demoGroup {TaskGRPC, TaskThrift, TaskStop} [TaskWorker, TaskHTTP] InGracefulStop" None]
    by (simp add: serve_defs)
  ultimately have "serving demoRunning (\<lambda>_. True) (demoGroup {TaskThrift, TaskStop} [TaskWorker, TaskHTTP, TaskGRPC] InGracefulStop)"
    by (blast intro: serving.step)
  moreover have "turn demoRunning (\<lambda>_. True) (demoGroup {TaskThrift, TaskStop} [TaskWorker, TaskHTTP, TaskGRPC] InGracefulStop)
      (demoGroup {TaskThrift, TaskStop} [TaskWorker, TaskHTTP, TaskGRPC] InStop)"
    using turn.stop [where calls = "\<lambda>_. True"
        and G = "demoGroup {TaskThrift, TaskStop} [TaskWorker, TaskHTTP, TaskGRPC] InGracefulStop"]
    by (simp add: serve_defs)
  moreover have "turn demoRunning (\<lambda>_. True) (demoGroup {TaskThrift, TaskStop} [TaskWorker, TaskHTTP, TaskGRPC] InStop)
      (demoGroup {TaskStop} [TaskWorker, TaskHTTP, TaskGRPC, TaskThrift] InStop)"
    using turn.thrift [of "demoGroup {TaskThrift, TaskStop} [TaskWorker, TaskHTTP, TaskGRPC] InStop" None]
    by (simp add: serve_defs)
  moreover have "turn demoRunning (\<lambda>_. True) (demoGroup {TaskStop} [TaskWorker, TaskHTTP, TaskGRPC, TaskThrift] InStop) demoStopped"
    using turn.stopped [where calls = "\<lambda>_. True"
        and G = "demoGroup {TaskStop} [TaskWorker, TaskHTTP, TaskGRPC, TaskThrift] InStop"]
    by (simp add: serve_defs demoStopped_def)
  ultimately show ?thesis by (blast intro: serving.step)
qed

section \<open>The clients\<close>

definition demoLib :: grpclib where
  "demoLib = \<lparr>decodeStatus = Status Internal, encodeStatus = Status Internal, unknownStatus = Status Internal\<rparr>"

definition demoDial :: grpcConn where
  "demoDial md full = serveGrpc demoLib demoServer full \<lparr>ctxClaims = None, ctxMetadata = md\<rparr>"

lemma demoDial_delivers: "delivers demoLib demoServer demoDial"
  unfolding delivers_def demoDial_def by (metis goctx.select_convs(2))

lemma demo_issue:
  "IssueToken demoJWT demoAuth ''alice'' RoleEndUser demoEnv demoStart = (Inr (''t-alice'', hour), ticked demoStart)"
  "IssueToken demoJWT demoAuth ''dr-1'' RoleDrone demoEnv (ticked demoStart) =
     (Inr (''t-dr-1'', 1 + hour), ticked (ticked demoStart))"
  by (simp_all add: IssueToken_def run_rules nowM_def ticked_def demoJWT_def demoAuth_def demoTokens_def demoClaims_def
      demoClaimsAt_def role_defs)

lemma demo_plain: "plainToken ''t-alice''" "plainToken ''t-dr-1''"
  by (simp_all add: plainToken_def TrimSpace_id spaceRunes_def char_of_def)

lemma demo_validWhile: "validWhile demoServer demoEnv 0 8"
  by (simp add: validWhile_def demoAuth_def demoJWT_def hour_def)

lemma omitEmpty_cases: "omitEmpty k f None = []" "omitEmpty k f (Some x) = [(k, f x)]"
  by (simp_all add: omitEmpty_def)

lemma demo_scripted:
  "fst (scenario demoLib demoServer demoEnv (ticked (ticked demoStart))) = Inr [''order id: a'',
     ''reserved status: RESERVED'', ''heartbeat ok: drone= dr-1'', ''gRPC JSON client OK'']"
  by (simp add: scenario_def servedCall_def orFatal_def respond_def ticked_def fromT_def eval_defs
    submitOrigin_def submitDestination_def heartbeatAt_def ansOrder_def ansStatus_def ValidateLocation_def
    FromOrder_def FromDroneStatus_def FromDrone_def FromOrderView_def orderJSON_def droneJSON_def orderViewJSON_def droneStatusJSON_def
    locationJSON_def omitEmpty_cases CurrentLocation_def order_status_defs drone_status_defs)
definition demoLink :: "(tok list, tok list) wiring \<Rightarrow> (tok list, tok list, 'v) H \<Rightarrow> st tcall" where
  "demoLink W process name ks s =
     (case process W \<lparr>inSt = KMsg name CALL 1 # ks, outSt = [], svcSt = s\<rparr> of
        (r, c) \<Rightarrow> (replyOf name 1 (outSt c), svcSt c))"

lemma demoLink_reaches: "reaches demoWire process (demoLink demoWire process)"
proof -
  have "demoLink demoWire process name ks s = (replyOf name 1 (outSt c), svcSt c)"
    if "process demoWire \<lparr>inSt = KMsg name CALL 1 # ks, outSt = [], svcSt = s\<rparr> = (r, c)" for name ks s r c
    using that by (simp add: demoLink_def)
  then show ?thesis by (simp add: reaches_def) blast
qed

definition demoCall :: "nat \<Rightarrow> st tcall" where
  "demoCall n = demoLink demoWire (Process (NewProcessor n demoServer))"

lemma demoCall_reaches: "reaches demoWire (Process (NewProcessor n demoServer)) (demoCall n)"
  unfolding demoCall_def by (rule demoLink_reaches)

text \<open>Implementations of the generated interfaces.\<close>

definition demoIdle :: "('q, 'r option) implementation" where
  "demoIdle q E s = (Inr None, s)"

definition demoAuths :: AuthService where
  "demoAuths = \<lparr>authIssueToken = demoIdle\<rparr>"

definition demoOrders :: OrderService where
  "demoOrders = \<lparr>orderSubmitOrder = demoIdle,
     orderWithdrawOrder = (\<lambda>q E s. (Inl (case q of None \<Rightarrow> Abandoned ''gone''
        | Some r \<Rightarrow> HandlerErr (''no order '' @ wiOrderId r)), s)),
     orderGetOrder = (\<lambda>q E s. (Inr (Some NewOrderView), ticked s))\<rparr>"

definition demoDrones :: DroneService where
  "demoDrones = \<lparr>droneReserveJob = demoIdle, dronePickupOrder = demoIdle, droneDeliverOrder = demoIdle, droneFailOrder = demoIdle,
     droneMarkBroken = demoIdle, droneHeartbeat = demoIdle, droneCurrentOrder = demoIdle\<rparr>"

definition demoAdmin :: AdminService where
  "demoAdmin = \<lparr>adminListOrders = (\<lambda>q E s. (Inr (Some [None]), s)), adminUpdateOrder = demoIdle,
     adminListDrones = demoIdle, adminMarkDroneBroken = demoIdle, adminMarkDroneFixed = demoIdle\<rparr>"

lemma demo_implementations:
  "orderGetOrder demoOrders q E s = (Inr (Some NewOrderView), ticked s)"
  "orderWithdrawOrder demoOrders (Some r) E s = (Inl (HandlerErr (''no order '' @ wiOrderId r)), s)"
  "adminListOrders demoAdmin q' E s = (Inr (Some [None]), s)"
  by (simp_all add: demoOrders_def demoAdmin_def)

end
