(* ===== verification/Spec2Isabelle.thy ===== *)
theory Spec2Isabelle
  imports Demo
begin

text \<open>
  A verification development for the drone delivery backend: one Go service that offers orders,
  drones and their administration over HTTP, gRPC and Thrift, keeps its data in Postgres and
  publishes events through a transactional outbox.

  The parts of the program and the theories that model them, in the order in which they build on
  each other:

  \<^item> Prelude: the programs of the model. An operation is a function of an environment and a
    state to an error or a value and a new state (\<open>returnM\<close>, \<open>throwM\<close>, \<open>bindM\<close>, \<open>attemptM\<close>), so
    every early return of the Go code is a branch; \<open>wp\<close> is the weakest precondition with one
    post-condition per outcome, and the collection \<open>wp_rules\<close> computes it.
  \<^item> Float64: \<open>float64\<close> as reals with NaN and infinities, with the rounding and the library
    functions of the machine as a record \<open>fpu\<close>; the conversion to \<open>int64\<close>.
  \<^item> Domain (\<open>internal/domain\<close>): roles, statuses, the structs, the errors and the validation.
  \<^item> Events (\<open>internal/events/events.go\<close>): the events and their constructors.
  \<^item> Store (\<open>internal/repo/postgres\<close>, \<open>migrations\<close>): the three tables as lists of rows, every SQL
    statement of \<open>sql.go\<close> as a function on them, the scanners, and the operations of \<open>Store\<close> and
    \<open>Tx\<close>. The state has the committed tables \<open>db\<close> and the working copy \<open>work\<close> of the
    transaction; the environment decides for every call whether it fails, whether a commit that
    failed has landed, which rows others have locked, the clocks, the new identifiers and what
    the database takes for a UUID.
  \<^item> Eta, Service (\<open>internal/service\<close>): the estimate of the arrival and every operation of the
    service, statement by statement.
  \<^item> Lifecycle, Steps, Refine, History: the specification of the service. Lifecycle has the
    invariant \<open>db_inv\<close> of the two tables, Steps the abstract transitions \<open>svc_step\<close>, Refine the
    locale of a transactional operation, its interpretation for every operation and the
    reachable states, History the status graph and the event of each edge.
  \<^item> Outcomes: what each operation answers on every branch, and the pages of a listing.
  \<^item> Outbox, Delivery (\<open>internal/events/outbox.go\<close>, \<open>noop.go\<close>, \<open>nats\<close>): the publishers and the
    worker, with its repository as a locale; delivery at least once and the draining of the outbox.
  \<^item> Auth (\<open>internal/auth\<close>): tokens, the bearer header and the claims of a context. The JWT
    library is a parameter, \<open>jwt_ok\<close> states what it promises.
  \<^item> Strconv, Transport (\<open>internal/transport/mapper.go\<close>), Http (\<open>httpapi\<close>), Grpc (\<open>grpcapi\<close>):
    number parsing, the response types and their JSON, the routes and handlers of HTTP, and the
    interceptor, handlers and methods of gRPC.
  \<^item> Codec (\<open>grpcapi/codec.go\<close>, \<open>types.go\<close>, \<open>NewServer\<close>): the JSON codec, with the locale of a
    message that is read back as it was written and every message as an instance, and the dispatch
    of a call by its method name. Agreement: an HTTP request and the gRPC call that asks for the same.
  \<^item> GrpcClient (\<open>tmp_grpc_client.go\<close>): the client program, the calls it makes, and how often the
    operations behind them read the clock.
  \<^item> ThriftIO, ThriftWire, ThriftProc (\<open>thriftapi/processor.go\<close>): the hand-written readers and
    writers over an abstract protocol, their meaning on sequences of tokens, and the processor.
  \<^item> ThriftGen, ThriftGenWire, ThriftClient, ThriftReplies (\<open>tmp_thrift_gen\<close>): the structs that the
    Thrift compiler generated, with their contract on the wire as a locale and every struct as an
    instance; what a generated client sends and what the processor makes of it; and why most
    replies cannot be read by it.
  \<^item> ThriftScripts (\<open>tmp_thrift_raw_client.go\<close>, \<open>tmp_thrift_client.go\<close>, the clients in
    \<open>drone_delivery.go\<close>): the program that speaks Thrift by hand, the methods of the generated
    clients over the \<open>Call\<close> of the library, and the program that uses them.
  \<^item> ThriftGenProc, ThriftGenCalls: the processors that the Thrift compiler generated, which the
    server does not use, and the locale of a remote method with all sixteen methods as instances:
    a generated client that talks to a generated processor calls the implementation behind it.
  \<^item> Access, Platform: the locale of a gateway to the service with its instances for all three
    transports, and the whole platform as a step relation of requests and worker turns.
  \<^item> Workers: several outbox workers on one table. A turn of a worker is taken apart into its
    steps (\<open>workerStep\<close>), which interleave with requests, with the steps of the others and with
    crashes (\<open>cluster\<close>); a turn of theory Outbox is a sequence of such steps.
  \<^item> Program (\<open>cmd/server\<close>, \<open>cmd/worker\<close>, the constructors of the packages, \<open>thriftapi/server.go\<close>):
    what the two programs do until they serve, with every fatal exit, and how they end. Shutdown:
    the goroutines of the server program from the first request to the end of \<open>main\<close> as a step
    relation (\<open>turn\<close>), with the measure \<open>remaining\<close> that every step decreases.
  \<^item> Scenario, Demo: concrete runs on which the statements below are instantiated.
  \<^item> Migrate (\<open>internal/repo/postgres/migrate.go\<close>), Configuration (\<open>internal/config\<close>): the
    migrations of the schema at the start of a program, and the settings.

  What the statements say. The first section is about every state the service can reach, under
  every fault of the database: consistency of the tables, exclusive assignment, atomicity of
  requests against the specification, the life of an order, the exactness of the outbox and the
  shape of orders. The second lifts consistency to the started programs, with any number of outbox
  workers, and shows at-least-once delivery and progress of the worker. The third is access control for each
  transport, the fourth the correspondence of the transports to the service, to each other and to
  the bytes of Thrift. The fifth has the answers of the operations, the others geometry, round
  trips, the start and the end of the programs, configuration and migrations, and the generated
  Thrift code: what its clients send to the server, and that a call over generated code on both
  sides is a call of the implementation. The next one has two places where the Thrift transport
  does not do what its interface says. The last one is about the client programs: the gRPC client is a sequence of
  service requests, the two Thrift clients agree on the token call, and every other call of the
  generated clients fails at the client, most of them after they took effect. The eight clock
  readings for which its tokens have to stay valid are what the gRPC program can cause at most.

  How the program is rendered. Requests run one after the other on the committed tables, each in
  its own transaction; what concurrent transactions can do to a request is the set of rows they
  have locked, which the environment chooses freely, and the row locks of Postgres are taken to
  serialise the rest. The workers interleave at their single calls of the database and the broker,
  which a row lock does not serialise. Times are integers, in nanoseconds, and a
  time has a JSON text (its year is in the range the encoder accepts). The loops of the program are recursive functions on the
  lists they run over; only the Thrift readers run over an input whose length is not known, so the
  reader of a struct has a number \<open>n\<close> of fields it reads at most. A statement about what a
  reader returns asks for structs of at most \<open>n\<close> fields, so for every message a large enough \<open>n\<close>
  exists, and a reader that runs out of it is reported as diverging, never as an answer. The loop
  of the worker runs over the list of signals it receives.

  Not modelled: the router and middleware of chi, the gRPC, Thrift, NATS, pgx and JWT libraries
  beyond what their parameters state; the accept loops of the servers (a serving call returns as its
  library documents it) and the deferred closing of connections; logging; the text of JSON, which
  \<open>encoding/json\<close> writes and reads; how the client programs open their connections; of the generated Thrift code the getters, the comparisons and the text
  forms, the goroutine of a processor that watches the connection (what it causes is the choice of
  the error \<open>herr\<close> of an implementation), and the command line wrappers around the clients.
\<close>

section \<open>The state of the service\<close>

text \<open>
  C1. In every state the service can reach from empty tables, whatever the database answers
  (faults of any call, commits that report an error but took effect, rows locked by others),
  the stored data are consistent: primary keys are unique, every order and every drone is
  well formed for its status, and an order is reserved or picked up by a drone exactly when
  that drone has it as its current order.
\<close>

theorem reachable_consistent:
  assumes "env_ok E" and "reachable S E s"
  shows "db_inv E (db s)"
  using assms(2,1) by (rule reachable_db_inv)

theorem reachable_consistent_witness:
  "env_ok demoEnv \<and> reachable demoService demoEnv (demoRun [demoSubmit, ReqReserve ''d1'']) \<and>
   db_inv demoEnv (db (demoRun [demoSubmit, ReqReserve ''d1'']))"
  using reachable_consistent [OF demoEnv_ok demo_reachable] demoEnv_ok demo_reachable by blast

text \<open>
  C2. No order is ever in the hands of two drones, and no drone works on two orders: in a
  reachable state, a drone that is named by a reserved or picked-up order is stored, active
  and has exactly this order as its job, so two such orders have different drones.
\<close>

theorem exclusive_assignment:
  assumes "env_ok E" and "reachable S E s"
    and "ordersOf (db s) u = Some ord" and "held (oStatus ord)"
  shows "\<exists>i dr. oAssignedDroneID ord = Some i \<and> dronesOf (db s) i = Some dr \<and>
      dStatus dr = DroneStatusActive \<and> dCurrentOrderID dr = Some u \<and>
      (\<forall>u' ord'. ordersOf (db s) u' = Some ord' \<and> held (oStatus ord') \<and>
         oAssignedDroneID ord' = Some i \<longrightarrow> u' = u) \<and>
      (\<forall>j dr'. dronesOf (db s) j = Some dr' \<and> dCurrentOrderID dr' = Some u \<longrightarrow> j = i)"
proof -
  have inv: "db_inv E (db s)" using assms(2,1) by (rule reachable_db_inv)
  obtain i dr where i: "oAssignedDroneID ord = Some i" "dronesOf (db s) i = Some dr"
      "dCurrentOrderID dr = Some u"
    using inv assms(3,4) by (rule db_inv_holder)
  have "drone_local dr" using inv i(2) by (rule db_inv_drone)
  with i have "dStatus dr = DroneStatusActive" by (auto simp: drone_local_def)
  moreover have "u' = u" if "ordersOf (db s) u' = Some ord'" "held (oStatus ord')"
      "oAssignedDroneID ord' = Some i" for u' ord'
    using db_inv_holder [OF inv that(1,2)] that(3) i by (metis option.inject)
  moreover have "j = i" if "dronesOf (db s) j = Some dr'" "dCurrentOrderID dr' = Some u" for j dr'
    using db_inv_job [OF inv that] assms(3) i by (metis option.inject)
  ultimately show ?thesis using i by blast
qed

theorem exclusive_assignment_witness:
  "\<exists>i dr. dronesOf (db (demoRun [demoSubmit, ReqReserve ''d1'', ReqPickup ''d1'' ''a''])) i = Some dr \<and>
     dCurrentOrderID dr = Some ''a''"
  using exclusive_assignment [OF demoEnv_ok demo_reachable demo_carried(1)] by auto

text \<open>
  C3. Every request is all or nothing: after it, the committed database is the one before, or
  the result of exactly one step of the specification (theory Steps), even when the commit
  reported an error. A request never leaves an order changed without its drone, or either
  of them without its event.
\<close>

theorem request_atomic:
  assumes "env_ok E" and "reachable S E s"
  shows "db (snd (serve S r E s)) = db s \<or> (\<exists>a. svc_step E (db s) a (db (snd (serve S r E s))))"
  using assms(1) reachable_db_inv [OF assms(2,1)] by (rule serve_all_or_nothing)

theorem request_atomic_witness:
  "\<exists>a. svc_step demoEnv (db demoStart) a (db (snd (serve demoService demoSubmit demoEnv demoStart)))"
proof -
  have "reachable demoService demoEnv demoStart" by (rule reachable.start) simp
  from request_atomic [OF demoEnv_ok this, of demoSubmit]
  show ?thesis by (auto simp: eval_defs)
qed

text \<open>
  C4. Orders are never lost and move only along the status graph: a stored order is still
  there after any request, with the same owner and creation time, and it is unchanged or
  its status moved along an edge of \<open>eventFor\<close>.
\<close>

theorem order_lifecycle:
  assumes "env_ok E" and "reachable S E s" and "ordersOf (db s) u = Some old"
  shows "\<exists>new. ordersOf (db (snd (serve S r E s))) u = Some new \<and>
    oUserID new = oUserID old \<and> oCreatedAt new = oCreatedAt old \<and>
    (new = old \<or> eventFor (Some (oStatus old)) (oStatus new) \<noteq> None)"
proof -
  from serve_order_change [OF assms(1) reachable_db_inv [OF assms(2,1)], of S r]
  show ?thesis
  proof (elim exE conjE disjE)
    fix evs u' ord
    assume "order_change (db s) u' ord (db (snd (serve S r E s))) evs"
    then show ?thesis using assms(3) by (rule order_change_keeps) blast
  qed (use assms(3) in auto)
qed

theorem order_lifecycle_witness:
  "\<exists>new. ordersOf (db (snd (serve demoService (ReqWithdraw ''ann'' ''a'') demoEnv (demoRun [demoSubmit]))))
     ''a'' = Some new \<and> oUserID new = ''ann''"
  using order_lifecycle [OF demoEnv_ok demo_reachable demo_waiting(1), of "ReqWithdraw ''ann'' ''a''"]
  by auto

text \<open>
  C5. Delivered, failed and withdrawn are final: no sequence of requests changes any field of
  such an order.
\<close>

theorem terminal_orders_final:
  assumes "env_ok E" and "reachable S E s" and "ordersOf (db s) u = Some ord"
    and "IsTerminal (oStatus ord)"
  shows "ordersOf (db (serveAll S rs E s)) u = Some ord"
  using assms(2,3)
proof (induction rs arbitrary: s)
  case (Cons r rs)
  have "ordersOf (db (snd (serve S r E s))) u = Some ord"
    using serve_order_change [OF assms(1) reachable_db_inv [OF Cons.prems(1) assms(1)], of S r]
  proof (elim exE conjE disjE)
    fix evs u' ord'
    assume "order_change (db s) u' ord' (db (snd (serve S r E s))) evs"
    from this Cons.prems(2) show ?thesis
      by (rule order_change_keeps) (use assms(4) in \<open>auto simp: eventFor_terminal\<close>)
  qed (use Cons.prems in auto)
  then show ?case using Cons reachable.request by auto
qed simp

theorem terminal_orders_final_witness:
  "map_option oStatus (ordersOf (db (serveAll demoService
       [ReqWithdraw ''ann'' ''a'', ReqFail ''d1'' ''a'' ''late'', ReqBroken ''d1''] demoEnv
       (demoRun [demoSubmit, ReqReserve ''d1'', ReqPickup ''d1'' ''a'', ReqDeliver ''d1'' ''a''])))
     ''a'') = Some OrderStatusDelivered"
  using terminal_orders_final [OF demoEnv_ok demo_reachable demo_delivered]
  by (simp del: serveAll.simps serve.simps)





section \<open>The whole platform\<close>





text \<open>
  C10. The worker makes progress: without faults, k turns of the polling loop publish and mark
  every pending row when there are at most k batches of them.
\<close>

theorem outbox_drains:
  assumes "\<And>n. faults E n = None"
    and "\<And>ev b. \<exists>b'. Publish (wPublisher w) ev b = (Inr (), b')"
    and "wRepo w = pgOutbox" and "0 < wBatchSize w"
    and "env_ok E" and "reachable S E s"
    and "length (pendingRows (db s)) \<le> k * nat (wBatchSize w)"
  shows "\<exists>s' b'. startLoop w (replicate k Ticked) E (s, b) = (Inr (), (s', b')) \<and> pendingRows (db s') = []"
proof -
  have "outbox_ok E (db s)" using reachable_db_inv [OF assms(6,5)] by (rule db_inv_outbox_ok)
  from ticks_drain [OF assms(1,2,3,4) this, of k b] assms(7) show ?thesis by fastforce
qed

theorem outbox_drains_witness:
  "\<exists>s' b'. startLoop demoWorker (replicate 1 Ticked) demoEnv (demoRun [demoSubmit], []) = (Inr (), (s', b')) \<and>
     pendingRows (db s') = []"
  by (rule outbox_drains [OF _ _ _ _ demoEnv_ok demo_reachable]) (simp_all add: eval_defs pendingRows_def)

section \<open>Access control\<close>

text \<open>
  C11. No HTTP request changes the database without a token: if it changed, the bearer token of
  the request was signed with the server's secret by HS256, its claims permit one request of the
  service, and exactly this request was served.
\<close>

theorem http_access_control:
  assumes "jwt_ok (srvJWT srv) signed" and "db (snd (ServeHTTP srv rt req E s)) \<noteq> db s"
  shows "\<exists>claims r. signed (ExtractBearerToken (hAuthorization req)) SigningMethodHS256 (secret (srvAuth srv)) claims \<and>
    permitted claims r \<and> snd (ServeHTTP srv rt req E s) = snd (serve (srvSvc srv) r E (ticked s))"
  by (rule http.change_authorised [OF assms]) blast

theorem http_access_control_witness:
  "\<exists>claims r. demoSigned ''t-d1'' SigningMethodHS256 ''key'' claims \<and> permitted claims r \<and>
     demoBroken = snd (serve demoService r demoEnv (ticked demoStart))"
proof -
  have "db demoBroken \<noteq> db demoStart"
    using demo_outbox(1) by (auto simp: emptyDB_def)
  then have "db (snd (ServeHTTP demoServer RtBroken demoBrokenReq demoEnv demoStart)) \<noteq> db demoStart"
    unfolding demoBroken_def .
  from http_access_control [OF _ this, of demoSigned] show ?thesis
    using demoJWT_ok unfolding demoBroken_def [symmetric]
    by (simp add: demoBrokenReq_def demoHttp_def demo_bearer)
qed

text \<open>
  C12. The same for gRPC: every unary method of the three services goes through the
  authentication interceptor and the check of the role.
\<close>

theorem grpc_access_control:
  assumes "jwt_ok (srvJWT srv) signed" and "grpcCall srv E ctx s s'" and "db s' \<noteq> db s"
  shows "\<exists>claims r. signed (grpcToken ctx) SigningMethodHS256 (secret (srvAuth srv)) claims \<and>
    permitted claims r \<and> s' = snd (serve (srvSvc srv) r E (ticked s))"
  using grpc_call_guarded [OF assms(2)] assms(3) parsed_token_signed [OF assms(1)]
  unfolding oneRequest_def by blast

theorem grpc_access_control_witness:
  "\<exists>claims r. demoSigned ''t-d1'' SigningMethodHS256 ''key'' claims \<and> permitted claims r"
proof -
  have "db demoBroken \<noteq> db demoStart" using demo_outbox(1) by (auto simp: emptyDB_def)
  from grpc_access_control [OF _ demo_grpc_call [unfolded demo_grpc_broken] this, of demoSigned] show ?thesis
    using demoJWT_ok by (auto simp: demo_grpcToken)
qed

text \<open>
  C13. The same for Thrift, where the token is a field of the arguments: whatever bytes arrive on
  a connection, one message changes the database only as one request of the service that the
  claims of a signed token permit.
\<close>

theorem thrift_access_control:
  assumes "jwt_ok (srvJWT p) signed"
    and "db (svcSt (snd (Process (NewProcessor n p) W c))) \<noteq> db (svcSt c)"
  shows "\<exists>token claims r. signed token SigningMethodHS256 (secret (srvAuth p)) claims \<and>
    permitted claims r \<and>
    svcSt (snd (Process (NewProcessor n p) W c)) = snd (serve (srvSvc p) r (world W) (ticked (svcSt c)))"
  by (rule thrift.change_authorised [OF assms]) blast

theorem thrift_access_control_witness:
  "\<exists>token claims r. demoSigned token SigningMethodHS256 ''key'' claims \<and> permitted claims r \<and>
     svcSt (snd (Process (NewProcessor 5 demoServer) demoWire demoConn)) =
       snd (serve demoService r demoEnv (ticked (svcSt demoConn)))"
  using thrift_access_control [OF _ demo_thrift_changes, of demoSigned] demoJWT_ok by simp

section \<open>The transports and the service\<close>









text \<open>
  C18. The three transports show the same classes of errors: two errors give the same answer over
  HTTP, over gRPC or over Thrift exactly when they have the same class, wrapping does not change
  the class, and so the text of a wrapped or an internal error never reaches a client.
\<close>

theorem errors_agree:
  "(writeError a = writeError b \<longleftrightarrow> errClass a = errClass b) \<and>
   (mapServiceError a = mapServiceError b \<longleftrightarrow> errClass a = errClass b) \<and>
   (mapError a = mapError b \<longleftrightarrow> errClass a = errClass b) \<and>
   errClass (Wrapped msg a) = errClass a"
proof (intro conjI)
  show "writeError a = writeError b \<longleftrightarrow> errClass a = errClass b"
    unfolding writeError_class [of a] writeError_class [of b]
    using errClass_cases [of a] errClass_cases [of b]
    by (elim insertE emptyE) (simp_all add: writeError_def respondJSON_def errorJSON_def)
  show "mapServiceError a = mapServiceError b \<longleftrightarrow> errClass a = errClass b"
    unfolding mapServiceError_class [of a] mapServiceError_class [of b]
    using errClass_cases [of a] errClass_cases [of b]
    by (elim insertE emptyE) (simp_all add: mapServiceError_def)
  show "mapError a = mapError b \<longleftrightarrow> errClass a = errClass b"
    unfolding mapError_class [of a] mapError_class [of b]
    using errClass_cases [of a] errClass_cases [of b]
    by (elim insertE emptyE) (simp_all add: mapError_def)
  show "errClass (Wrapped msg a) = errClass a" by (simp add: errClass_def)
qed

section \<open>The operations\<close>

text \<open>
  C19. A drone gets the oldest order that waits: when no row is locked and the database has no
  faults, a reservation by a drone that is neither broken nor busy returns the waiting order with
  the least creation time, now reserved by it; otherwise the drone is broken, or has a job, or no
  order waits, each with its error, and nothing is stored.
\<close>

theorem reserve_oldest:
  assumes "env_ok E" and "reachable S E s" and "quiet E s" and "locked E = (\<lambda>_ _. False)"
  shows "case DroneReserveJob i E s of
      (Inr x, s') \<Rightarrow> idle (db s) i \<and> (\<exists>ord now. oldestWaiting (db s) ord \<and>
         x = ord\<lparr>oStatus := OrderStatusReserved, oAssignedDroneID := Some i,
                 oReservedAt := Some now, oUpdatedAt := now\<rparr>)
    | (Inl e, s') \<Rightarrow> refused (db s) i e \<and> db s' = db s"
  using reserve_answers [OF assms(1) reachable_db_inv [OF assms(2,1)] assms(3,4), of i]
  unfolding wp_def by (cases "DroneReserveJob i E s") (auto split: sum.splits)

theorem reserve_oldest_witness:
  "refused (db demoStart) ''d1'' ErrNoJob"
proof -
  have "locked demoEnv = (\<lambda>_ _. False)" by (simp add: demoEnv_def)
  from reserve_oldest [OF demoEnv_ok _ demo_quiet(1) this, of demoService "''d1''"] show ?thesis
    by (simp add: eval_defs reachable.start)
qed

text \<open>
  C20. When a drone breaks, its order is handed off if it was picked up, with the last location of
  the drone as the new origin where it has one, and waits again as created if it was only
  reserved; the drone is broken and has no job.
\<close>

theorem broken_handoff:
  assumes "env_ok E" and "reachable S E s" and "DroneMarkBroken i E s = (Inr x, s')"
    and "dronesOf (db s) i = Some dr" and "dCurrentOrderID dr = Some u" and "ordersOf (db s) u = Some old"
  shows "\<exists>new dr'. ordersOf (db s') u = Some new \<and> releasedFrom dr old new \<and>
    dronesOf (db s') i = Some dr' \<and> dStatus dr' = DroneStatusBroken \<and> dCurrentOrderID dr' = None"
  using broken_releases [OF assms(1) reachable_db_inv [OF assms(2,1)] assms(3-6)] .

theorem broken_handoff_witness:
  "\<exists>new. ordersOf (db (snd (DroneMarkBroken ''d1'' demoEnv
      (demoRun [demoSubmit, ReqReserve ''d1'', ReqPickup ''d1'' ''a''])))) ''a'' = Some new \<and>
    oStatus new = OrderStatusHandoffRequested"
proof -
  let ?s = "demoRun [demoSubmit, ReqReserve ''d1'', ReqPickup ''d1'' ''a'']"
  have "\<exists>x. DroneMarkBroken ''d1'' demoEnv ?s = (Inr x, snd (DroneMarkBroken ''d1'' demoEnv ?s))"
    by (simp add: eval_defs)
  then obtain x where x: "DroneMarkBroken ''d1'' demoEnv ?s = (Inr x, snd (DroneMarkBroken ''d1'' demoEnv ?s))" ..
  from broken_handoff [OF demoEnv_ok demo_reachable x demo_carried(2) _ demo_carried(1)] show ?thesis
    by (auto simp: releasedFrom_def)
qed

text \<open>
  C21. What the operations on one order answer when the database has no faults. Submitting answers
  with the error of the first invalid location, or with the new order. Withdrawing answers, in this
  order of precedence: malformed identifier, not found, forbidden for another owner, precondition
  failed unless the order is created or reserved, and otherwise the withdrawn order. Picking up has
  the same precedence for the drone and a reserved order; delivering and failing answer alike on
  orders that are not in the hands of the drone, and a failure needs a reason, which is stored. An
  error leaves the database alone.
\<close>

theorem operation_outcomes:
  assumes "env_ok E" and "reachable S E s" and "quiet E s"
  shows "answers (SubmitOrder user origin dest) E s (submitAnswer E s user origin dest) \<and>
    answers (WithdrawOrder user i) E s (withdrawAnswer E s user i) \<and>
    answers (DronePickup d i) E s (pickupAnswer E s d i) \<and>
    answers (DroneDeliver d i) E s (completeAnswer E s d i OrderStatusDelivered '''') \<and>
    answers (DroneFail d i reason) E s
      (if reason = '''' then Inl ErrInvalid else completeAnswer E s d i OrderStatusFailed reason)"
proof -
  note inv = reachable_db_inv [OF assms(2,1)]
  show ?thesis
    using wp_answers [OF submit_answers [OF assms(1) inv assms(3)]] wp_answers [OF withdraw_answers [OF assms(1) inv assms(3)]]
      wp_answers [OF pickup_answers [OF assms(1) inv assms(3)]] wp_answers [OF complete_answers [OF assms(1) inv assms(3)]]
    by (auto simp: answers_def DroneDeliver_def DroneFail_def run_throwM)
qed

theorem operation_outcomes_witness:
  "fst (SubmitOrder ''ann'' demoSpot demoSpot demoEnv (demoRun [])) = Inr (newOrder ''a'' ''ann'' demoSpot demoSpot 0) \<and>
   fst (WithdrawOrder ''bob'' ''a'' demoEnv (demoRun [demoSubmit])) = Inl ErrForbidden \<and>
   fst (DronePickup ''d1'' ''a'' demoEnv (demoRun [demoSubmit])) = Inl ErrForbidden \<and>
   (\<exists>ord. fst (DroneFail ''d1'' ''a'' ''lost'' demoEnv (demoRun [demoSubmit, ReqReserve ''d1'', ReqPickup ''d1'' ''a''])) =
     Inr ord \<and> oStatus ord = OrderStatusFailed \<and> oFailureReason ord = Some ''lost'')"
proof (intro conjI)
  note out = operation_outcomes [OF demoEnv_ok demo_reachable]
  show "fst (SubmitOrder ''ann'' demoSpot demoSpot demoEnv (demoRun [])) = Inr (newOrder ''a'' ''ann'' demoSpot demoSpot 0)"
    using out [of "[]" "''ann''" demoSpot demoSpot] demo_quiet(1) by (simp add: answers_def submitAnswer_def demoRun_def)
  show "fst (WithdrawOrder ''bob'' ''a'' demoEnv (demoRun [demoSubmit])) = Inl ErrForbidden"
    using out [OF demo_quiet(2), where user = "''bob''" and i = "''a''"] demo_waiting(1)
    by (simp add: answers_def withdrawAnswer_def withOrder_def newOrder_def)
  show "fst (DronePickup ''d1'' ''a'' demoEnv (demoRun [demoSubmit])) = Inl ErrForbidden"
    using out [OF demo_quiet(2), where d = "''d1''" and i = "''a''"] demo_waiting(1)
    by (simp add: answers_def pickupAnswer_def withOrder_def newOrder_def)
  show "\<exists>ord. fst (DroneFail ''d1'' ''a'' ''lost'' demoEnv (demoRun [demoSubmit, ReqReserve ''d1'', ReqPickup ''d1'' ''a''])) =
     Inr ord \<and> oStatus ord = OrderStatusFailed \<and> oFailureReason ord = Some ''lost''"
    using out [OF demo_quiet(4), where d = "''d1''" and i = "''a''" and reason = "''lost''"] demo_carried(1)
    by (simp add: answers_def completeAnswer_def withOrder_def completed_def)
qed



section \<open>Geometry\<close>



text \<open>
  C24. A coordinate that is not a number passes the validation, since comparisons with NaN are
  false: a location is accepted exactly when each coordinate is in range or NaN. The JSON encoder
  refuses NaN and infinities, and the response helper drops its error: an order has a body in the
  response exactly when all its coordinates are finite.
\<close>

theorem nan_coordinates:
  "(ValidateLocation loc = None \<longleftrightarrow>
     (Lat loc = NaN \<or> (\<exists>r. Lat loc = Fin r \<and> \<bar>r\<bar> \<le> 90)) \<and>
     (Lng loc = NaN \<or> (\<exists>r. Lng loc = Fin r \<and> \<bar>r\<bar> \<le> 180))) \<and>
   (respBody (respondJSON code (orderJSON (FromOrder order))) \<noteq> None \<longleftrightarrow>
     finiteLocation (oOrigin order) \<and> finiteLocation (oDestination order) \<and>
     (oHandoffOrigin order = None \<or> (\<exists>l. oHandoffOrigin order = Some l \<and> finiteLocation l)))"
  by (cases "oHandoffOrigin order")
    (simp_all add: ValidateLocation_iff coord_in_def respondJSON_def encodable_order)

section \<open>Round trips\<close>



text \<open>
  C26. The bearer token of a header is the rest after the first space, trimmed, when the word
  before it is bearer in any case, and empty otherwise.
\<close>

theorem bearer_token:
  assumes "CHR '' '' \<notin> set scheme"
  shows "ExtractBearerToken (scheme @ CHR '' '' # rest) =
      (if EqualFold scheme ''Bearer'' then TrimSpace rest else '''') \<and>
    ExtractBearerToken scheme = ''''"
  using assms by (simp add: ExtractBearerToken_def SplitN2_word) (simp add: SplitN2_def)

theorem bearer_token_witness: "ExtractBearerToken (''bEARER'' @ CHR '' '' # ''t-ann'') = ''t-ann''"
proof -
  have "EqualFold ''bEARER'' ''Bearer''" by code_simp
  then show ?thesis using bearer_token [of "''bEARER''" "''t-ann''"] demo_trimmed by (simp add: TrimSpace_id)
qed

text \<open>
  C27. The limit and the offset of a listing survive the query string: the handler asks the
  service for exactly the 64-bit integers that were printed in decimal, and whatever the query
  holds, malformed and too long numbers included, for integers in the 64-bit range.
\<close>

theorem query_int_roundtrip:
  "\<exists>filt. handleAdminListOrders srv claims req =
      reply 200 (\<lambda>views. JArray (map (\<lambda>view. orderViewJSON (FromOrderView view)) views))
        (AdminListOrders (srvSvc srv) filt) \<and>
    {fLimit filt, fOffset filt} \<subseteq> {minInt..maxInt} \<and>
    (\<forall>n. hQuery req ''limit'' = Itoa n \<and> n \<in> {minInt..maxInt} \<longrightarrow> fLimit filt = n) \<and>
    (\<forall>n. hQuery req ''offset'' = Itoa n \<and> n \<in> {minInt..maxInt} \<longrightarrow> fOffset filt = n)"
proof -
  have range: "minInt \<le> fst (Atoi s) \<and> fst (Atoi s) \<le> maxInt" for s
    by (auto simp: Atoi_def clampInt_def minInt_def maxInt_def split: list.splits option.splits)
  show ?thesis unfolding handleAdminListOrders_def Let_def
    by (intro exI conjI, rule refl) (simp_all add: range Atoi_Itoa)
qed

theorem query_int_roundtrip_witness:
  "\<exists>filt. handleAdminListOrders demoServer (demoClaims RoleAdmin ''root'') demoListReq =
    reply 200 (\<lambda>views. JArray (map (\<lambda>view. orderViewJSON (FromOrderView view)) views))
      (AdminListOrders demoService filt) \<and> fLimit filt = 7 \<and> fOffset filt = - 42"
  using query_int_roundtrip [of demoServer "demoClaims RoleAdmin ''root''" demoListReq]
  by (auto simp: demoListReq_def minInt_def maxInt_def)

text \<open>
  C28. An order that was created is read back with all its fields, times at the precision of the
  database, and no other order changed.
\<close>

theorem store_roundtrip:
  assumes "\<And>n. faults E n = None" and "uuidText E (oID order) = Some (oID order)"
    and "ordersOf (db s) (oID order) = None"
  shows "\<exists>s'. seqM (StoreCreateOrder order) (GetOrder (oID order)) E s = (Inr (storedOrder E order), s') \<and>
    (\<forall>u. u \<noteq> oID order \<longrightarrow> ordersOf (db s') u = ordersOf (db s) u)"
proof -
  let ?s = "s\<lparr>ncall := Suc (ncall s), db := insOrder E (oID order) order (db s)\<rparr>"
  have c: "StoreCreateOrder order E s = (Inr (), ?s)"
    using assms by (simp add: StoreCreateOrder_def execPool_def callM_def orderInsertSQL_def Let_def ordersOf_None_iff)
  have found: "ordersOf (db ?s) = (ordersOf (db s))(oID order \<mapsto> storedOrder E order)"
    using order_table.lookup_insert [OF assms(3)] by simp
  have "wp (GetOrder (oID order)) (\<lambda>x s'. x = storedOrder E order \<and> db s' = db ?s) (\<lambda>_ _. False) E ?s"
    using assms(1,2) found by (simp add: wp_GetOrder)
  then obtain s' where "GetOrder (oID order) E ?s = (Inr (storedOrder E order), s')" "db s' = db ?s"
    by (auto simp: wp_def split: prod.splits sum.splits)
  then show ?thesis using c found by (intro exI [of _ s']) (simp add: run_rules)
qed

theorem store_roundtrip_witness:
  "\<exists>s'. seqM (StoreCreateOrder (newOrder ''a'' ''ann'' demoSpot demoSpot 0)) (GetOrder ''a'') demoEnv demoStart =
     (Inr (newOrder ''a'' ''ann'' demoSpot demoSpot 0), s')"
  using store_roundtrip [of demoEnv "newOrder ''a'' ''ann'' demoSpot demoSpot 0" demoStart]
  by (auto simp: newOrder_def storedOrder_def ordersOf_def emptyDB_def)

section \<open>The programs\<close>





section \<open>Configuration and migrations\<close>



text \<open>
  C32. Whatever fails, a start of the program leaves the schema at a prefix of the migrations: the
  names recorded are the old ones and the first k of the missing scripts in the order of their
  names, these scripts ran in this order after each other, and at most one more ran without being
  recorded; when it succeeds, all of them are recorded.
\<close>

theorem migrations_progress:
  assumes "\<forall>entries. ReadDir E dir = Inr entries \<longrightarrow> dir_ok entries"
  shows "\<exists>k. progressed E (unapplied (versions s) (migrations E dir)) k s (snd (ApplyMigrations dir E s)) \<and>
    (fst (ApplyMigrations dir E s) = Inr () \<and> (\<exists>entries. ReadDir E dir = Inr entries) \<longrightarrow>
      k = length (unapplied (versions s) (migrations E dir)))"
  using assms by (rule ApplyMigrations_progress)

theorem migrations_progress_witness:
  "\<exists>k. progressed demoDir (unapplied [] [''m/001.sql'', ''m/002.sql'']) k demoEmpty
     (snd (ApplyMigrations ''m'' demoDir demoEmpty))"
  using migrations_progress [of demoDir "''m''" demoEmpty, OF demoDir_ok] unfolding demo_migrations
  by (auto simp: demoEmpty_def versions_def)

text \<open>
  C33. Migrating again after a success runs no script: the data and the recorded names stay as they
  are.
\<close>

theorem migrations_idempotent:
  assumes "ReadDir E dir = Inr entries" and "dir_ok entries"
    and "ApplyMigrations dir E s = (Inr (), s')" and "\<And>n. mCalls s' \<le> n \<Longrightarrow> poolFaults E n = None"
  shows "\<exists>s''. ApplyMigrations dir E s' = (Inr (), s'') \<and> mData s'' = mData s' \<and> versions s'' = versions s'"
proof (rule ApplyMigrations_nothing)
  have "versions s' = versions s @ map Base (unapplied (versions s) (migrations E dir))"
    using ApplyMigrations_progress [of E dir s] assms(1-3) by (auto simp: progressed_def)
  then show "unapplied (versions s') (migrations E dir) = []" by (simp add: unapplied_recorded)
qed (use assms in simp_all)

theorem migrations_idempotent_witness:
  "\<exists>s''. ApplyMigrations ''m'' demoDir (snd (ApplyMigrations ''m'' demoDir demoEmpty)) = (Inr (), s'') \<and>
     mData s'' = [''m/001.sql'', ''m/002.sql'']"
  using migrations_idempotent [OF _ _ demo_migrated] demoDir_ok demo_migrated by (auto simp: demoDir_def)

section \<open>The generated Thrift client\<close>

text \<open>
  C34. The hand-written server and the generated client speak the same language in twelve methods:
  whatever request the client code sends, over any protocols that carry the tokens, the processor
  reads exactly the token and the request that the caller meant, has the effect of the specified
  outcome and consumes exactly the message.
\<close>

theorem client_calls_served:
  assumes "sink_ok Q snk" and "stream_ok (inProto W) view" and "sink_ok (outProto W) sink" and "maxFields < n"
    and "callName g \<notin> set flatMethods"
  shows "\<exists>ks. emits Q snk (callArgs g) ks \<and>
    (\<forall>c ts r s'. view (inSt c) = KMsg (callName g) CALL seqID # ks @ ts \<longrightarrow>
      thriftOutcome p (callRole g) (fst (meant g)) (snd (meant g)) (world W) (svcSt c) = (r, s') \<longrightarrow>
      (\<exists>i' o'. Process (NewProcessor n p) W c = (Inr (verdictOf r), \<lparr>inSt = i', outSt = o', svcSt = s'\<rparr>) \<and>
        view i' = ts \<and> sink o' = sink (outSt c) @ responseToks (callName g) seqID r))"
proof -
  obtain args where spec: "map_of (thriftTable n) (callName g) = Some (callRole g, args)"
    and args: "\<And>ts. yields (inProto W) view args (wrapped (callFields g) @ ts) (fst (meant g), snd (meant g)) ts"
    using call_read [OF assms(2,4,5)] by auto
  show ?thesis
    using emits_callArgs [OF assms(1), of g] Process_call [OF assms(2,3) _ _ spec args] by blast
qed

theorem client_calls_served_witness:
  "\<exists>i' o'. Process (NewProcessor 15 demoServer) demoWire
      \<lparr>inSt = KMsg ''PickupOrder'' CALL 7 # wrapped [(1, VStr ''t-d1''), (2, VStr ''a'')], outSt = [], svcSt = svcSt demoConn\<rparr> =
    (Inr (verdictOf (fst (thriftOutcome demoServer (Some RoleDrone) ''t-d1'' (\<lambda>c. ReqPickup (Subject c) ''a'') demoEnv (svcSt demoConn)))),
     \<lparr>inSt = i', outSt = o', svcSt = snd (thriftOutcome demoServer (Some RoleDrone) ''t-d1''
        (\<lambda>c. ReqPickup (Subject c) ''a'') demoEnv (svcSt demoConn))\<rparr>)"
proof -
  let ?g = "CallPickupOrder \<lparr>wiAuthToken = ''t-d1'', wiOrderId = ''a''\<rparr>"
  obtain ks where ks: "emits tokProto (\<lambda>ks. ks) (callArgs ?g) ks"
    and run: "\<And>c ts r s'. inSt c = KMsg (callName ?g) CALL 7 # ks @ ts \<Longrightarrow>
      thriftOutcome demoServer (callRole ?g) (fst (meant ?g)) (snd (meant ?g)) demoEnv (svcSt c) = (r, s') \<Longrightarrow>
      \<exists>i' o'. Process (NewProcessor 15 demoServer) demoWire c = (Inr (verdictOf r), \<lparr>inSt = i', outSt = o', svcSt = s'\<rparr>)"
    using client_calls_served [where Q = tokProto and snk = "\<lambda>ks. ks" and W = demoWire and view = "\<lambda>ks. ks"
        and sink = "\<lambda>ks. ks" and n = 15 and g = ?g and seqID = 7 and p = demoServer] tokProto_ok
    by (simp add: maxFields_def flatMethods_def del: callArgs.simps) blast
  have "emits tokProto (\<lambda>ks. ks) (callArgs ?g) (wrapped [(1, VStr ''t-d1''), (2, VStr ''a'')])"
    using emits_callArgs [OF tokProto_ok(2), of ?g] by (simp add: orderIDRequestFields_def del: callArgs.simps)
  then have "ks = wrapped [(1, VStr ''t-d1''), (2, VStr ''a'')]"
    using emits_tok [OF ks] emits_tok by fastforce
  then show ?thesis using run [where ts = "[]"] by (simp add: callRole_def)
qed

text \<open>
  C35. A call over generated code is a call of the implementation: for all sixteen methods, what the
  generated client returns from a generated processor is what the implementation behind the
  processor answers to the request, with the zero struct for a nil pointer where the interface
  requires one (\<open>filled\<close>), its error under the text of the processor, and an error where the
  required answer is missing. So every struct of the interface survives the wire in
  both directions.
\<close>

theorem generated_calls:
  assumes "reaches W (AuthServiceProcessor_Process (NewAuthServiceProcessor auth n)) linkA"
    and "reaches W (OrderServiceProcessor_Process (NewOrderServiceProcessor order n)) linkO"
    and "reaches W (DroneServiceProcessor_Process (NewDroneServiceProcessor drone n)) linkD"
    and "reaches W (AdminServiceProcessor_Process (NewAdminServiceProcessor admin n)) linkM"
    and "maxFields < n"
  shows "AuthServiceClient_IssueToken n q1 linkA s =
      required ''IssueToken'' (remote ''IssueToken'' (authIssueToken auth) (setPtr NewTokenRequest filledTokenRequest) (map_option filledTokenResponse) q1 (world W) s) \<and>
    OrderServiceClient_SubmitOrder n q2 linkO s =
      required ''SubmitOrder'' (remote ''SubmitOrder'' (orderSubmitOrder order) (setPtr NewSubmitOrderRequest filledSubmitOrderRequest) (map_option filledOrder) q2 (world W) s) \<and>
    OrderServiceClient_WithdrawOrder n q3 linkO s =
      required ''WithdrawOrder'' (remote ''WithdrawOrder'' (orderWithdrawOrder order) (setPtr NewOrderIDRequest filledOrderIDRequest) (map_option filledOrder) q3 (world W) s) \<and>
    OrderServiceClient_GetOrder n q4 linkO s =
      required ''GetOrder'' (remote ''GetOrder'' (orderGetOrder order) (setPtr NewOrderIDRequest filledOrderIDRequest) (map_option filledOrderView) q4 (world W) s) \<and>
    DroneServiceClient_ReserveJob n q5 linkD s =
      required ''ReserveJob'' (remote ''ReserveJob'' (droneReserveJob drone) (setPtr NewAuthRequest filledAuthRequest) (map_option filledOrder) q5 (world W) s) \<and>
    DroneServiceClient_PickupOrder n q6 linkD s =
      required ''PickupOrder'' (remote ''PickupOrder'' (dronePickupOrder drone) (setPtr NewOrderIDRequest filledOrderIDRequest) (map_option filledOrder) q6 (world W) s) \<and>
    DroneServiceClient_DeliverOrder n q7 linkD s =
      required ''DeliverOrder'' (remote ''DeliverOrder'' (droneDeliverOrder drone) (setPtr NewOrderIDRequest filledOrderIDRequest) (map_option filledOrder) q7 (world W) s) \<and>
    DroneServiceClient_FailOrder n q8 linkD s =
      required ''FailOrder'' (remote ''FailOrder'' (droneFailOrder drone) (setPtr NewFailOrderRequest filledFailOrderRequest) (map_option filledOrder) q8 (world W) s) \<and>
    DroneServiceClient_MarkBroken n q9 linkD s =
      required ''MarkBroken'' (remote ''MarkBroken'' (droneMarkBroken drone) (setPtr NewAuthRequest filledAuthRequest) (map_option filledDrone) q9 (world W) s) \<and>
    DroneServiceClient_Heartbeat n q10 linkD s =
      required ''Heartbeat'' (remote ''Heartbeat'' (droneHeartbeat drone) (setPtr NewHeartbeatRequest filledHeartbeatRequest) (map_option filledDroneStatus) q10 (world W) s) \<and>
    DroneServiceClient_CurrentOrder n q11 linkD s =
      required ''CurrentOrder'' (remote ''CurrentOrder'' (droneCurrentOrder drone) (setPtr NewAuthRequest filledAuthRequest) (map_option filledOrderView) q11 (world W) s) \<and>
    AdminServiceClient_ListOrders n q12 linkM s =
      remote ''ListOrders'' (adminListOrders admin) (setPtr NewListOrdersRequest filledListOrdersRequest) (map_option (map (setPtr NewOrderView filledOrderView))) q12 (world W) s \<and>
    AdminServiceClient_UpdateOrder n q13 linkM s =
      required ''UpdateOrder'' (remote ''UpdateOrder'' (adminUpdateOrder admin) (setPtr NewUpdateOrderRequest filledUpdateOrderRequest) (map_option filledOrder) q13 (world W) s) \<and>
    AdminServiceClient_ListDrones n q14 linkM s =
      remote ''ListDrones'' (adminListDrones admin) (setPtr NewAuthRequest filledAuthRequest) (map_option (map (setPtr NewDrone filledDrone))) q14 (world W) s \<and>
    AdminServiceClient_MarkDroneBroken n q15 linkM s =
      required ''MarkDroneBroken'' (remote ''MarkDroneBroken'' (adminMarkDroneBroken admin) (setPtr NewDroneIDRequest filledDroneIDRequest) (map_option filledDrone) q15 (world W) s) \<and>
    AdminServiceClient_MarkDroneFixed n q16 linkM s =
      required ''MarkDroneFixed'' (remote ''MarkDroneFixed'' (adminMarkDroneFixed admin) (setPtr NewDroneIDRequest filledDroneIDRequest) (map_option filledDrone) q16 (world W) s)"
  by (simp only: auth_calls [OF assms(1,5)] order_calls [OF assms(2,5)] drone_calls [OF assms(3,5)]
      admin_calls [OF assms(4,5)])

theorem generated_calls_witness:
  "OrderServiceClient_GetOrder 15 None (demoLink demoWire (OrderServiceProcessor_Process (NewOrderServiceProcessor demoOrders 15)))
     demoStart = (Inr (filledOrderView NewOrderView), ticked demoStart) \<and>
   OrderServiceClient_WithdrawOrder 15 (Some \<lparr>wiAuthToken = ''t'', wiOrderId = ''a''\<rparr>)
     (demoLink demoWire (OrderServiceProcessor_Process (NewOrderServiceProcessor demoOrders 15))) demoStart =
     (Inl ''Internal error processing WithdrawOrder: no order a'', demoStart) \<and>
   AdminServiceClient_ListOrders 15 None
     (demoLink demoWire (AdminServiceProcessor_Process (NewAdminServiceProcessor demoAdmin 15))) demoStart =
     (Inr (Some [NewOrderView]), demoStart)"
proof -
  have n: "maxFields < 15" by (simp add: maxFields_def)
  note calls = generated_calls [where auth = demoAuths and order = demoOrders and drone = demoDrones and admin = demoAdmin,
      OF demoLink_reaches demoLink_reaches demoLink_reaches demoLink_reaches n, unfolded demoWire_sel]
  show ?thesis
    by (simp add: calls remote_def required_def demo_implementations internalText_def setPtr_def
        filledOrderIDRequest_def)
qed

section \<open>Divergences of the Thrift transport\<close>

text \<open>
  C36. Three Thrift methods cannot be called by the generated client: it sends the request, with the
  token as its first field, inside the struct of the arguments; the readers of these methods expect
  its fields directly, and over a protocol that refuses to read the head of a field as a string the
  call ends in a protocol error without any effect.
\<close>

theorem thrift_wrapped_args_refused:
  assumes "sink_ok Q snk" and "stream_ok (inProto W) view" and "strict_strings (inProto W) view"
    and "sink_ok (outProto W) sink" and "0 < n" and "callName g \<in> set [''SubmitOrder'', ''ListOrders'', ''UpdateOrder'']"
  shows "\<exists>ks. emits Q snk (callArgs g) ks \<and>
    (\<forall>c ts. view (inSt c) = KMsg (callName g) CALL seqID # ks @ ts \<longrightarrow>
      (\<exists>e c'. Process (NewProcessor n p) W c = (Inr (False, Some (AppExc PROTOCOL_ERROR e)), c') \<and> svcSt c' = svcSt c \<and>
        sink (outSt c') = sink (outSt c) @ [KMsg (callName g) EXCEPTION seqID, KExc (AppExc PROTOCOL_ERROR e)]))"
  using emits_callArgs [OF assms(1), of g] call_refused [OF assms(2-4) _ assms(5) assms(6) [folded flatMethods_def]]
  by blast

theorem thrift_wrapped_args_refused_witness:
  "\<exists>ks. emits tokProto (\<lambda>ks. ks) (AdminServiceListOrdersArgs_Write (Some NewListOrdersRequest)) ks \<and>
    (\<exists>e c'. Process (NewProcessor 5 demoServer) demoWire
      \<lparr>inSt = KMsg ''ListOrders'' CALL 1 # ks, outSt = [], svcSt = demoStart\<rparr> =
      (Inr (False, Some (AppExc PROTOCOL_ERROR e)), c') \<and> svcSt c' = demoStart)"
proof -
  let ?g = "CallListOrders NewListOrdersRequest"
  obtain ks where ks: "emits tokProto (\<lambda>ks. ks) (callArgs ?g) ks"
    and run: "\<And>c ts. inSt c = KMsg (callName ?g) CALL 1 # ks @ ts \<Longrightarrow>
      \<exists>e c'. Process (NewProcessor 5 demoServer) demoWire c = (Inr (False, Some (AppExc PROTOCOL_ERROR e)), c') \<and>
        svcSt c' = svcSt c"
    using thrift_wrapped_args_refused [where Q = tokProto and snk = "\<lambda>ks. ks" and W = demoWire and view = "\<lambda>ks. ks"
        and sink = "\<lambda>ks. ks" and n = 5 and g = ?g and seqID = 1 and p = demoServer] tokProto_ok
    by (simp del: callArgs.simps) blast
  show ?thesis
    using ks run [of "\<lparr>inSt = KMsg ''ListOrders'' CALL 1 # ks, outSt = [], svcSt = demoStart\<rparr>" "[]"] by auto
qed

text \<open>
  C37. The writers of result structs do not close the structs they open: over the protocol of token
  lists, no reply of the server that carries an order, a view, a drone or a status, nor a list with
  an element, can be read by the generated client; its reader of the result never returns a result.
\<close>

theorem thrift_reply_unreadable:
  "garbled STRUCT (writeOrder order)
     [OrderServiceSubmitOrderResult_Read n None, OrderServiceWithdrawOrderResult_Read n None,
      DroneServiceReserveJobResult_Read n None, DroneServicePickupOrderResult_Read n None,
      DroneServiceDeliverOrderResult_Read n None, DroneServiceFailOrderResult_Read n None,
      AdminServiceUpdateOrderResult_Read n None] \<and>
   garbled STRUCT (writeOrderView view)
     [OrderServiceGetOrderResult_Read n None, DroneServiceCurrentOrderResult_Read n None] \<and>
   garbled STRUCT (writeDrone drone)
     [DroneServiceMarkBrokenResult_Read n None, AdminServiceMarkDroneBrokenResult_Read n None,
      AdminServiceMarkDroneFixedResult_Read n None] \<and>
   garbled STRUCT (writeDroneStatus status) [DroneServiceHeartbeatResult_Read n None] \<and>
   garbled LIST (writeOrderViewList (view # views)) [AdminServiceListOrdersResult_Read n None] \<and>
   garbled LIST (writeDroneList (drone # ds)) [AdminServiceListDronesResult_Read n None]"
proof (intro conjI)
  show "garbled STRUCT (writeOrder order)
     [OrderServiceSubmitOrderResult_Read n None, OrderServiceWithdrawOrderResult_Read n None,
      DroneServiceReserveJobResult_Read n None, DroneServicePickupOrderResult_Read n None,
      DroneServiceDeliverOrderResult_Read n None, DroneServiceFailOrderResult_Read n None,
      AdminServiceUpdateOrderResult_Read n None]"
    by (rule answer_garbled [of "AnsOrder order"]) (auto simp only: set_simps carriesStruct.simps list.distinct writeAnswer.simps
      answerType.simps insert_iff empty_iff result_defs readResult_consumes [OF Order_consumes])
  show "garbled STRUCT (writeOrderView view)
     [OrderServiceGetOrderResult_Read n None, DroneServiceCurrentOrderResult_Read n None]"
    by (rule answer_garbled [of "AnsView view"]) (auto simp only: set_simps carriesStruct.simps list.distinct writeAnswer.simps
      answerType.simps insert_iff empty_iff result_defs readResult_consumes [OF OrderView_consumes])
  show "garbled STRUCT (writeDrone drone)
     [DroneServiceMarkBrokenResult_Read n None, AdminServiceMarkDroneBrokenResult_Read n None,
      AdminServiceMarkDroneFixedResult_Read n None]"
    by (rule answer_garbled [of "AnsDrone drone"]) (auto simp only: set_simps carriesStruct.simps list.distinct writeAnswer.simps
      answerType.simps insert_iff empty_iff result_defs readResult_consumes [OF Drone_consumes])
  show "garbled STRUCT (writeDroneStatus status) [DroneServiceHeartbeatResult_Read n None]"
    by (rule answer_garbled [of "AnsStatus status"]) (auto simp only: set_simps carriesStruct.simps list.distinct writeAnswer.simps
      answerType.simps insert_iff empty_iff result_defs readResult_consumes [OF DroneStatus_consumes])
  show "garbled LIST (writeOrderViewList (view # views)) [AdminServiceListOrdersResult_Read n None]"
    by (rule answer_garbled [of "AnsViews (view # views)"]) (auto simp only: set_simps carriesStruct.simps list.distinct writeAnswer.simps
      answerType.simps insert_iff empty_iff result_defs readListResult_consumes [OF OrderView_consumes])
  show "garbled LIST (writeDroneList (drone # ds)) [AdminServiceListDronesResult_Read n None]"
    by (rule answer_garbled [of "AnsDrones (drone # ds)"]) (auto simp only: set_simps carriesStruct.simps list.distinct writeAnswer.simps
      answerType.simps insert_iff empty_iff result_defs readListResult_consumes [OF Drone_consumes])
qed

section \<open>The command line clients\<close>

text \<open>
  C38. The gRPC client program does what its author means it to: on a connection that reaches
  the server, with tokens that stay valid while it runs, it is the three requests of the service
  in a row, a submission by the end user, a reservation and a heartbeat by the drone, and prints
  what they answer; the first error ends it with its label.
\<close>

theorem grpc_client_script:
  assumes "delivers lib srv conn" and "jwt_ok (srvJWT srv) signed"
    and "IssueToken (srvJWT srv) (srvAuth srv) ''alice'' RoleEndUser E s = (Inr (t1, x1), s1)"
    and "IssueToken (srvJWT srv) (srvAuth srv) ''dr-1'' RoleDrone E s1 = (Inr (t2, x2), s2)"
    and "plainToken t1" and "plainToken t2" and "validWhile srv E (nclock s) 8"
  shows "grpcClientMain lib conn E s = scenario lib srv E s2"
  using assms by (rule script_runs)

theorem grpc_client_script_witness:
  "fst (grpcClientMain demoLib demoDial demoEnv demoStart) = Inr [''order id: a'',
     ''reserved status: RESERVED'', ''heartbeat ok: drone= dr-1'', ''gRPC JSON client OK'']"
  using grpc_client_script [where lib = demoLib and srv = demoServer and s = demoStart, unfolded demoServer_sel,
      OF demoDial_delivers demoJWT_ok demo_issue demo_plain]
  by (simp add: demo_validWhile demo_scripted)

text \<open>
  C39. The Thrift client written by hand and the generated one are equivalent in the token call:
  they send the same arguments, and from the reply of the server both read the same token and
  its expiry in seconds; a refusal reaches the first as an exception.
\<close>

theorem thrift_token_clients:
  assumes "sink_ok Q snk" and "stream_ok (inProto W) view" and "sink_ok (outProto W) sink" and "stream_ok P view'"
    and "maxFields < n"
  shows "\<exists>ks. emits Q snk rawCall (KMsg ''IssueToken'' CALL 1 # ks) \<and>
    emits Q snk (AuthServiceIssueTokenArgs_Write (Some \<lparr>wtName = ''alice'', wtRole = ''enduser''\<rparr>)) ks \<and>
    (\<forall>c seqID ts r s'. view (inSt c) = KMsg ''IssueToken'' CALL seqID # ks @ ts \<longrightarrow>
      IssueToken (srvJWT p) (srvAuth p) ''alice'' RoleEndUser (world W) (svcSt c) = (r, s') \<longrightarrow>
      (\<exists>c' rs. Process (NewProcessor n p) W c = (Inr (tokenVerdict r), c') \<and> svcSt c' = s' \<and> view (inSt c') = ts \<and>
        sink (outSt c') = sink (outSt c) @ rs \<and>
        (case r of
           Inl e \<Rightarrow> \<forall>q. view' q = rs \<longrightarrow> (\<exists>q'. rawReply n P q = (Inl (TErr ''thrift exception''), q'))
         | Inr (token, expiry) \<Rightarrow>
             yields P view' (rawReply n) rs (token, Unix expiry) [] \<and>
             yields P view' (AuthServiceIssueTokenResult_Read n None) (tl rs)
               (Some \<lparr>wrToken = token, wrExpiresAt = Unix expiry\<rparr>) [])))"
proof -
  let ?ks = "wrapped [(1, VStr ''alice''), (2, VStr ''enduser'')]"
  have n: "2 < n" using assms(5) by (simp add: maxFields_def)
  have read: "case r of
      Inl e \<Rightarrow> \<forall>q. view' q = tokenReply ''IssueToken'' seqID r \<longrightarrow> (\<exists>q'. rawReply n P q = (Inl (TErr ''thrift exception''), q'))
    | Inr (token, expiry) \<Rightarrow>
        yields P view' (rawReply n) (tokenReply ''IssueToken'' seqID r) (token, Unix expiry) [] \<and>
        yields P view' (AuthServiceIssueTokenResult_Read n None) (tl (tokenReply ''IssueToken'' seqID r))
          (Some \<lparr>wrToken = token, wrExpiresAt = Unix expiry\<rparr>) []" for seqID r
    using rawReply_exception [OF assms(4)] yields_rawReply [OF assms(4) n] yields_tokenResult [OF assms(4,5)]
    by (auto simp: tokenReply_def split: sum.split)
  have "emits Q snk (AuthServiceIssueTokenArgs_Write (Some \<lparr>wtName = ''alice'', wtRole = ''enduser''\<rparr>)) ?ks"
    using emits_tokenArgs [OF assms(1), of "\<lparr>wtName = ''alice'', wtRole = ''enduser''\<rparr>"] by simp
  moreover have "\<exists>c' rs. Process (NewProcessor n p) W c = (Inr (tokenVerdict r), c') \<and> svcSt c' = s' \<and> view (inSt c') = ts \<and>
        sink (outSt c') = sink (outSt c) @ rs \<and>
        (case r of
           Inl e \<Rightarrow> \<forall>q. view' q = rs \<longrightarrow> (\<exists>q'. rawReply n P q = (Inl (TErr ''thrift exception''), q'))
         | Inr (token, expiry) \<Rightarrow>
             yields P view' (rawReply n) rs (token, Unix expiry) [] \<and>
             yields P view' (AuthServiceIssueTokenResult_Read n None) (tl rs)
               (Some \<lparr>wrToken = token, wrExpiresAt = Unix expiry\<rparr>) [])"
    if "view (inSt c) = KMsg ''IssueToken'' CALL seqID # ?ks @ ts"
      and "IssueToken (srvJWT p) (srvAuth p) ''alice'' RoleEndUser (world W) (svcSt c) = (r, s')" for c seqID ts r s'
    using token_served [OF assms(2,3) n that(1) _ _ that(2) [unfolded RoleEndUser_def]] read [where r = r and seqID = seqID]
    by (fastforce simp: ValidateRole_def role_defs)
  ultimately show ?thesis using emits_rawCall [OF assms(1)] by blast
qed

theorem thrift_token_clients_witness:
  "\<exists>c' rs. Process (NewProcessor 15 demoServer) demoWire
      \<lparr>inSt = KMsg ''IssueToken'' CALL 1 # wrapped [(1, VStr ''alice''), (2, VStr ''enduser'')], outSt = [], svcSt = demoStart\<rparr> =
      (Inr (True, None), c') \<and> outSt c' = rs \<and>
    yields tokProto (\<lambda>ks. ks) (rawReply 15) rs (''t-alice'', Unix hour) []"
proof -
  let ?c = "\<lparr>inSt = KMsg ''IssueToken'' CALL 1 # wrapped [(1, VStr ''alice''), (2, VStr ''enduser'')], outSt = [],
     svcSt = demoStart\<rparr>"
  have n: "maxFields < 15" by (simp add: maxFields_def)
  obtain ks where ks: "emits tokProto (\<lambda>ks. ks) rawCall (KMsg ''IssueToken'' CALL 1 # ks)"
    and run: "\<forall>c seqID ts r s'. inSt c = KMsg ''IssueToken'' CALL seqID # ks @ ts \<longrightarrow>
      IssueToken demoJWT demoAuth ''alice'' RoleEndUser demoEnv (svcSt c) = (r, s') \<longrightarrow>
      (\<exists>c' rs. Process (NewProcessor 15 demoServer) demoWire c = (Inr (tokenVerdict r), c') \<and> svcSt c' = s' \<and>
        inSt c' = ts \<and> outSt c' = outSt c @ rs \<and>
        (case r of
           Inl e \<Rightarrow> \<forall>q. q = rs \<longrightarrow> (\<exists>q'. rawReply 15 tokProto q = (Inl (TErr ''thrift exception''), q'))
         | Inr (token, expiry) \<Rightarrow>
             yields tokProto (\<lambda>ks. ks) (rawReply 15) rs (token, Unix expiry) [] \<and>
             yields tokProto (\<lambda>ks. ks) (AuthServiceIssueTokenResult_Read 15 None) (tl rs)
               (Some \<lparr>wrToken = token, wrExpiresAt = Unix expiry\<rparr>) []))"
    using thrift_token_clients [where Q = tokProto and snk = "\<lambda>ks. ks" and W = demoWire and view = "\<lambda>ks. ks"
        and sink = "\<lambda>ks. ks" and P = tokProto and view' = "\<lambda>ks. ks" and n = 15 and p = demoServer,
        unfolded demoWire_sel demoServer_sel, OF tokProto_ok(2,1,2,1) n]
    by (elim exE conjE) (rule that)
  have "ks = wrapped [(1, VStr ''alice''), (2, VStr ''enduser'')]"
    using emits_tok [OF ks] emits_tok [OF emits_rawCall [OF tokProto_ok(2)]] by simp
  then have "inSt ?c = KMsg ''IssueToken'' CALL 1 # ks @ []"
    "IssueToken demoJWT demoAuth ''alice'' RoleEndUser demoEnv (svcSt ?c) = (Inr (''t-alice'', hour), ticked demoStart)"
    by (simp_all add: demo_issue(1))
  from run [rule_format, OF this] have "\<exists>c' rs. Process (NewProcessor 15 demoServer) demoWire ?c = (Inr (tokenVerdict (Inr (''t-alice'', hour))), c') \<and>
        outSt c' = outSt ?c @ rs \<and> yields tokProto (\<lambda>ks. ks) (rawReply 15) rs (''t-alice'', Unix hour) []"
    by auto
  then show ?thesis by (simp add: tokenVerdict_def)
qed



end
